(* ===== verification/Prelude.thy ===== *)
theory Prelude
  imports Main "HOL-Library.Word" "HOL-Library.Monad_Syntax"
begin

text \<open>
  Shared vocabulary of the development.

  \<^item> The C integer types are words of their width.
  \<^item> A C function that may run into a failed \<open>assert\<close>, a call of \<open>abort\<close> or an access
    outside an array is a function into \<open>option\<close>: \<open>None\<close> is the program stopping there.
    \<open>assert_that\<close> is the C \<open>assert\<close>; \<open>arr_get\<close> and \<open>arr_set\<close> are checked array accesses.
  \<^item> \<open>GET_MASK\<close>, \<open>SET_MASK\<close> and \<open>ctz32\<close> are the macros of \<^verbatim>\<open>nv2a_regs.h\<close> and the
    QEMU helper they use; the lemmas below say how a field write and a field read interact.
  \<^item> Little-endian loads and stores on byte lists model the \<open>ldl_le_p\<close> family and the casts
    through \<open>uint16_t *\<close> and \<open>uint32_t *\<close> on a little-endian host.
\<close>

unbundle bit_operations_syntax

section \<open>Machine integers\<close>

type_synonym u8 = "8 word"
type_synonym u16 = "16 word"
type_synonym u32 = "32 word"
type_synonym u64 = "64 word"

text \<open>The simplification rules that components hand to the proofs of their clients.\<close>

named_theorems field_simps_mask \<open>reading a register field after a field write\<close>

section \<open>Assertions and checked array accesses\<close>

definition assert_that :: "bool \<Rightarrow> unit option" where
  "assert_that b = (if b then Some () else None)"

lemma assert_that_simps [simp]:
  "assert_that True = Some ()"
  "assert_that False = None"
  by (simp_all add: assert_that_def)

lemma assert_that_eq_Some [simp]: "assert_that b = Some u \<longleftrightarrow> b"
  by (simp add: assert_that_def)

lemma assert_that_bind_Some [simp]:
  "(assert_that b \<bind> f = Some y) \<longleftrightarrow> b \<and> f () = Some y"
  by (cases b) simp_all

definition arr_get :: "'a list \<Rightarrow> nat \<Rightarrow> 'a option" where
  "arr_get xs i = (if i < length xs then Some (xs ! i) else None)"

definition arr_set :: "'a list \<Rightarrow> nat \<Rightarrow> 'a \<Rightarrow> 'a list option" where
  "arr_set xs i v = (if i < length xs then Some (xs[i := v]) else None)"

lemma arr_get_in [simp]: "i < length xs \<Longrightarrow> arr_get xs i = Some (xs ! i)"
  by (simp add: arr_get_def)

lemma arr_get_out [simp]: "length xs \<le> i \<Longrightarrow> arr_get xs i = None"
  by (simp add: arr_get_def)

lemma arr_set_in [simp]: "i < length xs \<Longrightarrow> arr_set xs i v = Some (xs[i := v])"
  by (simp add: arr_set_def)

lemma arr_set_out [simp]: "length xs \<le> i \<Longrightarrow> arr_set xs i v = None"
  by (simp add: arr_set_def)

lemma arr_set_length: "arr_set xs i v = Some ys \<Longrightarrow> length ys = length xs"
  by (auto simp: arr_set_def split: if_splits)

lemma arr_set_eq_Some: "arr_set xs i v = Some ys \<longleftrightarrow> i < length xs \<and> ys = xs[i := v]"
  by (auto simp: arr_set_def)

lemma arr_get_eq_Some: "arr_get xs i = Some v \<longleftrightarrow> i < length xs \<and> v = xs ! i"
  by (auto simp: arr_get_def)

section \<open>Bounds of words\<close>

lemma unat_u8_bound [simp]: "unat (x :: u8) < 256"
  using unsigned_less [of x] by simp

lemma unat_u16_bound [simp]: "unat (x :: u16) < 65536"
  using unsigned_less [of x] by simp

lemma unat_u32_bound: "unat (x :: u32) < 4294967296"
  using unsigned_less [where 'a = nat, of x] by simp

lemma unat_u8_le [simp]: "unat (x :: u8) \<le> 255"
  using unat_u8_bound [of x] by linarith

lemma unat_ucast_up:
  "LENGTH('a) \<le> LENGTH('b) \<Longrightarrow> unat (ucast (x :: 'a :: len word) :: 'b :: len word) = unat x"
  by (simp add: unsigned_ucast_eq take_bit_nat_eq_self order_less_le_trans [OF unsigned_less])

lemma unat_ucast_8_32 [simp]: "unat (ucast (x :: u8) :: u32) = unat x"
  by (rule unat_ucast_up) simp

lemma ucast_ucast_8_32 [simp]: "ucast (ucast (x :: u8) :: u32) = x"
  by (rule bit_word_eqI) (auto simp: bit_simps)

lemma unat_of_nat_u8: "n < 256 \<Longrightarrow> unat (of_nat n :: u8) = n"
  by (simp add: unat_of_nat)

lemma and_pow_nonzero: "2 ^ n = m \<Longrightarrow> (v :: 'a :: len word) AND m \<noteq> 0 \<longleftrightarrow> bit v n"
  by (auto simp: bit_iff_and_push_bit_not_eq_0 push_bit_eq_mult)

lemma and_lits:
  "(v :: 'a :: len word) AND 1 \<noteq> 0 \<longleftrightarrow> bit v 0"
  "(v :: 'a :: len word) AND 0x2 \<noteq> 0 \<longleftrightarrow> bit v 1"
  "(v :: 'a :: len word) AND 0x4 \<noteq> 0 \<longleftrightarrow> bit v 2"
  "(v :: 'a :: len word) AND 0x8 \<noteq> 0 \<longleftrightarrow> bit v 3"
  "(v :: 'a :: len word) AND 0x10 \<noteq> 0 \<longleftrightarrow> bit v 4"
  "(v :: 'a :: len word) AND 0x20 \<noteq> 0 \<longleftrightarrow> bit v 5"
  "(v :: 'a :: len word) AND 0x40 \<noteq> 0 \<longleftrightarrow> bit v 6"
  "(v :: 'a :: len word) AND 0x80 \<noteq> 0 \<longleftrightarrow> bit v 7"
  "(v :: 'a :: len word) AND 0x100 \<noteq> 0 \<longleftrightarrow> bit v 8"
  "(v :: 'a :: len word) AND 0x200 \<noteq> 0 \<longleftrightarrow> bit v 9"
  "(v :: 'a :: len word) AND 0x400 \<noteq> 0 \<longleftrightarrow> bit v 10"
  "(v :: 'a :: len word) AND 0x800 \<noteq> 0 \<longleftrightarrow> bit v 11"
  "(v :: 'a :: len word) AND 0x1000 \<noteq> 0 \<longleftrightarrow> bit v 12"
  "(v :: 'a :: len word) AND 0x2000 \<noteq> 0 \<longleftrightarrow> bit v 13"
  "(v :: 'a :: len word) AND 0x4000 \<noteq> 0 \<longleftrightarrow> bit v 14"
  "(v :: 'a :: len word) AND 0x8000 \<noteq> 0 \<longleftrightarrow> bit v 15"
  by (rule and_pow_nonzero, simp)+

lemma and_or_nonzero: "(v :: 'a :: len word) AND (a OR b) \<noteq> 0 \<longleftrightarrow> v AND a \<noteq> 0 \<or> v AND b \<noteq> 0"
  by (simp add: bit.conj_disj_distrib or_eq_0_iff)

lemma sint_u32_nonneg:
  assumes "unat (x :: u32) < 2 ^ 31"
  shows "sint x = int (unat x)"
proof -
  have "uint x < 2 ^ 31" using assms by (metis of_nat_less_iff of_nat_numeral of_nat_power of_nat_unat)
  moreover have "- (2 ^ 31) \<le> uint x" by (rule order_trans [OF _ unsigned_greater_eq]) simp
  ultimately show ?thesis by (simp add: sint_uint signed_take_bit_int_eq_self_iff)
qed

lemma mask_words:
  "(0xf :: 'a :: len word) = mask 4" "(0xff :: 'a word) = mask 8" "(0xffff :: 'a word) = mask 16"
  by (simp_all add: mask_eq_exp_minus_1)

lemma unat_minus_one_u8: "x \<noteq> 0 \<Longrightarrow> unat ((x :: u8) - 1) = unat x - 1"
  by (metis unat_minus_one)

section \<open>C arithmetic\<close>

text \<open>The C remainder truncates towards zero: its sign is the sign of the dividend.\<close>

definition c_rem :: "int \<Rightarrow> int \<Rightarrow> int" where
  "c_rem a b = (if a < 0 then - ((- a) mod \<bar>b\<bar>) else a mod \<bar>b\<bar>)"

lemma c_rem_nonneg: "0 \<le> a \<Longrightarrow> 0 < b \<Longrightarrow> c_rem a b = a mod b"
  by (simp add: c_rem_def)

text \<open>Copying a block of bytes into an array, the C \<open>memcpy(dst + at, src, n)\<close>.\<close>

definition blit :: "'a list \<Rightarrow> nat \<Rightarrow> 'a list \<Rightarrow> 'a list" where
  "blit dst at src = take at dst @ src @ drop (at + length src) dst"

lemma length_blit [simp]: "at + length src \<le> length dst \<Longrightarrow> length (blit dst at src) = length dst"
  by (simp add: blit_def)

lemma nth_blit:
  "at + length src \<le> length dst \<Longrightarrow> k < length dst \<Longrightarrow>
   blit dst at src ! k = (if at \<le> k \<and> k < at + length src then src ! (k - at) else dst ! k)"
  by (auto simp: blit_def nth_append min_def)

lemma blit_Nil [simp]: "blit dst at [] = dst"
  by (simp add: blit_def)

lemma blit_whole: "length src = length dst \<Longrightarrow> blit dst 0 src = src"
  by (simp add: blit_def)

section \<open>Rings\<close>

text \<open>
  Writing and reading a run of elements at consecutive positions of an array, starting at \<open>at\<close>
  and wrapping at its end.
\<close>

fun ring_put :: "'a list \<Rightarrow> nat \<Rightarrow> 'a list \<Rightarrow> 'a list" where
  "ring_put d at [] = d"
| "ring_put d at (v # vs) = ring_put (d[at := v]) ((at + 1) mod length d) vs"

definition ring_get :: "'a list \<Rightarrow> nat \<Rightarrow> nat \<Rightarrow> 'a list" where
  "ring_get d at n = map (\<lambda>j. d ! ((at + j) mod length d)) [0..<n]"

lemma length_ring_put [simp]: "length (ring_put d at vs) = length d"
  by (induction d at vs rule: ring_put.induct) auto

lemma length_ring_get [simp]: "length (ring_get d at n) = n"
  by (simp add: ring_get_def)

lemma ring_get_0 [simp]: "ring_get d at 0 = []"
  by (simp add: ring_get_def)

lemma ring_get_Suc:
  "at < length d \<Longrightarrow> ring_get d at (Suc n) = d ! at # ring_get d ((at + 1) mod length d) n"
  by (simp add: ring_get_def map_upt_Suc mod_simps del: upt_Suc)

text \<open>The distance from \<open>at\<close> to \<open>k\<close> going round the ring.\<close>

definition ring_dist :: "nat \<Rightarrow> nat \<Rightarrow> nat \<Rightarrow> nat" where
  "ring_dist N at k = (if at \<le> k then k - at else k + N - at)"

lemma ring_dist_self [simp]: "ring_dist N at at = 0"
  by (simp add: ring_dist_def)

lemma ring_dist_next_self: "at < N \<Longrightarrow> ring_dist N (Suc at mod N) at = N - 1"
  by (cases "at + 1 = N") (auto simp: ring_dist_def)

lemma ring_dist_next:
  "at < N \<Longrightarrow> k < N \<Longrightarrow> k \<noteq> at \<Longrightarrow> ring_dist N at k = Suc (ring_dist N (Suc at mod N) k)"
  by (cases "at + 1 = N") (auto simp: ring_dist_def)

lemma ring_dist_mod: "at < N \<Longrightarrow> j < N \<Longrightarrow> ring_dist N at ((at + j) mod N) = j"
  by (cases "at + j < N") (auto simp: ring_dist_def mod_if)

lemma nth_ring_put:
  "at < length d \<Longrightarrow> k < length d \<Longrightarrow> length vs \<le> length d \<Longrightarrow>
   ring_put d at vs ! k =
     (if ring_dist (length d) at k < length vs then vs ! ring_dist (length d) at k else d ! k)"
proof (induction d at vs rule: ring_put.induct)
  case (1 d at)
  then show ?case by simp
next
  case (2 d at v vs)
  let ?N = "length d" and ?at = "(at + 1) mod length d"
  have "?at < ?N" by (rule mod_less_divisor) (use 2 in linarith)
  then have IH: "ring_put d at (v # vs) ! k =
    (if ring_dist ?N ?at k < length vs then vs ! ring_dist ?N ?at k else d[at := v] ! k)"
    using 2 by simp
  show ?case
  proof (cases "k = at")
    case True
    have "\<not> length d - Suc 0 < length vs" using 2 by simp
    then show ?thesis using True IH 2 by (simp add: ring_dist_next_self del: ring_put.simps)
  next
    case False
    then show ?thesis using IH 2 by (simp add: ring_dist_next del: ring_put.simps)
  qed
qed

lemma ring_get_put:
  "at < length d \<Longrightarrow> length vs \<le> length d \<Longrightarrow> ring_get (ring_put d at vs) at (length vs) = vs"
proof (rule nth_equalityI)
  fix i assume a: "at < length d" "length vs \<le> length d"
    and i: "i < length (ring_get (ring_put d at vs) at (length vs))"
  have "(at + i) mod length d < length d" by (rule mod_less_divisor) (use a in linarith)
  then show "ring_get (ring_put d at vs) at (length vs) ! i = vs ! i"
    using a i by (simp add: ring_get_def nth_ring_put ring_dist_mod)
qed simp

lemma find_sound: "find P ts = Some t \<Longrightarrow> t \<in> set ts \<and> P t"
  by (induction ts) (auto split: if_splits)

section \<open>Little-endian loads and stores\<close>

definition le32 :: "u8 \<Rightarrow> u8 \<Rightarrow> u8 \<Rightarrow> u8 \<Rightarrow> u32" where
  "le32 a b c d = ucast a OR push_bit 8 (ucast b) OR push_bit 16 (ucast c) OR push_bit 24 (ucast d)"

definition le32_bytes :: "u32 \<Rightarrow> u8 list" where
  "le32_bytes w = [ucast w, ucast (drop_bit 8 w), ucast (drop_bit 16 w), ucast (drop_bit 24 w)]"

definition le16_bytes :: "u16 \<Rightarrow> u8 list" where
  "le16_bytes w = [ucast w, ucast (drop_bit 8 w)]"

definition load_le32 :: "u8 list \<Rightarrow> nat \<Rightarrow> u32 option" where
  "load_le32 m i = do {
     a \<leftarrow> arr_get m i; b \<leftarrow> arr_get m (i + 1); c \<leftarrow> arr_get m (i + 2); d \<leftarrow> arr_get m (i + 3);
     Some (le32 a b c d)
   }"

lemma length_le32_bytes [simp]: "length (le32_bytes w) = 4"
  by (simp add: le32_bytes_def)

lemma le32_bytes_nth [simp]:
  "le32_bytes w ! 0 = ucast w" "le32_bytes w ! Suc 0 = ucast (drop_bit 8 w)"
  "le32_bytes w ! 2 = ucast (drop_bit 16 w)" "le32_bytes w ! 3 = ucast (drop_bit 24 w)"
  by (simp_all add: le32_bytes_def)

lemma length_le16_bytes [simp]: "length (le16_bytes w) = 2"
  by (simp add: le16_bytes_def)

lemma le32_le32_bytes:
  "le32 (ucast w) (ucast (drop_bit 8 w)) (ucast (drop_bit 16 w)) (ucast (drop_bit 24 w)) = (w :: u32)"
proof (rule bit_word_eqI)
  fix n assume "n < LENGTH(32)"
  then have "n < 8 \<or> (8 \<le> n \<and> n < 16) \<or> (16 \<le> n \<and> n < 24) \<or> (24 \<le> n \<and> n < 32)" by auto
  then show "bit (le32 (ucast w) (ucast (drop_bit 8 w)) (ucast (drop_bit 16 w)) (ucast (drop_bit 24 w))) n = bit w n"
    by (auto simp: le32_def bit_simps)
qed

lemma le32_bytes_le32: "le32_bytes (le32 a b c d) = [a, b, c, d]"
proof -
  have "ucast (le32 a b c d) = a" "ucast (drop_bit 8 (le32 a b c d)) = b"
    "ucast (drop_bit 16 (le32 a b c d)) = c" "ucast (drop_bit 24 (le32 a b c d)) = d"
    by (rule bit_word_eqI; auto simp: le32_def bit_simps dest: bit_imp_le_length)+
  then show ?thesis by (simp add: le32_bytes_def)
qed

lemma list_of_4: "length xs = 4 \<Longrightarrow> xs = [xs ! 0, xs ! 1, xs ! 2, xs ! 3]"
  by (auto simp: numeral_eq_Suc length_Suc_conv)

lemma load_le32_in: "i + 3 < length m \<Longrightarrow> load_le32 m i = Some (le32 (m ! i) (m ! (i + 1)) (m ! (i + 2)) (m ! (i + 3)))"
  by (simp add: load_le32_def)

lemma load_le32_bytes: "load_le32 (p @ le32_bytes w @ q) (length p) = Some w"
  by (simp add: load_le32_in le32_bytes_def nth_append le32_le32_bytes)

definition le16 :: "u8 \<Rightarrow> u8 \<Rightarrow> u16" where
  "le16 a b = ucast a OR push_bit 8 (ucast b)"

lemma le16_le16_bytes: "le16 (ucast w) (ucast (drop_bit 8 w)) = (w :: u16)"
proof (rule bit_word_eqI)
  fix n assume "n < LENGTH(16)"
  then have "n < 8 \<or> (8 \<le> n \<and> n < 16)" by auto
  then show "bit (le16 (ucast w) (ucast (drop_bit 8 w))) n = bit w n"
    by (auto simp: le16_def bit_simps)
qed

lemma bit_exp_word: "n < 32 \<Longrightarrow> bit (2 ^ n :: u32) i \<longleftrightarrow> i = n"
  by (auto simp: bit_simps)

section \<open>Register fields\<close>

text \<open>\<open>ctz32\<close> counts the zero bits below the lowest set bit; a field is named by its mask.\<close>

definition ctz32 :: "u32 \<Rightarrow> nat" where
  "ctz32 v = length (takeWhile (\<lambda>i. \<not> bit v i) [0..<32])"

definition get_mask :: "u32 \<Rightarrow> u32 \<Rightarrow> u32" where
  "get_mask v m = drop_bit (ctz32 m) (v AND m)"

definition set_mask :: "u32 \<Rightarrow> u32 \<Rightarrow> u32 \<Rightarrow> u32" where
  "set_mask v m x = (v AND NOT m) OR (push_bit (ctz32 m) x AND m)"

text \<open>A field of \<open>w\<close> bits at bit \<open>k\<close>.\<close>

definition reg_field :: "nat \<Rightarrow> nat \<Rightarrow> u32" where
  "reg_field k w = push_bit k (mask w)"

lemma takeWhile_upt: "k \<le> n \<Longrightarrow> (\<And>i. i < k \<Longrightarrow> P i) \<Longrightarrow> (k < n \<Longrightarrow> \<not> P k) \<Longrightarrow> takeWhile P [0..<n] = [0..<k]"
proof -
  assume a: "k \<le> n" "\<And>i. i < k \<Longrightarrow> P i" "k < n \<Longrightarrow> \<not> P k"
  have "[0..<n] = [0..<k] @ [k..<n]" using a(1) by (metis le_add_diff_inverse upt_add_eq_append zero_le)
  moreover have "takeWhile P ([0..<k] @ [k..<n]) = [0..<k] @ takeWhile P [k..<n]"
    using a(2) by (auto intro: takeWhile_append2)
  moreover have "takeWhile P [k..<n] = []" using a(1,3) by (cases "k < n") (simp_all add: upt_conv_Cons)
  ultimately show ?thesis by simp
qed

lemma bit_reg_field: "bit (reg_field k w) i \<longleftrightarrow> k \<le> i \<and> i < k + w \<and> i < 32"
  by (auto simp: reg_field_def bit_simps)

lemma ctz32_field: "0 < w \<Longrightarrow> k < 32 \<Longrightarrow> ctz32 (reg_field k w) = k"
  unfolding ctz32_def by (subst takeWhile_upt [of k]) (auto simp: bit_reg_field)

lemma get_mask_field [field_simps_mask]: "0 < w \<Longrightarrow> k < 32 \<Longrightarrow> get_mask v (reg_field k w) = take_bit w (drop_bit k v)"
  by (rule bit_word_eqI) (auto simp: get_mask_def ctz32_field bit_reg_field bit_simps dest: bit_imp_le_length)

lemma get_set_mask_field [field_simps_mask]:
  "0 < w \<Longrightarrow> k + w \<le> 32 \<Longrightarrow> get_mask (set_mask v (reg_field k w) x) (reg_field k w) = take_bit w x"
  by (rule bit_word_eqI) (auto simp: get_mask_def set_mask_def ctz32_field bit_reg_field bit_simps dest: bit_imp_le_length)

lemma get_set_mask_other [field_simps_mask]: "m AND m' = 0 \<Longrightarrow> get_mask (set_mask v m x) m' = get_mask v m'"
proof -
  assume z: "m AND m' = 0"
  have "\<not> (bit m i \<and> bit m' i)" for i
  proof -
    have "bit (m AND m') i = bit (0 :: u32) i" by (simp only: z)
    then show ?thesis by (simp add: bit_and_iff)
  qed
  then have "set_mask v m x AND m' = v AND m'"
    by (intro bit_word_eqI) (auto simp: set_mask_def bit_simps)
  then show ?thesis by (simp add: get_mask_def)
qed

section \<open>Guest memory\<close>

text \<open>
  The memory a device reaches by DMA, as a function from addresses to bytes. A transfer of a block
  touches consecutive addresses.
\<close>

type_synonym memory = "nat \<Rightarrow> u8"

definition dma_read :: "memory \<Rightarrow> nat \<Rightarrow> nat \<Rightarrow> u8 list" where
  "dma_read m a n = map (\<lambda>k. m (a + k)) [0..<n]"

definition dma_write :: "memory \<Rightarrow> nat \<Rightarrow> u8 list \<Rightarrow> memory" where
  "dma_write m a bs = (\<lambda>x. if a \<le> x \<and> x < a + length bs then bs ! (x - a) else m x)"

lemma length_dma_read [simp]: "length (dma_read m a n) = n"
  by (simp add: dma_read_def)

lemma nth_dma_read [simp]: "k < n \<Longrightarrow> dma_read m a n ! k = m (a + k)"
  by (simp add: dma_read_def)

lemma dma_read_write_same: "dma_read (dma_write m a bs) a (length bs) = bs"
  by (rule nth_equalityI) (simp_all add: dma_write_def)

lemma dma_read_write_disjoint:
  "a + length bs \<le> b \<or> b + n \<le> a \<Longrightarrow> dma_read (dma_write m a bs) b n = dma_read m b n"
  by (rule nth_equalityI) (auto simp: dma_write_def)

lemma dma_write_outside: "x < a \<or> a + length bs \<le> x \<Longrightarrow> dma_write m a bs x = m x"
  by (auto simp: dma_write_def)

lemma dma_read_cong: "(\<And>k. k < n \<Longrightarrow> m (a + k) = m' (a + k)) \<Longrightarrow> dma_read m a n = dma_read m' a n"
  by (simp add: dma_read_def)

section \<open>Copying blocks\<close>

text \<open>A sequence of block copies into places that do not overlap leaves each block where it was put.\<close>

definition blocks_apart :: "('p \<Rightarrow> nat) \<Rightarrow> nat \<Rightarrow> 'p set \<Rightarrow> bool" where
  "blocks_apart t n ps = (\<forall>p \<in> ps. \<forall>q \<in> ps. p \<noteq> q \<longrightarrow> t p + n \<le> t q \<or> t q + n \<le> t p)"

lemma copies_outside:
  "\<forall>p \<in> set ps. k < t p \<or> t p + n \<le> k \<Longrightarrow>
   fold (\<lambda>p s. dma_write s (t p) (dma_read src (f p) n)) ps s k = s k"
  by (induction ps arbitrary: s) (simp_all add: dma_write_outside)

lemma copies_inside:
  assumes "distinct ps" and "blocks_apart t n (set ps)" and "p \<in> set ps" and "j < n"
  shows "fold (\<lambda>p s. dma_write s (t p) (dma_read src (f p) n)) ps s (t p + j) = src (f p + j)"
  using assms
proof (induction ps arbitrary: s)
  case (Cons q ps)
  show ?case
  proof (cases "p = q")
    case True
    have "\<forall>r \<in> set ps. t q + j < t r \<or> t r + n \<le> t q + j"
    proof
      fix r assume "r \<in> set ps"
      then have "t q + n \<le> t r \<or> t r + n \<le> t q" using Cons.prems(1,2) by (auto simp: blocks_apart_def)
      then show "t q + j < t r \<or> t r + n \<le> t q + j" using Cons.prems(4) by auto
    qed
    then show ?thesis using True Cons.prems(4) by (simp add: copies_outside) (simp add: dma_write_def)
  next
    case False
    then show ?thesis using Cons by (simp add: blocks_apart_def)
  qed
qed simp

lemma digit_le: "k < m \<Longrightarrow> m * u \<le> v \<Longrightarrow> k * u + u \<le> (v :: nat)"
  using mult_le_mono1 [of "Suc k" m u] by simp

lemma rows_blocks_apart:
  assumes "n \<le> (p :: nat)"
  shows "blocks_apart (\<lambda>i. t + i * p) n A"
  unfolding blocks_apart_def
proof (intro ballI impI)
  fix i j :: nat assume "i \<noteq> j"
  then consider "i < j" | "j < i" by linarith
  then show "t + i * p + n \<le> t + j * p \<or> t + j * p + n \<le> t + i * p"
    using digit_le [of i j p "j * p"] digit_le [of j i p "i * p"] assms by cases auto
qed

end
