(* ===== verification/I2C_Core.thy ===== *)
theory I2C_Core
  imports Prelude
begin

text \<open>
  The I2C bus of \<^verbatim>\<open>hw/i2c/core.c\<close>: the bus with its children, the list of devices that
  take part in the current transfer, and the operations a bus master calls.

  A slave is a record that extends \<open>i2c_slave\<close>; its class (the C structure of function
  pointers that \<open>I2C_SLAVE_GET_CLASS\<close> finds) is the argument \<open>gc\<close> of the operations, with
  a null pointer as \<open>None\<close>. A node of \<open>current_devs\<close> is the position of its device among
  the children. A callback returns \<open>None\<close> when the C code stops in it.
\<close>

section \<open>Slaves, their class and the bus\<close>

datatype i2c_event =
    I2C_START_RECV
  | I2C_START_SEND
  | I2C_START_SEND_ASYNC
  | I2C_FINISH
  | I2C_NACK

record i2c_slave =
  address :: u8

record 's i2c_slave_class =
  send :: "('s \<Rightarrow> u8 \<Rightarrow> (int \<times> 's) option) option"
  recv :: "('s \<Rightarrow> (u8 \<times> 's) option) option"
  event :: "('s \<Rightarrow> i2c_event \<Rightarrow> (int \<times> 's) option) option"

record 's i2c_bus =
  children :: "'s list"
  current_devs :: "nat list"
  broadcast :: bool
  pending_masters :: "nat list"
  bh :: "nat option"
  scheduled :: "nat list"   \<comment> \<open>the calls of \<open>qemu_bh_schedule\<close>, newest last\<close>

definition I2C_BROADCAST :: u8 where
  "I2C_BROADCAST = 0"

definition i2c_init_bus :: "'s list \<Rightarrow> 's i2c_bus" where
  "i2c_init_bus kids = \<lparr>children = kids, current_devs = [], broadcast = False,
     pending_masters = [], bh = None, scheduled = []\<rparr>"

definition i2c_bus_busy :: "'s i2c_bus \<Rightarrow> bool" where
  "i2c_bus_busy bus = (current_devs bus \<noteq> [] \<or> bh bus \<noteq> None)"

section \<open>Finding the addressed devices\<close>

definition i2c_slave_match ::
  "'a i2c_slave_scheme \<Rightarrow> nat \<Rightarrow> u8 \<Rightarrow> bool \<Rightarrow> nat list \<Rightarrow> bool \<times> nat list" where
  "i2c_slave_match candidate node addr bcast cur =
     (if address candidate = addr \<or> bcast then (True, node # cur) else (False, cur))"

fun i2c_scan_kids ::
  "'a i2c_slave_scheme list \<Rightarrow> nat \<Rightarrow> u8 \<Rightarrow> bool \<Rightarrow> nat list \<Rightarrow> bool \<times> nat list" where
  "i2c_scan_kids [] i addr bcast cur = (bcast, cur)"
| "i2c_scan_kids (kid # kids) i addr bcast cur =
     (let (matched, cur') = i2c_slave_match kid i addr bcast cur in
      if matched \<and> \<not> bcast then (True, cur')
      else i2c_scan_kids kids (Suc i) addr bcast cur')"

definition i2c_scan_bus ::
  "'a i2c_slave_scheme i2c_bus \<Rightarrow> u8 \<Rightarrow> bool \<Rightarrow> nat list \<Rightarrow> bool \<times> nat list" where
  "i2c_scan_bus bus addr bcast cur = i2c_scan_kids (children bus) 0 addr bcast cur"

section \<open>Transfers\<close>

fun i2c_end_loop ::
  "('s \<Rightarrow> 's i2c_slave_class) \<Rightarrow> nat list \<Rightarrow> 's i2c_bus \<Rightarrow> 's i2c_bus option" where
  "i2c_end_loop gc [] bus = Some bus"
| "i2c_end_loop gc (i # is) bus =
     (case event (gc (children bus ! i)) of
        None \<Rightarrow> i2c_end_loop gc is (bus\<lparr>current_devs := is\<rparr>)
      | Some ev \<Rightarrow> do {
          (_, s') \<leftarrow> ev (children bus ! i) I2C_FINISH;
          i2c_end_loop gc is
            (bus\<lparr>children := (children bus)[i := s'], current_devs := is\<rparr>)
        })"

definition i2c_end_transfer ::
  "('s \<Rightarrow> 's i2c_slave_class) \<Rightarrow> 's i2c_bus \<Rightarrow> 's i2c_bus option" where
  "i2c_end_transfer gc bus = do {
     bus' \<leftarrow> i2c_end_loop gc (current_devs bus) bus;
     Some (bus'\<lparr>broadcast := False\<rparr>)
   }"

fun i2c_start_loop ::
  "('s \<Rightarrow> 's i2c_slave_class) \<Rightarrow> i2c_event \<Rightarrow> bool \<Rightarrow> nat list \<Rightarrow> 's i2c_bus
    \<Rightarrow> (int \<times> 's i2c_bus) option" where
  "i2c_start_loop gc e bus_scanned [] bus = Some (0, bus)"
| "i2c_start_loop gc e bus_scanned (i # is) bus =
     (case event (gc (children bus ! i)) of
        None \<Rightarrow> i2c_start_loop gc e bus_scanned is bus
      | Some ev \<Rightarrow> do {
          (rv, s') \<leftarrow> ev (children bus ! i) e;
          let bus' = bus\<lparr>children := (children bus)[i := s']\<rparr>;
          if rv \<noteq> 0 \<and> \<not> broadcast bus' then
            (if bus_scanned then do {
               bus'' \<leftarrow> i2c_end_transfer gc bus';
               Some (rv, bus'')
             }
             else Some (rv, bus'))
          else i2c_start_loop gc e bus_scanned is bus'
        })"

definition i2c_do_start_transfer ::
  "('a i2c_slave_scheme \<Rightarrow> 'a i2c_slave_scheme i2c_slave_class) \<Rightarrow> 'a i2c_slave_scheme i2c_bus
    \<Rightarrow> u8 \<Rightarrow> i2c_event \<Rightarrow> (int \<times> 'a i2c_slave_scheme i2c_bus) option" where
  "i2c_do_start_transfer gc bus0 addr e =
     (let bus1 = (if addr = I2C_BROADCAST then bus0\<lparr>broadcast := True\<rparr> else bus0);
          bus_scanned = (current_devs bus1 = []);
          bus2 = (if bus_scanned
                  then bus1\<lparr>current_devs := snd (i2c_scan_bus bus1 addr (broadcast bus1) [])\<rparr>
                  else bus1)
      in if current_devs bus2 = [] then Some (1, bus2)
         else i2c_start_loop gc e bus_scanned (current_devs bus2) bus2)"

definition i2c_start_transfer ::
  "('a i2c_slave_scheme \<Rightarrow> 'a i2c_slave_scheme i2c_slave_class) \<Rightarrow> 'a i2c_slave_scheme i2c_bus
    \<Rightarrow> u8 \<Rightarrow> bool \<Rightarrow> (int \<times> 'a i2c_slave_scheme i2c_bus) option" where
  "i2c_start_transfer gc bus addr is_recv =
     i2c_do_start_transfer gc bus addr (if is_recv then I2C_START_RECV else I2C_START_SEND)"

definition i2c_start_recv ::
  "('a i2c_slave_scheme \<Rightarrow> 'a i2c_slave_scheme i2c_slave_class) \<Rightarrow> 'a i2c_slave_scheme i2c_bus
    \<Rightarrow> u8 \<Rightarrow> (int \<times> 'a i2c_slave_scheme i2c_bus) option" where
  "i2c_start_recv gc bus addr = i2c_do_start_transfer gc bus addr I2C_START_RECV"

definition i2c_start_send ::
  "('a i2c_slave_scheme \<Rightarrow> 'a i2c_slave_scheme i2c_slave_class) \<Rightarrow> 'a i2c_slave_scheme i2c_bus
    \<Rightarrow> u8 \<Rightarrow> (int \<times> 'a i2c_slave_scheme i2c_bus) option" where
  "i2c_start_send gc bus addr = i2c_do_start_transfer gc bus addr I2C_START_SEND"

text \<open>
  \<open>ret = ret || sc->send(s, data)\<close>: once a device has refused the byte, the later devices
  of a broadcast are not called any more.
\<close>

fun i2c_send_loop ::
  "('s \<Rightarrow> 's i2c_slave_class) \<Rightarrow> u8 \<Rightarrow> int \<Rightarrow> nat list \<Rightarrow> 's i2c_bus \<Rightarrow> (int \<times> 's i2c_bus) option" where
  "i2c_send_loop gc b ret [] bus = Some (ret, bus)"
| "i2c_send_loop gc b ret (i # is) bus =
     (case send (gc (children bus ! i)) of
        None \<Rightarrow> i2c_send_loop gc b (- 1) is bus
      | Some snd_cb \<Rightarrow>
          if ret \<noteq> 0 then i2c_send_loop gc b 1 is bus
          else do {
            (r, s') \<leftarrow> snd_cb (children bus ! i) b;
            i2c_send_loop gc b (if r \<noteq> 0 then 1 else 0) is
              (bus\<lparr>children := (children bus)[i := s']\<rparr>)
          })"

definition i2c_send ::
  "('s \<Rightarrow> 's i2c_slave_class) \<Rightarrow> 's i2c_bus \<Rightarrow> u8 \<Rightarrow> (int \<times> 's i2c_bus) option" where
  "i2c_send gc bus b = do {
     (ret, bus') \<leftarrow> i2c_send_loop gc b 0 (current_devs bus) bus;
     Some (if ret \<noteq> 0 then - 1 else 0, bus')
   }"

definition i2c_recv ::
  "('s \<Rightarrow> 's i2c_slave_class) \<Rightarrow> 's i2c_bus \<Rightarrow> (u8 \<times> 's i2c_bus) option" where
  "i2c_recv gc bus =
     (if current_devs bus \<noteq> [] \<and> \<not> broadcast bus then
        (let i = hd (current_devs bus); s = children bus ! i in
         case recv (gc s) of
           None \<Rightarrow> Some (0xff, bus)
         | Some rcv \<Rightarrow> do {
             (b, s') \<leftarrow> rcv s;
             Some (b, bus\<lparr>children := (children bus)[i := s']\<rparr>)
           })
      else Some (0xff, bus))"

fun i2c_nack_loop ::
  "('s \<Rightarrow> 's i2c_slave_class) \<Rightarrow> nat list \<Rightarrow> 's i2c_bus \<Rightarrow> 's i2c_bus option" where
  "i2c_nack_loop gc [] bus = Some bus"
| "i2c_nack_loop gc (i # is) bus =
     (case event (gc (children bus ! i)) of
        None \<Rightarrow> i2c_nack_loop gc is bus
      | Some ev \<Rightarrow> do {
          (_, s') \<leftarrow> ev (children bus ! i) I2C_NACK;
          i2c_nack_loop gc is (bus\<lparr>children := (children bus)[i := s']\<rparr>)
        })"

definition i2c_nack ::
  "('s \<Rightarrow> 's i2c_slave_class) \<Rightarrow> 's i2c_bus \<Rightarrow> 's i2c_bus option" where
  "i2c_nack gc bus =
     (if current_devs bus = [] then Some bus else i2c_nack_loop gc (current_devs bus) bus)"

section \<open>Mastering of the bus by a slave\<close>

definition i2c_bus_master :: "'s i2c_bus \<Rightarrow> nat \<Rightarrow> 's i2c_bus" where
  "i2c_bus_master bus b = bus\<lparr>pending_masters := pending_masters bus @ [b]\<rparr>"

definition i2c_schedule_pending_master :: "'s i2c_bus \<Rightarrow> 's i2c_bus" where
  "i2c_schedule_pending_master bus =
     (if i2c_bus_busy bus then bus
      else case pending_masters bus of
        [] \<Rightarrow> bus
      | b # bs \<Rightarrow> bus\<lparr>bh := Some b, pending_masters := bs, scheduled := scheduled bus @ [b]\<rparr>)"

definition i2c_bus_release :: "'s i2c_bus \<Rightarrow> 's i2c_bus" where
  "i2c_bus_release bus = i2c_schedule_pending_master (bus\<lparr>bh := None\<rparr>)"

definition i2c_ack :: "'s i2c_bus \<Rightarrow> 's i2c_bus" where
  "i2c_ack bus =
     (case bh bus of None \<Rightarrow> bus | Some b \<Rightarrow> bus\<lparr>scheduled := scheduled bus @ [b]\<rparr>)"

section \<open>Which devices a transfer selects\<close>

definition bus_idle :: "'s i2c_bus \<Rightarrow> bool" where
  "bus_idle bus = (current_devs bus = [] \<and> \<not> broadcast bus)"

text \<open>\<open>answers kids addr i\<close>: device \<open>i\<close> is the first child with the address \<open>addr\<close>.\<close>

definition answers :: "'a i2c_slave_scheme list \<Rightarrow> u8 \<Rightarrow> nat \<Rightarrow> bool" where
  "answers kids addr i =
     (i < length kids \<and> address (kids ! i) = addr \<and> (\<forall>j<i. address (kids ! j) \<noteq> addr))"

lemma scan_kids_hit:
  "answers kids addr i \<Longrightarrow> i2c_scan_kids kids k addr False cur = (True, (k + i) # cur)"
proof (induction kids arbitrary: i k)
  case Nil
  then show ?case by (simp add: answers_def)
next
  case (Cons kid kids)
  show ?case
  proof (cases i)
    case 0
    with Cons.prems show ?thesis by (simp add: answers_def i2c_slave_match_def)
  next
    case (Suc n)
    from Cons.prems Suc have "answers kids addr n" and "address kid \<noteq> addr"
      by (auto simp: answers_def)
    with Cons.IH [of n "Suc k"] Suc show ?thesis by (simp add: i2c_slave_match_def)
  qed
qed

lemma scan_kids_miss:
  "(\<forall>kid \<in> set kids. address kid \<noteq> addr) \<Longrightarrow> i2c_scan_kids kids k addr False cur = (False, cur)"
  by (induction kids arbitrary: k) (auto simp: i2c_slave_match_def)

lemma scan_kids_broadcast:
  "i2c_scan_kids kids k addr True cur = (True, rev [k..<k + length kids] @ cur)"
  by (induction kids arbitrary: k cur) (simp_all add: i2c_slave_match_def upt_rec)

lemma answers_unique: "answers kids addr i \<Longrightarrow> answers kids addr j \<Longrightarrow> i = j"
  by (metis answers_def linorder_neqE_nat)

lemma answers_exists:
  assumes "\<exists>kid \<in> set kids. address kid = addr"
  shows "\<exists>i. answers kids addr i"
proof -
  from assms obtain k where "k < length kids \<and> address (kids ! k) = addr"
    by (auto simp: in_set_conv_nth)
  then have "\<exists>n. (n < length kids \<and> address (kids ! n) = addr) \<and>
      (\<forall>m<n. \<not> (m < length kids \<and> address (kids ! m) = addr))"
    by (rule exists_least_iff [THEN iffD1, OF exI])
  then show ?thesis by (auto simp: answers_def)
qed

lemma answers_update:
  "answers kids addr i \<Longrightarrow> address s' = addr \<Longrightarrow> answers (kids[i := s']) addr i"
  by (auto simp: answers_def nth_list_update)

section \<open>Transfers with one selected device\<close>

text \<open>
  The state of a bus in the middle of a transfer with device \<open>i\<close>, whose current state is
  \<open>s\<close>. The lemmas say what each bus operation does to the device; a master's transaction is
  a composition of them.
\<close>

definition talking :: "'s i2c_bus \<Rightarrow> nat \<Rightarrow> 's \<Rightarrow> 's i2c_bus" where
  "talking bus i s = bus\<lparr>children := (children bus)[i := s], current_devs := [i], broadcast := False\<rparr>"

definition quiet :: "'s i2c_bus \<Rightarrow> nat \<Rightarrow> 's \<Rightarrow> 's i2c_bus" where
  "quiet bus i s = bus\<lparr>children := (children bus)[i := s], current_devs := [], broadcast := False\<rparr>"

lemma talking_simps [simp]:
  "current_devs (talking bus i s) = [i]"
  "broadcast (talking bus i s) = False"
  "children (talking bus i s) = (children bus)[i := s]"
  "talking (talking bus i s) i s' = talking bus i s'"
  by (simp_all add: talking_def)

lemma quiet_simps [simp]:
  "current_devs (quiet bus i s) = []"
  "broadcast (quiet bus i s) = False"
  "children (quiet bus i s) = (children bus)[i := s]"
  "quiet (quiet bus i s) i s' = quiet bus i s'"
  "quiet (talking bus i s) i s' = quiet bus i s'"
  "talking (quiet bus i s) i s' = talking bus i s'"
  by (simp_all add: quiet_def talking_def)

lemma bus_idle_quiet [simp]: "bus_idle (quiet bus i s)"
  by (simp add: bus_idle_def)

lemma quiet_self: "bus_idle bus \<Longrightarrow> i < length (children bus) \<Longrightarrow> quiet bus i (children bus ! i) = bus"
  by (simp add: quiet_def bus_idle_def)

lemma start_selects:
  assumes "bus_idle bus" and "answers (children bus) addr i" and "addr \<noteq> I2C_BROADCAST"
    and "event (gc (children bus ! i)) = Some ev"
    and "ev (children bus ! i) e = Some (0, s')"
  shows "i2c_do_start_transfer gc bus addr e = Some (0, talking bus i s')"
  using assms scan_kids_hit [OF assms(2), of 0 "[]"]
  by (simp add: i2c_do_start_transfer_def bus_idle_def i2c_scan_bus_def Let_def talking_def)

lemma start_misses:
  assumes "bus_idle bus" and "\<forall>kid \<in> set (children bus). address kid \<noteq> addr"
    and "addr \<noteq> I2C_BROADCAST"
  shows "i2c_do_start_transfer gc bus addr e = Some (1, bus)"
  using assms scan_kids_miss [OF assms(2), of 0 "[]"]
  by (simp add: i2c_do_start_transfer_def bus_idle_def i2c_scan_bus_def Let_def)

lemma start_again:
  assumes "i < length (children bus)" and "addr \<noteq> I2C_BROADCAST"
    and "event (gc s) = Some ev" and "ev s e = Some (0, s')"
  shows "i2c_do_start_transfer gc (talking bus i s) addr e = Some (0, talking bus i s')"
  using assms by (simp add: i2c_do_start_transfer_def Let_def talking_def)

lemma send_one:
  assumes "i < length (children bus)" and "send (gc s) = Some f" and "f s b = Some (r, s')"
  shows "i2c_send gc (talking bus i s) b = Some (if r \<noteq> 0 then - 1 else 0, talking bus i s')"
  using assms by (simp add: i2c_send_def talking_def)

lemma recv_one:
  assumes "i < length (children bus)" and "recv (gc s) = Some f" and "f s = Some (b, s')"
  shows "i2c_recv gc (talking bus i s) = Some (b, talking bus i s')"
  using assms by (simp add: i2c_recv_def talking_def Let_def)

lemma nack_one:
  assumes "i < length (children bus)" and "event (gc s) = Some ev" and "ev s I2C_NACK = Some (r, s')"
  shows "i2c_nack gc (talking bus i s) = Some (talking bus i s')"
  using assms by (simp add: i2c_nack_def talking_def)

lemma end_one:
  assumes "i < length (children bus)" and "event (gc s) = Some ev" and "ev s I2C_FINISH = Some (r, s')"
  shows "i2c_end_transfer gc (talking bus i s) = Some (quiet bus i s')"
  using assms by (simp add: i2c_end_transfer_def talking_def quiet_def)

section \<open>Bus arbitration\<close>

text \<open>
  Masters get the bus in the order in which they asked for it: releasing the bus serves the
  head of the queue, and no request is lost.
\<close>

lemma schedule_serves_head:
  "\<not> i2c_bus_busy bus \<Longrightarrow> pending_masters bus = b # bs \<Longrightarrow>
   bh (i2c_schedule_pending_master bus) = Some b \<and>
   pending_masters (i2c_schedule_pending_master bus) = bs"
  by (simp add: i2c_schedule_pending_master_def)

fun release_all :: "nat \<Rightarrow> 's i2c_bus \<Rightarrow> 's i2c_bus" where
  "release_all 0 bus = bus"
| "release_all (Suc n) bus = release_all n (i2c_bus_release bus)"

lemma release_all_fifo:
  "current_devs bus = [] \<Longrightarrow> n \<le> length (pending_masters bus) \<Longrightarrow>
   scheduled (release_all n bus) = scheduled bus @ take n (pending_masters bus) \<and>
   pending_masters (release_all n bus) = drop n (pending_masters bus)"
proof (induction n arbitrary: bus)
  case 0
  then show ?case by simp
next
  case (Suc n)
  from Suc.prems(2) obtain b bs where pm: "pending_masters bus = b # bs"
    by (cases "pending_masters bus") auto
  let ?b = "i2c_bus_release bus"
  have rel: "current_devs ?b = []" "pending_masters ?b = bs" "scheduled ?b = scheduled bus @ [b]"
    using Suc.prems(1) pm
    by (simp_all add: i2c_bus_release_def i2c_schedule_pending_master_def i2c_bus_busy_def)
  from Suc.prems(2) pm have "n \<le> length (pending_masters ?b)" by (simp add: rel)
  from Suc.IH [OF rel(1) this] show ?case by (simp add: rel pm)
qed

end
