(* ===== verification/SMBus_Slave.thy ===== *)
theory SMBus_Slave
  imports I2C_Core
begin

text \<open>
  The SMBus protocol on top of I2C, \<^verbatim>\<open>hw/i2c/smbus_slave.c\<close>: every device keeps a mode
  and a buffer of at most 34 bytes and turns the events of the bus into calls of its own
  \<open>quick_cmd\<close>, \<open>write_data\<close> and \<open>receive_byte\<close>.

  The C structure of a concrete device embeds \<open>SMBusDevice\<close>; here the field \<open>dev\<close> carries
  the concrete part and the class is found from it by the argument \<open>sc\<close>. The warnings that
  \<open>BADF\<close> prints have no effect on the state.
\<close>

section \<open>Devices and their class\<close>

datatype smbus_mode =
    SMBUS_IDLE | SMBUS_WRITE_DATA | SMBUS_READ_DATA | SMBUS_DONE | SMBUS_CONFUSED

definition SMBUS_DATA_MAX_LEN :: nat where
  "SMBUS_DATA_MAX_LEN = 34"

record 'd smbus_device = i2c_slave +
  mode :: smbus_mode
  data_len :: nat
  data_buf :: "u8 list"
  dev :: 'd

record 'd smbus_device_class =
  quick_cmd :: "('d \<Rightarrow> u8 \<Rightarrow> 'd) option"
  write_data :: "('d \<Rightarrow> u8 list \<Rightarrow> u8 \<Rightarrow> (int \<times> 'd) option) option"
  receive_byte :: "('d \<Rightarrow> (u8 \<times> 'd) option) option"

section \<open>The protocol\<close>

definition smbus_do_quick_cmd ::
  "('d \<Rightarrow> 'd smbus_device_class) \<Rightarrow> 'd smbus_device \<Rightarrow> bool \<Rightarrow> 'd smbus_device" where
  "smbus_do_quick_cmd sc s rd =
     (case quick_cmd (sc (dev s)) of
        None \<Rightarrow> s
      | Some f \<Rightarrow> s\<lparr>dev := f (dev s) (if rd then 1 else 0)\<rparr>)"

definition smbus_do_write ::
  "('d \<Rightarrow> 'd smbus_device_class) \<Rightarrow> 'd smbus_device \<Rightarrow> 'd smbus_device option" where
  "smbus_do_write sc s =
     (case write_data (sc (dev s)) of
        None \<Rightarrow> Some s
      | Some f \<Rightarrow> do {
          (_, d') \<leftarrow> f (dev s) (data_buf s) (of_nat (data_len s));
          Some (s\<lparr>dev := d'\<rparr>)
        })"

definition smbus_i2c_event ::
  "('d \<Rightarrow> 'd smbus_device_class) \<Rightarrow> 'd smbus_device \<Rightarrow> i2c_event \<Rightarrow> (int \<times> 'd smbus_device) option" where
  "smbus_i2c_event sc s e =
     (case e of
        I2C_START_SEND \<Rightarrow>
          (case mode s of
             SMBUS_IDLE \<Rightarrow> Some (0, s\<lparr>mode := SMBUS_WRITE_DATA\<rparr>)
           | _ \<Rightarrow> Some (0, s\<lparr>mode := SMBUS_CONFUSED\<rparr>))
      | I2C_START_RECV \<Rightarrow>
          (case mode s of
             SMBUS_IDLE \<Rightarrow> Some (0, s\<lparr>mode := SMBUS_READ_DATA\<rparr>)
           | SMBUS_WRITE_DATA \<Rightarrow>
               if data_len s = 0 then Some (0, s\<lparr>mode := SMBUS_CONFUSED\<rparr>)
               else do {
                 s' \<leftarrow> smbus_do_write sc s;
                 Some (0, s'\<lparr>mode := SMBUS_READ_DATA\<rparr>)
               }
           | _ \<Rightarrow> Some (0, s\<lparr>mode := SMBUS_CONFUSED\<rparr>))
      | I2C_FINISH \<Rightarrow> do {
          s' \<leftarrow> (if data_len s = 0 then
                  (if mode s = SMBUS_WRITE_DATA \<or> mode s = SMBUS_READ_DATA
                   then Some (smbus_do_quick_cmd sc s (mode s = SMBUS_READ_DATA))
                   else Some s)
                else (case mode s of
                        SMBUS_WRITE_DATA \<Rightarrow> smbus_do_write sc s
                      | _ \<Rightarrow> Some s));
          Some (0, s'\<lparr>mode := SMBUS_IDLE, data_len := 0\<rparr>)
        }
      | I2C_NACK \<Rightarrow>
          (case mode s of
             SMBUS_DONE \<Rightarrow> Some (0, s)
           | SMBUS_READ_DATA \<Rightarrow> Some (0, s\<lparr>mode := SMBUS_DONE\<rparr>)
           | _ \<Rightarrow> Some (0, s\<lparr>mode := SMBUS_CONFUSED\<rparr>))
      | I2C_START_SEND_ASYNC \<Rightarrow> Some (- 1, s))"

definition smbus_i2c_recv ::
  "('d \<Rightarrow> 'd smbus_device_class) \<Rightarrow> 'd smbus_device \<Rightarrow> (u8 \<times> 'd smbus_device) option" where
  "smbus_i2c_recv sc s =
     (case mode s of
        SMBUS_READ_DATA \<Rightarrow>
          (case receive_byte (sc (dev s)) of
             None \<Rightarrow> Some (0xff, s)
           | Some f \<Rightarrow> do {
               (b, d') \<leftarrow> f (dev s);
               Some (b, s\<lparr>dev := d'\<rparr>)
             })
      | _ \<Rightarrow> Some (0xff, s\<lparr>mode := SMBUS_CONFUSED\<rparr>))"

definition smbus_i2c_send ::
  "'d smbus_device \<Rightarrow> u8 \<Rightarrow> (int \<times> 'd smbus_device) option" where
  "smbus_i2c_send s b =
     (case mode s of
        SMBUS_WRITE_DATA \<Rightarrow>
          if SMBUS_DATA_MAX_LEN \<le> data_len s then Some (0, s)
          else do {
            buf' \<leftarrow> arr_set (data_buf s) (data_len s) b;
            Some (0, s\<lparr>data_buf := buf', data_len := data_len s + 1\<rparr>)
          }
      | _ \<Rightarrow> Some (0, s))"

definition smbus_device_class_init ::
  "('d \<Rightarrow> 'd smbus_device_class) \<Rightarrow> 'd smbus_device \<Rightarrow> 'd smbus_device i2c_slave_class" where
  "smbus_device_class_init sc s =
     \<lparr>send = Some smbus_i2c_send, recv = Some (smbus_i2c_recv sc), event = Some (smbus_i2c_event sc)\<rparr>"

definition smbus_vmstate_needed :: "'d smbus_device \<Rightarrow> bool" where
  "smbus_vmstate_needed s = (mode s \<noteq> SMBUS_IDLE)"

section \<open>What a device sees of a transfer\<close>

text \<open>
  The abstract view of a device: a write transfer hands it a list of bytes, a read transfer
  takes bytes from it one by one. \<open>pad_buf\<close> completes the bytes to the 34 of the protocol
  buffer, whose remaining bytes are left over from earlier transfers in the code.
\<close>

definition pad_buf :: "u8 list \<Rightarrow> u8 list" where
  "pad_buf bs = bs @ replicate (SMBUS_DATA_MAX_LEN - length bs) 0"

definition dwrite :: "('d \<Rightarrow> 'd smbus_device_class) \<Rightarrow> 'd \<Rightarrow> u8 list \<Rightarrow> 'd" where
  "dwrite sc d bs =
     (case write_data (sc d) of
        None \<Rightarrow> d
      | Some f \<Rightarrow> (case f d (pad_buf bs) (of_nat (length bs)) of None \<Rightarrow> d | Some (_, d') \<Rightarrow> d'))"

definition drecv :: "('d \<Rightarrow> 'd smbus_device_class) \<Rightarrow> 'd \<Rightarrow> u8 \<times> 'd" where
  "drecv sc d =
     (case receive_byte (sc d) of
        None \<Rightarrow> (0xff, d)
      | Some f \<Rightarrow> (case f d of None \<Rightarrow> (0xff, d) | Some r \<Rightarrow> r))"

fun drecvs :: "('d \<Rightarrow> 'd smbus_device_class) \<Rightarrow> nat \<Rightarrow> 'd \<Rightarrow> u8 list \<times> 'd" where
  "drecvs sc 0 d = ([], d)"
| "drecvs sc (Suc n) d =
     (let (b, d1) = drecv sc d; (bs, d2) = drecvs sc n d1 in (b # bs, d2))"

definition dquick :: "('d \<Rightarrow> 'd smbus_device_class) \<Rightarrow> 'd \<Rightarrow> bool \<Rightarrow> 'd" where
  "dquick sc d rd =
     (case quick_cmd (sc d) of None \<Rightarrow> d | Some f \<Rightarrow> f d (if rd then 1 else 0))"

text \<open>
  What a device class promises to the protocol: under the device's invariant its callbacks
  do not stop the program and keep the invariant, and \<open>write_data\<close> looks only at the bytes
  that were sent.
\<close>

lemma take_eq_nth: "take n xs = take n ys \<Longrightarrow> k < n \<Longrightarrow> xs ! k = ys ! k"
  by (metis nth_take)

locale smbus_provider =
  fixes sc :: "'d \<Rightarrow> 'd smbus_device_class"
    and dinv :: "'d \<Rightarrow> bool"
  assumes write_ok: "\<And>d f buf len. \<lbrakk>dinv d; write_data (sc d) = Some f;
      length buf = SMBUS_DATA_MAX_LEN; 0 < len; unat len \<le> SMBUS_DATA_MAX_LEN\<rbrakk>
      \<Longrightarrow> \<exists>r d'. f d buf len = Some (r, d') \<and> dinv d'"
    and write_local: "\<And>d f buf buf' len. \<lbrakk>dinv d; write_data (sc d) = Some f;
      length buf = SMBUS_DATA_MAX_LEN; length buf' = SMBUS_DATA_MAX_LEN;
      0 < len; unat len \<le> SMBUS_DATA_MAX_LEN; take (unat len) buf = take (unat len) buf'\<rbrakk>
      \<Longrightarrow> f d buf len = f d buf' len"
    and recv_ok: "\<And>d f. \<lbrakk>dinv d; receive_byte (sc d) = Some f\<rbrakk>
      \<Longrightarrow> \<exists>b d'. f d = Some (b, d') \<and> dinv d'"
    and quick_ok: "\<And>d f rd. \<lbrakk>dinv d; quick_cmd (sc d) = Some f\<rbrakk> \<Longrightarrow> dinv (f d rd)"
begin

lemma dquick_inv: "dinv d \<Longrightarrow> dinv (dquick sc d rd)"
  by (auto simp: dquick_def quick_ok split: option.splits)

lemma drecv_inv: "dinv d \<Longrightarrow> dinv (snd (drecv sc d))"
  using recv_ok [of d] by (fastforce simp: drecv_def split: option.splits)

lemma drecv_code:
  "dinv d \<Longrightarrow> receive_byte (sc d) = Some f \<Longrightarrow> f d = Some (drecv sc d)"
  using recv_ok [of d f] by (auto simp: drecv_def)

lemma dwrite_code:
  assumes "dinv d" and "write_data (sc d) = Some f" and "length buf = SMBUS_DATA_MAX_LEN"
    and "bs \<noteq> []" and "length bs \<le> SMBUS_DATA_MAX_LEN" and "take (length bs) buf = bs"
  shows "\<exists>r. f d buf (of_nat (length bs)) = Some (r, dwrite sc d bs) \<and> dinv (dwrite sc d bs)"
proof -
  let ?len = "of_nat (length bs) :: u8"
  have len: "unat ?len = length bs"
    using assms(5) by (simp add: unat_of_nat SMBUS_DATA_MAX_LEN_def)
  have pos: "0 < ?len"
    using assms(4) len by (simp add: word_less_nat_alt)
  have pad: "length (pad_buf bs) = SMBUS_DATA_MAX_LEN"
    using assms(5) by (simp add: pad_buf_def)
  have "f d buf ?len = f d (pad_buf bs) ?len"
    by (rule write_local [OF assms(1,2,3) pad pos]) (use assms len in \<open>simp_all add: pad_buf_def\<close>)
  moreover obtain r d' where "f d (pad_buf bs) ?len = Some (r, d')" "dinv d'"
    using write_ok [OF assms(1,2) pad pos] assms(5) len by auto
  ultimately show ?thesis using assms(2) by (simp add: dwrite_def)
qed

lemma dwrite_inv:
  assumes "dinv d" and "bs \<noteq> []" and "length bs \<le> SMBUS_DATA_MAX_LEN"
  shows "dinv (dwrite sc d bs)"
proof (cases "write_data (sc d)")
  case None
  with assms(1) show ?thesis by (simp add: dwrite_def)
next
  case (Some f)
  have "length (pad_buf bs) = SMBUS_DATA_MAX_LEN" and "take (length bs) (pad_buf bs) = bs"
    using assms(3) by (simp_all add: pad_buf_def)
  from dwrite_code [OF assms(1) Some this(1) assms(2,3) this(2)] show ?thesis by blast
qed

end

section \<open>A slave during a transfer\<close>

text \<open>A device between transfers.\<close>

definition slave_idle :: "'d smbus_device \<Rightarrow> bool" where
  "slave_idle s = (mode s = SMBUS_IDLE \<and> data_len s = 0 \<and> length (data_buf s) = SMBUS_DATA_MAX_LEN)"

text \<open>A device that has received the bytes \<open>bs\<close> of a write transfer.\<close>

definition in_write :: "'d smbus_device \<Rightarrow> u8 list \<Rightarrow> 'd smbus_device" where
  "in_write s bs = s\<lparr>mode := SMBUS_WRITE_DATA, data_len := length bs,
     data_buf := bs @ drop (length bs) (data_buf s)\<rparr>"

lemma event_start_send:
  "slave_idle s \<Longrightarrow> smbus_i2c_event sc s I2C_START_SEND = Some (0, in_write s [])"
  by (simp add: smbus_i2c_event_def slave_idle_def in_write_def)

lemma send_in_write:
  assumes "slave_idle s" and "length bs < SMBUS_DATA_MAX_LEN"
  shows "smbus_i2c_send (in_write s bs) b = Some (0, in_write s (bs @ [b]))"
proof -
  have "drop (length bs) (data_buf s) = data_buf s ! length bs # drop (Suc (length bs)) (data_buf s)"
    using assms by (simp add: Cons_nth_drop_Suc slave_idle_def)
  then show ?thesis using assms
    by (simp add: smbus_i2c_send_def in_write_def slave_idle_def)
qed

context smbus_provider
begin

lemma do_write_in_write:
  assumes "slave_idle s" and "dinv (dev s)" and "bs \<noteq> []" and "length bs \<le> SMBUS_DATA_MAX_LEN"
  shows "smbus_do_write sc (in_write s bs) = Some ((in_write s bs)\<lparr>dev := dwrite sc (dev s) bs\<rparr>)"
proof (cases "write_data (sc (dev s))")
  case None
  then show ?thesis by (simp add: smbus_do_write_def in_write_def dwrite_def)
next
  case (Some f)
  have "length (data_buf (in_write s bs)) = SMBUS_DATA_MAX_LEN"
    and "take (length bs) (data_buf (in_write s bs)) = bs"
    using assms by (simp_all add: in_write_def slave_idle_def)
  from dwrite_code [OF assms(2) Some this(1) assms(3,4) this(2)]
  show ?thesis using Some by (auto simp: smbus_do_write_def in_write_def)
qed

lemma event_finish_write:
  assumes "slave_idle s" and "dinv (dev s)" and "bs \<noteq> []" and "length bs \<le> SMBUS_DATA_MAX_LEN"
  shows "smbus_i2c_event sc (in_write s bs) I2C_FINISH =
    Some (0, s\<lparr>data_buf := bs @ drop (length bs) (data_buf s), dev := dwrite sc (dev s) bs\<rparr>)"
proof -
  have "data_len (in_write s bs) \<noteq> 0" and "mode (in_write s bs) = SMBUS_WRITE_DATA"
    using assms(3) by (simp_all add: in_write_def)
  then show ?thesis using do_write_in_write [OF assms] assms(1)
    by (simp add: smbus_i2c_event_def in_write_def slave_idle_def)
qed

lemma event_turn_around:
  assumes "slave_idle s" and "dinv (dev s)" and "bs \<noteq> []" and "length bs \<le> SMBUS_DATA_MAX_LEN"
  shows "smbus_i2c_event sc (in_write s bs) I2C_START_RECV =
    Some (0, (in_write s bs)\<lparr>mode := SMBUS_READ_DATA, dev := dwrite sc (dev s) bs\<rparr>)"
proof -
  have "data_len (in_write s bs) \<noteq> 0" and "mode (in_write s bs) = SMBUS_WRITE_DATA"
    using assms(3) by (simp_all add: in_write_def)
  then show ?thesis using do_write_in_write [OF assms]
    by (simp add: smbus_i2c_event_def)
qed

lemma recv_in_read:
  assumes "mode s = SMBUS_READ_DATA" and "dinv (dev s)"
  shows "smbus_i2c_recv sc s = Some (fst (drecv sc (dev s)), s\<lparr>dev := snd (drecv sc (dev s))\<rparr>)"
proof (cases "receive_byte (sc (dev s))")
  case None
  with assms show ?thesis by (simp add: smbus_i2c_recv_def drecv_def)
next
  case (Some f)
  with drecv_code [OF assms(2) Some] assms(1) show ?thesis
    by (simp add: smbus_i2c_recv_def case_prod_unfold)
qed

end

text \<open>The end of a read transfer: the master's NACK, then the stop condition.\<close>

lemma event_nack_read:
  "mode s = SMBUS_READ_DATA \<Longrightarrow> smbus_i2c_event sc s I2C_NACK = Some (0, s\<lparr>mode := SMBUS_DONE\<rparr>)"
  by (simp add: smbus_i2c_event_def)

lemma event_finish_done:
  "mode s = SMBUS_DONE \<Longrightarrow>
   smbus_i2c_event sc s I2C_FINISH = Some (0, s\<lparr>mode := SMBUS_IDLE, data_len := 0\<rparr>)"
  by (simp add: smbus_i2c_event_def)

lemma event_start_recv_idle:
  "slave_idle s \<Longrightarrow> smbus_i2c_event sc s I2C_START_RECV = Some (0, s\<lparr>mode := SMBUS_READ_DATA\<rparr>)"
  by (simp add: smbus_i2c_event_def slave_idle_def)

lemma event_finish_quick:
  "slave_idle s \<Longrightarrow> m = (if rd then SMBUS_READ_DATA else SMBUS_WRITE_DATA) \<Longrightarrow>
   smbus_i2c_event sc (s\<lparr>mode := m\<rparr>) I2C_FINISH = Some (0, s\<lparr>dev := dquick sc (dev s) rd\<rparr>)"
  by (cases "quick_cmd (sc (dev s))")
    (auto simp: smbus_i2c_event_def slave_idle_def smbus_do_quick_cmd_def dquick_def)

end
