(* ===== verification/SMBus_Master.thy ===== *)
theory SMBus_Master
  imports SMBus_Slave
begin

text \<open>
  The transactions of a bus master, \<^verbatim>\<open>hw/i2c/smbus_master.c\<close>, over the bus operations of
  \<open>I2C_Core\<close>, and their specification: on a bus between transfers each transaction is one
  write of a list of bytes to the addressed device, one sequence of reads from it, or a write
  followed by reads. \<open>bus_devs\<close> abstracts the bus to the addresses and states of its devices.
\<close>

section \<open>Transactions\<close>

type_synonym 'd sbus = "'d smbus_device i2c_bus"
type_synonym 'd sclass = "'d \<Rightarrow> 'd smbus_device_class"

abbreviation gcls :: "'d sclass \<Rightarrow> 'd smbus_device \<Rightarrow> 'd smbus_device i2c_slave_class" where
  "gcls \<equiv> smbus_device_class_init"

definition smbus_quick_command :: "'d sclass \<Rightarrow> 'd sbus \<Rightarrow> u8 \<Rightarrow> bool \<Rightarrow> (int \<times> 'd sbus) option" where
  "smbus_quick_command sc bus addr rd = do {
     (r, bus) \<leftarrow> i2c_start_transfer (gcls sc) bus addr rd;
     if r \<noteq> 0 then Some (- 1, bus)
     else do {
       bus \<leftarrow> i2c_end_transfer (gcls sc) bus;
       Some (0, bus)
     }
   }"

definition smbus_receive_byte :: "'d sclass \<Rightarrow> 'd sbus \<Rightarrow> u8 \<Rightarrow> (int \<times> 'd sbus) option" where
  "smbus_receive_byte sc bus addr = do {
     (r, bus) \<leftarrow> i2c_start_recv (gcls sc) bus addr;
     if r \<noteq> 0 then Some (- 1, bus)
     else do {
       (b, bus) \<leftarrow> i2c_recv (gcls sc) bus;
       bus \<leftarrow> i2c_nack (gcls sc) bus;
       bus \<leftarrow> i2c_end_transfer (gcls sc) bus;
       Some (uint b, bus)
     }
   }"

definition smbus_send_byte :: "'d sclass \<Rightarrow> 'd sbus \<Rightarrow> u8 \<Rightarrow> u8 \<Rightarrow> (int \<times> 'd sbus) option" where
  "smbus_send_byte sc bus addr b = do {
     (r, bus) \<leftarrow> i2c_start_send (gcls sc) bus addr;
     if r \<noteq> 0 then Some (- 1, bus)
     else do {
       (_, bus) \<leftarrow> i2c_send (gcls sc) bus b;
       bus \<leftarrow> i2c_end_transfer (gcls sc) bus;
       Some (0, bus)
     }
   }"

definition smbus_read_byte :: "'d sclass \<Rightarrow> 'd sbus \<Rightarrow> u8 \<Rightarrow> u8 \<Rightarrow> (int \<times> 'd sbus) option" where
  "smbus_read_byte sc bus addr command = do {
     (r, bus) \<leftarrow> i2c_start_send (gcls sc) bus addr;
     if r \<noteq> 0 then Some (- 1, bus)
     else do {
       (_, bus) \<leftarrow> i2c_send (gcls sc) bus command;
       (r, bus) \<leftarrow> i2c_start_recv (gcls sc) bus addr;
       if r \<noteq> 0 then do {
         bus \<leftarrow> i2c_end_transfer (gcls sc) bus;
         Some (- 1, bus)
       }
       else do {
         (b, bus) \<leftarrow> i2c_recv (gcls sc) bus;
         bus \<leftarrow> i2c_nack (gcls sc) bus;
         bus \<leftarrow> i2c_end_transfer (gcls sc) bus;
         Some (uint b, bus)
       }
     }
   }"

definition smbus_write_byte ::
  "'d sclass \<Rightarrow> 'd sbus \<Rightarrow> u8 \<Rightarrow> u8 \<Rightarrow> u8 \<Rightarrow> (int \<times> 'd sbus) option" where
  "smbus_write_byte sc bus addr command b = do {
     (r, bus) \<leftarrow> i2c_start_send (gcls sc) bus addr;
     if r \<noteq> 0 then Some (- 1, bus)
     else do {
       (_, bus) \<leftarrow> i2c_send (gcls sc) bus command;
       (_, bus) \<leftarrow> i2c_send (gcls sc) bus b;
       bus \<leftarrow> i2c_end_transfer (gcls sc) bus;
       Some (0, bus)
     }
   }"

definition smbus_read_word :: "'d sclass \<Rightarrow> 'd sbus \<Rightarrow> u8 \<Rightarrow> u8 \<Rightarrow> (int \<times> 'd sbus) option" where
  "smbus_read_word sc bus addr command = do {
     (r, bus) \<leftarrow> i2c_start_send (gcls sc) bus addr;
     if r \<noteq> 0 then Some (- 1, bus)
     else do {
       (_, bus) \<leftarrow> i2c_send (gcls sc) bus command;
       (r, bus) \<leftarrow> i2c_start_recv (gcls sc) bus addr;
       if r \<noteq> 0 then do {
         bus \<leftarrow> i2c_end_transfer (gcls sc) bus;
         Some (- 1, bus)
       }
       else do {
         (b0, bus) \<leftarrow> i2c_recv (gcls sc) bus;
         (b1, bus) \<leftarrow> i2c_recv (gcls sc) bus;
         bus \<leftarrow> i2c_nack (gcls sc) bus;
         bus \<leftarrow> i2c_end_transfer (gcls sc) bus;
         Some (uint (ucast b0 OR push_bit 8 (ucast b1) :: u16), bus)
       }
     }
   }"

definition smbus_write_word ::
  "'d sclass \<Rightarrow> 'd sbus \<Rightarrow> u8 \<Rightarrow> u8 \<Rightarrow> u16 \<Rightarrow> (int \<times> 'd sbus) option" where
  "smbus_write_word sc bus addr command w = do {
     (r, bus) \<leftarrow> i2c_start_send (gcls sc) bus addr;
     if r \<noteq> 0 then Some (- 1, bus)
     else do {
       (_, bus) \<leftarrow> i2c_send (gcls sc) bus command;
       (_, bus) \<leftarrow> i2c_send (gcls sc) bus (ucast (w AND 0xff));
       (_, bus) \<leftarrow> i2c_send (gcls sc) bus (ucast (drop_bit 8 w));
       bus \<leftarrow> i2c_end_transfer (gcls sc) bus;
       Some (0, bus)
     }
   }"

fun recv_block :: "'d sclass \<Rightarrow> nat \<Rightarrow> nat \<Rightarrow> u8 list \<Rightarrow> 'd sbus \<Rightarrow> (u8 list \<times> 'd sbus) option" where
  "recv_block sc i 0 buf bus = Some (buf, bus)"
| "recv_block sc i (Suc n) buf bus = do {
     (b, bus) \<leftarrow> i2c_recv (gcls sc) bus;
     buf \<leftarrow> arr_set buf i b;
     recv_block sc (Suc i) n buf bus
   }"

text \<open>The result carries the caller's buffer, which \<open>smbus_read_block\<close> fills in place.\<close>

definition smbus_read_block ::
  "'d sclass \<Rightarrow> 'd sbus \<Rightarrow> u8 \<Rightarrow> u8 \<Rightarrow> u8 list \<Rightarrow> nat \<Rightarrow> bool \<Rightarrow> bool
    \<Rightarrow> (int \<times> u8 list \<times> 'd sbus) option" where
  "smbus_read_block sc bus addr command buf len recv_len send_cmd = do {
     (r, bus) \<leftarrow> (if send_cmd then i2c_start_send (gcls sc) bus addr else Some (0, bus));
     if r \<noteq> 0 then Some (- 1, buf, bus)
     else do {
       (_, bus) \<leftarrow> (if send_cmd then i2c_send (gcls sc) bus command else Some (0, bus));
       (r, bus) \<leftarrow> i2c_start_recv (gcls sc) bus addr;
       if r \<noteq> 0 then do {
         bus \<leftarrow> (if send_cmd then i2c_end_transfer (gcls sc) bus else Some bus);
         Some (- 1, buf, bus)
       }
       else do {
         (rlen, bus) \<leftarrow>
           (if recv_len then do { (b, bus) \<leftarrow> i2c_recv (gcls sc) bus; Some (unat b, bus) }
            else Some (len, bus));
         let rlen = (if len < rlen then 0 else rlen);
         (buf, bus) \<leftarrow> recv_block sc 0 rlen buf bus;
         bus \<leftarrow> i2c_nack (gcls sc) bus;
         bus \<leftarrow> i2c_end_transfer (gcls sc) bus;
         Some (int rlen, buf, bus)
       }
     }
   }"

fun send_block :: "'d sclass \<Rightarrow> u8 list \<Rightarrow> nat \<Rightarrow> nat \<Rightarrow> 'd sbus \<Rightarrow> 'd sbus option" where
  "send_block sc buf i 0 bus = Some bus"
| "send_block sc buf i (Suc n) bus = do {
     b \<leftarrow> arr_get buf i;
     (_, bus) \<leftarrow> i2c_send (gcls sc) bus b;
     send_block sc buf (Suc i) n bus
   }"

definition smbus_write_block ::
  "'d sclass \<Rightarrow> 'd sbus \<Rightarrow> u8 \<Rightarrow> u8 \<Rightarrow> u8 list \<Rightarrow> nat \<Rightarrow> bool \<Rightarrow> (int \<times> 'd sbus) option" where
  "smbus_write_block sc bus addr command buf len send_len =
     (let len = (if 32 < len then 32 else len) in do {
       (r, bus) \<leftarrow> i2c_start_send (gcls sc) bus addr;
       if r \<noteq> 0 then Some (- 1, bus)
       else do {
         (_, bus) \<leftarrow> i2c_send (gcls sc) bus command;
         (_, bus) \<leftarrow> (if send_len then i2c_send (gcls sc) bus (of_nat len) else Some (0, bus));
         bus \<leftarrow> send_block sc buf 0 len bus;
         bus \<leftarrow> i2c_end_transfer (gcls sc) bus;
         Some (0, bus)
       }
     })"

section \<open>Specification\<close>

text \<open>
  The devices of a bus as a list of addresses and device states. A write transfer changes the
  first device with the address, a read transfer takes bytes from it; without such a device
  the result is \<open>-1\<close> and nothing changes.
\<close>

type_synonym 'd abus = "(u8 \<times> 'd) list"

definition bus_devs :: "'d sbus \<Rightarrow> 'd abus" where
  "bus_devs bus = map (\<lambda>s. (address s, dev s)) (children bus)"

fun find_dev :: "'d abus \<Rightarrow> u8 \<Rightarrow> nat option" where
  "find_dev [] addr = None"
| "find_dev ((a, d) # ds) addr =
     (if a = addr then Some 0 else map_option Suc (find_dev ds addr))"

definition on_dev :: "'d abus \<Rightarrow> u8 \<Rightarrow> ('d \<Rightarrow> int \<times> 'd) \<Rightarrow> int \<times> 'd abus" where
  "on_dev ds addr f =
     (case find_dev ds addr of
        None \<Rightarrow> (- 1, ds)
      | Some i \<Rightarrow> (let (r, d') = f (snd (ds ! i)) in (r, ds[i := (addr, d')])))"

definition word_of_bytes :: "u8 list \<Rightarrow> int" where
  "word_of_bytes bs = uint (ucast (bs ! 0) OR push_bit 8 (ucast (bs ! 1)) :: u16)"

text \<open>A block read: the bytes that arrive in the caller's buffer, and the device afterwards.\<close>

definition block_read_spec :: "'d sclass \<Rightarrow> nat \<Rightarrow> u8 \<Rightarrow> 'd \<Rightarrow> u8 list \<times> 'd" where
  "block_read_spec sc len c d =
     (let (b, d1) = drecv sc (dwrite sc d [c]) in drecvs sc (if len < unat b then 0 else unat b) d1)"

definition bus_ready :: "('d \<Rightarrow> bool) \<Rightarrow> 'd sbus \<Rightarrow> bool" where
  "bus_ready dinv bus =
     (bus_idle bus \<and> (\<forall>s \<in> set (children bus). slave_idle s \<and> dinv (dev s)))"

text \<open>
  A transaction refines its specification: it does not stop, leaves the bus ready for the next
  one and has the specified result and effect on the devices.
\<close>

definition tx_refines ::
  "('d \<Rightarrow> bool) \<Rightarrow> (int \<times> 'd sbus) option \<Rightarrow> int \<times> 'd abus \<Rightarrow> bool" where
  "tx_refines dinv res spec =
     (case res of None \<Rightarrow> False
      | Some (r, bus') \<Rightarrow> bus_ready dinv bus' \<and> (r, bus_devs bus') = spec)"

lemma find_dev_answers:
  "find_dev (map (\<lambda>s. (address s, dev s)) kids) addr = Some i \<longleftrightarrow> answers kids addr i"
proof (induction kids arbitrary: i)
  case Nil
  then show ?case by (simp add: answers_def)
next
  case (Cons kid kids)
  show ?case
    by (cases i) (auto simp: Cons.IH answers_def nth_Cons' split: if_splits)
qed

lemma find_dev_None:
  "find_dev (map (\<lambda>s. (address s, dev s)) kids) addr = None \<longleftrightarrow> (\<forall>kid \<in> set kids. address kid \<noteq> addr)"
  by (induction kids) auto

section \<open>The phases of a transaction\<close>

text \<open>A device in the read phase, after the bytes \<open>bs\<close> were written, and after the transfer.\<close>

definition in_read :: "'d smbus_device \<Rightarrow> u8 list \<Rightarrow> 'd \<Rightarrow> 'd smbus_device" where
  "in_read s bs d = (in_write s bs)\<lparr>mode := SMBUS_READ_DATA, dev := d\<rparr>"

definition after_tx :: "'d smbus_device \<Rightarrow> u8 list \<Rightarrow> 'd \<Rightarrow> 'd smbus_device" where
  "after_tx s bs d = s\<lparr>data_buf := bs @ drop (length bs) (data_buf s), dev := d\<rparr>"

lemma slave_idle_after_tx:
  "slave_idle s \<Longrightarrow> length bs \<le> SMBUS_DATA_MAX_LEN \<Longrightarrow> slave_idle (after_tx s bs d)"
  by (simp add: slave_idle_def after_tx_def)

lemma in_read_simps [simp]:
  "mode (in_read s bs d) = SMBUS_READ_DATA"
  "dev (in_read s bs d) = d"
  "(in_read s bs d)\<lparr>dev := d'\<rparr> = in_read s bs d'"
  by (simp_all add: in_read_def in_write_def)

lemma done_after_tx:
  "slave_idle s \<Longrightarrow>
   (in_read s bs d)\<lparr>mode := SMBUS_DONE\<rparr>\<lparr>mode := SMBUS_IDLE, data_len := 0\<rparr> = after_tx s bs d"
  by (simp add: in_read_def in_write_def after_tx_def slave_idle_def)

lemma tx_refinesI:
  assumes ready: "bus_ready dinv bus" and ans: "answers (children bus) addr i"
    and inv: "dinv d" and len: "length bs \<le> SMBUS_DATA_MAX_LEN"
  shows "tx_refines dinv (Some (r, quiet bus i (after_tx (children bus ! i) bs d)))
    (r, (bus_devs bus)[i := (addr, d)])"
proof -
  from ans have i: "i < length (children bus)" and ad: "address (children bus ! i) = addr"
    by (simp_all add: answers_def)
  with ready have "slave_idle (children bus ! i)" by (simp add: bus_ready_def)
  then have "slave_idle (after_tx (children bus ! i) bs d)"
    using len by (rule slave_idle_after_tx)
  moreover have "dev (after_tx (children bus ! i) bs d) = d"
    and "address (after_tx (children bus ! i) bs d) = addr"
    using ad by (simp_all add: after_tx_def)
  ultimately show ?thesis using ready inv i
    by (auto simp: tx_refines_def bus_ready_def bus_devs_def map_update
        dest: set_update_subset_insert [THEN subsetD])
qed

lemma tx_refines_missing:
  assumes "bus_ready dinv bus"
  shows "tx_refines dinv (Some (- 1, bus)) (- 1, bus_devs bus)"
  using assms by (simp add: tx_refines_def)

lemma on_dev_missing:
  "(\<forall>kid \<in> set (children bus). address kid \<noteq> addr) \<Longrightarrow> on_dev (bus_devs bus) addr f = (- 1, bus_devs bus)"
  by (simp add: on_dev_def bus_devs_def find_dev_None [symmetric])

lemma on_dev_present:
  "answers (children bus) addr i \<Longrightarrow>
   on_dev (bus_devs bus) addr f =
     (let (r, d') = f (dev (children bus ! i)) in (r, (bus_devs bus)[i := (addr, d')]))"
  using find_dev_answers [of "children bus" addr i]
  by (simp add: on_dev_def bus_devs_def answers_def)

lemma cls_event: "event (gcls sc s) = Some (smbus_i2c_event sc)"
  and cls_send: "send (gcls sc s) = Some smbus_i2c_send"
  and cls_recv: "recv (gcls sc s) = Some (smbus_i2c_recv sc)"
  by (simp_all add: smbus_device_class_init_def)

context smbus_provider
begin

lemma ph_start_send:
  assumes "bus_ready dinv bus" and "answers (children bus) addr i" and "addr \<noteq> I2C_BROADCAST"
  shows "i2c_start_send (gcls sc) bus addr = Some (0, talking bus i (in_write (children bus ! i) []))"
proof -
  from assms(1,2) have idle: "bus_idle bus" and si: "slave_idle (children bus ! i)"
    by (auto simp: bus_ready_def answers_def)
  show ?thesis unfolding i2c_start_send_def
    by (rule start_selects [where gc = "gcls sc", OF idle assms(2,3) cls_event event_start_send [OF si]])
qed

lemma ph_start_recv:
  assumes "bus_ready dinv bus" and "answers (children bus) addr i" and "addr \<noteq> I2C_BROADCAST"
  shows "i2c_start_recv (gcls sc) bus addr =
    Some (0, talking bus i (in_read (children bus ! i) [] (dev (children bus ! i))))"
proof -
  from assms(1,2) have idle: "bus_idle bus" and si: "slave_idle (children bus ! i)"
    by (auto simp: bus_ready_def answers_def)
  have eq: "(children bus ! i)\<lparr>mode := SMBUS_READ_DATA\<rparr> =
      in_read (children bus ! i) [] (dev (children bus ! i))"
    using si by (simp add: in_read_def in_write_def slave_idle_def)
  show ?thesis unfolding i2c_start_recv_def
    using start_selects [where gc = "gcls sc", OF idle assms(2,3) cls_event event_start_recv_idle [OF si]]
    by (simp add: eq)
qed

lemma ph_send:
  assumes "bus_ready dinv bus" and "i < length (children bus)" and "length bs < SMBUS_DATA_MAX_LEN"
  shows "i2c_send (gcls sc) (talking bus i (in_write (children bus ! i) bs)) b =
    Some (0, talking bus i (in_write (children bus ! i) (bs @ [b])))"
proof -
  from assms(1,2) have "slave_idle (children bus ! i)" by (simp add: bus_ready_def)
  from send_in_write [OF this assms(3), of b]
  show ?thesis using send_one [OF assms(2), of "gcls sc" "in_write (children bus ! i) bs"]
    by (simp add: smbus_device_class_init_def)
qed

lemma ph_end_write:
  assumes "bus_ready dinv bus" and "i < length (children bus)" and "bs \<noteq> []"
    and "length bs \<le> SMBUS_DATA_MAX_LEN"
  shows "i2c_end_transfer (gcls sc) (talking bus i (in_write (children bus ! i) bs)) =
    Some (quiet bus i (after_tx (children bus ! i) bs (dwrite sc (dev (children bus ! i)) bs)))"
proof -
  from assms(1,2) have si: "slave_idle (children bus ! i)" "dinv (dev (children bus ! i))"
    by (simp_all add: bus_ready_def)
  show ?thesis unfolding after_tx_def
    by (rule end_one [where gc = "gcls sc", OF assms(2) cls_event event_finish_write [OF si assms(3,4)]])
qed

lemma ph_turn_around:
  assumes "bus_ready dinv bus" and "i < length (children bus)" and "bs \<noteq> []"
    and "length bs \<le> SMBUS_DATA_MAX_LEN" and "addr \<noteq> I2C_BROADCAST"
  shows "i2c_start_recv (gcls sc) (talking bus i (in_write (children bus ! i) bs)) addr =
    Some (0, talking bus i (in_read (children bus ! i) bs (dwrite sc (dev (children bus ! i)) bs)))"
proof -
  from assms(1,2) have si: "slave_idle (children bus ! i)" "dinv (dev (children bus ! i))"
    by (simp_all add: bus_ready_def)
  show ?thesis unfolding i2c_start_recv_def in_read_def
    by (rule start_again [where gc = "gcls sc", OF assms(2,5) cls_event event_turn_around [OF si assms(3,4)]])
qed

lemma ph_recv:
  assumes "i < length (children bus)" and "dinv d"
  shows "i2c_recv (gcls sc) (talking bus i (in_read s bs d)) =
    Some (fst (drecv sc d), talking bus i (in_read s bs (snd (drecv sc d))))"
  using recv_one [OF assms(1), of "gcls sc" "in_read s bs d"] recv_in_read [of "in_read s bs d"] assms(2)
  by (simp add: smbus_device_class_init_def)

lemma ph_end_read:
  assumes "bus_ready dinv bus" and "i < length (children bus)"
  shows "do { b \<leftarrow> i2c_nack (gcls sc) (talking bus i (in_read (children bus ! i) bs d));
              i2c_end_transfer (gcls sc) b } =
    Some (quiet bus i (after_tx (children bus ! i) bs d))"
proof -
  from assms have si: "slave_idle (children bus ! i)" by (simp add: bus_ready_def)
  let ?s = "in_read (children bus ! i) bs d"
  have "i2c_nack (gcls sc) (talking bus i ?s) = Some (talking bus i (?s\<lparr>mode := SMBUS_DONE\<rparr>))"
    by (rule nack_one [where gc = "gcls sc", OF assms(2) cls_event event_nack_read]) simp
  moreover have "i2c_end_transfer (gcls sc) (talking bus i (?s\<lparr>mode := SMBUS_DONE\<rparr>)) =
      Some (quiet bus i (after_tx (children bus ! i) bs d))"
    unfolding done_after_tx [OF si, of bs d, symmetric]
    by (rule end_one [where gc = "gcls sc", OF assms(2) cls_event event_finish_done]) simp
  ultimately show ?thesis by simp
qed

lemma drecvs_length: "length (fst (drecvs sc n d)) = n"
  by (induction n arbitrary: d) (simp_all add: case_prod_unfold Let_def)

lemma drecvs_inv: "dinv d \<Longrightarrow> dinv (snd (drecvs sc n d))"
  by (induction n arbitrary: d) (simp_all add: case_prod_unfold Let_def drecv_inv)

lemma phase_cases:
  assumes "bus_ready dinv bus" and "addr \<noteq> I2C_BROADCAST"
  obtains (missing) "\<forall>kid \<in> set (children bus). address kid \<noteq> addr"
      "\<And>e. i2c_do_start_transfer (gcls sc) bus addr e = Some (1, bus)"
  | (present) i where "answers (children bus) addr i" "i < length (children bus)"
      "dinv (dev (children bus ! i))"
proof (cases "\<forall>kid \<in> set (children bus). address kid \<noteq> addr")
  case True
  moreover have "bus_idle bus" using assms(1) by (simp add: bus_ready_def)
  ultimately show ?thesis using start_misses [of bus addr "gcls sc"] assms(2) missing by blast
next
  case False
  then obtain i where i: "answers (children bus) addr i" using answers_exists by blast
  then have "i < length (children bus)" by (simp add: answers_def)
  with i assms(1) present show ?thesis by (auto simp: bus_ready_def)
qed

lemmas phases = ph_start_send ph_start_recv ph_send ph_end_write ph_turn_around ph_recv

text \<open>
  Every transaction starts with a start condition and gives up with \<open>-1\<close> when no device
  answers; what remains is the effect on the device that does.
\<close>

lemma tx_startI:
  assumes ready: "bus_ready dinv bus" and addr: "addr \<noteq> I2C_BROADCAST"
    and miss: "\<lbrakk>i2c_start_send (gcls sc) bus addr = Some (1, bus);
      i2c_start_recv (gcls sc) bus addr = Some (1, bus);
      \<And>rd. i2c_start_transfer (gcls sc) bus addr rd = Some (1, bus)\<rbrakk> \<Longrightarrow> res = Some (- 1, bus)"
    and hit: "\<And>i. \<lbrakk>answers (children bus) addr i; i < length (children bus); dinv (dev (children bus ! i))\<rbrakk>
      \<Longrightarrow> \<exists>bs. res = Some (fst (f (dev (children bus ! i))),
             quiet bus i (after_tx (children bus ! i) bs (snd (f (dev (children bus ! i)))))) \<and>
           length bs \<le> SMBUS_DATA_MAX_LEN \<and> dinv (snd (f (dev (children bus ! i))))"
  shows "tx_refines dinv res (on_dev (bus_devs bus) addr f)"
proof (rule phase_cases [OF ready addr])
  assume "\<forall>kid \<in> set (children bus). address kid \<noteq> addr"
    "\<And>e. i2c_do_start_transfer (gcls sc) bus addr e = Some (1, bus)"
  then show ?thesis using ready miss
    by (simp add: on_dev_missing tx_refines_missing i2c_start_send_def i2c_start_recv_def
        i2c_start_transfer_def)
next
  fix i assume i: "answers (children bus) addr i" "i < length (children bus)"
    "dinv (dev (children bus ! i))"
  from hit [OF this] obtain bs where
    "res = Some (fst (f (dev (children bus ! i))),
       quiet bus i (after_tx (children bus ! i) bs (snd (f (dev (children bus ! i))))))"
    "length bs \<le> SMBUS_DATA_MAX_LEN" "dinv (snd (f (dev (children bus ! i))))" by blast
  with tx_refinesI [OF ready i(1)] i(1) show ?thesis
    by (simp add: on_dev_present case_prod_unfold Let_def)
qed

lemma write_bytes_inv:
  "dinv d \<Longrightarrow> dinv (dwrite sc d [c])"
  "dinv d \<Longrightarrow> dinv (dwrite sc d [c, b])"
  "dinv d \<Longrightarrow> dinv (dwrite sc d [c, b, b'])"
  by (simp_all add: dwrite_inv SMBUS_DATA_MAX_LEN_def)

lemma end_read_bind:
  assumes "bus_ready dinv bus" and "i < length (children bus)"
  shows "(i2c_nack (gcls sc) (talking bus i (in_read (children bus ! i) bs d)) \<bind>
      (\<lambda>b. i2c_end_transfer (gcls sc) b \<bind> g)) = g (quiet bus i (after_tx (children bus ! i) bs d))"
  using ph_end_read [OF assms, of bs d] by (simp flip: Option.bind_assoc)

lemma quick_command_refines:
  assumes "bus_ready dinv bus" and "addr \<noteq> I2C_BROADCAST"
  shows "tx_refines dinv (smbus_quick_command sc bus addr rd)
    (on_dev (bus_devs bus) addr (\<lambda>d. (0, dquick sc d rd)))"
proof (rule tx_startI [OF assms])
  assume "\<And>rd. i2c_start_transfer (gcls sc) bus addr rd = Some (1, bus)"
  then show "smbus_quick_command sc bus addr rd = Some (- 1, bus)"
    by (simp add: smbus_quick_command_def)
next
  fix i assume i: "answers (children bus) addr i" "i < length (children bus)"
    and inv: "dinv (dev (children bus ! i))"
  let ?s = "children bus ! i" and ?m = "if rd then SMBUS_READ_DATA else SMBUS_WRITE_DATA"
  have si: "slave_idle ?s" and idle: "bus_idle bus"
    using assms(1) i by (simp_all add: bus_ready_def)
  have "smbus_i2c_event sc ?s (if rd then I2C_START_RECV else I2C_START_SEND) = Some (0, ?s\<lparr>mode := ?m\<rparr>)"
    using si by (simp add: smbus_i2c_event_def slave_idle_def)
  from start_selects [where gc = "gcls sc", OF idle i(1) assms(2) cls_event this]
    end_one [where gc = "gcls sc", OF i(2) cls_event event_finish_quick [OF si refl, of sc rd]]
  have "smbus_quick_command sc bus addr rd = Some (0, quiet bus i (?s\<lparr>dev := dquick sc (dev ?s) rd\<rparr>))"
    by (simp add: smbus_quick_command_def i2c_start_transfer_def)
  then show "\<exists>bs. smbus_quick_command sc bus addr rd =
      Some (fst (0, dquick sc (dev ?s) rd), quiet bus i (after_tx ?s bs (snd (0, dquick sc (dev ?s) rd)))) \<and>
      length bs \<le> SMBUS_DATA_MAX_LEN \<and> dinv (snd (0, dquick sc (dev ?s) rd))"
    using dquick_inv [OF inv] by (intro exI [of _ "[]"]) (simp add: after_tx_def)
qed

lemma send_byte_refines:
  assumes "bus_ready dinv bus" and "addr \<noteq> I2C_BROADCAST"
  shows "tx_refines dinv (smbus_send_byte sc bus addr b)
    (on_dev (bus_devs bus) addr (\<lambda>d. (0, dwrite sc d [b])))"
  using assms
  by (intro tx_startI exI [of _ "[b]"])
    (simp_all add: smbus_send_byte_def phases write_bytes_inv SMBUS_DATA_MAX_LEN_def)

lemma write_byte_refines:
  assumes "bus_ready dinv bus" and "addr \<noteq> I2C_BROADCAST"
  shows "tx_refines dinv (smbus_write_byte sc bus addr c b)
    (on_dev (bus_devs bus) addr (\<lambda>d. (0, dwrite sc d [c, b])))"
  using assms
  by (intro tx_startI exI [of _ "[c, b]"])
    (simp_all add: smbus_write_byte_def phases write_bytes_inv SMBUS_DATA_MAX_LEN_def)

lemma write_word_refines:
  assumes "bus_ready dinv bus" and "addr \<noteq> I2C_BROADCAST"
  shows "tx_refines dinv (smbus_write_word sc bus addr c w)
    (on_dev (bus_devs bus) addr
      (\<lambda>d. (0, dwrite sc d [c, ucast (w AND 0xff), ucast (drop_bit 8 w)])))"
  using assms
  by (intro tx_startI exI [of _ "[c, ucast (w AND 0xff), ucast (drop_bit 8 w)]"])
    (simp_all add: smbus_write_word_def phases write_bytes_inv SMBUS_DATA_MAX_LEN_def)

lemma receive_byte_refines:
  assumes "bus_ready dinv bus" and "addr \<noteq> I2C_BROADCAST"
  shows "tx_refines dinv (smbus_receive_byte sc bus addr)
    (on_dev (bus_devs bus) addr (\<lambda>d. (uint (fst (drecv sc d)), snd (drecv sc d))))"
  using assms
  by (intro tx_startI exI [of _ "[]"])
    (simp_all add: smbus_receive_byte_def phases end_read_bind drecv_inv)

lemma read_byte_refines:
  assumes "bus_ready dinv bus" and "addr \<noteq> I2C_BROADCAST"
  shows "tx_refines dinv (smbus_read_byte sc bus addr c)
    (on_dev (bus_devs bus) addr
      (\<lambda>d. (uint (fst (drecv sc (dwrite sc d [c]))), snd (drecv sc (dwrite sc d [c])))))"
  using assms
  by (intro tx_startI exI [of _ "[c]"])
    (simp_all add: smbus_read_byte_def phases end_read_bind write_bytes_inv drecv_inv SMBUS_DATA_MAX_LEN_def)

lemma read_word_refines:
  assumes "bus_ready dinv bus" and "addr \<noteq> I2C_BROADCAST"
  shows "tx_refines dinv (smbus_read_word sc bus addr c)
    (on_dev (bus_devs bus) addr
      (\<lambda>d. (word_of_bytes (fst (drecvs sc 2 (dwrite sc d [c]))), snd (drecvs sc 2 (dwrite sc d [c])))))"
  using assms
  by (intro tx_startI exI [of _ "[c]"])
    (simp_all add: smbus_read_word_def phases end_read_bind write_bytes_inv drecv_inv
      SMBUS_DATA_MAX_LEN_def numeral_2_eq_2 word_of_bytes_def case_prod_unfold Let_def)

lemma send_block_phase:
  assumes "bus_ready dinv bus" and "i < length (children bus)"
  shows "k + n \<le> length buf \<Longrightarrow> length bs + n \<le> SMBUS_DATA_MAX_LEN \<Longrightarrow>
    send_block sc buf k n (talking bus i (in_write (children bus ! i) bs)) =
    Some (talking bus i (in_write (children bus ! i) (bs @ take n (drop k buf))))"
proof (induction n arbitrary: k bs)
  case 0
  then show ?case by simp
next
  case (Suc n)
  then have "take (Suc n) (drop k buf) = buf ! k # take n (drop (Suc k) buf)"
    by (simp add: Cons_nth_drop_Suc [symmetric])
  with Suc show ?case using assms by (simp add: ph_send)
qed

lemma write_block_refines:
  assumes "bus_ready dinv bus" and "addr \<noteq> I2C_BROADCAST" and "len \<le> 32" and "len \<le> length buf"
  shows "tx_refines dinv (smbus_write_block sc bus addr c buf len True)
    (on_dev (bus_devs bus) addr (\<lambda>d. (0, dwrite sc d (c # of_nat len # take len buf))))"
  using assms
  by (intro tx_startI exI [of _ "c # of_nat len # take len buf"])
    (simp_all add: smbus_write_block_def Let_def phases send_block_phase dwrite_inv SMBUS_DATA_MAX_LEN_def)

lemma recv_block_phase:
  assumes "i < length (children bus)"
  shows "dinv d \<Longrightarrow> k + n \<le> length buf \<Longrightarrow>
    recv_block sc k n buf (talking bus i (in_read s bs d)) =
    Some (take k buf @ fst (drecvs sc n d) @ drop (k + n) buf,
      talking bus i (in_read s bs (snd (drecvs sc n d))))"
proof (induction n arbitrary: k buf d)
  case 0
  then show ?case by simp
next
  case (Suc n)
  let ?b = "fst (drecv sc d)" and ?d = "snd (drecv sc d)"
  have "take (Suc k) (buf[k := ?b]) = take k buf @ [?b]"
    using Suc.prems(2) by (simp add: take_Suc_conv_app_nth)
  with Suc show ?case using assms
    by (simp add: ph_recv drecv_inv case_prod_unfold Let_def)
qed

text \<open>
  A block read: the device's first byte is the length. A length above the caller's capacity
  counts as 0, so that the buffer is never written outside its bounds.
\<close>

lemma read_block_refines:
  assumes "bus_ready dinv bus" and "addr \<noteq> I2C_BROADCAST" and "len \<le> length buf"
  shows "\<exists>r buf' bus'. smbus_read_block sc bus addr c buf len True True = Some (r, buf', bus') \<and>
    tx_refines dinv (Some (r, bus')) (on_dev (bus_devs bus) addr
      (\<lambda>d. (int (length (fst (block_read_spec sc len c d))), snd (block_read_spec sc len c d)))) \<and>
    buf' = (case find_dev (bus_devs bus) addr of
              None \<Rightarrow> buf
            | Some i \<Rightarrow> (let bs = fst (block_read_spec sc len c (snd (bus_devs bus ! i)))
                         in bs @ drop (length bs) buf))"
proof (rule phase_cases [OF assms(1,2)])
  assume m: "\<forall>kid \<in> set (children bus). address kid \<noteq> addr"
    and "\<And>e. i2c_do_start_transfer (gcls sc) bus addr e = Some (1, bus)"
  then show ?thesis using assms(1) find_dev_None [of "children bus" addr, THEN iffD2, OF m, folded bus_devs_def]
    by (simp add: smbus_read_block_def i2c_start_send_def on_dev_missing tx_refines_missing)
next
  fix i assume i: "answers (children bus) addr i" "i < length (children bus)"
    and inv: "dinv (dev (children bus ! i))"
  let ?d = "dwrite sc (dev (children bus ! i)) [c]"
  let ?b = "fst (drecv sc ?d)" and ?d1 = "snd (drecv sc ?d)"
  define n where "n = (if len < unat ?b then 0 else unat ?b)"
  have w: "dinv ?d" "dinv ?d1" using inv by (simp_all only: write_bytes_inv drecv_inv)
  have spec: "block_read_spec sc len c (dev (children bus ! i)) = drecvs sc n ?d1"
    by (simp add: block_read_spec_def case_prod_unfold Let_def n_def)
  have n: "n \<le> length buf" using assms(3) by (simp add: n_def)
  have run: "smbus_read_block sc bus addr c buf len True True =
      Some (int n, fst (drecvs sc n ?d1) @ drop n buf,
        quiet bus i (after_tx (children bus ! i) [c] (snd (drecvs sc n ?d1))))"
    using assms i w recv_block_phase [OF i(2) w(2), of 0 n buf "children bus ! i" "[c]"] n
    by (simp add: smbus_read_block_def phases end_read_bind SMBUS_DATA_MAX_LEN_def Let_def flip: n_def)
  have "tx_refines dinv (Some (int n, quiet bus i (after_tx (children bus ! i) [c] (snd (drecvs sc n ?d1)))))
      (int n, (bus_devs bus)[i := (addr, snd (drecvs sc n ?d1))])"
    by (rule tx_refinesI [OF assms(1) i(1) drecvs_inv [OF w(2)]]) (simp add: SMBUS_DATA_MAX_LEN_def)
  moreover have "find_dev (bus_devs bus) addr = Some i" "snd (bus_devs bus ! i) = dev (children bus ! i)"
    using find_dev_answers [of "children bus" addr i] i by (simp_all add: bus_devs_def)
  ultimately show ?thesis
    using run by (simp add: on_dev_def spec drecvs_length)
qed

end

end
