(* ===== verification/Xbox_SMC.thy ===== *)
theory Xbox_SMC
  imports SMBus_Slave
begin

text \<open>
  The system management controller (a PIC) of the Xbox, \<^verbatim>\<open>hw/xbox/smbus_xbox_smc.c\<close>.

  The device record has the fields of \<open>SMBusSMCDevice\<close>; \<open>smc_requests\<close> and \<open>smc_extsmi\<close> record
  the calls that leave the device: reset and shutdown requests to the machine, and the ACPI
  events of \<open>xbox_assert_extsmi\<close>. The version string is a pointer, modelled by the bytes at the
  offsets from it (\<open>None\<close> is the null pointer). The DVD drive, the machine properties and the
  result of \<open>blk_by_name\<close> are arguments.
\<close>

section \<open>Registers\<close>

abbreviation (input) SMC_REG_VER :: u8 where "SMC_REG_VER \<equiv> 0x01"
abbreviation (input) SMC_REG_POWER :: u8 where "SMC_REG_POWER \<equiv> 0x02"
abbreviation (input) SMC_REG_POWER_RESET :: u8 where "SMC_REG_POWER_RESET \<equiv> 0x01"
abbreviation (input) SMC_REG_POWER_CYCLE :: u8 where "SMC_REG_POWER_CYCLE \<equiv> 0x40"
abbreviation (input) SMC_REG_POWER_SHUTDOWN :: u8 where "SMC_REG_POWER_SHUTDOWN \<equiv> 0x80"
abbreviation (input) SMC_REG_TRAYSTATE :: u8 where "SMC_REG_TRAYSTATE \<equiv> 0x03"
abbreviation (input) SMC_REG_TRAYSTATE_OPEN :: u8 where "SMC_REG_TRAYSTATE_OPEN \<equiv> 0x10"
abbreviation (input) SMC_REG_TRAYSTATE_NO_MEDIA_DETECTED :: u8 where "SMC_REG_TRAYSTATE_NO_MEDIA_DETECTED \<equiv> 0x40"
abbreviation (input) SMC_REG_TRAYSTATE_MEDIA_DETECTED :: u8 where "SMC_REG_TRAYSTATE_MEDIA_DETECTED \<equiv> 0x60"
abbreviation (input) SMC_REG_AVPACK :: u8 where "SMC_REG_AVPACK \<equiv> 0x04"
abbreviation (input) SMC_REG_ERROR_WRITE :: u8 where "SMC_REG_ERROR_WRITE \<equiv> 0x0e"
abbreviation (input) SMC_REG_ERROR_READ :: u8 where "SMC_REG_ERROR_READ \<equiv> 0x0f"
abbreviation (input) SMC_REG_INTSTATUS :: u8 where "SMC_REG_INTSTATUS \<equiv> 0x11"
abbreviation (input) SMC_REG_INTSTATUS_POWER :: u8 where "SMC_REG_INTSTATUS_POWER \<equiv> 0x01"
abbreviation (input) SMC_REG_INTSTATUS_TRAYCLOSED :: u8 where "SMC_REG_INTSTATUS_TRAYCLOSED \<equiv> 0x02"
abbreviation (input) SMC_REG_INTSTATUS_TRAYOPENING :: u8 where "SMC_REG_INTSTATUS_TRAYOPENING \<equiv> 0x04"
abbreviation (input) SMC_REG_INTSTATUS_EJECT_BUTTON :: u8 where "SMC_REG_INTSTATUS_EJECT_BUTTON \<equiv> 0x20"
abbreviation (input) SMC_REG_SCRATCH :: u8 where "SMC_REG_SCRATCH \<equiv> 0x1b"
abbreviation (input) SMC_REG_SCRATCH_SHORT_ANIMATION :: u8 where "SMC_REG_SCRATCH_SHORT_ANIMATION \<equiv> 0x04"
definition SMC_VERSION_LENGTH :: nat where "SMC_VERSION_LENGTH = 3"

section \<open>State\<close>

datatype machine_request = RESET_REQUEST | SHUTDOWN_REQUEST

record smc_device =
  smc_version_string :: "(int \<Rightarrow> u8) option"
  smc_version_string_index :: u32
  smc_cmd :: u8
  smc_traystate_reg :: u8
  smc_avpack_reg :: u8
  smc_intstatus_reg :: u8
  smc_scratch_reg :: u8
  smc_error_reg :: u8
  smc_requests :: "machine_request list"
  smc_extsmi :: nat

section \<open>SMBus callbacks\<close>

definition smc_quick_cmd :: "smc_device \<Rightarrow> u8 \<Rightarrow> smc_device" where
  "smc_quick_cmd smc rd = smc"

definition smc_write_reg :: "smc_device \<Rightarrow> u8 \<Rightarrow> u8 \<Rightarrow> smc_device" where
  "smc_write_reg smc cmd v =
     (if cmd = SMC_REG_VER then smc\<lparr>smc_version_string_index := ucast v\<rparr>
      else if cmd = SMC_REG_POWER then
        (if v AND (SMC_REG_POWER_RESET OR SMC_REG_POWER_CYCLE) \<noteq> 0
         then smc\<lparr>smc_requests := smc_requests smc @ [RESET_REQUEST]\<rparr>
         else if v AND SMC_REG_POWER_SHUTDOWN \<noteq> 0
         then smc\<lparr>smc_requests := smc_requests smc @ [SHUTDOWN_REQUEST]\<rparr>
         else smc)
      else if cmd = SMC_REG_ERROR_WRITE then smc\<lparr>smc_error_reg := v\<rparr>
      else if cmd = SMC_REG_SCRATCH then smc\<lparr>smc_scratch_reg := v\<rparr>
      else smc)"

definition smc_write_data :: "smc_device \<Rightarrow> u8 list \<Rightarrow> u8 \<Rightarrow> (int \<times> smc_device) option" where
  "smc_write_data smc buf len = do {
     cmd \<leftarrow> arr_get buf 0;
     let smc = smc\<lparr>smc_cmd := cmd\<rparr>;
     let len = len - 1;
     if len < 1 then Some (0, smc)
     else do {
       v \<leftarrow> arr_get buf 1;
       Some (0, smc_write_reg smc cmd v)
     }
   }"

definition smc_receive_byte :: "smc_device \<Rightarrow> (u8 \<times> smc_device) option" where
  "smc_receive_byte smc0 =
     (let cmd = smc_cmd smc0; smc = smc0\<lparr>smc_cmd := cmd + 1\<rparr> in
      if cmd = SMC_REG_VER then do {
        str \<leftarrow> smc_version_string smc;
        let i = smc_version_string_index smc;
        Some (str (c_rem (sint i) (int SMC_VERSION_LENGTH)), smc\<lparr>smc_version_string_index := i + 1\<rparr>)
      }
      else if cmd = SMC_REG_TRAYSTATE then Some (smc_traystate_reg smc, smc)
      else if cmd = SMC_REG_SCRATCH then Some (smc_scratch_reg smc, smc)
      else if cmd = SMC_REG_AVPACK then Some (smc_avpack_reg smc, smc)
      else if cmd = SMC_REG_ERROR_READ then Some (smc_error_reg smc, smc)
      else if cmd = SMC_REG_INTSTATUS then Some (smc_intstatus_reg smc, smc\<lparr>smc_intstatus_reg := 0\<rparr>)
      else if cmd = 0x1c then Some (0x52, smc)
      else if cmd = 0x1d then Some (0x72, smc)
      else if cmd = 0x1e then Some (0xea, smc)
      else if cmd = 0x1f then Some (0x46, smc)
      else Some (0, smc))"

section \<open>Host side\<close>

definition xbox_smc_avpack_to_reg :: "string \<Rightarrow> u8 option" where
  "xbox_smc_avpack_to_reg avpack =
     (if avpack = ''composite'' then Some 0x06
      else if avpack = ''scart'' then Some 0x00
      else if avpack = ''svideo'' then Some 0x04
      else if avpack = ''vga'' then Some 0x02
      else if avpack = ''rfu'' then Some 0x03
      else if avpack = ''hdtv'' then Some 0x01
      else if avpack = ''none'' then Some 0x07
      else None)"

record dvd_drive =
  tray_open :: bool
  medium_loaded :: bool   \<comment> \<open>\<open>bs && bs->drv\<close>\<close>

definition xbox_assert_extsmi :: "smc_device \<Rightarrow> smc_device" where
  "xbox_assert_extsmi smc = smc\<lparr>smc_extsmi := smc_extsmi smc + 1\<rparr>"

definition xbox_smc_power_button :: "smc_device \<Rightarrow> smc_device" where
  "xbox_smc_power_button smc =
     xbox_assert_extsmi (smc\<lparr>smc_intstatus_reg := smc_intstatus_reg smc OR SMC_REG_INTSTATUS_POWER\<rparr>)"

definition xbox_smc_eject_button :: "smc_device \<Rightarrow> smc_device" where
  "xbox_smc_eject_button smc =
     xbox_assert_extsmi
       (smc\<lparr>smc_intstatus_reg := smc_intstatus_reg smc OR SMC_REG_INTSTATUS_EJECT_BUTTON\<rparr>)"

definition xbox_smc_update_tray_state :: "dvd_drive option \<Rightarrow> smc_device \<Rightarrow> smc_device option" where
  "xbox_smc_update_tray_state blk smc = do {
     d \<leftarrow> blk;
     let smc =
       (if tray_open d
        then smc\<lparr>smc_traystate_reg := SMC_REG_TRAYSTATE_OPEN,
                 smc_intstatus_reg := smc_intstatus_reg smc OR SMC_REG_INTSTATUS_TRAYOPENING\<rparr>
        else smc\<lparr>smc_traystate_reg :=
                   (if medium_loaded d then SMC_REG_TRAYSTATE_MEDIA_DETECTED
                    else SMC_REG_TRAYSTATE_NO_MEDIA_DETECTED),
                 smc_intstatus_reg := smc_intstatus_reg smc OR SMC_REG_INTSTATUS_TRAYCLOSED\<rparr>);
     Some (xbox_assert_extsmi smc)
   }"

datatype smc_error = UNSUPPORTED_AVPACK string | UNSUPPORTED_VERSION string

text \<open>
  \<open>error_setg\<close> on an error that is already set is a failed assertion (\<^verbatim>\<open>util/error.c\<close>).
\<close>

definition error_setg :: "'e option \<Rightarrow> 'e \<Rightarrow> 'e option option" where
  "error_setg err e = (case err of None \<Rightarrow> Some (Some e) | Some _ \<Rightarrow> None)"

text \<open>\<open>g_strdup\<close>: the bytes of the string and its terminator; \<open>junk\<close> is the memory around it.\<close>

definition g_strdup :: "(int \<Rightarrow> u8) \<Rightarrow> string \<Rightarrow> int \<Rightarrow> u8" where
  "g_strdup junk str k =
     (if 0 \<le> k \<and> k < int (length str) then of_char (str ! nat k)
      else if k = int (length str) then 0 else junk k)"

definition smbus_smc_realize ::
  "bool \<Rightarrow> string option \<Rightarrow> string option \<Rightarrow> (int \<Rightarrow> u8) \<Rightarrow> dvd_drive option \<Rightarrow> smc_device
    \<Rightarrow> (smc_device \<times> smc_error option) option" where
  "smbus_smc_realize short_animation avpack smc_version junk blk smc = do {
     let smc = smc\<lparr>smc_version_string := None, smc_version_string_index := 0, smc_traystate_reg := 0,
       smc_avpack_reg := 0, smc_intstatus_reg := 0, smc_scratch_reg := 0, smc_cmd := 0,
       smc_error_reg := 0\<rparr>;
     let smc = (if short_animation
       then smc\<lparr>smc_scratch_reg := SMC_REG_SCRATCH_SHORT_ANIMATION\<rparr> else smc);
     (smc, err) \<leftarrow>
       (case avpack of
          None \<Rightarrow> Some (smc, None)
        | Some a \<Rightarrow>
            (case xbox_smc_avpack_to_reg a of
               Some r \<Rightarrow> Some (smc\<lparr>smc_avpack_reg := r\<rparr>, None)
             | None \<Rightarrow> do { err \<leftarrow> error_setg None (UNSUPPORTED_AVPACK a); Some (smc, err) }));
     (smc, err) \<leftarrow>
       (case smc_version of
          None \<Rightarrow> Some (smc, err)
        | Some v \<Rightarrow> do {
            err \<leftarrow> (if length v \<noteq> SMC_VERSION_LENGTH
                    then error_setg err (UNSUPPORTED_VERSION v) else Some err);
            Some (smc\<lparr>smc_version_string := Some (g_strdup junk v)\<rparr>, err)
          });
     smc \<leftarrow> xbox_smc_update_tray_state blk smc;
     Some (smc, err)
   }"

section \<open>Properties\<close>

text \<open>A realized device has its version string; this is all its callbacks need.\<close>

definition smc_inv :: "smc_device \<Rightarrow> bool" where
  "smc_inv smc = (smc_version_string smc \<noteq> None)"

definition smc_class :: "smc_device smbus_device_class" where
  "smc_class = \<lparr>quick_cmd = Some smc_quick_cmd, write_data = Some smc_write_data,
     receive_byte = Some smc_receive_byte\<rparr>"

lemma smc_write_reg_inv: "smc_inv smc \<Longrightarrow> smc_inv (smc_write_reg smc cmd v)"
  by (simp add: smc_inv_def smc_write_reg_def)

lemma smc_receive_ok: "smc_inv smc \<Longrightarrow> \<exists>b smc'. smc_receive_byte smc = Some (b, smc') \<and> smc_inv smc'"
  by (auto simp: smc_inv_def smc_receive_byte_def Let_def)

lemma update_tray_version:
  "xbox_smc_update_tray_state blk smc = Some smc' \<Longrightarrow> smc_version_string smc' = smc_version_string smc"
  by (auto simp: xbox_smc_update_tray_state_def xbox_assert_extsmi_def bind_eq_Some_conv Let_def)

lemma smc_realize_inv:
  assumes "smbus_smc_realize sa av (Some v) junk blk smc = Some (smc', err)"
  shows "smc_inv smc'"
proof -
  from assms obtain smc1 where "xbox_smc_update_tray_state blk smc1 = Some smc'"
    and "smc_version_string smc1 = Some (g_strdup junk v)"
    unfolding smbus_smc_realize_def Let_def by (fastforce simp: bind_eq_Some_conv)
  then show ?thesis using update_tray_version by (simp add: smc_inv_def)
qed

lemma smc_write_eq:
  "length buf = SMBUS_DATA_MAX_LEN \<Longrightarrow> smc_write_data d buf len =
     Some (0, if len - 1 < 1 then d\<lparr>smc_cmd := buf ! 0\<rparr>
              else smc_write_reg (d\<lparr>smc_cmd := buf ! 0\<rparr>) (buf ! 0) (buf ! 1))"
  by (simp add: smc_write_data_def SMBUS_DATA_MAX_LEN_def Let_def)

lemma smc_write_ok:
  assumes "smc_inv d" "length buf = SMBUS_DATA_MAX_LEN"
  shows "\<exists>r d'. smc_write_data d buf len = Some (r, d') \<and> smc_inv d'"
proof -
  have "smc_inv (d\<lparr>smc_cmd := buf ! 0\<rparr>)" using assms by (simp add: smc_inv_def)
  then show ?thesis using assms(2) by (simp add: smc_write_eq smc_write_reg_inv)
qed

lemma smc_write_local:
  assumes len: "length buf = SMBUS_DATA_MAX_LEN" "length buf' = SMBUS_DATA_MAX_LEN" "0 < len"
    and eq: "take (unat len) buf = take (unat len) buf'"
  shows "smc_write_data d buf len = smc_write_data d buf' len"
proof -
  have n: "0 < unat len" "unat (len - 1) = unat len - 1"
    using len(3) unat_minus_one_u8 [of len] by (auto simp: word_neq_0_conv word_less_nat_alt)
  then have "buf ! 0 = buf' ! 0" by (intro take_eq_nth [OF eq])
  moreover have "buf ! 1 = buf' ! 1" if "\<not> len - 1 < 1"
  proof (rule take_eq_nth [OF eq])
    show "1 < unat len" using that n by (simp add: word_less_nat_alt)
  qed
  ultimately show ?thesis by (simp only: smc_write_eq len cong: if_cong) simp
qed

interpretation smcp: smbus_provider "\<lambda>_. smc_class" smc_inv
proof unfold_locales
  fix d :: smc_device and f
  assume inv: "smc_inv d"
  show "\<exists>r d'. f d buf len = Some (r, d') \<and> smc_inv d'"
    if "write_data smc_class = Some f" "length buf = SMBUS_DATA_MAX_LEN" for buf len
    using that smc_write_ok [OF inv] by (auto simp: smc_class_def)
  show "f d buf len = f d buf' len"
    if "write_data smc_class = Some f" "length buf = SMBUS_DATA_MAX_LEN"
      "length buf' = SMBUS_DATA_MAX_LEN" "0 < len" "take (unat len) buf = take (unat len) buf'"
    for buf buf' len
    using that smc_write_local [OF that(2-5)] by (auto simp: smc_class_def)
next
  fix d :: smc_device and f
  assume "smc_inv d" "receive_byte smc_class = Some f"
  then show "\<exists>b d'. f d = Some (b, d') \<and> smc_inv d'"
    using smc_receive_ok [of d] by (auto simp: smc_class_def)
next
  fix d :: smc_device and f rd
  assume "smc_inv d" "quick_cmd smc_class = Some f"
  then show "smc_inv (f d rd)" by (auto simp: smc_class_def smc_quick_cmd_def)
qed

section \<open>Version string and interrupt status\<close>

abbreviation smcc :: "smc_device \<Rightarrow> smc_device smbus_device_class" where
  "smcc \<equiv> \<lambda>_. smc_class"

lemma smc_select [simp]: "dwrite smcc smc [r] = smc\<lparr>smc_cmd := r\<rparr>"
  by (simp add: dwrite_def smc_class_def smc_write_eq pad_buf_def SMBUS_DATA_MAX_LEN_def)

lemma smc_drecv: "drecv smcc smc = (case smc_receive_byte smc of None \<Rightarrow> (0xff, smc) | Some r \<Rightarrow> r)"
  by (simp add: drecv_def smc_class_def)

text \<open>Reading a register \<open>n\<close> times, each time selecting it first.\<close>

fun smc_reads :: "u8 \<Rightarrow> nat \<Rightarrow> smc_device \<Rightarrow> u8 list \<times> smc_device" where
  "smc_reads r 0 smc = ([], smc)"
| "smc_reads r (Suc n) smc =
     (let (b, smc) = drecv smcc (dwrite smcc smc [r]); (bs, smc) = smc_reads r n smc in (b # bs, smc))"

lemma smc_version_read:
  assumes v: "smc_version_string smc = Some (g_strdup junk v)" "length v = 3"
    and i: "unat (smc_version_string_index smc) < 2 ^ 31"
  shows "drecv smcc (dwrite smcc smc [SMC_REG_VER]) =
    (of_char (v ! (unat (smc_version_string_index smc) mod 3)),
     smc\<lparr>smc_cmd := SMC_REG_VER + 1, smc_version_string_index := smc_version_string_index smc + 1\<rparr>)"
proof -
  have "sint (smc_version_string_index smc) = int (unat (smc_version_string_index smc))"
    by (rule sint_u32_nonneg [OF i])
  then show ?thesis
    using v by (simp add: smc_drecv smc_receive_byte_def Let_def c_rem_nonneg g_strdup_def
        SMC_VERSION_LENGTH_def nat_mod_distrib)
qed

text \<open>The version register of the system management controller shows the three characters of the
  version string one after the other and starts over: the \<open>j\<close>-th of \<open>n\<close> reads gives the character
  at the index plus \<open>j\<close> modulo 3, as long as the signed index does not overflow.\<close>

theorem smc_version_cycles:
  assumes "smc_version_string smc = Some (g_strdup junk v)" "length v = 3"
    and "unat (smc_version_string_index smc) + n \<le> 2 ^ 31"
  shows "fst (smc_reads SMC_REG_VER n smc) =
    map (\<lambda>j. of_char (v ! ((unat (smc_version_string_index smc) + j) mod 3))) [0..<n]"
  using assms
proof (induction n arbitrary: smc)
  case 0
  then show ?case by simp
next
  case (Suc n)
  let ?i = "smc_version_string_index smc"
  have i: "unat ?i < 2 ^ 31" and u: "unat (?i + 1) = unat ?i + 1"
    using Suc.prems(3) by (simp_all add: unat_word_ariths)
  show ?case
    using Suc.prems u
      Suc.IH [of "smc\<lparr>smc_cmd := SMC_REG_VER + 1, smc_version_string_index := ?i + 1\<rparr>"]
    by (simp add: smc_version_read [OF Suc.prems(1,2) i] case_prod_unfold Let_def map_upt_Suc del: upt_Suc smc_select)
qed

theorem smc_version_cycles_witness:
  "fst (smc_reads SMC_REG_VER 4 (\<lparr>smc_version_string = Some (g_strdup (\<lambda>_. 0) ''P01''),
      smc_version_string_index = 0, smc_cmd = 0, smc_traystate_reg = 0, smc_avpack_reg = 0,
      smc_intstatus_reg = 0, smc_scratch_reg = 0, smc_error_reg = 0, smc_requests = [], smc_extsmi = 0\<rparr>))
    = map (\<lambda>j. of_char (''P01'' ! ((unat (0 :: u32) + j) mod 3))) [0..<4]"
  using smc_version_cycles [where n = 4 and v = "''P01''" and smc = "\<lparr>smc_version_string =
      Some (g_strdup (\<lambda>_. 0) ''P01''), smc_version_string_index = 0, smc_cmd = 0, smc_traystate_reg = 0,
      smc_avpack_reg = 0, smc_intstatus_reg = 0, smc_scratch_reg = 0, smc_error_reg = 0,
      smc_requests = [], smc_extsmi = 0\<rparr>" and junk = "\<lambda>_. 0"]
  by simp

text \<open>What the host does between two reads of the interrupt status.\<close>

datatype smc_host_event = POWER_BUTTON | EJECT_BUTTON | TRAY dvd_drive

fun smc_host :: "smc_host_event \<Rightarrow> smc_device \<Rightarrow> smc_device option" where
  "smc_host POWER_BUTTON smc = Some (xbox_smc_power_button smc)"
| "smc_host EJECT_BUTTON smc = Some (xbox_smc_eject_button smc)"
| "smc_host (TRAY d) smc = xbox_smc_update_tray_state (Some d) smc"

fun smc_hosts :: "smc_host_event list \<Rightarrow> smc_device \<Rightarrow> smc_device option" where
  "smc_hosts [] smc = Some smc"
| "smc_hosts (e # es) smc = do { smc \<leftarrow> smc_host e smc; smc_hosts es smc }"

fun smc_event_bit :: "smc_host_event \<Rightarrow> u8" where
  "smc_event_bit POWER_BUTTON = SMC_REG_INTSTATUS_POWER"
| "smc_event_bit EJECT_BUTTON = SMC_REG_INTSTATUS_EJECT_BUTTON"
| "smc_event_bit (TRAY d) =
     (if tray_open d then SMC_REG_INTSTATUS_TRAYOPENING else SMC_REG_INTSTATUS_TRAYCLOSED)"

lemma smc_hosts_effect:
  "\<exists>smc'. smc_hosts es smc = Some smc'
    \<and> smc_intstatus_reg smc' = foldr (\<lambda>e acc. smc_event_bit e OR acc) es (smc_intstatus_reg smc)
    \<and> smc_extsmi smc' = smc_extsmi smc + length es"
proof (induction es arbitrary: smc)
  case (Cons e es)
  have swap: "foldr (\<lambda>e acc. smc_event_bit e OR acc) es (a OR b) =
      b OR foldr (\<lambda>e acc. smc_event_bit e OR acc) es a" for a b
    by (induction es) (simp_all add: ac_simps)
  obtain smc1 where "smc_host e smc = Some smc1"
    "smc_intstatus_reg smc1 = smc_intstatus_reg smc OR smc_event_bit e" "smc_extsmi smc1 = smc_extsmi smc + 1"
    by (cases e) (auto simp: xbox_smc_power_button_def xbox_smc_eject_button_def xbox_assert_extsmi_def
        xbox_smc_update_tray_state_def Let_def)
  with Cons.IH [of smc1] show ?case by (auto simp: swap)
qed simp

lemma smc_intstatus_reads:
  "fst (smc_reads SMC_REG_INTSTATUS (Suc (Suc 0)) smc) = [smc_intstatus_reg smc, 0]"
  by (simp add: smc_drecv smc_receive_byte_def Let_def)

text \<open>C11: No button press and no tray change is lost: after any sequence of them the guest's read of the
  interrupt status gives the old status with the bit of every event set, each event has
  raised one external interrupt, and the next read gives 0.\<close>

theorem smc_intstatus_collects:
  "\<exists>smc'. smc_hosts es smc = Some smc' \<and> smc_extsmi smc' = smc_extsmi smc + length es
    \<and> fst (smc_reads SMC_REG_INTSTATUS 2 smc') =
        [foldr (\<lambda>e acc. smc_event_bit e OR acc) es (smc_intstatus_reg smc), 0]"
  using smc_hosts_effect [of es smc] smc_intstatus_reads unfolding numeral_2_eq_2 by metis

end
