(* ===== verification/SMBus_Storage.thy ===== *)
theory SMBus_Storage
  imports SMBus_Slave
begin

text \<open>
  The file backed storage device of the SMBus, \<^verbatim>\<open>hw/xbox/smbus_storage.c\<close>, which is the EEPROM
  of the machine.

  The host file is a record: its bytes, whether it can be opened for reading and for writing,
  and how many bytes one \<open>read\<close> or \<open>write\<close> call transfers at most. Array accesses are checked, so
  an access outside \<open>s->data\<close> is \<open>None\<close>. The lemmas show that no access is out of bounds when the
  size is at least 256, that a write followed by a read returns the bytes written, wrapping at
  the end of the storage, and that a persistent write leaves the file equal to the storage.
\<close>

section \<open>State\<close>

record host_file =
  hf_bytes :: "u8 list"
  hf_readable :: bool
  hf_writable :: bool
  hf_read_max :: nat
  hf_write_max :: nat

record storage_device =
  st_file :: "host_file option"
  st_data :: "u8 list"
  st_size :: u32
  st_addr :: u8
  st_offset :: u32
  st_persist :: bool

datatype storage_error = SIZE_MISMATCH int u32 | NOT_OPENED | READ_FAILURE | FILE_UNSPECIFIED

section \<open>Host file calls\<close>

definition get_image_size :: "host_file \<Rightarrow> int" where
  "get_image_size f = (if hf_readable f then int (length (hf_bytes f)) else -1)"

definition host_read :: "host_file \<Rightarrow> nat \<Rightarrow> u8 list" where
  "host_read f n = take (min n (hf_read_max f)) (hf_bytes f)"

text \<open>\<open>write\<close> at offset 0 of a file opened without \<open>O_TRUNC\<close> replaces a prefix.\<close>

definition host_write :: "host_file \<Rightarrow> u8 list \<Rightarrow> nat \<times> host_file" where
  "host_write f bs =
     (let out = take (hf_write_max f) bs
      in (length out, f\<lparr>hf_bytes := out @ drop (length out) (hf_bytes f)\<rparr>))"

section \<open>Operations\<close>

definition smbus_storage_realize :: "storage_device \<Rightarrow> storage_device \<times> storage_error option" where
  "smbus_storage_realize s =
     (let s = s\<lparr>st_data := replicate (unat (st_size s)) 0, st_offset := 0\<rparr> in
      case st_file s of
        None \<Rightarrow> (s, Some FILE_UNSPECIFIED)
      | Some f \<Rightarrow>
          (let size = get_image_size f in
           if word_of_int size \<noteq> st_size s then (s, Some (SIZE_MISMATCH size (st_size s)))
           else if \<not> hf_readable f then (s, Some NOT_OPENED)
           else
             (let bs = host_read f (unat (st_size s)); s = s\<lparr>st_data := blit (st_data s) 0 bs\<rparr> in
              if of_nat (length bs) \<noteq> st_size s then (s, Some READ_FAILURE)
              else (s, None))))"

text \<open>The loop of \<open>smbus_storage_write_data\<close>: \<open>p\<close> is the position in the buffer, \<open>n\<close> the count left.\<close>

fun storage_store :: "u8 list \<Rightarrow> nat \<Rightarrow> nat \<Rightarrow> storage_device \<Rightarrow> storage_device option" where
  "storage_store buf p 0 s = Some s"
| "storage_store buf p (Suc n) s = do {
     v \<leftarrow> arr_get buf p;
     d \<leftarrow> arr_set (st_data s) (unat (st_offset s)) v;
     assert_that (st_size s \<noteq> 0);
     storage_store buf (Suc p) n (s\<lparr>st_data := d, st_offset := (st_offset s + 1) mod st_size s\<rparr>)
   }"

definition smbus_storage_write_data ::
  "storage_device \<Rightarrow> u8 list \<Rightarrow> u8 \<Rightarrow> (int \<times> storage_device) option" where
  "smbus_storage_write_data s buf len = do {
     off \<leftarrow> arr_get buf 0;
     let len = len - 1;
     let changed = (len > 0);
     s \<leftarrow> storage_store buf 1 (unat len) (s\<lparr>st_offset := ucast off\<rparr>);
     Some (case st_file s of
       Some f \<Rightarrow>
         (if changed \<and> st_persist s then
            (if \<not> hf_writable f then (-1, s)
             else
               (let (wc, f') = host_write f (take (unat (st_size s)) (st_data s)) in
                (if of_nat wc \<noteq> st_size s then -1 else 0, s\<lparr>st_file := Some f'\<rparr>)))
          else (0, s))
     | None \<Rightarrow> (0, s))
   }"

definition smbus_storage_receive_byte :: "storage_device \<Rightarrow> (u8 \<times> storage_device) option" where
  "smbus_storage_receive_byte s = do {
     v \<leftarrow> arr_get (st_data s) (unat (st_offset s));
     assert_that (st_size s \<noteq> 0);
     Some (v, s\<lparr>st_offset := (st_offset s + 1) mod st_size s\<rparr>)
   }"

definition storage_class :: "storage_device smbus_device_class" where
  "storage_class = \<lparr>quick_cmd = None, write_data = Some smbus_storage_write_data,
     receive_byte = Some smbus_storage_receive_byte\<rparr>"

section \<open>Invariant\<close>

text \<open>
  The buffer has the size of the device, the offset is inside it, and the size is at least 256, as
  the default of the property is, so that every command byte is a valid offset.
\<close>

definition storage_inv :: "storage_device \<Rightarrow> bool" where
  "storage_inv s = (length (st_data s) = unat (st_size s) \<and> 256 \<le> unat (st_size s)
     \<and> unat (st_offset s) < unat (st_size s))"

lemma unat_next_offset:
  fixes off :: u32 and size :: u32
  assumes "unat off < unat size"
  shows "unat ((off + 1) mod size) = (unat off + 1) mod unat size"
proof -
  have "unat off + 1 < 2 ^ LENGTH(32)" 
    using assms unat_u32_bound [of size] by simp
  then have "unat (off + 1) = unat off + 1" by (simp add: unat_word_ariths)
  then show ?thesis by (simp add: unat_mod_distrib)
qed

lemma storage_store_eq:
  assumes "storage_inv s" "p + n \<le> length buf"
  shows "storage_store buf p n s =
    Some (s\<lparr>st_data := ring_put (st_data s) (unat (st_offset s)) (take n (drop p buf)),
            st_offset := of_nat ((unat (st_offset s) + n) mod unat (st_size s))\<rparr>)"
  using assms
proof (induction n arbitrary: p s)
  case 0
  then show ?case by (simp add: storage_inv_def)
next
  case (Suc n)
  let ?s = "s\<lparr>st_data := (st_data s)[unat (st_offset s) := buf ! p],
    st_offset := (st_offset s + 1) mod st_size s\<rparr>"
  have off: "unat (st_offset s) < unat (st_size s)" using Suc.prems by (simp add: storage_inv_def)
  then have nz: "st_size s \<noteq> 0" by auto
  have inv: "storage_inv ?s"
    using Suc.prems off unat_next_offset [OF off] by (simp add: storage_inv_def)
  have drop: "take (Suc n) (drop p buf) = buf ! p # take n (drop (Suc p) buf)"
    using Suc.prems by (simp add: Cons_nth_drop_Suc [symmetric])
  have "storage_store buf p (Suc n) s = storage_store buf (Suc p) n ?s"
    using Suc.prems nz by (simp add: storage_inv_def)
  then show ?case
    using Suc.IH [OF inv, of "Suc p"] Suc.prems
    by (simp add: unat_next_offset [OF off] drop mod_simps storage_inv_def)
qed

text \<open>The device after a write of the bytes \<open>bs\<close> at \<open>off\<close>: the ring is updated, then the file.\<close>

definition storage_written :: "storage_device \<Rightarrow> nat \<Rightarrow> u8 list \<Rightarrow> storage_device" where
  "storage_written s off bs =
     s\<lparr>st_data := ring_put (st_data s) off bs,
       st_offset := of_nat ((off + length bs) mod unat (st_size s)),
       st_file := (case st_file s of
           Some f \<Rightarrow> Some (if bs \<noteq> [] \<and> st_persist s \<and> hf_writable f
                         then snd (host_write f (ring_put (st_data s) off bs)) else f)
         | None \<Rightarrow> None)\<rparr>"

definition storage_status :: "storage_device \<Rightarrow> u8 list \<Rightarrow> int" where
  "storage_status s bs =
     (case st_file s of
        Some f \<Rightarrow>
          (if bs \<noteq> [] \<and> st_persist s
             \<and> (\<not> hf_writable f \<or> of_nat (min (hf_write_max f) (unat (st_size s))) \<noteq> st_size s)
           then -1 else 0)
      | None \<Rightarrow> 0)"

lemma storage_inv_start: "storage_inv s \<Longrightarrow> storage_inv (s\<lparr>st_offset := ucast (off :: u8)\<rparr>)"
  by (auto simp: storage_inv_def intro: less_le_trans [OF unat_u8_bound])

lemma storage_write_eq:
  assumes inv: "storage_inv s" and len: "0 < len" "unat len \<le> length buf"
  shows "smbus_storage_write_data s buf len =
    Some (storage_status s (take (unat len - 1) (drop 1 buf)),
          storage_written s (unat (buf ! 0)) (take (unat len - 1) (drop 1 buf)))"
proof -
  have l: "unat (len - 1) = unat len - 1" "0 < unat len"
    using len unat_minus_one_u8 [of len] by (auto simp: word_neq_0_conv word_less_nat_alt)
  define bs where "bs = take (unat len - 1) (drop 1 buf)"
  have bs: "length bs = unat len - 1" "(0 < len - 1) = (bs \<noteq> [])"
    using l len unfolding bs_def by (auto simp: word_less_nat_alt)
  define s1 where "s1 = s\<lparr>st_data := ring_put (st_data s) (unat (buf ! 0)) bs,
    st_offset := of_nat ((unat (buf ! 0) + length bs) mod unat (st_size s))\<rparr>"
  have "storage_store buf 1 (unat len - 1) (s\<lparr>st_offset := ucast (buf ! 0)\<rparr>) = Some s1"
    using storage_store_eq [OF storage_inv_start [OF inv, of "buf ! 0"], of 1 "unat len - 1" buf] l len
    by (simp add: s1_def bs(1)) (simp add: bs_def)
  moreover have "arr_get buf 0 = Some (buf ! 0)" using l len by (intro arr_get_in) linarith
  moreover have "length (st_data s1) = unat (st_size s)" "st_size s1 = st_size s"
    "st_persist s1 = st_persist s" "st_file s1 = st_file s"
    using inv by (simp_all add: s1_def storage_inv_def)
  ultimately have "smbus_storage_write_data s buf len = Some (storage_status s bs,
      s1\<lparr>st_file := (case st_file s of
           Some f \<Rightarrow> Some (if bs \<noteq> [] \<and> st_persist s \<and> hf_writable f
                         then snd (host_write f (st_data s1)) else f)
         | None \<Rightarrow> None)\<rparr>)"
    by (cases "st_file s")
       (simp_all add: smbus_storage_write_data_def storage_status_def l bs host_write_def Let_def min.commute)
  then show ?thesis unfolding bs_def [symmetric] by (simp add: storage_written_def s1_def cong: option.case_cong if_cong)
qed

lemma storage_written_inv:
  assumes "storage_inv s"
  shows "storage_inv (storage_written s off bs)"
proof -
  have "(off + length bs) mod unat (st_size s) < unat (st_size s)"
    using assms by (intro mod_less_divisor) (simp add: storage_inv_def)
  then have "unat (of_nat ((off + length bs) mod unat (st_size s)) :: u32)
    = (off + length bs) mod unat (st_size s)"
    using unat_u32_bound [of "st_size s"] by (simp add: unat_of_nat)
  then show ?thesis
    using assms by (simp add: storage_inv_def storage_written_def)
qed

lemma storage_receive_ok:
  "storage_inv s \<Longrightarrow> smbus_storage_receive_byte s =
     Some (st_data s ! unat (st_offset s), s\<lparr>st_offset := (st_offset s + 1) mod st_size s\<rparr>)"
  by (auto simp: smbus_storage_receive_byte_def storage_inv_def)

lemma storage_next_inv: "storage_inv s \<Longrightarrow> storage_inv (s\<lparr>st_offset := (st_offset s + 1) mod st_size s\<rparr>)"
  using unat_next_offset [of "st_offset s" "st_size s"] by (simp add: storage_inv_def)

lemma storage_write_ok:
  assumes "storage_inv s" "0 < len" "unat len \<le> length buf"
  shows "\<exists>r s'. smbus_storage_write_data s buf len = Some (r, s') \<and> storage_inv s'"
  using storage_write_eq [OF assms] storage_written_inv [OF assms(1)] by blast

lemma storage_write_local:
  assumes "storage_inv s" "0 < len" "unat len \<le> length buf" "unat len \<le> length buf'"
    and eq: "take (unat len) buf = take (unat len) buf'"
  shows "smbus_storage_write_data s buf len = smbus_storage_write_data s buf' len"
proof -
  have "buf ! 0 = buf' ! 0"
    using take_eq_nth [OF eq, of 0] assms(2) by (simp add: word_less_nat_alt)
  moreover have "take (unat len - 1) (drop 1 buf) = take (unat len - 1) (drop 1 buf')"
    using eq by (metis drop_take)
  ultimately show ?thesis using assms by (simp add: storage_write_eq)
qed

interpretation stp: smbus_provider "\<lambda>_. storage_class" storage_inv
  by unfold_locales
     (auto simp: storage_class_def storage_receive_ok storage_next_inv SMBUS_DATA_MAX_LEN_def
        intro!: storage_write_ok storage_write_local)

section \<open>Write, read back, persist\<close>

abbreviation stc :: "storage_device \<Rightarrow> storage_device smbus_device_class" where
  "stc \<equiv> \<lambda>_. storage_class"

lemma storage_write_padded:
  assumes "storage_inv s" "length bs \<le> 33"
  shows "smbus_storage_write_data s (pad_buf (off # bs)) (of_nat (length (off # bs))) =
    Some (storage_status s bs, storage_written s (unat off) bs)"
proof -
  have l: "unat (of_nat (length (off # bs)) :: u8) = length (off # bs)"
    using assms(2) by (intro unat_of_nat_u8) simp
  then have "0 < (of_nat (length (off # bs)) :: u8)"
    by (simp only: word_less_nat_alt) simp
  then show ?thesis
    using storage_write_eq [OF assms(1), of "of_nat (length (off # bs))" "pad_buf (off # bs)"] l
    by (simp add: pad_buf_def)
qed

lemma storage_dwrite:
  "storage_inv s \<Longrightarrow> length bs \<le> 33 \<Longrightarrow> dwrite stc s (off # bs) = storage_written s (unat off) bs"
  using storage_write_padded [of s bs off] by (simp add: dwrite_def storage_class_def)

lemma storage_drecv:
  "storage_inv s \<Longrightarrow> drecv stc s =
     (st_data s ! unat (st_offset s), s\<lparr>st_offset := (st_offset s + 1) mod st_size s\<rparr>)"
  by (simp add: drecv_def storage_class_def storage_receive_ok)

lemma storage_drecvs:
  "storage_inv s \<Longrightarrow> fst (drecvs stc n s) = ring_get (st_data s) (unat (st_offset s)) n"
proof (induction n arbitrary: s)
  case 0
  then show ?case by simp
next
  case (Suc n)
  have off: "unat (st_offset s) < unat (st_size s)" "length (st_data s) = unat (st_size s)"
    using Suc.prems by (simp_all add: storage_inv_def)
  show ?case
    using Suc.IH [OF storage_next_inv [OF Suc.prems]] off
    by (simp add: storage_drecv [OF Suc.prems] ring_get_Suc unat_next_offset [OF off(1)]
        case_prod_unfold Let_def)
qed

lemma storage_read_back:
  assumes "storage_inv s" and "length bs \<le> 33"
  shows "fst (drecvs stc (length bs) (dwrite stc (dwrite stc s (off # bs)) [off])) = bs"
proof -
  let ?s = "storage_written s (unat off) bs"
  have inv: "storage_inv ?s" and inv2: "storage_inv (storage_written ?s (unat off) [])"
    using assms(1) by (simp_all only: storage_written_inv)
  have o: "unat off < unat (st_size s)" "length bs \<le> unat (st_size s)" "length (st_data s) = unat (st_size s)"
    using assms unat_u8_bound [of off] unfolding storage_inv_def by linarith+
  then have "unat off < 2 ^ 32" using unat_u32_bound [of "st_size s"] by simp
  with o have u: "unat (of_nat (unat off mod unat (st_size s)) :: u32) = unat off"
    by (simp add: unat_of_nat del: of_nat_unat)
  have "dwrite stc (dwrite stc s (off # bs)) [off] = storage_written ?s (unat off) []"
    by (simp only: storage_dwrite [OF assms]) (simp only: storage_dwrite [OF inv] list.size le0)
  then show ?thesis
    using storage_drecvs [OF inv2, of "length bs"] ring_get_put [of "unat off" "st_data s" bs] o u
    by (simp add: storage_written_def del: of_nat_unat)
qed

lemma storage_write_read_byte:
  "storage_inv s \<Longrightarrow> fst (drecv stc (dwrite stc (dwrite stc s [off, v]) [off])) = v"
  using storage_read_back [of s "[v]" off] by (simp add: case_prod_unfold Let_def)

text \<open>C8: The EEPROM returns what was written: after a block of up to 33 bytes is written at an
  offset, setting the offset again and reading as many bytes gives the block, also when the
  block wraps around at the end of the storage.\<close>

theorem storage_write_read:
  assumes "storage_inv s" and "length bs \<le> 33"
  shows "fst (drecvs stc (length bs) (dwrite stc (dwrite stc s (off # bs)) [off])) = bs"
  by (rule storage_read_back [OF assms])

definition eeprom_example :: storage_device where
  "eeprom_example = \<lparr>st_file = Some \<lparr>hf_bytes = replicate 256 0, hf_readable = True,
      hf_writable = True, hf_read_max = 4096, hf_write_max = 4096\<rparr>,
     st_data = replicate 256 0, st_size = 256, st_addr = 0x54, st_offset = 0, st_persist = True\<rparr>"

lemma eeprom_example_inv: "storage_inv eeprom_example"
  by (simp add: storage_inv_def eeprom_example_def)

theorem storage_write_read_witness:
  "fst (drecvs stc (length [1, 2, 3 :: u8]) (dwrite stc (dwrite stc eeprom_example (0xfe # [1, 2, 3])) [0xfe]))
    = [1, 2, 3]"
  by (rule storage_write_read [OF eeprom_example_inv]) simp

text \<open>C9: A persistent write leaves the host file equal to the storage, byte for byte, and reports
  success, when the file has the size of the storage, can be opened for writing and the host
  takes all bytes at once.\<close>

theorem storage_write_persists:
  assumes "storage_inv s" and "length bs \<le> 33" and "bs \<noteq> []" and "st_persist s"
    and f: "st_file s = Some f" "hf_writable f" "unat (st_size s) \<le> hf_write_max f"
      "length (hf_bytes f) = unat (st_size s)"
  shows "\<exists>s'. smbus_storage_write_data s (pad_buf (off # bs)) (of_nat (length (off # bs))) = Some (0, s')
    \<and> map_option hf_bytes (st_file s') = Some (st_data s')"
proof -
  note storage_write_padded [OF assms(1,2), of off]
  moreover have "storage_status s bs = 0" using f by (simp add: storage_status_def min_def)
  moreover have "length (st_data s) = unat (st_size s)" using assms(1) by (simp add: storage_inv_def)
  ultimately show ?thesis
    using assms by (simp add: storage_written_def host_write_def Let_def)
qed

theorem storage_write_persists_witness:
  "\<exists>s'. smbus_storage_write_data eeprom_example (pad_buf (7 # [42])) (of_nat (length (7 # [42 :: u8]))) = Some (0, s')
    \<and> map_option hf_bytes (st_file s') = Some (st_data s')"
  by (rule storage_write_persists [OF eeprom_example_inv]) (simp add: eeprom_example_def)+

end
