(* ===== verification/SMBus_Encoders.thy ===== *)
theory SMBus_Encoders
  imports SMBus_Slave
begin

text \<open>
  The temperature monitor and the three video encoders on the SMBus:
  \<^verbatim>\<open>hw/xbox/smbus_adm1032.c\<close>, \<^verbatim>\<open>smbus_cx25871.c\<close>, \<^verbatim>\<open>smbus_fs454.c\<close>, \<^verbatim>\<open>smbus_xcalibur.c\<close>.
  Each source file has its own functions; the encoders store into a file of 256 registers and
  differ in their bus address only, which lemma \<open>encoders_agree\<close> states.
\<close>

section \<open>Temperature monitor\<close>

record adm1032_device =
  adm_cmd :: u8

definition smbus_adm1032_quick_cmd :: "adm1032_device \<Rightarrow> u8 \<Rightarrow> adm1032_device" where
  "smbus_adm1032_quick_cmd cx rd = cx"

definition smbus_adm1032_write_data ::
  "adm1032_device \<Rightarrow> u8 list \<Rightarrow> u8 \<Rightarrow> (int \<times> adm1032_device) option" where
  "smbus_adm1032_write_data cx buf len = do {
     cmd \<leftarrow> arr_get buf 0;
     Some (0, cx\<lparr>adm_cmd := cmd\<rparr>)
   }"

definition smbus_adm1032_receive_byte :: "adm1032_device \<Rightarrow> (u8 \<times> adm1032_device) option" where
  "smbus_adm1032_receive_byte cx =
     (let cmd = adm_cmd cx; cx = cx\<lparr>adm_cmd := cmd + 1\<rparr>
      in Some (if cmd = 0 \<or> cmd = 1 then 50 else 0, cx))"

definition smbus_adm1032_realize :: "adm1032_device \<Rightarrow> adm1032_device" where
  "smbus_adm1032_realize cx = cx\<lparr>adm_cmd := 0\<rparr>"

section \<open>Video encoders\<close>

record encoder_device =
  enc_registers :: "u8 list"   \<comment> \<open>\<open>uint8_t registers[256]\<close>\<close>
  enc_cmd :: u8

subsection \<open>Conexant CX25871\<close>

definition smbus_cx25871_quick_cmd :: "encoder_device \<Rightarrow> u8 \<Rightarrow> encoder_device" where
  "smbus_cx25871_quick_cmd cx rd = cx"

definition smbus_cx25871_write_data ::
  "encoder_device \<Rightarrow> u8 list \<Rightarrow> u8 \<Rightarrow> (int \<times> encoder_device) option" where
  "smbus_cx25871_write_data cx buf len = do {
     cmd \<leftarrow> arr_get buf 0;
     let cx = cx\<lparr>enc_cmd := cmd\<rparr>;
     let len = len - 1;
     if len < 1 then Some (0, cx)
     else do {
       let n = min (unat len) (256 - unat cmd);
       assert_that (1 + n \<le> length buf \<and> unat cmd + n \<le> length (enc_registers cx));
       Some (0, cx\<lparr>enc_registers := blit (enc_registers cx) (unat cmd) (take n (drop 1 buf))\<rparr>)
     }
   }"

definition smbus_cx25871_receive_byte :: "encoder_device \<Rightarrow> (u8 \<times> encoder_device) option" where
  "smbus_cx25871_receive_byte cx = do {
     v \<leftarrow> arr_get (enc_registers cx) (unat (enc_cmd cx));
     Some (v, cx\<lparr>enc_cmd := enc_cmd cx + 1\<rparr>)
   }"

definition smbus_cx25871_realize :: "encoder_device \<Rightarrow> encoder_device" where
  "smbus_cx25871_realize cx = cx\<lparr>enc_registers := replicate 256 0, enc_cmd := 0\<rparr>"

subsection \<open>Focus FS454\<close>

definition smbus_fs454_quick_cmd :: "encoder_device \<Rightarrow> u8 \<Rightarrow> encoder_device" where
  "smbus_fs454_quick_cmd cx rd = cx"

definition smbus_fs454_write_data ::
  "encoder_device \<Rightarrow> u8 list \<Rightarrow> u8 \<Rightarrow> (int \<times> encoder_device) option" where
  "smbus_fs454_write_data cx buf len = do {
     cmd \<leftarrow> arr_get buf 0;
     let cx = cx\<lparr>enc_cmd := cmd\<rparr>;
     let len = len - 1;
     if len < 1 then Some (0, cx)
     else do {
       let n = min (unat len) (256 - unat cmd);
       assert_that (1 + n \<le> length buf \<and> unat cmd + n \<le> length (enc_registers cx));
       Some (0, cx\<lparr>enc_registers := blit (enc_registers cx) (unat cmd) (take n (drop 1 buf))\<rparr>)
     }
   }"

definition smbus_fs454_receive_byte :: "encoder_device \<Rightarrow> (u8 \<times> encoder_device) option" where
  "smbus_fs454_receive_byte cx = do {
     v \<leftarrow> arr_get (enc_registers cx) (unat (enc_cmd cx));
     Some (v, cx\<lparr>enc_cmd := enc_cmd cx + 1\<rparr>)
   }"

definition smbus_fs454_realize :: "encoder_device \<Rightarrow> encoder_device" where
  "smbus_fs454_realize cx = cx\<lparr>enc_registers := replicate 256 0, enc_cmd := 0\<rparr>"

subsection \<open>Xcalibur\<close>

definition smbus_xcalibur_quick_cmd :: "encoder_device \<Rightarrow> u8 \<Rightarrow> encoder_device" where
  "smbus_xcalibur_quick_cmd cx rd = cx"

definition smbus_xcalibur_write_data ::
  "encoder_device \<Rightarrow> u8 list \<Rightarrow> u8 \<Rightarrow> (int \<times> encoder_device) option" where
  "smbus_xcalibur_write_data cx buf len = do {
     cmd \<leftarrow> arr_get buf 0;
     let cx = cx\<lparr>enc_cmd := cmd\<rparr>;
     let len = len - 1;
     if len < 1 then Some (0, cx)
     else do {
       let n = min (unat len) (256 - unat cmd);
       assert_that (1 + n \<le> length buf \<and> unat cmd + n \<le> length (enc_registers cx));
       Some (0, cx\<lparr>enc_registers := blit (enc_registers cx) (unat cmd) (take n (drop 1 buf))\<rparr>)
     }
   }"

definition smbus_xcalibur_receive_byte :: "encoder_device \<Rightarrow> (u8 \<times> encoder_device) option" where
  "smbus_xcalibur_receive_byte cx = do {
     v \<leftarrow> arr_get (enc_registers cx) (unat (enc_cmd cx));
     Some (v, cx\<lparr>enc_cmd := enc_cmd cx + 1\<rparr>)
   }"

definition smbus_xcalibur_realize :: "encoder_device \<Rightarrow> encoder_device" where
  "smbus_xcalibur_realize cx = cx\<lparr>enc_registers := replicate 256 0, enc_cmd := 0\<rparr>"

section \<open>Lemmas\<close>

lemma encoders_agree:
  "smbus_fs454_write_data = smbus_cx25871_write_data"
  "smbus_xcalibur_write_data = smbus_cx25871_write_data"
  "smbus_fs454_receive_byte = smbus_cx25871_receive_byte"
  "smbus_xcalibur_receive_byte = smbus_cx25871_receive_byte"
  "smbus_fs454_realize = smbus_cx25871_realize"
  "smbus_xcalibur_realize = smbus_cx25871_realize"
  by (simp_all add: fun_eq_iff smbus_fs454_write_data_def smbus_cx25871_write_data_def
      smbus_xcalibur_write_data_def smbus_fs454_receive_byte_def smbus_cx25871_receive_byte_def
      smbus_xcalibur_receive_byte_def smbus_fs454_realize_def smbus_cx25871_realize_def
      smbus_xcalibur_realize_def)

lemma adm_write_ok: "buf \<noteq> [] \<Longrightarrow> smbus_adm1032_write_data d buf len = Some (0, d\<lparr>adm_cmd := buf ! 0\<rparr>)"
  by (simp add: smbus_adm1032_write_data_def)

definition encoder_inv :: "encoder_device \<Rightarrow> bool" where
  "encoder_inv cx = (length (enc_registers cx) = 256)"

lemma encoder_realize_inv: "encoder_inv (smbus_cx25871_realize cx)"
  by (simp add: encoder_inv_def smbus_cx25871_realize_def)

text \<open>A write stores the bytes that fit below the end of the register file and drops the rest.\<close>

definition encoder_written :: "encoder_device \<Rightarrow> u8 \<Rightarrow> u8 list \<Rightarrow> encoder_device" where
  "encoder_written cx cmd bs =
     cx\<lparr>enc_cmd := cmd,
        enc_registers := blit (enc_registers cx) (unat cmd) (take (256 - unat cmd) bs)\<rparr>"

lemma encoder_write_eq:
  assumes inv: "encoder_inv cx" and len: "0 < len" "unat len \<le> length buf"
  shows "smbus_cx25871_write_data cx buf len =
    Some (0, encoder_written cx (buf ! 0) (take (unat len - 1) (drop 1 buf)))"
proof -
  have l: "unat (len - 1) = unat len - 1" "0 < unat len"
    using len unat_minus_one_u8 [of len] by (auto simp: word_neq_0_conv word_less_nat_alt)
  have cmd: "arr_get buf 0 = Some (buf ! 0)" using l len by (intro arr_get_in) linarith
  have c: "unat (buf ! 0) < 256" by (rule unat_u8_bound)
  show ?thesis
  proof (cases "len - 1 < 1")
    case True
    then have "unat len - 1 = 0" using l by (simp add: word_less_nat_alt)
    then show ?thesis
      using cmd True by (simp add: smbus_cx25871_write_data_def encoder_written_def Let_def)
  next
    case False
    have "1 + min (unat len - 1) (256 - unat (buf ! 0)) \<le> length buf
      \<and> unat (buf ! 0) + min (unat len - 1) (256 - unat (buf ! 0)) \<le> 256"
      using l(2) len(2) c by linarith
    then show ?thesis
      using cmd l len inv False
      by (simp add: smbus_cx25871_write_data_def encoder_written_def encoder_inv_def Let_def
          min.commute)
  qed
qed

lemma encoder_written_inv: "encoder_inv cx \<Longrightarrow> encoder_inv (encoder_written cx cmd bs)"
  using unat_u8_bound [of cmd] unfolding encoder_inv_def encoder_written_def
  by (simp del: unat_u8_bound add: length_blit [of "unat cmd"])

lemma encoder_receive_eq:
  "encoder_inv cx \<Longrightarrow> smbus_cx25871_receive_byte cx =
     Some (enc_registers cx ! unat (enc_cmd cx), cx\<lparr>enc_cmd := enc_cmd cx + 1\<rparr>)"
  by (simp add: smbus_cx25871_receive_byte_def encoder_inv_def)

lemma encoder_write_local:
  assumes "encoder_inv cx" "0 < len" "unat len \<le> length buf" "unat len \<le> length buf'"
    and eq: "take (unat len) buf = take (unat len) buf'"
  shows "smbus_cx25871_write_data cx buf len = smbus_cx25871_write_data cx buf' len"
proof -
  have "buf ! 0 = buf' ! 0"
    using take_eq_nth [OF eq, of 0] assms(2) by (simp add: word_less_nat_alt)
  moreover have "take (unat len - 1) (drop 1 buf) = take (unat len - 1) (drop 1 buf')"
    using eq by (metis drop_take)
  ultimately show ?thesis using assms by (simp add: encoder_write_eq)
qed

end
