(* ===== verification/AMD756.thy ===== *)
theory AMD756
  imports SMBus_Master
begin

text \<open>
  The SMBus host controller of the Xbox, an AMD756, \<^verbatim>\<open>hw/xbox/amd_smbus.c\<close>: the registers, the
  transaction started by the control register, and the port accesses of the guest.

  The record is polymorphic in the bus, so that \<open>amd_spec\<close> is the controller over a bus that is
  only a list of device states; \<open>transaction_refines\<close> shows that a transaction of the
  controller over the protocol implementation is a transaction over that list. The interrupt
  line is the field \<open>amd_irq\<close>, \<open>None\<close> for a null pointer.
\<close>

section \<open>Registers\<close>

definition SMB_GLOBAL_STATUS :: u32 where "SMB_GLOBAL_STATUS = 0x0"
definition SMB_GLOBAL_ENABLE :: u32 where "SMB_GLOBAL_ENABLE = 0x2"
definition SMB_HOST_ADDRESS :: u32 where "SMB_HOST_ADDRESS = 0x4"
definition SMB_HOST_DATA :: u32 where "SMB_HOST_DATA = 0x6"
definition SMB_HOST_COMMAND :: u32 where "SMB_HOST_COMMAND = 0x8"
definition SMB_HOST_BLOCK_DATA :: u32 where "SMB_HOST_BLOCK_DATA = 0x9"

definition AMD756_QUICK :: u8 where "AMD756_QUICK = 0x00"
definition AMD756_BYTE :: u8 where "AMD756_BYTE = 0x01"
definition AMD756_BYTE_DATA :: u8 where "AMD756_BYTE_DATA = 0x02"
definition AMD756_WORD_DATA :: u8 where "AMD756_WORD_DATA = 0x03"
definition AMD756_BLOCK_DATA :: u8 where "AMD756_BLOCK_DATA = 0x05"

definition GS_ABRT_STS :: u8 where "GS_ABRT_STS = 0x01"
definition GS_COL_STS :: u8 where "GS_COL_STS = 0x02"
definition GS_PRERR_STS :: u8 where "GS_PRERR_STS = 0x04"
definition GS_HCYC_STS :: u8 where "GS_HCYC_STS = 0x10"
definition GS_TO_STS :: u8 where "GS_TO_STS = 0x20"
definition GS_CLEAR_STS :: u8 where
  "GS_CLEAR_STS = GS_ABRT_STS OR GS_COL_STS OR GS_PRERR_STS OR GS_HCYC_STS OR GS_TO_STS"

definition GE_CYC_TYPE_MASK :: u8 where "GE_CYC_TYPE_MASK = 7"
definition GE_HOST_STC :: u8 where "GE_HOST_STC = 0x08"
definition GE_HCYC_EN :: u8 where "GE_HCYC_EN = 0x10"
definition GE_ABORT :: u8 where "GE_ABORT = 0x20"

lemmas amd_ports = SMB_GLOBAL_STATUS_def SMB_GLOBAL_ENABLE_def SMB_HOST_ADDRESS_def
  SMB_HOST_DATA_def SMB_HOST_COMMAND_def SMB_HOST_BLOCK_DATA_def
lemmas amd_protocols = AMD756_QUICK_def AMD756_BYTE_def AMD756_BYTE_DATA_def
  AMD756_WORD_DATA_def AMD756_BLOCK_DATA_def
lemmas amd_status = GS_ABRT_STS_def GS_COL_STS_def GS_PRERR_STS_def GS_HCYC_STS_def GS_TO_STS_def
  GS_CLEAR_STS_def
lemmas amd_control = GE_CYC_TYPE_MASK_def GE_HOST_STC_def GE_HCYC_EN_def GE_ABORT_def

section \<open>State\<close>

record 'b amd756 =
  smbus :: 'b
  smb_stat :: u8
  smb_ctl :: u8
  smb_cmd :: u8
  smb_addr :: u8
  smb_data0 :: u8
  smb_data1 :: u8
  smb_data :: "u8 list"   \<comment> \<open>\<open>uint8_t smb_data[32]\<close>\<close>
  smb_index :: u8
  amd_irq :: "bool option"

definition amd756_smbus_init :: "bool option \<Rightarrow> 'd sbus amd756 \<Rightarrow> 'd sbus amd756" where
  "amd756_smbus_init irq smb = smb\<lparr>smbus := i2c_init_bus [], smb_stat := 0, amd_irq := irq\<rparr>"

section \<open>Transactions\<close>

text \<open>The labels \<open>error\<close>, \<open>done\<close>, \<open>data8\<close> and \<open>data16\<close> of \<open>amd756_smb_transaction\<close>.\<close>

definition tx_error :: "'b amd756 \<Rightarrow> 'b amd756" where
  "tx_error s = s\<lparr>smb_stat := smb_stat s OR GS_PRERR_STS\<rparr>"

definition tx_done :: "'b amd756 \<Rightarrow> int \<Rightarrow> 'b amd756" where
  "tx_done s ret = (if ret < 0 then tx_error s else s\<lparr>smb_stat := smb_stat s OR GS_HCYC_STS\<rparr>)"

definition tx_data8 :: "'b amd756 \<Rightarrow> int \<Rightarrow> 'b amd756" where
  "tx_data8 s ret = (if ret < 0 then tx_error s else tx_done (s\<lparr>smb_data0 := word_of_int ret\<rparr>) ret)"

definition tx_data16 :: "'b amd756 \<Rightarrow> int \<Rightarrow> 'b amd756" where
  "tx_data16 s ret =
     (if ret < 0 then tx_error s
      else tx_data8 (s\<lparr>smb_data1 := word_of_int (drop_bit 8 ret)\<rparr>) ret)"

definition tx_prot :: "'b amd756 \<Rightarrow> u8" where
  "tx_prot s = smb_ctl s AND GE_CYC_TYPE_MASK"

definition tx_read :: "'b amd756 \<Rightarrow> bool" where
  "tx_read s = (smb_addr s AND 1 \<noteq> 0)"

definition tx_addr :: "'b amd756 \<Rightarrow> u8" where
  "tx_addr s = drop_bit 1 (smb_addr s) AND 0x7f"

definition amd756_smb_transaction :: "'d sclass \<Rightarrow> 'd sbus amd756 \<Rightarrow> 'd sbus amd756 option" where
  "amd756_smb_transaction sc s =
     (let prot = tx_prot s; rd = tx_read s; cmd = smb_cmd s; addr = tx_addr s; bus = smbus s in
      if prot = AMD756_QUICK then do {
        (ret, bus) \<leftarrow> smbus_quick_command sc bus addr rd;
        Some (tx_done (s\<lparr>smbus := bus\<rparr>) ret)
      }
      else if prot = AMD756_BYTE then
        (if rd then do {
           (ret, bus) \<leftarrow> smbus_receive_byte sc bus addr;
           Some (tx_data8 (s\<lparr>smbus := bus\<rparr>) ret)
         }
         else do {
           (ret, bus) \<leftarrow> smbus_send_byte sc bus addr cmd;
           Some (tx_done (s\<lparr>smbus := bus\<rparr>) ret)
         })
      else if prot = AMD756_BYTE_DATA then
        (if rd then do {
           (ret, bus) \<leftarrow> smbus_read_byte sc bus addr cmd;
           Some (tx_data8 (s\<lparr>smbus := bus\<rparr>) ret)
         }
         else do {
           (ret, bus) \<leftarrow> smbus_write_byte sc bus addr cmd (smb_data0 s);
           Some (tx_done (s\<lparr>smbus := bus\<rparr>) ret)
         })
      else if prot = AMD756_WORD_DATA then
        (if rd then do {
           (ret, bus) \<leftarrow> smbus_read_word sc bus addr cmd;
           Some (tx_data16 (s\<lparr>smbus := bus\<rparr>) ret)
         }
         else do {
           (ret, bus) \<leftarrow> smbus_write_word sc bus addr cmd
             (push_bit 8 (ucast (smb_data1 s)) OR ucast (smb_data0 s));
           Some (tx_done (s\<lparr>smbus := bus\<rparr>) ret)
         })
      else if prot = AMD756_BLOCK_DATA then
        (if rd then do {
           (ret, buf, bus) \<leftarrow> smbus_read_block sc bus addr cmd (smb_data s) 32 True True;
           Some (tx_data8 (s\<lparr>smbus := bus, smb_data := buf\<rparr>) ret)
         }
         else do {
           (ret, bus) \<leftarrow> smbus_write_block sc bus addr cmd (smb_data s) (unat (smb_data0 s)) True;
           Some (tx_done (s\<lparr>smbus := bus\<rparr>) ret)
         })
      else Some (tx_error s))"

section \<open>Port accesses\<close>

definition qemu_set_irq :: "bool \<Rightarrow> 'b amd756 \<Rightarrow> 'b amd756" where
  "qemu_set_irq level s = (case amd_irq s of None \<Rightarrow> s | Some _ \<Rightarrow> s\<lparr>amd_irq := Some level\<rparr>)"

definition next_index :: "u8 \<Rightarrow> u8" where
  "next_index i = (if i + 1 > 31 then 0 else i + 1)"

definition amd756_smb_ioport_writeb ::
  "'d sclass \<Rightarrow> 'd sbus amd756 \<Rightarrow> u32 \<Rightarrow> u32 \<Rightarrow> 'd sbus amd756 option" where
  "amd756_smb_ioport_writeb sc s addr val =
     (let addr = addr AND 0x3f; v = ucast val :: u8 in
      if addr = SMB_GLOBAL_STATUS then
        (let s = (if smb_ctl s AND GE_HCYC_EN \<noteq> 0
                    \<and> (v AND GS_CLEAR_STS) AND NOT (smb_stat s AND GS_CLEAR_STS) \<noteq> 0
                  then qemu_set_irq True s else qemu_set_irq False s) in
         if v AND GS_CLEAR_STS \<noteq> 0 then Some (s\<lparr>smb_stat := 0, smb_index := 0\<rparr>)
         else if v AND GS_HCYC_STS \<noteq> 0 then Some (s\<lparr>smb_stat := GS_HCYC_STS, smb_index := 0\<rparr>)
         else Some (s\<lparr>smb_stat := GS_HCYC_STS, smb_index := 0\<rparr>))
      else if addr = SMB_GLOBAL_ENABLE then do {
        let s = s\<lparr>smb_ctl := v\<rparr>;
        let s = (if v AND GE_ABORT \<noteq> 0 then s\<lparr>smb_stat := smb_stat s OR GS_ABRT_STS\<rparr> else s);
        if v AND GE_HOST_STC \<noteq> 0 then do {
          s \<leftarrow> amd756_smb_transaction sc s;
          Some (if v AND GE_HCYC_EN \<noteq> 0 \<and> smb_stat s AND GS_CLEAR_STS \<noteq> 0
                then qemu_set_irq True s else s)
        }
        else Some s
      }
      else if addr = SMB_HOST_COMMAND then Some (s\<lparr>smb_cmd := v\<rparr>)
      else if addr = SMB_HOST_ADDRESS then Some (s\<lparr>smb_addr := v\<rparr>)
      else if addr = SMB_HOST_DATA then Some (s\<lparr>smb_data0 := v\<rparr>)
      else if addr = SMB_HOST_DATA + 1 then Some (s\<lparr>smb_data1 := v\<rparr>)
      else if addr = SMB_HOST_BLOCK_DATA then do {
        d \<leftarrow> arr_set (smb_data s) (unat (smb_index s)) v;
        Some (s\<lparr>smb_data := d, smb_index := next_index (smb_index s)\<rparr>)
      }
      else Some s)"

definition amd756_smb_ioport_readb :: "'d sbus amd756 \<Rightarrow> u32 \<Rightarrow> (u32 \<times> 'd sbus amd756) option" where
  "amd756_smb_ioport_readb s addr =
     (let addr = addr AND 0x3f in
      if addr = SMB_GLOBAL_STATUS then Some (ucast (smb_stat s), s)
      else if addr = SMB_GLOBAL_ENABLE then Some (ucast (smb_ctl s AND 0x1f), s)
      else if addr = SMB_HOST_COMMAND then Some (ucast (smb_cmd s), s)
      else if addr = SMB_HOST_ADDRESS then Some (ucast (smb_addr s), s)
      else if addr = SMB_HOST_DATA then Some (ucast (smb_data0 s), s)
      else if addr = SMB_HOST_DATA + 1 then Some (ucast (smb_data1 s), s)
      else if addr = SMB_HOST_BLOCK_DATA then do {
        v \<leftarrow> arr_get (smb_data s) (unat (smb_index s));
        Some (ucast v, s\<lparr>smb_index := next_index (smb_index s)\<rparr>)
      }
      else Some (0, s))"

text \<open>
  A guest program, as the sequence of its accesses to the ports of the controller; the result has
  the values it read.
\<close>

datatype port_op = OUT u32 u32 | INP u32

fun run_ports :: "'d sclass \<Rightarrow> port_op list \<Rightarrow> 'd sbus amd756 \<Rightarrow> (u32 list \<times> 'd sbus amd756) option" where
  "run_ports sc [] s = Some ([], s)"
| "run_ports sc (OUT p v # ops) s = do {
     s \<leftarrow> amd756_smb_ioport_writeb sc s p v;
     run_ports sc ops s
   }"
| "run_ports sc (INP p # ops) s = do {
     (v, s) \<leftarrow> amd756_smb_ioport_readb s p;
     (vs, s) \<leftarrow> run_ports sc ops s;
     Some (v # vs, s)
   }"

section \<open>Specification\<close>

text \<open>The data buffer after a block read.\<close>

definition block_filled :: "'d sclass \<Rightarrow> 'd abus \<Rightarrow> u8 \<Rightarrow> u8 \<Rightarrow> u8 list \<Rightarrow> u8 list" where
  "block_filled sc ds addr c buf =
     (case find_dev ds addr of
        None \<Rightarrow> buf
      | Some i \<Rightarrow> (let bs = fst (block_read_spec sc 32 c (snd (ds ! i))) in bs @ drop (length bs) buf))"

text \<open>The controller over a list of devices.\<close>

definition amd_spec :: "'d sclass \<Rightarrow> 'd abus amd756 \<Rightarrow> 'd abus amd756" where
  "amd_spec sc s =
     (let addr = tx_addr s; c = smb_cmd s;
          tx = (\<lambda>k f. let (r, ds) = on_dev (smbus s) addr f in k (s\<lparr>smbus := ds\<rparr>) r) in
      if tx_prot s = AMD756_QUICK then tx tx_done (\<lambda>d. (0, dquick sc d (tx_read s)))
      else if tx_prot s = AMD756_BYTE then
        (if tx_read s then tx tx_data8 (\<lambda>d. let (b, d') = drecv sc d in (uint b, d'))
         else tx tx_done (\<lambda>d. (0, dwrite sc d [c])))
      else if tx_prot s = AMD756_BYTE_DATA then
        (if tx_read s then tx tx_data8 (\<lambda>d. let (b, d') = drecv sc (dwrite sc d [c]) in (uint b, d'))
         else tx tx_done (\<lambda>d. (0, dwrite sc d [c, smb_data0 s])))
      else if tx_prot s = AMD756_WORD_DATA then
        (if tx_read s then
           tx tx_data16 (\<lambda>d. let (bs, d') = drecvs sc 2 (dwrite sc d [c]) in (word_of_bytes bs, d'))
         else tx tx_done (\<lambda>d. (0, dwrite sc d [c, smb_data0 s, smb_data1 s])))
      else if tx_prot s = AMD756_BLOCK_DATA then
        (if tx_read s then
           tx (\<lambda>s' r. tx_data8 (s'\<lparr>smb_data := block_filled sc (smbus s) addr c (smb_data s)\<rparr>) r)
              (\<lambda>d. let (bs, d') = block_read_spec sc 32 c d in (int (length bs), d'))
         else
           (let n = min 32 (unat (smb_data0 s))
            in tx tx_done (\<lambda>d. (0, dwrite sc d (c # of_nat n # take n (smb_data s))))))
      else tx_error s)"

definition abs_amd :: "'d sbus amd756 \<Rightarrow> 'd abus amd756" where
  "abs_amd s = \<lparr>smbus = bus_devs (smbus s), smb_stat = smb_stat s, smb_ctl = smb_ctl s,
     smb_cmd = smb_cmd s, smb_addr = smb_addr s, smb_data0 = smb_data0 s, smb_data1 = smb_data1 s,
     smb_data = smb_data s, smb_index = smb_index s, amd_irq = amd_irq s\<rparr>"

text \<open>
  The invariant of the controller: the bus is between transfers with every device in its
  invariant, and the index is inside the data buffer.
\<close>

definition amd_inv :: "('d \<Rightarrow> bool) \<Rightarrow> 'd sbus amd756 \<Rightarrow> bool" where
  "amd_inv dinv s =
     (bus_ready dinv (smbus s) \<and> length (smb_data s) = 32 \<and> unat (smb_index s) < 32)"

section \<open>Lemmas\<close>

lemma abs_amd_simps [simp]:
  "smbus (abs_amd s) = bus_devs (smbus s)" "smb_stat (abs_amd s) = smb_stat s"
  "smb_cmd (abs_amd s) = smb_cmd s" "smb_data0 (abs_amd s) = smb_data0 s"
  "smb_data1 (abs_amd s) = smb_data1 s" "smb_data (abs_amd s) = smb_data s"
  "tx_prot (abs_amd s) = tx_prot s" "tx_read (abs_amd s) = tx_read s" "tx_addr (abs_amd s) = tx_addr s"
  "smb_ctl (abs_amd s) = smb_ctl s" "smb_addr (abs_amd s) = smb_addr s"
  "smb_index (abs_amd s) = smb_index s" "amd_irq (abs_amd s) = amd_irq s"
  by (simp_all add: abs_amd_def tx_prot_def tx_read_def tx_addr_def)

lemma abs_amd_update [simp]:
  "abs_amd (s\<lparr>smbus := b\<rparr>) = (abs_amd s)\<lparr>smbus := bus_devs b\<rparr>"
  "abs_amd (s\<lparr>smb_data := d\<rparr>) = (abs_amd s)\<lparr>smb_data := d\<rparr>"
  "abs_amd (s\<lparr>smb_stat := x\<rparr>) = (abs_amd s)\<lparr>smb_stat := x\<rparr>"
  "abs_amd (s\<lparr>smb_data0 := y\<rparr>) = (abs_amd s)\<lparr>smb_data0 := y\<rparr>"
  "abs_amd (s\<lparr>smb_data1 := y\<rparr>) = (abs_amd s)\<lparr>smb_data1 := y\<rparr>"
  by (simp_all add: abs_amd_def)

lemma abs_amd_results [simp]:
  "abs_amd (tx_error s) = tx_error (abs_amd s)"
  "abs_amd (tx_done s r) = tx_done (abs_amd s) r"
  "abs_amd (tx_data8 s r) = tx_data8 (abs_amd s) r"
  "abs_amd (tx_data16 s r) = tx_data16 (abs_amd s) r"
  by (simp_all add: tx_error_def tx_done_def tx_data8_def tx_data16_def)

lemma tx_keeps [simp]:
  "smbus (tx_error s) = smbus s" "smbus (tx_done s r) = smbus s"
  "smbus (tx_data8 s r) = smbus s" "smbus (tx_data16 s r) = smbus s"
  "smb_index (tx_error s) = smb_index s" "smb_index (tx_done s r) = smb_index s"
  "smb_index (tx_data8 s r) = smb_index s" "smb_index (tx_data16 s r) = smb_index s"
  "smb_data (tx_error s) = smb_data s" "smb_data (tx_done s r) = smb_data s"
  "smb_data (tx_data8 s r) = smb_data s" "smb_data (tx_data16 s r) = smb_data s"
  by (simp_all add: tx_error_def tx_done_def tx_data8_def tx_data16_def)

lemma word_bytes:
  "ucast ((push_bit 8 (ucast b1) OR ucast b0 :: u16) AND 0xff) = (b0 :: u8)"
  "ucast (drop_bit 8 (push_bit 8 (ucast b1) OR ucast b0 :: u16)) = (b1 :: u8)"
  by (rule bit_word_eqI; auto simp: mask_words bit_simps dest: bit_imp_le_length)+

lemma next_index_bound: "unat i < 32 \<Longrightarrow> unat (next_index i) < 32"
  by (auto simp: next_index_def word_less_nat_alt unat_word_ariths split: if_splits)

lemma qemu_set_irq_keeps [simp]:
  "smbus (qemu_set_irq l s) = smbus s" "smb_data (qemu_set_irq l s) = smb_data s"
  "smb_index (qemu_set_irq l s) = smb_index s" "smb_stat (qemu_set_irq l s) = smb_stat s"
  "smb_addr (qemu_set_irq l s) = smb_addr s" "smb_data0 (qemu_set_irq l s) = smb_data0 s"
  "smb_data1 (qemu_set_irq l s) = smb_data1 s" "smb_cmd (qemu_set_irq l s) = smb_cmd s"
  by (simp_all add: qemu_set_irq_def split: option.splits)

lemma tx_refinesE:
  assumes "tx_refines dinv res spec"
  obtains bus' where "res = Some (fst spec, bus')" "bus_ready dinv bus'" "bus_devs bus' = snd spec"
  using assms by (auto simp: tx_refines_def split: option.splits)

text \<open>A transaction that only continues with the result of a refined bus transaction.\<close>

lemma tx_bind_refines:
  assumes "tx_refines dinv res (on_dev (bus_devs bus) addr f)"
    and "amd_inv dinv s"
    and "\<And>s r. abs_amd (k s r) = k' (abs_amd s) r"
    and "\<And>s r. smbus (k s r) = smbus s" "\<And>s r. smb_data (k s r) = smb_data s"
      "\<And>s r. smb_index (k s r) = smb_index s"
  shows "\<exists>s'. (res \<bind> (\<lambda>(r, b). Some (k (s\<lparr>smbus := b\<rparr>) r))) = Some s' \<and> amd_inv dinv s' \<and>
    abs_amd s' = (let (r, ds) = on_dev (bus_devs bus) addr f in k' ((abs_amd s)\<lparr>smbus := ds\<rparr>) r)"
  using assms by (elim tx_refinesE) (auto simp: amd_inv_def case_prod_unfold Let_def)

lemma write_block_clip:
  "smbus_write_block sc bus addr c buf len True = smbus_write_block sc bus addr c buf (min 32 len) True"
  by (cases "32 < len") (simp_all add: smbus_write_block_def Let_def)

context smbus_provider
begin

text \<open>A port access either leaves the bus alone or runs one transaction.\<close>

lemma transaction_refines:
  assumes inv: "amd_inv dinv s" and addr: "tx_addr s \<noteq> I2C_BROADCAST"
  shows "\<exists>s'. amd756_smb_transaction sc s = Some s' \<and> amd_inv dinv s' \<and> abs_amd s' = amd_spec sc (abs_amd s)"
proof -
  from inv have r: "bus_ready dinv (smbus s)" and l: "length (smb_data s) = 32"
    by (simp_all add: amd_inv_def)
  let ?n = "min 32 (unat (smb_data0 s))"
  note rule = tx_bind_refines [OF _ inv]
  consider (quick) "tx_prot s = AMD756_QUICK"
    | (byte) "tx_prot s = AMD756_BYTE" | (bdata) "tx_prot s = AMD756_BYTE_DATA"
    | (wdata) "tx_prot s = AMD756_WORD_DATA" | (block) "tx_prot s = AMD756_BLOCK_DATA"
    | (other) "tx_prot s \<notin> {AMD756_QUICK, AMD756_BYTE, AMD756_BYTE_DATA, AMD756_WORD_DATA, AMD756_BLOCK_DATA}"
    by blast
  then show ?thesis
  proof cases
    case quick
    then show ?thesis
      using rule [OF quick_command_refines [OF r addr, of "tx_read s"], where k = tx_done and k' = tx_done]
      by (simp add: amd756_smb_transaction_def amd_spec_def Let_def)
  next
    case byte
    then show ?thesis
      using rule [OF receive_byte_refines [OF r addr], where k = tx_data8 and k' = tx_data8]
        rule [OF send_byte_refines [OF r addr, of "smb_cmd s"], where k = tx_done and k' = tx_done]
      by (simp add: amd756_smb_transaction_def amd_spec_def amd_protocols case_prod_unfold Let_def)
  next
    case bdata
    then show ?thesis
      using rule [OF read_byte_refines [OF r addr, of "smb_cmd s"], where k = tx_data8 and k' = tx_data8]
        rule [OF write_byte_refines [OF r addr, of "smb_cmd s" "smb_data0 s"], where k = tx_done and k' = tx_done]
      by (simp add: amd756_smb_transaction_def amd_spec_def amd_protocols case_prod_unfold Let_def)
  next
    case wdata
    then show ?thesis
      using rule [OF read_word_refines [OF r addr, of "smb_cmd s"], where k = tx_data16 and k' = tx_data16]
        rule [OF write_word_refines [OF r addr, of "smb_cmd s"
          "push_bit 8 (ucast (smb_data1 s)) OR ucast (smb_data0 s)", unfolded word_bytes], where k = tx_done and k' = tx_done]
      by (simp add: amd756_smb_transaction_def amd_spec_def amd_protocols case_prod_unfold Let_def)
  next
    case block
    show ?thesis
    proof (cases "tx_read s")
      case True
      from read_block_refines [OF r addr, of 32 "smb_data s" "smb_cmd s"] l
      obtain rt buf' bus' where "smbus_read_block sc (smbus s) (tx_addr s) (smb_cmd s) (smb_data s) 32 True True
          = Some (rt, buf', bus')"
        and t: "tx_refines dinv (Some (rt, bus')) (on_dev (bus_devs (smbus s)) (tx_addr s)
          (\<lambda>d. (int (length (fst (block_read_spec sc 32 (smb_cmd s) d))), snd (block_read_spec sc 32 (smb_cmd s) d))))"
        and b: "buf' = block_filled sc (bus_devs (smbus s)) (tx_addr s) (smb_cmd s) (smb_data s)"
        unfolding block_filled_def by auto
      moreover have "length buf' = 32"
        using l by (auto simp: b block_filled_def block_read_spec_def drecvs_length case_prod_unfold Let_def split: option.splits)
      ultimately show ?thesis
        using block True inv
        by (elim tx_refinesE) (simp add: amd756_smb_transaction_def amd_spec_def amd_protocols
            amd_inv_def case_prod_unfold Let_def)
    next
      case False
      have "?n \<le> 32" "?n \<le> length (smb_data s)" using l by simp_all
      from rule [OF write_block_refines [OF r addr this, of "smb_cmd s"], where k = tx_done and k' = tx_done]
      show ?thesis using block False
        by (simp add: amd756_smb_transaction_def amd_spec_def amd_protocols Let_def
            write_block_clip [where len = "unat (smb_data0 s)"])
    qed
  next
    case other
    then show ?thesis using inv
      by (simp add: amd756_smb_transaction_def amd_spec_def amd_inv_def Let_def)
  qed
qed

lemma writeb_inv:
  assumes inv: "amd_inv dinv s" and addr: "tx_addr s \<noteq> I2C_BROADCAST"
  shows "\<exists>s'. amd756_smb_ioport_writeb sc s p v = Some s' \<and> amd_inv dinv s'"
proof -
  have idx: "unat (smb_index s) < length (smb_data s)"
    and nxt: "unat (next_index (smb_index s)) < 32"
    using inv next_index_bound [of "smb_index s"] by (simp_all add: amd_inv_def)
  define s1 where "s1 = (let s = s\<lparr>smb_ctl := ucast v\<rparr> in
    if (ucast v :: u8) AND GE_ABORT \<noteq> 0 then s\<lparr>smb_stat := smb_stat s OR GS_ABRT_STS\<rparr> else s)"
  have "amd_inv dinv s1" "tx_addr s1 = tx_addr s"
    using inv by (simp_all add: s1_def amd_inv_def tx_addr_def Let_def)
  then obtain s2 where s2: "amd756_smb_transaction sc s1 = Some s2" "amd_inv dinv s2"
    using transaction_refines [of s1] addr by auto
  have stat: "\<exists>s'. amd756_smb_ioport_writeb sc s p v = Some s' \<and> amd_inv dinv s'"
    if "p AND 0x3f = SMB_GLOBAL_STATUS"
    using that inv by (simp add: amd756_smb_ioport_writeb_def amd_inv_def Let_def)
  have ctl: "\<exists>s'. amd756_smb_ioport_writeb sc s p v = Some s' \<and> amd_inv dinv s'"
    if "p AND 0x3f = SMB_GLOBAL_ENABLE"
    using that inv s2 \<open>amd_inv dinv s1\<close>
    by (auto simp: amd756_smb_ioport_writeb_def amd_ports Let_def s1_def [unfolded Let_def, symmetric]
        amd_inv_def)
  show ?thesis
    using stat ctl inv idx nxt
    by (auto simp: amd756_smb_ioport_writeb_def Let_def amd_inv_def)
qed

lemma readb_inv:
  assumes inv: "amd_inv dinv s"
  shows "\<exists>v s'. amd756_smb_ioport_readb s p = Some (v, s') \<and> amd_inv dinv s' \<and> tx_addr s' = tx_addr s"
proof -
  have "unat (smb_index s) < length (smb_data s)" "unat (next_index (smb_index s)) < 32"
    using inv next_index_bound [of "smb_index s"] by (simp_all add: amd_inv_def)
  then show ?thesis using inv
    by (auto simp: amd756_smb_ioport_readb_def Let_def amd_inv_def tx_addr_def)
qed

text \<open>The effect of a byte write and of a byte read on the device, as a guest program does them.\<close>

lemma port_write_byte:
  assumes inv: "amd_inv dinv s"
    and ad: "drop_bit 1 ad AND 0x7f = a" "ad AND 1 = 0" "a \<noteq> I2C_BROADCAST"
    and i: "find_dev (bus_devs (smbus s)) a = Some i"
  shows "\<exists>s'. run_ports sc [OUT SMB_HOST_ADDRESS (ucast ad), OUT SMB_HOST_COMMAND (ucast c),
      OUT SMB_HOST_DATA (ucast v), OUT SMB_GLOBAL_ENABLE (ucast (GE_HOST_STC OR AMD756_BYTE_DATA))] s
      = Some ([], s') \<and> amd_inv dinv s' \<and>
    bus_devs (smbus s') = (bus_devs (smbus s))[i := (a, dwrite sc (snd (bus_devs (smbus s) ! i)) [c, v])] \<and>
    smb_stat s' = smb_stat s OR GS_HCYC_STS"
proof -
  define s1 where "s1 = s\<lparr>smb_addr := ad, smb_cmd := c, smb_data0 := v,
    smb_ctl := GE_HOST_STC OR AMD756_BYTE_DATA\<rparr>"
  have s1: "amd_inv dinv s1" "tx_addr s1 = a" "\<not> tx_read s1" "tx_prot s1 = AMD756_BYTE_DATA"
    "smbus s1 = smbus s" "smb_cmd s1 = c" "smb_data0 s1 = v" "smb_stat s1 = smb_stat s"
    using inv ad by (simp_all add: s1_def amd_inv_def tx_addr_def tx_read_def tx_prot_def
        amd_control amd_protocols)
  then obtain s2 where s2: "amd756_smb_transaction sc s1 = Some s2" "amd_inv dinv s2"
      "abs_amd s2 = amd_spec sc (abs_amd s1)"
    using transaction_refines [of s1] ad by auto
  have "amd_spec sc (abs_amd s1) = (abs_amd s1)\<lparr>
      smbus := (bus_devs (smbus s))[i := (a, dwrite sc (snd (bus_devs (smbus s) ! i)) [c, v])],
      smb_stat := smb_stat s OR GS_HCYC_STS\<rparr>"
    using s1 i by (simp add: amd_spec_def on_dev_def tx_done_def amd_protocols Let_def)
  then have "smbus (abs_amd s2) = (bus_devs (smbus s))[i := (a, dwrite sc (snd (bus_devs (smbus s) ! i)) [c, v])]"
    "smb_stat (abs_amd s2) = smb_stat s OR GS_HCYC_STS"
    using s2(3) by simp_all
  moreover have "run_ports sc [OUT SMB_HOST_ADDRESS (ucast ad), OUT SMB_HOST_COMMAND (ucast c),
      OUT SMB_HOST_DATA (ucast v), OUT SMB_GLOBAL_ENABLE (ucast (GE_HOST_STC OR AMD756_BYTE_DATA))] s = Some ([], s2)"
    using s2(1) by (simp add: amd756_smb_ioport_writeb_def amd_ports amd_control amd_protocols s1_def Let_def)
  ultimately show ?thesis using s2(2) by simp
qed

lemma port_read_byte:
  assumes inv: "amd_inv dinv s"
    and ad: "drop_bit 1 ad AND 0x7f = a" "ad AND 1 \<noteq> 0" "a \<noteq> I2C_BROADCAST"
    and i: "find_dev (bus_devs (smbus s)) a = Some i"
  shows "\<exists>s'. run_ports sc [OUT SMB_HOST_ADDRESS (ucast ad), OUT SMB_HOST_COMMAND (ucast c),
      OUT SMB_GLOBAL_ENABLE (ucast (GE_HOST_STC OR AMD756_BYTE_DATA)), INP SMB_HOST_DATA] s
      = Some ([ucast (fst (drecv sc (dwrite sc (snd (bus_devs (smbus s) ! i)) [c])))], s') \<and> amd_inv dinv s' \<and>
    bus_devs (smbus s') = (bus_devs (smbus s))[i := (a, snd (drecv sc (dwrite sc (snd (bus_devs (smbus s) ! i)) [c])))] \<and>
    smb_stat s' = smb_stat s OR GS_HCYC_STS"
proof -
  let ?r = "drecv sc (dwrite sc (snd (bus_devs (smbus s) ! i)) [c])"
  define s1 where "s1 = s\<lparr>smb_addr := ad, smb_cmd := c, smb_ctl := GE_HOST_STC OR AMD756_BYTE_DATA\<rparr>"
  have s1: "amd_inv dinv s1" "tx_addr s1 = a" "tx_read s1" "tx_prot s1 = AMD756_BYTE_DATA"
    "smbus s1 = smbus s" "smb_cmd s1 = c" "smb_stat s1 = smb_stat s"
    using inv ad by (simp_all add: s1_def amd_inv_def tx_addr_def tx_read_def tx_prot_def
        amd_control amd_protocols)
  then obtain s2 where s2: "amd756_smb_transaction sc s1 = Some s2" "amd_inv dinv s2"
      "abs_amd s2 = amd_spec sc (abs_amd s1)"
    using transaction_refines [of s1] ad by auto
  have "amd_spec sc (abs_amd s1) = (abs_amd s1)\<lparr>smbus := (bus_devs (smbus s))[i := (a, snd ?r)],
      smb_data0 := fst ?r, smb_stat := smb_stat s OR GS_HCYC_STS\<rparr>"
    using s1 i by (simp add: amd_spec_def on_dev_def tx_done_def tx_data8_def amd_protocols
        case_prod_unfold Let_def)
  then have "smbus (abs_amd s2) = (bus_devs (smbus s))[i := (a, snd ?r)]"
    "smb_stat (abs_amd s2) = smb_stat s OR GS_HCYC_STS" "smb_data0 (abs_amd s2) = fst ?r"
    using s2(3) by simp_all
  moreover have "run_ports sc [OUT SMB_HOST_ADDRESS (ucast ad), OUT SMB_HOST_COMMAND (ucast c),
      OUT SMB_GLOBAL_ENABLE (ucast (GE_HOST_STC OR AMD756_BYTE_DATA)), INP SMB_HOST_DATA] s
      = Some ([ucast (smb_data0 s2)], s2)"
    using s2(1) by (simp add: amd756_smb_ioport_writeb_def amd756_smb_ioport_readb_def
        amd_ports amd_control amd_protocols s1_def Let_def)
  ultimately show ?thesis using s2(2) by simp
qed

end

end
