(* ===== verification/Xbox_SMBus.thy ===== *)
theory Xbox_SMBus
  imports AMD756 Xbox_SMC SMBus_Storage SMBus_Encoders
begin

text \<open>
  The SMBus of the Xbox machine: the devices that \<open>xbox_init_common\<close> (\<^verbatim>\<open>hw/xbox/xbox.c\<close>) puts on
  it and the EEPROM of \<^verbatim>\<open>hw/xbox/smbus_storage.c\<close>. A device on the bus is one of the constructors
  of \<open>xbox_dev\<close>; \<open>xbox_class\<close> is its class, the callbacks the \<open>class_init\<close> functions install. The
  interpretation \<open>xsmb\<close> discharges the device contract for all of them, which gives the
  refinement of the host controller for this machine.
\<close>

section \<open>Devices and their classes\<close>

datatype xbox_dev =
    SMC (the_smc: smc_device)
  | EEPROM (the_eeprom: storage_device)
  | ADM1032 (the_adm: adm1032_device)
  | CX25871 (the_cx: encoder_device)
  | FS454 (the_fs: encoder_device)
  | XCALIBUR (the_xcal: encoder_device)

definition lift_class ::
  "('a \<Rightarrow> 'd) \<Rightarrow> ('d \<Rightarrow> 'a) \<Rightarrow> 'a smbus_device_class \<Rightarrow> 'd smbus_device_class" where
  "lift_class C un c =
     \<lparr>quick_cmd = map_option (\<lambda>f d rd. C (f (un d) rd)) (quick_cmd c),
      write_data = map_option (\<lambda>f d buf len. map_option (map_prod id C) (f (un d) buf len)) (write_data c),
      receive_byte = map_option (\<lambda>f d. map_option (map_prod id C) (f (un d))) (receive_byte c)\<rparr>"

definition adm1032_class :: "adm1032_device smbus_device_class" where
  "adm1032_class = \<lparr>quick_cmd = Some smbus_adm1032_quick_cmd,
     write_data = Some smbus_adm1032_write_data, receive_byte = Some smbus_adm1032_receive_byte\<rparr>"

definition cx25871_class :: "encoder_device smbus_device_class" where
  "cx25871_class = \<lparr>quick_cmd = Some smbus_cx25871_quick_cmd,
     write_data = Some smbus_cx25871_write_data, receive_byte = Some smbus_cx25871_receive_byte\<rparr>"

definition fs454_class :: "encoder_device smbus_device_class" where
  "fs454_class = \<lparr>quick_cmd = Some smbus_fs454_quick_cmd,
     write_data = Some smbus_fs454_write_data, receive_byte = Some smbus_fs454_receive_byte\<rparr>"

definition xcalibur_class :: "encoder_device smbus_device_class" where
  "xcalibur_class = \<lparr>quick_cmd = Some smbus_xcalibur_quick_cmd,
     write_data = Some smbus_xcalibur_write_data, receive_byte = Some smbus_xcalibur_receive_byte\<rparr>"

fun xbox_class :: "xbox_dev \<Rightarrow> xbox_dev smbus_device_class" where
  "xbox_class (SMC _) = lift_class SMC the_smc smc_class"
| "xbox_class (EEPROM _) = lift_class EEPROM the_eeprom storage_class"
| "xbox_class (ADM1032 _) = lift_class ADM1032 the_adm adm1032_class"
| "xbox_class (CX25871 _) = lift_class CX25871 the_cx cx25871_class"
| "xbox_class (FS454 _) = lift_class FS454 the_fs fs454_class"
| "xbox_class (XCALIBUR _) = lift_class XCALIBUR the_xcal xcalibur_class"

fun xbox_dev_inv :: "xbox_dev \<Rightarrow> bool" where
  "xbox_dev_inv (SMC d) = smc_inv d"
| "xbox_dev_inv (EEPROM d) = storage_inv d"
| "xbox_dev_inv (ADM1032 d) = True"
| "xbox_dev_inv (CX25871 d) = encoder_inv d"
| "xbox_dev_inv (FS454 d) = encoder_inv d"
| "xbox_dev_inv (XCALIBUR d) = encoder_inv d"

section \<open>The bus of the machine\<close>

definition new_slave :: "u8 \<Rightarrow> 'd \<Rightarrow> 'd smbus_device" where
  "new_slave addr d = \<lparr>address = addr, mode = SMBUS_IDLE, data_len = 0,
     data_buf = replicate SMBUS_DATA_MAX_LEN 0, dev = d\<rparr>"

text \<open>
  In the order \<open>xbox_init_common\<close> creates them. A new child is put at the head of the bus's list,
  and the EEPROM, which comes from the command line, after them.
\<close>

definition xbox_smbus_devices :: "string \<Rightarrow> smc_device \<Rightarrow> (u8 \<times> xbox_dev) list" where
  "xbox_smbus_devices video_encoder smc =
     (let enc = smbus_cx25871_realize \<lparr>enc_registers = [], enc_cmd = 0\<rparr>;
          fs = smbus_fs454_realize \<lparr>enc_registers = [], enc_cmd = 0\<rparr>;
          xc = smbus_xcalibur_realize \<lparr>enc_registers = [], enc_cmd = 0\<rparr> in
      (0x10, SMC smc) #
      (if video_encoder \<noteq> ''xcalibur'' then
         (if video_encoder = ''conexant'' then [(0x45, CX25871 enc)]
          else if video_encoder = ''focus'' then [(0x6A, FS454 fs)]
          else []) @
         [(0x4C, ADM1032 (smbus_adm1032_realize \<lparr>adm_cmd = 0\<rparr>))]
       else [(0x70, XCALIBUR xc)]))"

definition xbox_init_smbus :: "string \<Rightarrow> smc_device \<Rightarrow> storage_device \<Rightarrow> xbox_dev sbus" where
  "xbox_init_smbus video_encoder smc eeprom =
     i2c_init_bus (map (\<lambda>(a, d). new_slave a d)
       (rev (xbox_smbus_devices video_encoder smc @ [(st_addr eeprom, EEPROM eeprom)])))"

section \<open>Lemmas\<close>

lemma lift_class_simps [simp]:
  "write_data (lift_class C un c) =
     map_option (\<lambda>f d buf len. map_option (map_prod id C) (f (un d) buf len)) (write_data c)"
  "receive_byte (lift_class C un c) =
     map_option (\<lambda>f d. map_option (map_prod id C) (f (un d))) (receive_byte c)"
  "quick_cmd (lift_class C un c) = map_option (\<lambda>f d rd. C (f (un d) rd)) (quick_cmd c)"
  by (simp_all add: lift_class_def)

lemmas class_defs = smc_class_def storage_class_def adm1032_class_def cx25871_class_def
  fs454_class_def xcalibur_class_def

lemmas quick_defs = smc_quick_cmd_def smbus_adm1032_quick_cmd_def smbus_cx25871_quick_cmd_def
  smbus_fs454_quick_cmd_def smbus_xcalibur_quick_cmd_def

lemma xbox_write_ok:
  assumes inv: "xbox_dev_inv d" and f: "write_data (xbox_class d) = Some f"
    and len: "length buf = SMBUS_DATA_MAX_LEN" "0 < len" "unat len \<le> SMBUS_DATA_MAX_LEN"
  shows "\<exists>r d'. f d buf len = Some (r, d') \<and> xbox_dev_inv d'"
proof -
  have n: "buf \<noteq> []" and l: "unat len \<le> length buf" using len by (auto simp: SMBUS_DATA_MAX_LEN_def)
  show ?thesis
  proof (cases d)
    case (SMC s)
    then obtain r s' where "smc_write_data s buf len = Some (r, s')" "smc_inv s'"
      using inv smc_write_ok [of s buf len] len by auto
    then show ?thesis using f SMC by (auto simp: smc_class_def)
  next
    case (EEPROM s)
    then obtain r s' where "smbus_storage_write_data s buf len = Some (r, s')" "storage_inv s'"
      using inv storage_write_ok [of s len buf] len l by auto
    then show ?thesis using f EEPROM by (auto simp: storage_class_def)
  next
    case (ADM1032 s)
    then show ?thesis using f n by (auto simp: adm1032_class_def adm_write_ok)
  next
    case (CX25871 s)
    then show ?thesis using f inv encoder_write_eq [OF _ len(2) l, of s] encoder_written_inv [of s]
      by (auto simp: cx25871_class_def)
  next
    case (FS454 s)
    then show ?thesis using f inv encoder_write_eq [OF _ len(2) l, of s] encoder_written_inv [of s]
      by (auto simp: fs454_class_def encoders_agree)
  next
    case (XCALIBUR s)
    then show ?thesis using f inv encoder_write_eq [OF _ len(2) l, of s] encoder_written_inv [of s]
      by (auto simp: xcalibur_class_def encoders_agree)
  qed
qed

lemma xbox_write_local:
  assumes inv: "xbox_dev_inv d" and f: "write_data (xbox_class d) = Some f"
    and len: "length buf = SMBUS_DATA_MAX_LEN" "length buf' = SMBUS_DATA_MAX_LEN"
      "0 < len" "unat len \<le> SMBUS_DATA_MAX_LEN"
    and eq: "take (unat len) buf = take (unat len) buf'"
  shows "f d buf len = f d buf' len"
proof -
  have n: "buf ! 0 = buf' ! 0" "buf \<noteq> []" "buf' \<noteq> []"
    using take_eq_nth [OF eq, of 0] len by (auto simp: word_less_nat_alt SMBUS_DATA_MAX_LEN_def)
  have l: "unat len \<le> length buf" "unat len \<le> length buf'" using len by simp_all
  have enc: "smbus_cx25871_write_data s buf len = smbus_cx25871_write_data s buf' len"
    if "encoder_inv s" for s by (rule encoder_write_local [OF that len(3) l eq])
  have sto: "smbus_storage_write_data s buf len = smbus_storage_write_data s buf' len"
    if "storage_inv s" for s by (rule storage_write_local [OF that len(3) l eq])
  have smc: "smc_write_data s buf len = smc_write_data s buf' len" for s
    by (rule smc_write_local [OF len(1,2,3) eq])
  have adm: "smbus_adm1032_write_data s buf len = smbus_adm1032_write_data s buf' len" for s
    by (simp only: adm_write_ok n not_False_eq_True)
  show ?thesis
    by (insert inv f, cases d)
       (auto simp only: class_defs encoders_agree enc sto smc adm xbox_class.simps lift_class_simps
          xbox_dev_inv.simps smbus_device_class.simps option.map option.inject xbox_dev.sel)
qed

lemma xbox_recv_ok:
  assumes "xbox_dev_inv d" and "receive_byte (xbox_class d) = Some f"
  shows "\<exists>b d'. f d = Some (b, d') \<and> xbox_dev_inv d'"
proof (cases d)
  case (SMC s)
  then obtain b s' where "smc_receive_byte s = Some (b, s')" "smc_inv s'"
    using assms smc_receive_ok [of s] by auto
  then show ?thesis using assms SMC by (auto simp: smc_class_def)
qed (use assms in \<open>auto simp: class_defs storage_receive_ok storage_next_inv encoders_agree
       smbus_adm1032_receive_byte_def encoder_receive_eq encoder_inv_def Let_def\<close>)

interpretation xsmb: smbus_provider xbox_class xbox_dev_inv
proof unfold_locales
  fix d f rd
  assume "xbox_dev_inv d" "quick_cmd (xbox_class d) = Some f"
  then show "xbox_dev_inv (f d rd)" by (cases d) (auto simp: class_defs quick_defs)
qed (fact xbox_write_ok xbox_write_local xbox_recv_ok)+

lemma xbox_bus_ready:
  assumes "smc_inv smc" and "storage_inv eeprom"
  shows "bus_ready xbox_dev_inv (xbox_init_smbus enc smc eeprom)"
  using assms encoder_realize_inv
  by (auto simp: bus_ready_def xbox_init_smbus_def i2c_init_bus_def bus_idle_def
      xbox_smbus_devices_def new_slave_def slave_idle_def encoders_agree Let_def)

section \<open>Properties of the controller on this machine\<close>

text \<open>C1: A transaction of the SMBus host controller of the machine, run over the I2C protocol and
  the devices' own callbacks, ends, keeps the controller's invariant, and has on the registers
  and the devices the effect of the specification \<open>amd_spec\<close>, which works on the list of
  devices directly: one write, reads, or a write and reads of the addressed device, or the
  protocol error status when there is none.\<close>

theorem xbox_transaction_refines:
  assumes "amd_inv xbox_dev_inv s" and "tx_addr s \<noteq> I2C_BROADCAST"
  shows "\<exists>s'. amd756_smb_transaction xbox_class s = Some s' \<and> amd_inv xbox_dev_inv s'
    \<and> abs_amd s' = amd_spec xbox_class (abs_amd s)"
  by (rule xsmb.transaction_refines [OF assms])

definition smc_example :: smc_device where
  "smc_example = \<lparr>smc_version_string = Some (g_strdup (\<lambda>_. 0) ''P01''), smc_version_string_index = 0,
     smc_cmd = 0, smc_traystate_reg = SMC_REG_TRAYSTATE_NO_MEDIA_DETECTED, smc_avpack_reg = 1,
     smc_intstatus_reg = 0, smc_scratch_reg = 0, smc_error_reg = 0, smc_requests = [], smc_extsmi = 0\<rparr>"

definition amd_example :: "u8 \<Rightarrow> xbox_dev sbus amd756" where
  "amd_example ad = \<lparr>smbus = xbox_init_smbus ''conexant'' smc_example eeprom_example, smb_stat = 0,
     smb_ctl = GE_HOST_STC OR AMD756_BYTE_DATA, smb_cmd = 0x02, smb_addr = ad, smb_data0 = 1, smb_data1 = 0,
     smb_data = replicate 32 0, smb_index = 0, amd_irq = Some False\<rparr>"

lemma amd_example_inv: "amd_inv xbox_dev_inv (amd_example ad)"
proof -
  have "smc_inv smc_example" by (simp add: smc_inv_def smc_example_def)
  then show ?thesis
    by (simp add: amd_inv_def amd_example_def xbox_bus_ready eeprom_example_inv)
qed

lemma amd_example_devs:
  "bus_devs (smbus (amd_example ad)) =
     [(0x54, EEPROM eeprom_example), (0x4C, ADM1032 \<lparr>adm_cmd = 0\<rparr>),
      (0x45, CX25871 \<lparr>enc_registers = replicate 256 0, enc_cmd = 0\<rparr>), (0x10, SMC smc_example)]"
proof -
  have "st_addr eeprom_example = 0x54" by (simp add: eeprom_example_def)
  then show ?thesis
    by (simp add: amd_example_def xbox_init_smbus_def xbox_smbus_devices_def i2c_init_bus_def bus_devs_def
        new_slave_def smbus_adm1032_realize_def smbus_cx25871_realize_def)
qed

theorem xbox_transaction_refines_witness:
  "\<exists>s'. amd756_smb_transaction xbox_class (amd_example 0x20) = Some s' \<and> amd_inv xbox_dev_inv s'
    \<and> abs_amd s' = amd_spec xbox_class (abs_amd (amd_example 0x20))"
  by (rule xbox_transaction_refines [OF amd_example_inv])
     (simp add: tx_addr_def amd_example_def I2C_BROADCAST_def)



section \<open>Guest programs\<close>

text \<open>Writing and reading one byte of a device as a driver does it; \<open>ad\<close> is the address register.\<close>

definition prog_write :: "u8 \<Rightarrow> u8 \<Rightarrow> u8 \<Rightarrow> port_op list" where
  "prog_write ad c v = [OUT SMB_HOST_ADDRESS (ucast ad), OUT SMB_HOST_COMMAND (ucast c),
     OUT SMB_HOST_DATA (ucast v), OUT SMB_GLOBAL_ENABLE (ucast (GE_HOST_STC OR AMD756_BYTE_DATA))]"

definition prog_read :: "u8 \<Rightarrow> u8 \<Rightarrow> port_op list" where
  "prog_read ad c = [OUT SMB_HOST_ADDRESS (ucast ad), OUT SMB_HOST_COMMAND (ucast c),
     OUT SMB_GLOBAL_ENABLE (ucast (GE_HOST_STC OR AMD756_BYTE_DATA)), INP SMB_HOST_DATA]"

lemma run_ports_append:
  "run_ports sc (ops1 @ ops2) s = do {
     (v1, s1) \<leftarrow> run_ports sc ops1 s;
     (v2, s2) \<leftarrow> run_ports sc ops2 s1;
     Some (v1 @ v2, s2)
   }"
  by (induction sc ops1 s rule: run_ports.induct) (auto simp: bind_eq_Some_conv split: Option.bind_splits)

lemma lift_dwrite [simp]:
  "dwrite xbox_class (SMC d) bs = SMC (dwrite (\<lambda>_. smc_class) d bs)"
  "dwrite xbox_class (EEPROM e) bs = EEPROM (dwrite stc e bs)"
  by (auto simp: dwrite_def map_option_case split: option.splits)

lemma lift_drecv [simp]:
  "xbox_dev_inv (SMC d) \<Longrightarrow> drecv xbox_class (SMC d) =
     (fst (drecv (\<lambda>_. smc_class) d), SMC (snd (drecv (\<lambda>_. smc_class) d)))"
  "xbox_dev_inv (EEPROM e) \<Longrightarrow> drecv xbox_class (EEPROM e) = (fst (drecv stc e), EEPROM (snd (drecv stc e)))"
  by (auto simp: drecv_def map_option_case split: option.splits)

lemma find_dev_update:
  "find_dev ds a = Some i \<Longrightarrow> i < length ds \<and> find_dev (ds[i := (a, d)]) a = Some i"
proof (induction ds arbitrary: i)
  case (Cons x ds)
  then show ?case by (cases x) (auto split: if_splits)
qed simp

lemma find_dev_inv:
  assumes "amd_inv dinv s" and "find_dev (bus_devs (smbus s)) a = Some i"
  shows "dinv (snd (bus_devs (smbus s) ! i))"
  using assms find_dev_answers [of "children (smbus s)" a i]
  by (auto simp: amd_inv_def bus_ready_def bus_devs_def answers_def)

text \<open>C2: The EEPROM keeps what the guest writes to it: a program that writes a byte at an offset of
  the device with bus address 0x54 through the ports of the controller, and then reads
  that offset, reads the byte it wrote.\<close>

theorem eeprom_ports_roundtrip:
  assumes inv: "amd_inv xbox_dev_inv s"
    and i: "find_dev (bus_devs (smbus s)) 0x54 = Some i" "snd (bus_devs (smbus s) ! i) = EEPROM e"
  shows "\<exists>s'. run_ports xbox_class (prog_write 0xA8 off v @ prog_read 0xA9 off) s = Some ([ucast v], s')
    \<and> amd_inv xbox_dev_inv s'"
proof -
  have e: "storage_inv e" using find_dev_inv [OF inv i(1)] i(2) by simp
  have ad: "drop_bit 1 0xA8 AND 0x7f = (0x54 :: u8)" "drop_bit 1 0xA9 AND 0x7f = (0x54 :: u8)"
    "0xA8 AND 1 = (0 :: u8)" "0xA9 AND 1 \<noteq> (0 :: u8)" "(0x54 :: u8) \<noteq> I2C_BROADCAST"
    by (simp_all add: I2C_BROADCAST_def)
  obtain s1 where s1: "run_ports xbox_class (prog_write 0xA8 off v) s = Some ([], s1)" "amd_inv xbox_dev_inv s1"
    "bus_devs (smbus s1) = (bus_devs (smbus s))[i := (0x54, EEPROM (dwrite stc e [off, v]))]"
    using xsmb.port_write_byte [OF inv ad(1,3,5) i(1), of off v] i(2) by (auto simp: prog_write_def)
  note i' = find_dev_update [OF i(1), of "EEPROM (dwrite stc e [off, v])"]
  let ?e = "dwrite stc (dwrite stc e [off, v]) [off]"
  have inv': "storage_inv ?e" using e by (simp add: storage_dwrite storage_written_inv)
  have "fst (drecv stc ?e) = v"
    using storage_write_read_byte [OF e, of off v] by simp
  then obtain s2 where "run_ports xbox_class (prog_read 0xA9 off) s1 = Some ([ucast v], s2)" "amd_inv xbox_dev_inv s2"
    using xsmb.port_read_byte [OF s1(2) ad(2,4,5), of i off] s1(3) i' inv' by (auto simp: prog_read_def)
  then show ?thesis using s1(1) by (simp add: run_ports_append)
qed

theorem eeprom_ports_roundtrip_witness:
  "\<exists>s'. run_ports xbox_class (prog_write 0xA8 5 42 @ prog_read 0xA9 5) (amd_example 0) = Some ([ucast (42 :: u8)], s')
    \<and> amd_inv xbox_dev_inv s'"
  by (rule eeprom_ports_roundtrip [OF amd_example_inv, where i = 0 and e = eeprom_example])
     (simp_all add: amd_example_devs)

text \<open>C10: A driver that writes the power register of the system management controller gets what it
  asks for: the reset or the power cycle bit requests a reset of the machine, otherwise the
  shutdown bit requests a shutdown, and no other value requests anything.\<close>

theorem smc_power_ports:
  assumes inv: "amd_inv xbox_dev_inv s"
    and i: "find_dev (bus_devs (smbus s)) 0x10 = Some i" "snd (bus_devs (smbus s) ! i) = SMC d"
  shows "\<exists>s' d'. run_ports xbox_class (prog_write 0x20 SMC_REG_POWER v) s = Some ([], s')
    \<and> snd (bus_devs (smbus s') ! i) = SMC d'
    \<and> smc_requests d' = smc_requests d @
        (if bit v 0 \<or> bit v 6 then [RESET_REQUEST] else if bit v 7 then [SHUTDOWN_REQUEST] else [])"
proof -
  have ad: "drop_bit 1 0x20 AND 0x7f = (0x10 :: u8)" "0x20 AND 1 = (0 :: u8)" "(0x10 :: u8) \<noteq> I2C_BROADCAST"
    by (simp_all add: I2C_BROADCAST_def)
  obtain s1 where s1: "run_ports xbox_class (prog_write 0x20 SMC_REG_POWER v) s = Some ([], s1)"
    "bus_devs (smbus s1) = (bus_devs (smbus s))[i := (0x10, SMC (dwrite (\<lambda>_. smc_class) d [SMC_REG_POWER, v]))]"
    using xsmb.port_write_byte [OF inv ad i(1), of SMC_REG_POWER v] i(2) by (auto simp: prog_write_def)
  have "v AND (SMC_REG_POWER_RESET OR SMC_REG_POWER_CYCLE) \<noteq> 0 \<longleftrightarrow> bit v 0 \<or> bit v 6"
    "v AND SMC_REG_POWER_SHUTDOWN \<noteq> 0 \<longleftrightarrow> bit v 7"
    by (simp_all only: and_or_nonzero and_lits)
  then have "smc_requests (dwrite (\<lambda>_. smc_class) d [SMC_REG_POWER, v]) = smc_requests d @
        (if bit v 0 \<or> bit v 6 then [RESET_REQUEST] else if bit v 7 then [SHUTDOWN_REQUEST] else [])"
    by (simp add: dwrite_def smc_class_def smc_write_eq pad_buf_def SMBUS_DATA_MAX_LEN_def smc_write_reg_def)
  then show ?thesis using s1 find_dev_update [OF i(1)] by simp
qed

theorem smc_power_ports_witness:
  "\<exists>s' d'. run_ports xbox_class (prog_write 0x20 SMC_REG_POWER 0x80) (amd_example 0) = Some ([], s')
    \<and> snd (bus_devs (smbus s') ! 3) = SMC d'
    \<and> smc_requests d' = smc_requests smc_example @
        (if bit (0x80 :: u8) 0 \<or> bit (0x80 :: u8) 6 then [RESET_REQUEST]
         else if bit (0x80 :: u8) 7 then [SHUTDOWN_REQUEST] else [])"
  by (rule smc_power_ports [OF amd_example_inv, where i = 3 and d = smc_example])
     (simp_all add: amd_example_devs)

end
