(* ===== verification/Super_IO.thy ===== *)
theory Super_IO
  imports Prelude
begin

text \<open>
  The Super I/O chip of \<^verbatim>\<open>hw/xbox/lpc47m157.c\<close>: a configuration mode with an index and a data port, registers of the
  chip and of its logical devices, and the two serial ports that these registers place in the I/O space. The port
  region and the interrupt line of a serial port are fields of its state; the serial core behind them is not
  part of this component.
\<close>

section \<open>Registers\<close>

abbreviation (input) MAX_DEVICE :: nat where "MAX_DEVICE \<equiv> 0xC"
abbreviation (input) DEVICE_SERIAL_PORT_1 :: nat where "DEVICE_SERIAL_PORT_1 \<equiv> 0x4"
abbreviation (input) CONFIG_PORT :: u64 where "CONFIG_PORT \<equiv> 0x00"
abbreviation (input) INDEX_PORT :: u64 where "INDEX_PORT \<equiv> 0x00"
abbreviation (input) DATA_PORT :: u64 where "DATA_PORT \<equiv> 0x01"
abbreviation (input) ENTER_CONFIG_KEY :: u64 where "ENTER_CONFIG_KEY \<equiv> 0x55"
abbreviation (input) EXIT_CONFIG_KEY :: u64 where "EXIT_CONFIG_KEY \<equiv> 0xAA"
abbreviation (input) MAX_CONFIG_REG :: nat where "MAX_CONFIG_REG \<equiv> 0x30"
abbreviation (input) MAX_DEVICE_REGS :: nat where "MAX_DEVICE_REGS \<equiv> 0xFF"
abbreviation (input) CONFIG_DEVICE_NUMBER :: nat where "CONFIG_DEVICE_NUMBER \<equiv> 0x07"
abbreviation (input) CONFIG_PORT_LOW :: nat where "CONFIG_PORT_LOW \<equiv> 0x26"
abbreviation (input) CONFIG_PORT_HIGH :: nat where "CONFIG_PORT_HIGH \<equiv> 0x27"
abbreviation (input) CONFIG_DEVICE_ACTIVATE :: nat where "CONFIG_DEVICE_ACTIVATE \<equiv> 0x30"
abbreviation (input) CONFIG_DEVICE_BASE_ADDRESS_HIGH :: nat where "CONFIG_DEVICE_BASE_ADDRESS_HIGH \<equiv> 0x60"
abbreviation (input) CONFIG_DEVICE_BASE_ADDRESS_LOW :: nat where "CONFIG_DEVICE_BASE_ADDRESS_LOW \<equiv> 0x61"
abbreviation (input) CONFIG_DEVICE_INTERRUPT :: nat where "CONFIG_DEVICE_INTERRUPT \<equiv> 0x70"

section \<open>State and operations\<close>

record lpc_serial =
  ser_active :: bool
  ser_iobase :: u16
  ser_irq :: u8
  ser_line :: "u8 option"    \<comment> \<open>the interrupt line that is connected\<close>
  ser_region :: "u16 option" \<comment> \<open>where the port region is registered\<close>

record lpc47m157 =
  lpc_sysopt :: bool
  lpc_iobase :: u16
  lpc_region :: "u16 option"
  lpc_configuration_mode :: bool
  lpc_selected_reg :: u32
  lpc_config_regs :: "u8 list"
  lpc_device_regs :: "u8 list list"
  lpc_serials :: "lpc_serial list"

definition update_serial :: "lpc47m157 \<Rightarrow> nat \<Rightarrow> lpc47m157 option" where
  "update_serial s i = do {
     serial \<leftarrow> arr_get (lpc_serials s) i;
     dev \<leftarrow> arr_get (lpc_device_regs s) (DEVICE_SERIAL_PORT_1 + i);
     high \<leftarrow> arr_get dev CONFIG_DEVICE_BASE_ADDRESS_HIGH;
     low \<leftarrow> arr_get dev CONFIG_DEVICE_BASE_ADDRESS_LOW;
     interrupt \<leftarrow> arr_get dev CONFIG_DEVICE_INTERRUPT;
     activate \<leftarrow> arr_get dev CONFIG_DEVICE_ACTIVATE;
     let iobase = push_bit 8 (ucast high) OR ucast low;
     let irq = interrupt AND 0x0f;
     let serial = (if ser_active serial \<and> (activate = 0 \<or> ser_iobase serial \<noteq> iobase \<or> ser_irq serial \<noteq> irq)
                   then serial\<lparr>ser_region := None, ser_line := None, ser_active := False\<rparr> else serial);
     let serial = (if \<not> ser_active serial \<and> activate \<noteq> 0
                   then serial\<lparr>ser_line := (if irq \<noteq> 0 then Some irq else None), ser_region := Some iobase,
                               ser_iobase := iobase, ser_irq := irq, ser_active := True\<rparr> else serial);
     serials \<leftarrow> arr_set (lpc_serials s) i serial;
     Some (s\<lparr>lpc_serials := serials\<rparr>)
   }"

definition update_devices :: "lpc47m157 \<Rightarrow> lpc47m157 option" where
  "update_devices s = do { s \<leftarrow> update_serial s 0; update_serial s 1 }"

definition lpc47m157_io_write :: "lpc47m157 \<Rightarrow> u64 \<Rightarrow> u64 \<Rightarrow> lpc47m157 option" where
  "lpc47m157_io_write s addr val =
     (if addr = CONFIG_PORT \<and> (val = ENTER_CONFIG_KEY \<or> val = EXIT_CONFIG_KEY) then
        if val = ENTER_CONFIG_KEY then Some (s\<lparr>lpc_configuration_mode := True\<rparr>)
        else do {
          s \<leftarrow> (if lpc_configuration_mode s then update_devices s else Some s);
          Some (s\<lparr>lpc_configuration_mode := False\<rparr>)
        }
      else if lpc_configuration_mode s then
        if addr = INDEX_PORT then Some (s\<lparr>lpc_selected_reg := ucast val\<rparr>)
        else if addr = DATA_PORT then
          if unat (lpc_selected_reg s) < MAX_CONFIG_REG then do {
            regs \<leftarrow> arr_set (lpc_config_regs s) (unat (lpc_selected_reg s)) (ucast val);
            Some (s\<lparr>lpc_config_regs := regs\<rparr>)
          }
          else do {
            device \<leftarrow> arr_get (lpc_config_regs s) CONFIG_DEVICE_NUMBER;
            assert_that (unat device < MAX_DEVICE);
            dev \<leftarrow> arr_get (lpc_device_regs s) (unat device);
            dev \<leftarrow> arr_set dev (unat (lpc_selected_reg s)) (ucast val);
            devs \<leftarrow> arr_set (lpc_device_regs s) (unat device) dev;
            Some (s\<lparr>lpc_device_regs := devs\<rparr>)
          }
        else None
      else Some s)"

definition lpc47m157_io_read :: "lpc47m157 \<Rightarrow> u64 \<Rightarrow> u64 option" where
  "lpc47m157_io_read s addr =
     (if lpc_configuration_mode s then
        if addr = DATA_PORT then
          if unat (lpc_selected_reg s) < MAX_CONFIG_REG then do {
            v \<leftarrow> arr_get (lpc_config_regs s) (unat (lpc_selected_reg s));
            Some (ucast v)
          }
          else do {
            device \<leftarrow> arr_get (lpc_config_regs s) CONFIG_DEVICE_NUMBER;
            assert_that (unat device < MAX_DEVICE);
            dev \<leftarrow> arr_get (lpc_device_regs s) (unat device);
            v \<leftarrow> arr_get dev (unat (lpc_selected_reg s));
            Some (ucast v)
          }
        else if addr \<noteq> INDEX_PORT then None
        else Some 0
      else Some 0)"

definition lpc47m157_realize :: "lpc47m157 \<Rightarrow> lpc47m157 option" where
  "lpc47m157_realize s = do {
     let iobase = (if lpc_sysopt s then 0x4e else 0x2e);
     regs \<leftarrow> arr_set (lpc_config_regs s) CONFIG_PORT_LOW (ucast (iobase AND 0xff));
     regs \<leftarrow> arr_set regs CONFIG_PORT_HIGH (ucast (drop_bit 8 iobase));
     Some (s\<lparr>lpc_iobase := iobase, lpc_config_regs := regs, lpc_region := Some iobase\<rparr>)
   }"

definition lpc47m157_post_load :: "lpc47m157 \<Rightarrow> lpc47m157 option" where
  "lpc47m157_post_load s = update_devices s"

section \<open>The chip between two accesses\<close>

definition serial_ok :: "lpc_serial \<Rightarrow> bool" where
  "serial_ok p = (if ser_active p
     then ser_region p = Some (ser_iobase p) \<and> ser_line p = (if ser_irq p \<noteq> 0 then Some (ser_irq p) else None)
     else ser_region p = None \<and> ser_line p = None)"

definition lpc_ok :: "lpc47m157 \<Rightarrow> bool" where
  "lpc_ok s = (length (lpc_config_regs s) = MAX_CONFIG_REG \<and> length (lpc_device_regs s) = MAX_DEVICE
     \<and> list_all (\<lambda>dev. length dev = MAX_DEVICE_REGS) (lpc_device_regs s)
     \<and> length (lpc_serials s) = 2 \<and> list_all serial_ok (lpc_serials s))"

text \<open>Where the registers of a serial device place its port, and the line they select.\<close>

definition placed_region :: "u8 list \<Rightarrow> u16 option" where
  "placed_region dev = (if dev ! CONFIG_DEVICE_ACTIVATE \<noteq> 0
     then Some (push_bit 8 (ucast (dev ! CONFIG_DEVICE_BASE_ADDRESS_HIGH)) OR ucast (dev ! CONFIG_DEVICE_BASE_ADDRESS_LOW))
     else None)"

definition placed_line :: "u8 list \<Rightarrow> u8 option" where
  "placed_line dev = (let irq = dev ! CONFIG_DEVICE_INTERRUPT AND 0x0f in
     if dev ! CONFIG_DEVICE_ACTIVATE \<noteq> 0 \<and> irq \<noteq> 0 then Some irq else None)"

definition follows :: "lpc_serial \<Rightarrow> u8 list \<Rightarrow> bool" where
  "follows p dev \<longleftrightarrow> serial_ok p \<and> ser_active p = (dev ! CONFIG_DEVICE_ACTIVATE \<noteq> 0)
     \<and> ser_region p = placed_region dev \<and> ser_line p = placed_line dev"

lemma lpc_okD:
  assumes "lpc_ok s"
  shows "length (lpc_config_regs s) = 48" and "length (lpc_device_regs s) = 12"
    and "i < 12 \<Longrightarrow> length (lpc_device_regs s ! i) = 255" and "length (lpc_serials s) = 2"
    and "i < 2 \<Longrightarrow> serial_ok (lpc_serials s ! i)"
  using assms by (auto simp: lpc_ok_def list_all_length)

lemma update_serial_ok:
  assumes "lpc_ok s" and "i < 2"
  obtains p where "update_serial s i = Some (s\<lparr>lpc_serials := (lpc_serials s)[i := p]\<rparr>)"
    and "follows p (lpc_device_regs s ! (4 + i))"
proof -
  note d = lpc_okD[OF assms(1)]
  have ok: "serial_ok (lpc_serials s ! i)" and len: "length (lpc_device_regs s ! (4 + i)) = 255"
    using d(5)[OF assms(2)] d(3)[of "4 + i"] assms(2) by auto
  show thesis
    by (rule that)
      (use ok len assms(2) d(2,4) in \<open>auto simp: update_serial_def follows_def serial_ok_def placed_region_def
         placed_line_def Let_def add.commute split: if_splits\<close>)
qed

lemma list_all_update: "list_all P xs \<Longrightarrow> P v \<Longrightarrow> list_all P (xs[i := v])"
  using set_update_subset_insert[of xs i v] by (auto simp: list_all_iff)

lemma lpc_ok_serials:
  "lpc_ok s \<Longrightarrow> serial_ok p \<Longrightarrow> lpc_ok (s\<lparr>lpc_serials := (lpc_serials s)[i := p]\<rparr>)"
  by (simp add: lpc_ok_def list_all_update)

lemma update_devices_ok:
  assumes "lpc_ok s"
  obtains p q where "update_devices s = Some (s\<lparr>lpc_serials := [p, q]\<rparr>)"
    and "follows p (lpc_device_regs s ! 4)" and "follows q (lpc_device_regs s ! 5)"
proof -
  obtain p where p: "update_serial s 0 = Some (s\<lparr>lpc_serials := (lpc_serials s)[0 := p]\<rparr>)"
    and fp: "follows p (lpc_device_regs s ! 4)"
    using update_serial_ok[OF assms, of 0] by auto
  let ?s = "s\<lparr>lpc_serials := (lpc_serials s)[0 := p]\<rparr>"
  have ok: "lpc_ok ?s" using lpc_ok_serials[OF assms] fp by (simp add: follows_def)
  obtain q where q: "update_serial ?s 1 = Some (?s\<lparr>lpc_serials := (lpc_serials ?s)[1 := q]\<rparr>)"
    and fq: "follows q (lpc_device_regs s ! 5)"
    using update_serial_ok[OF ok, of 1] by auto
  obtain a b where "lpc_serials s = [a, b]"
    using lpc_okD(4)[OF assms] by (auto simp: length_Suc_conv numeral_2_eq_2)
  then have "update_devices s = Some (s\<lparr>lpc_serials := [p, q]\<rparr>)"
    using p q by (simp add: update_devices_def)
  then show thesis using fp fq that by blast
qed

lemma lpc_ok_placed:
  assumes "lpc_ok s" and "follows p (lpc_device_regs s ! 4)" and "follows q (lpc_device_regs s ! 5)"
  shows "lpc_ok (s\<lparr>lpc_serials := [p, q]\<rparr>)"
  using assms by (simp add: lpc_ok_def follows_def)

text \<open>A chip in configuration mode with the first serial port at 0x3F8 on line 4, and one with register 0xFF selected.\<close>

definition lpc_blank :: lpc47m157 where
  "lpc_blank = \<lparr>lpc_sysopt = False, lpc_iobase = 0, lpc_region = None, lpc_configuration_mode = False,
     lpc_selected_reg = 0, lpc_config_regs = replicate 48 0, lpc_device_regs = replicate 12 (replicate 255 0),
     lpc_serials = replicate 2 \<lparr>ser_active = False, ser_iobase = 0, ser_irq = 0, ser_line = None, ser_region = None\<rparr>\<rparr>"

lemma lpc_blank_ok: "lpc_ok lpc_blank"
  by (simp add: lpc_ok_def lpc_blank_def serial_ok_def list_all_length del: replicate.simps)

definition lpc_com1 :: lpc47m157 where
  "lpc_com1 = lpc_blank\<lparr>lpc_configuration_mode := True, lpc_device_regs :=
     (replicate 12 (replicate 255 0))[4 := (replicate 255 0)[0x30 := 1, 0x60 := 0x03, 0x61 := 0xF8, 0x70 := 4]]\<rparr>"

definition lpc_last_reg :: lpc47m157 where
  "lpc_last_reg = lpc_blank\<lparr>lpc_configuration_mode := True, lpc_selected_reg := 0xFF\<rparr>"

lemma lpc_com1_ok: "lpc_ok lpc_com1" and lpc_last_reg_ok: "lpc_ok lpc_last_reg"
  using lpc_blank_ok
  by (auto simp: lpc_ok_def lpc_com1_def lpc_last_reg_def lpc_blank_def intro!: list_all_update simp del: replicate.simps)

section \<open>Properties\<close>

text \<open>The accesses of the two ports keep the chip well formed, and so do the two operations without a port.\<close>

lemma lpc_write_ok:
  assumes "lpc_ok s" and "lpc47m157_io_write s addr val = Some s'"
  shows "lpc_ok s'"
proof -
  obtain p q where u: "update_devices s = Some (s\<lparr>lpc_serials := [p, q]\<rparr>)"
    and f: "follows p (lpc_device_regs s ! 4)" "follows q (lpc_device_regs s ! 5)"
    by (rule update_devices_ok[OF assms(1)])
  have "lpc_ok (s\<lparr>lpc_serials := [p, q], lpc_configuration_mode := False\<rparr>)"
    using lpc_ok_placed[OF assms(1) f] by (simp add: lpc_ok_def)
  then show ?thesis
    using assms u lpc_okD(3)[OF assms(1)]
    by (auto simp: lpc47m157_io_write_def lpc_ok_def bind_eq_Some_conv arr_set_eq_Some arr_get_eq_Some
          list_all_update split: if_splits)
qed

lemma lpc_realize_ok: "lpc_ok s \<Longrightarrow> \<exists>s'. lpc47m157_realize s = Some s' \<and> lpc_ok s'"
  by (simp add: lpc47m157_realize_def lpc_ok_def Let_def)

text \<open>C29: Leaving the configuration mode of the Super I/O chip never stops, ends the mode and makes both serial ports
  follow their registers: a port is active exactly if its activate register is not zero, its region then starts at
  the base address of the two address registers and its interrupt line is the low half of the interrupt register,
  with no line for zero; an inactive port has neither region nor line. No register changes, whatever the ports were
  before.\<close>

theorem exit_places_serials:
  assumes "lpc_ok s" and "lpc_configuration_mode s"
  shows "\<exists>p q. lpc47m157_io_write s 0 0xAA = Some (s\<lparr>lpc_serials := [p, q], lpc_configuration_mode := False\<rparr>)
    \<and> follows p (lpc_device_regs s ! 4) \<and> follows q (lpc_device_regs s ! 5)"
proof -
  obtain p q where "update_devices s = Some (s\<lparr>lpc_serials := [p, q]\<rparr>)"
    "follows p (lpc_device_regs s ! 4)" "follows q (lpc_device_regs s ! 5)"
    by (rule update_devices_ok[OF assms(1)])
  then show ?thesis using assms(2) by (auto simp: lpc47m157_io_write_def)
qed

theorem exit_places_serials_witness:
  "map_option (map (\<lambda>p. (ser_region p, ser_line p)) \<circ> lpc_serials) (lpc47m157_io_write lpc_com1 0 0xAA)
     = Some [(Some 0x3F8, Some 4), (None, None)]"
proof -
  have m: "lpc_configuration_mode lpc_com1" by (simp add: lpc_com1_def)
  have r: "lpc_device_regs lpc_com1 ! 4 = (replicate 255 0)[0x30 := 1, 0x60 := 0x03, 0x61 := 0xF8, 0x70 := 4]"
    "lpc_device_regs lpc_com1 ! 5 = replicate 255 0"
    by (simp_all add: lpc_com1_def del: replicate.simps)
  show ?thesis
    using exit_places_serials[OF lpc_com1_ok m] unfolding r
    by (auto simp: follows_def placed_region_def placed_line_def push_bit_eq_mult simp del: replicate.simps)
qed



text \<open>What the data port takes in configuration mode, it gives back, for the registers of the chip and of a device.\<close>

lemma lpc_data_roundtrip:
  assumes "lpc_configuration_mode s" and "lpc47m157_io_write s 1 v = Some s'"
  shows "lpc47m157_io_read s' 1 = Some (ucast (ucast v :: u8))"
  using assms by (auto simp: lpc47m157_io_write_def lpc47m157_io_read_def bind_eq_Some_conv arr_set_eq_Some arr_get_eq_Some
    assert_that_def split: if_splits)

text \<open>Outside the configuration mode only the key of entry has an effect.\<close>

lemma lpc_closed_write:
  "\<not> lpc_configuration_mode s \<Longrightarrow> lpc47m157_io_write s addr val =
     Some (if addr = 0 \<and> val = 0x55 then s\<lparr>lpc_configuration_mode := True\<rparr> else s)"
  by (auto simp: lpc47m157_io_write_def)

end
