(* ===== verification/Sha1.thy ===== *)
theory Sha1
  imports Prelude
begin

text \<open>
  SHA-1 as the EEPROM generator uses it, \<^verbatim>\<open>util/sha1.c\<close>: the context with its message block, the
  compression of a block, byte-wise input, padding and the result. The lemmas show that the
  streaming code never leaves its message block and computes the fold of the compression
  function over the padded message, \<open>sha1_spec\<close>.

  \<open>msg_blk_index\<close> is a natural number: it indexes an array of 64 bytes and every access is checked.
  \<open>sha1_input\<close> takes its bytes from a reader, since the EEPROM generator passes the context's own
  message block as the data.
\<close>

section \<open>Context\<close>

record sha1_context =
  intermediate :: "u32 list"   \<comment> \<open>\<open>uint32_t intermediate[5]\<close>\<close>
  msg_blk :: "u8 list"         \<comment> \<open>\<open>uint8_t msg_blk[64]\<close>\<close>
  msg_blk_index :: nat
  sha_length :: u32
  computed :: bool

definition sha1_rotate :: "nat \<Rightarrow> u32 \<Rightarrow> u32" where
  "sha1_rotate bits v = push_bit bits v OR drop_bit (32 - bits) v"

definition sha1_fill :: "sha1_context \<Rightarrow> u32 \<Rightarrow> u32 \<Rightarrow> u32 \<Rightarrow> u32 \<Rightarrow> u32 \<Rightarrow> sha1_context" where
  "sha1_fill ctx a b c d e = ctx\<lparr>intermediate := [a, b, c, d, e]\<rparr>"

section \<open>Compression\<close>

definition be32 :: "u8 \<Rightarrow> u8 \<Rightarrow> u8 \<Rightarrow> u8 \<Rightarrow> u32" where
  "be32 a b c d = push_bit 24 (ucast a) OR push_bit 16 (ucast b) OR push_bit 8 (ucast c) OR ucast d"

definition be32_bytes :: "u32 \<Rightarrow> u8 list" where
  "be32_bytes w = [ucast (drop_bit 24 w), ucast (drop_bit 16 w), ucast (drop_bit 8 w), ucast w]"

lemma length_be32_bytes [simp]: "length (be32_bytes w) = 4"
  by (simp add: be32_bytes_def)

fun sha1_load :: "nat \<Rightarrow> u8 list \<Rightarrow> u32 list" where
  "sha1_load 0 m = []"
| "sha1_load (Suc n) m = be32 (m ! 0) (m ! 1) (m ! 2) (m ! 3) # sha1_load n (drop 4 m)"

fun sha1_expand :: "nat \<Rightarrow> u32 list \<Rightarrow> u32 list" where
  "sha1_expand 0 w = w"
| "sha1_expand (Suc n) w =
     (let i = length w
      in sha1_expand n (w @ [sha1_rotate 1 (w ! (i - 3) XOR w ! (i - 8) XOR w ! (i - 14) XOR w ! (i - 16))]))"

definition sha1_temp :: "nat \<Rightarrow> u32 \<Rightarrow> u32 \<Rightarrow> u32 \<Rightarrow> u32 \<Rightarrow> u32 \<Rightarrow> u32 \<Rightarrow> u32" where
  "sha1_temp i wi a b c d e =
     (let temp = sha1_rotate 5 a + wi + e in
      if i div 20 = 0 then temp + (0x5A827999 + ((b AND c) OR (NOT b AND d)))
      else if i div 20 = 1 then temp + (0x6ED9EBA1 + (b XOR c XOR d))
      else if i div 20 = 2 then temp + (0x8F1BBCDC + ((b AND c) OR (b AND d) OR (c AND d)))
      else if i div 20 = 3 then temp + (0xCA62C1D6 + (b XOR c XOR d))
      else temp)"

fun sha1_rounds :: "nat \<Rightarrow> u32 list \<Rightarrow> u32 \<Rightarrow> u32 \<Rightarrow> u32 \<Rightarrow> u32 \<Rightarrow> u32 \<Rightarrow> u32 list" where
  "sha1_rounds i [] a b c d e = [a, b, c, d, e]"
| "sha1_rounds i (wi # ws) a b c d e =
     sha1_rounds (Suc i) ws (sha1_temp i wi a b c d e) a (sha1_rotate 30 b) c d"

definition sha1_compress :: "u32 list \<Rightarrow> u8 list \<Rightarrow> u32 list" where
  "sha1_compress h m =
     (let w = sha1_expand 64 (sha1_load 16 m)
      in map2 (+) h (sha1_rounds 0 w (h ! 0) (h ! 1) (h ! 2) (h ! 3) (h ! 4)))"

definition sha1_process :: "sha1_context \<Rightarrow> sha1_context" where
  "sha1_process ctx =
     ctx\<lparr>intermediate := sha1_compress (intermediate ctx) (msg_blk ctx), msg_blk_index := 0\<rparr>"

section \<open>Input, padding, result\<close>

definition sha1_put :: "u8 \<Rightarrow> sha1_context \<Rightarrow> sha1_context option" where
  "sha1_put b ctx = do {
     blk \<leftarrow> arr_set (msg_blk ctx) (msg_blk_index ctx) b;
     Some (ctx\<lparr>msg_blk := blk, msg_blk_index := msg_blk_index ctx + 1\<rparr>)
   }"

fun sha1_zeros :: "nat \<Rightarrow> sha1_context \<Rightarrow> sha1_context option" where
  "sha1_zeros 0 ctx = Some ctx"
| "sha1_zeros (Suc n) ctx = do { ctx \<leftarrow> sha1_put 0 ctx; sha1_zeros n ctx }"

definition sha1_pad :: "sha1_context \<Rightarrow> sha1_context option" where
  "sha1_pad ctx = do {
     ctx \<leftarrow> sha1_put 0x80 ctx;
     ctx \<leftarrow> (if msg_blk_index ctx > 56
            then do { ctx \<leftarrow> sha1_zeros (64 - msg_blk_index ctx) ctx; Some (sha1_process ctx) }
            else Some ctx);
     ctx \<leftarrow> sha1_zeros (56 - msg_blk_index ctx) ctx;
     assert_that (64 \<le> length (msg_blk ctx));
     Some (sha1_process
       (ctx\<lparr>msg_blk := blit (msg_blk ctx) 56 ([0, 0, 0, 0] @ be32_bytes (sha_length ctx))\<rparr>))
   }"

fun sha1_input_loop ::
  "(sha1_context \<Rightarrow> nat \<Rightarrow> u8 option) \<Rightarrow> nat \<Rightarrow> nat \<Rightarrow> sha1_context \<Rightarrow> sha1_context option" where
  "sha1_input_loop rd i 0 ctx = Some ctx"
| "sha1_input_loop rd i (Suc n) ctx = do {
     b \<leftarrow> rd ctx i;
     ctx \<leftarrow> sha1_put b ctx;
     sha1_input_loop rd (Suc i) n (if msg_blk_index ctx = 64 then sha1_process ctx else ctx)
   }"

definition sha1_input_from ::
  "(sha1_context \<Rightarrow> nat \<Rightarrow> u8 option) \<Rightarrow> nat \<Rightarrow> sha1_context \<Rightarrow> sha1_context option" where
  "sha1_input_from rd len ctx =
     sha1_input_loop rd 0 len (ctx\<lparr>sha_length := sha_length ctx + of_nat (8 * len)\<rparr>)"

definition sha1_input :: "sha1_context \<Rightarrow> u8 list \<Rightarrow> nat \<Rightarrow> sha1_context option" where
  "sha1_input ctx data len = sha1_input_from (\<lambda>_. arr_get data) len ctx"

definition sha1_bytes :: "u32 list \<Rightarrow> u8 list" where
  "sha1_bytes h = map (\<lambda>i. ucast (drop_bit (8 * (3 - i mod 4)) (h ! (i div 4)))) [0..<20]"

definition sha1_result :: "sha1_context \<Rightarrow> (u8 list \<times> sha1_context) option" where
  "sha1_result ctx = do {
     ctx \<leftarrow> (if \<not> computed ctx
            then do { ctx \<leftarrow> sha1_pad ctx; Some (ctx\<lparr>sha_length := 0, computed := True\<rparr>) }
            else Some ctx);
     Some (sha1_bytes (intermediate ctx), ctx)
   }"

definition sha1_reset :: "sha1_context \<Rightarrow> sha1_context" where
  "sha1_reset ctx =
     (sha1_fill ctx 0x67452301 0xEFCDAB89 0x98BADCFE 0x10325476 0xC3D2E1F0)
       \<lparr>msg_blk_index := 0, computed := False, sha_length := 0\<rparr>"

section \<open>Specification\<close>

text \<open>The message is cut into blocks of 64 bytes after padding; \<open>bits\<close> is the length field.\<close>

function chunks :: "u8 list \<Rightarrow> u8 list list" where
  "chunks m = (if m = [] then [] else take 64 m # chunks (drop 64 m))"
  by pat_completeness auto
termination by (relation "measure length") auto

declare chunks.simps [simp del]

definition sha1_padding :: "nat \<Rightarrow> u32 \<Rightarrow> u8 list" where
  "sha1_padding n bits =
     0x80 # replicate ((119 - n mod 64) mod 64) 0 @ [0, 0, 0, 0] @ be32_bytes bits"

definition sha1_from :: "u32 list \<Rightarrow> u32 \<Rightarrow> u8 list \<Rightarrow> u8 list" where
  "sha1_from h bits m = sha1_bytes (foldl sha1_compress h (chunks (m @ sha1_padding (length m) bits)))"

definition sha1_spec :: "u8 list \<Rightarrow> u8 list" where
  "sha1_spec m = sha1_from [0x67452301, 0xEFCDAB89, 0x98BADCFE, 0x10325476, 0xC3D2E1F0]
     (of_nat (8 * length m)) m"

section \<open>Lemmas\<close>

definition sha1_inv :: "sha1_context \<Rightarrow> bool" where
  "sha1_inv ctx = (length (msg_blk ctx) = 64 \<and> msg_blk_index ctx < 64)"

text \<open>The bytes of the block that are filled, and taking in more bytes.\<close>

definition pending :: "sha1_context \<Rightarrow> u8 list" where
  "pending ctx = take (msg_blk_index ctx) (msg_blk ctx)"

fun absorb :: "u32 list \<Rightarrow> u8 list \<Rightarrow> u8 list \<Rightarrow> u32 list \<times> u8 list" where
  "absorb h p [] = (h, p)"
| "absorb h p (x # xs) =
     (let q = p @ [x] in if length q = 64 then absorb (sha1_compress h q) [] xs else absorb h q xs)"

lemma absorb_append: "absorb h p (xs @ ys) = (let (h', p') = absorb h p xs in absorb h' p' ys)"
  by (induction xs arbitrary: h p) (simp_all add: Let_def)

text \<open>Taking in a byte, with the compression of a block that becomes full.\<close>

definition sha1_step :: "u8 \<Rightarrow> sha1_context \<Rightarrow> sha1_context option" where
  "sha1_step b ctx = do {
     ctx \<leftarrow> sha1_put b ctx;
     Some (if msg_blk_index ctx = 64 then sha1_process ctx else ctx)
   }"

lemma sha1_step_ok:
  assumes "sha1_inv ctx"
  obtains ctx' where "sha1_step b ctx = Some ctx'" "sha1_inv ctx'"
    "(intermediate ctx', pending ctx') = absorb (intermediate ctx) (pending ctx) [b]"
    "sha_length ctx' = sha_length ctx" "computed ctx' = computed ctx"
    "\<forall>k > msg_blk_index ctx. msg_blk ctx' ! k = msg_blk ctx ! k"
    "msg_blk_index ctx' = (msg_blk_index ctx + 1) mod 64"
proof -
  let ?i = "msg_blk_index ctx"
  have i: "?i < 64" "length (msg_blk ctx) = 64" using assms by (simp_all add: sha1_inv_def)
  let ?c = "ctx\<lparr>msg_blk := (msg_blk ctx)[?i := b], msg_blk_index := ?i + 1\<rparr>"
  have tk: "take (Suc ?i) ((msg_blk ctx)[?i := b]) = pending ctx @ [b]"
    using i by (simp add: pending_def take_Suc_conv_app_nth)
  have full: "take 64 ((msg_blk ctx)[?i := b]) = (msg_blk ctx)[?i := b]" using i by simp
  have run: "sha1_step b ctx = Some (if ?i + 1 = 64 then sha1_process ?c else ?c)"
    using i by (simp add: sha1_step_def sha1_put_def)
  show thesis
  proof (rule that [OF run])
    show "(intermediate (if ?i + 1 = 64 then sha1_process ?c else ?c),
        pending (if ?i + 1 = 64 then sha1_process ?c else ?c)) = absorb (intermediate ctx) (pending ctx) [b]"
      using i tk full by (auto simp: sha1_process_def pending_def)
  qed (use i in \<open>auto simp: sha1_inv_def sha1_process_def\<close>)
qed

lemma absorb_partial: "length p + length xs < 64 \<Longrightarrow> absorb h p xs = (h, p @ xs)"
  by (induction xs arbitrary: p) (simp_all add: Let_def)

lemma absorb_fill:
  "length p + length xs = 64 \<Longrightarrow> xs \<noteq> [] \<Longrightarrow> absorb h p xs = (sha1_compress h (p @ xs), [])"
proof (induction xs arbitrary: p)
  case (Cons x xs)
  then show ?case by (cases "xs = []") (auto simp: Let_def)
qed simp

lemma absorb_chunks: "64 dvd length m \<Longrightarrow> absorb h [] m = (foldl sha1_compress h (chunks m), [])"
proof (induction m arbitrary: h rule: chunks.induct)
  case (1 m)
  show ?case
  proof (cases "m = []")
    case False
    then have l: "64 \<le> length m" using 1(2) by (simp add: dvd_imp_le)
    then have t: "absorb h [] (take 64 m) = (sha1_compress h (take 64 m), [])"
      using absorb_fill [of "[]" "take 64 m" h] False by auto
    have "64 dvd length (drop 64 m)" using 1(2) l by simp
    from 1(1) [OF False this, of "sha1_compress h (take 64 m)"] t
      absorb_append [of h "[]" "take 64 m" "drop 64 m"] False
    show ?thesis by (subst chunks.simps) simp
  qed (simp add: chunks.simps)
qed

lemma absorb_length:
  "length p < 64 \<Longrightarrow> length (snd (absorb h p xs)) = (length p + length xs) mod 64"
proof (induction xs arbitrary: h p)
  case (Cons x xs)
  show ?case
  proof (cases "length p = 63")
    case True
    then show ?thesis using Cons.IH [of "[]"] by (simp add: Let_def mod_add_left_eq flip: mod_add_left_eq)
  next
    case False
    then show ?thesis using Cons by (simp add: Let_def)
  qed
qed simp

lemma sha1_zeros_eq:
  assumes "length (msg_blk ctx) = 64" "msg_blk_index ctx + n \<le> 64"
  shows "sha1_zeros n ctx = Some (ctx\<lparr>msg_blk := blit (msg_blk ctx) (msg_blk_index ctx) (replicate n 0),
     msg_blk_index := msg_blk_index ctx + n\<rparr>)"
  using assms
proof (induction n arbitrary: ctx)
  case (Suc n)
  let ?i = "msg_blk_index ctx"
  have "blit ((msg_blk ctx)[?i := 0]) (Suc ?i) (replicate n 0) = blit (msg_blk ctx) ?i (0 # replicate n 0)"
    using Suc.prems by (simp add: blit_def take_Suc_conv_app_nth)
  with Suc show ?case by (simp add: sha1_put_def)
qed simp

lemma pad_count_short: "i \<le> 55 \<Longrightarrow> (119 - i) mod 64 = 55 - (i :: nat)"
proof -
  assume "i \<le> 55"
  then have e: "119 - i = (55 - i) + 64" by linarith
  show ?thesis unfolding e mod_add_self2 by (rule mod_less) linarith
qed

lemma pad_count_long: "56 \<le> i \<Longrightarrow> i < 64 \<Longrightarrow> (119 - i) mod 64 = (63 - i) + (56 :: nat)"
proof -
  assume "56 \<le> i" "i < 64"
  then have e: "119 - i = (63 - i) + 56" and l: "(63 - i) + 56 < 64" by linarith+
  show ?thesis unfolding e using l by (rule mod_less)
qed

lemma sha1_pad_absorbs:
  assumes inv: "sha1_inv ctx" and n: "msg_blk_index ctx = n mod 64"
  shows "\<exists>ctx'. sha1_pad ctx = Some ctx' \<and> sha1_inv ctx' \<and>
    intermediate ctx' = fst (absorb (intermediate ctx) (pending ctx) (sha1_padding n (sha_length ctx)))"
proof -
  let ?i = "msg_blk_index ctx" and ?h = "intermediate ctx" and ?p = "pending ctx"
  let ?len = "[0, 0, 0, 0] @ be32_bytes (sha_length ctx)"
  have i: "?i < 64" "length (msg_blk ctx) = 64" "length ?p = ?i"
    using inv by (simp_all add: sha1_inv_def pending_def)
  have len: "length ?len = 8" by (simp add: be32_bytes_def)
  define b1 where "b1 = (msg_blk ctx)[?i := 0x80]"
  have b1: "length b1 = 64" "take (Suc ?i) b1 = ?p @ [0x80]"
    using i by (simp_all add: b1_def pending_def take_Suc_conv_app_nth)
  show ?thesis
  proof (cases "?i \<le> 55")
    case True
    have blk: "blit (blit b1 (Suc ?i) (replicate (55 - ?i) 0)) 56 ?len =
        ?p @ 0x80 # replicate (55 - ?i) 0 @ ?len"
      using True b1 len i by (simp add: blit_def take_Cons')
    have "(119 - n mod 64) mod 64 = 55 - ?i" using pad_count_short [OF True] n by simp
    then have "sha1_padding n (sha_length ctx) = 0x80 # replicate (55 - ?i) 0 @ ?len"
      by (simp add: sha1_padding_def)
    then have "absorb ?h ?p (sha1_padding n (sha_length ctx)) =
        (sha1_compress ?h (?p @ 0x80 # replicate (55 - ?i) 0 @ ?len), [])"
      using True len i by (simp add: absorb_fill)
    then show ?thesis
      using True i b1 blk
      by (simp add: sha1_pad_def sha1_put_def sha1_zeros_eq b1_def [symmetric] sha1_process_def sha1_inv_def len)
  next
    case False
    have k: "(119 - n mod 64) mod 64 = (63 - ?i) + 56"
      using pad_count_long [of ?i] n False i(1) by simp
    have blk1: "blit b1 (Suc ?i) (replicate (63 - ?i) 0) = ?p @ 0x80 # replicate (63 - ?i) 0"
      using False b1 i by (simp add: blit_def)
    let ?h1 = "sha1_compress ?h (?p @ 0x80 # replicate (63 - ?i) 0)"
    have pad: "sha1_padding n (sha_length ctx) = (0x80 # replicate (63 - ?i) 0) @ (replicate 56 0 @ ?len)"
      unfolding sha1_padding_def k replicate_add by simp
    have "absorb ?h ?p (0x80 # replicate (63 - ?i) 0) = (?h1, [])"
      using False i by (intro absorb_fill) simp_all
    moreover have "absorb ?h1 [] (replicate 56 0 @ ?len) = (sha1_compress ?h1 (replicate 56 0 @ ?len), [])"
      using len absorb_fill [of "[]" "replicate 56 0 @ ?len" ?h1] by simp
    ultimately have ab: "absorb ?h ?p (sha1_padding n (sha_length ctx)) =
        (sha1_compress ?h1 (replicate 56 0 @ ?len), [])"
      unfolding pad absorb_append by simp
    have blk2: "blit (blit (?p @ 0x80 # replicate (63 - ?i) 0) 0 (replicate 56 0)) 56 ?len = replicate 56 0 @ ?len"
      using len i False by (simp add: blit_def)
    show ?thesis
      using False i b1 blk1 blk2 ab
      by (simp add: sha1_pad_def sha1_put_def sha1_zeros_eq b1_def [symmetric] sha1_process_def sha1_inv_def len)
  qed
qed

lemma absorb_step:
  "(h', p') = absorb h p [x] \<Longrightarrow> absorb h p ([x] @ xs) = absorb h' p' xs"
  by (simp only: absorb_append) (simp split: if_splits add: Let_def)

text \<open>Input of the bytes \<open>data\<close>, through any reader that delivers them.\<close>

lemma sha1_input_loop_absorbs:
  assumes "sha1_inv ctx" and "n \<le> length data" and "\<And>c k. k < length data \<Longrightarrow> rd c k = Some (data ! k)"
  shows "i + n = length data \<Longrightarrow> \<exists>ctx'. sha1_input_loop rd i n ctx = Some ctx' \<and> sha1_inv ctx' \<and>
    (intermediate ctx', pending ctx') = absorb (intermediate ctx) (pending ctx) (drop i data) \<and>
    sha_length ctx' = sha_length ctx \<and> computed ctx' = computed ctx"
  using assms(1,2)
proof (induction n arbitrary: i ctx)
  case (Suc n)
  obtain c where c: "sha1_step (data ! i) ctx = Some c" "sha1_inv c"
    "(intermediate c, pending c) = absorb (intermediate ctx) (pending ctx) [data ! i]"
    "sha_length c = sha_length ctx" "computed c = computed ctx"
    using sha1_step_ok [OF Suc.prems(2)] by metis
  have "sha1_input_loop rd i (Suc n) ctx = sha1_input_loop rd (Suc i) n c"
    using c(1) assms(3) [of i] Suc.prems(1) by (auto simp: sha1_step_def bind_eq_Some_conv)
  moreover have "drop i data = [data ! i] @ drop (Suc i) data"
    using Suc.prems(1) by (simp add: Cons_nth_drop_Suc)
  then have "absorb (intermediate ctx) (pending ctx) (drop i data) =
      absorb (intermediate c) (pending c) (drop (Suc i) data)"
    using absorb_step [OF c(3)] by simp
  ultimately show ?case using Suc.IH [of "Suc i" c] Suc.prems c(2,4,5) by simp
qed simp

text \<open>Input of the context's own message block from its start, while the block is not yet full.\<close>

definition own_block :: "sha1_context \<Rightarrow> nat \<Rightarrow> u8 option" where
  "own_block ctx = arr_get (msg_blk ctx)"

lemma sha1_input_loop_own:
  assumes "sha1_inv ctx" and "i = msg_blk_index ctx" and "i + n < 64"
  shows "\<exists>ctx'. sha1_input_loop own_block i n ctx = Some ctx' \<and> sha1_inv ctx' \<and>
    (intermediate ctx', pending ctx') =
      absorb (intermediate ctx) (pending ctx) (take n (drop i (msg_blk ctx))) \<and>
    sha_length ctx' = sha_length ctx \<and> computed ctx' = computed ctx"
  using assms
proof (induction n arbitrary: i ctx)
  case (Suc n)
  have l: "length (msg_blk ctx) = 64" using Suc.prems by (simp add: sha1_inv_def)
  obtain c where c: "sha1_step (msg_blk ctx ! i) ctx = Some c" "sha1_inv c"
    "(intermediate c, pending c) = absorb (intermediate ctx) (pending ctx) [msg_blk ctx ! i]"
    "sha_length c = sha_length ctx" "computed c = computed ctx"
    "\<forall>k > i. msg_blk c ! k = msg_blk ctx ! k" "msg_blk_index c = (i + 1) mod 64"
    using sha1_step_ok [OF Suc.prems(1), of "msg_blk ctx ! i"] Suc.prems(2) by metis
  have "sha1_input_loop own_block i (Suc n) ctx = sha1_input_loop own_block (Suc i) n c"
    using c(1) Suc.prems l by (auto simp: own_block_def sha1_step_def bind_eq_Some_conv)
  moreover have "take (Suc n) (drop i (msg_blk ctx)) = [msg_blk ctx ! i] @ take n (drop (Suc i) (msg_blk ctx))"
    using Suc.prems l by (simp add: Cons_nth_drop_Suc [symmetric])
  moreover have "drop (Suc i) (msg_blk c) = drop (Suc i) (msg_blk ctx)"
    using c l by (intro nth_equalityI) (simp_all add: sha1_inv_def)
  moreover have "Suc i = msg_blk_index c" "Suc i + n < 64" using c Suc.prems by simp_all
  moreover note Suc.IH [OF c(2), of "Suc i"]
  ultimately show ?case using absorb_step [OF c(3)] c(4,5) by simp
qed simp

text \<open>A context ready for a message, and the digest from there on.\<close>

definition sha1_fresh :: "sha1_context \<Rightarrow> bool" where
  "sha1_fresh ctx = (length (msg_blk ctx) = 64 \<and> msg_blk_index ctx = 0 \<and> \<not> computed ctx)"

lemma sha1_padding_dvd: "64 dvd n + length (sha1_padding n bits)"
proof -
  define r where "r = n mod 64"
  have n: "n = 64 * (n div 64) + r" and r: "r < 64" by (simp_all add: r_def)
  have "9 + (119 - r) mod 64 = (if r \<le> 55 then 64 - r else 128 - r)"
    using pad_count_short [of r] pad_count_long [of r] r by simp
  then have "\<exists>k. n + (9 + (119 - r) mod 64) = 64 * k"
  proof (cases "r \<le> 55")
    case True
    then have "n + (9 + (119 - r) mod 64) = 64 * (n div 64 + 1)"
      using n \<open>9 + (119 - r) mod 64 = _\<close> by simp
    then show ?thesis by blast
  next
    case False
    then have "n + (9 + (119 - r) mod 64) = 64 * (n div 64 + 2)"
      using n r \<open>9 + (119 - r) mod 64 = _\<close> by simp
    then show ?thesis by blast
  qed
  then show ?thesis by (auto simp: sha1_padding_def r_def add.commute add.left_commute)
qed

lemma sha1_result_from:
  assumes c: "sha1_inv c" "(intermediate c, pending c) = absorb h [] m" "\<not> computed c"
  shows "\<exists>c'. sha1_result c = Some (sha1_from h (sha_length c) m, c') \<and> length (msg_blk c') = 64"
proof -
  have "length (pending c) = length m mod 64"
    using absorb_length [of "[]" h m] c(2) [symmetric] by simp
  then have "msg_blk_index c = length m mod 64"
    using c(1) by (simp add: pending_def sha1_inv_def)
  from sha1_pad_absorbs [OF c(1) this] obtain c' where c': "sha1_pad c = Some c'" "sha1_inv c'"
    "intermediate c' = fst (absorb (intermediate c) (pending c) (sha1_padding (length m) (sha_length c)))" by blast
  have "absorb (intermediate c) (pending c) (sha1_padding (length m) (sha_length c)) =
      absorb h [] (m @ sha1_padding (length m) (sha_length c))"
    using c(2) [symmetric] by (simp add: absorb_append)
  also have "\<dots> = (foldl sha1_compress h (chunks (m @ sha1_padding (length m) (sha_length c))), [])"
    by (rule absorb_chunks) (simp add: sha1_padding_dvd)
  finally show ?thesis
    using c' c(3) by (simp add: sha1_result_def sha1_from_def sha1_inv_def)
qed

lemma sha1_digest:
  assumes "sha1_fresh ctx"
  shows "\<exists>c c'. sha1_input ctx data (length data) = Some c \<and>
    sha1_result c = Some (sha1_from (intermediate ctx) (sha_length ctx + of_nat (8 * length data)) data, c')
    \<and> length (msg_blk c') = 64"
proof -
  let ?ctx = "ctx\<lparr>sha_length := sha_length ctx + of_nat (8 * length data)\<rparr>"
  have "sha1_inv ?ctx" "pending ?ctx = []" using assms by (simp_all add: sha1_fresh_def sha1_inv_def pending_def)
  then obtain c where "sha1_input ctx data (length data) = Some c" "sha1_inv c"
    "(intermediate c, pending c) = absorb (intermediate ctx) [] data"
    "sha_length c = sha_length ?ctx" "computed c = computed ctx"
    using sha1_input_loop_absorbs [of ?ctx "length data" data "\<lambda>_. arr_get data" 0]
    by (auto simp: sha1_input_def sha1_input_from_def)
  then show ?thesis using sha1_result_from [of c "intermediate ctx" data] assms by (auto simp: sha1_fresh_def)
qed

lemma sha1_own_digest:
  assumes "sha1_fresh ctx" and "n < 64"
  shows "\<exists>c c'. sha1_input_from own_block n ctx = Some c \<and>
    sha1_result c = Some (sha1_from (intermediate ctx) (sha_length ctx + of_nat (8 * n)) (take n (msg_blk ctx)), c')
    \<and> length (msg_blk c') = 64"
proof -
  let ?ctx = "ctx\<lparr>sha_length := sha_length ctx + of_nat (8 * n)\<rparr>"
  have "sha1_inv ?ctx" "pending ?ctx = []" "0 = msg_blk_index ?ctx"
    using assms by (simp_all add: sha1_fresh_def sha1_inv_def pending_def)
  then obtain c where "sha1_input_from own_block n ctx = Some c" "sha1_inv c"
    "(intermediate c, pending c) = absorb (intermediate ctx) [] (take n (msg_blk ctx))"
    "sha_length c = sha_length ?ctx" "computed c = computed ctx"
    using sha1_input_loop_own [of ?ctx 0 n] assms(2) by (auto simp: sha1_input_from_def)
  then show ?thesis using sha1_result_from [of c "intermediate ctx"] assms by (auto simp: sha1_fresh_def)
qed


definition sha1_blank :: sha1_context where
  "sha1_blank = \<lparr>intermediate = replicate 5 0, msg_blk = replicate 64 0, msg_blk_index = 7,
     sha_length = 3, computed = True\<rparr>"


end
