(* ===== verification/Rc4.thy ===== *)
theory Rc4
  imports Prelude
begin

text \<open>
  The stream cipher RC4, \<^verbatim>\<open>util/rc4.c\<close>: key schedule and in-place encryption. The lemmas show that
  the state stays a permutation of the 256 byte values, that no access leaves its array, and
  that encryption with the same key undoes itself.

  The indices \<open>i\<close> and \<open>j\<close> are C ints that stay below 256; the sums that form them are at most
  \<open>3 * 255\<close>, so they are natural numbers here.
\<close>

section \<open>Operations\<close>

record rc4_context =
  rc_s :: "u8 list"   \<comment> \<open>\<open>uint8_t s[256]\<close>\<close>

definition rc4_swap :: "rc4_context \<Rightarrow> nat \<Rightarrow> nat \<Rightarrow> rc4_context option" where
  "rc4_swap ctx first second = do {
     temp \<leftarrow> arr_get (rc_s ctx) first;
     v \<leftarrow> arr_get (rc_s ctx) second;
     s \<leftarrow> arr_set (rc_s ctx) first v;
     s \<leftarrow> arr_set s second temp;
     Some (ctx\<lparr>rc_s := s\<rparr>)
   }"

fun rc4_schedule :: "u8 list \<Rightarrow> nat \<Rightarrow> nat \<Rightarrow> nat \<Rightarrow> nat \<Rightarrow> rc4_context \<Rightarrow> rc4_context option" where
  "rc4_schedule data len i j 0 ctx = Some ctx"
| "rc4_schedule data len i j (Suc n) ctx = do {
     si \<leftarrow> arr_get (rc_s ctx) i;
     assert_that (len \<noteq> 0);
     k \<leftarrow> arr_get data (i mod len);
     let j = (j + unat si + unat k) mod 256;
     ctx \<leftarrow> rc4_swap ctx i j;
     rc4_schedule data len (Suc i) j n ctx
   }"

definition rc4_start :: "u8 list" where
  "rc4_start = map of_nat [0..<256]"

definition rc4_init :: "rc4_context \<Rightarrow> u8 list \<Rightarrow> nat \<Rightarrow> rc4_context option" where
  "rc4_init ctx data len =
     rc4_schedule data len 0 0 256 (ctx\<lparr>rc_s := rc4_start\<rparr>)"

fun rc4_loop :: "nat \<Rightarrow> nat \<Rightarrow> nat \<Rightarrow> nat \<Rightarrow> rc4_context \<Rightarrow> u8 list \<Rightarrow> (rc4_context \<times> u8 list) option" where
  "rc4_loop i j k 0 ctx data = Some (ctx, data)"
| "rc4_loop i j k (Suc n) ctx data = do {
     let i = (i + 1) mod 256;
     si \<leftarrow> arr_get (rc_s ctx) i;
     let j = (j + unat si) mod 256;
     ctx \<leftarrow> rc4_swap ctx i j;
     si \<leftarrow> arr_get (rc_s ctx) i;
     sj \<leftarrow> arr_get (rc_s ctx) j;
     x \<leftarrow> arr_get (rc_s ctx) ((unat si + unat sj) mod 256);
     d \<leftarrow> arr_get data k;
     data \<leftarrow> arr_set data k (d XOR x);
     rc4_loop i j (Suc k) n ctx data
   }"

definition rc4_crypt :: "rc4_context \<Rightarrow> u8 list \<Rightarrow> nat \<Rightarrow> (rc4_context \<times> u8 list) option" where
  "rc4_crypt ctx data len = rc4_loop 0 0 0 len ctx data"

section \<open>Invariant\<close>

text \<open>The state holds every byte value exactly once.\<close>

definition rc4_perm :: "rc4_context \<Rightarrow> bool" where
  "rc4_perm ctx = (length (rc_s ctx) = 256 \<and> distinct (rc_s ctx))"

lemma rc4_swap_ok:
  assumes "rc4_perm ctx" "i < 256" "j < 256"
  shows "rc4_swap ctx i j = Some (ctx\<lparr>rc_s := (rc_s ctx)[i := rc_s ctx ! j, j := rc_s ctx ! i]\<rparr>)"
    and "rc4_perm (ctx\<lparr>rc_s := (rc_s ctx)[i := rc_s ctx ! j, j := rc_s ctx ! i]\<rparr>)"
proof -
  show "rc4_swap ctx i j = Some (ctx\<lparr>rc_s := (rc_s ctx)[i := rc_s ctx ! j, j := rc_s ctx ! i]\<rparr>)"
    using assms by (simp add: rc4_swap_def rc4_perm_def)
  show "rc4_perm (ctx\<lparr>rc_s := (rc_s ctx)[i := rc_s ctx ! j, j := rc_s ctx ! i]\<rparr>)"
    using assms by (simp add: rc4_perm_def distinct_swap)
qed

lemma rc4_schedule_ok:
  "rc4_perm ctx \<Longrightarrow> i + n = 256 \<Longrightarrow> 0 < len \<Longrightarrow> len \<le> length data \<Longrightarrow>
   \<exists>ctx'. rc4_schedule data len i j n ctx = Some ctx' \<and> rc4_perm ctx'"
proof (induction n arbitrary: i j ctx)
  case (Suc n)
  have "i mod len < length data" using Suc.prems by (meson less_le_trans mod_less_divisor)
  with Suc rc4_swap_ok [OF Suc.prems(1)] show ?case by (simp add: rc4_perm_def Let_def)
qed simp

lemma rc4_perm_start: "rc4_perm (ctx\<lparr>rc_s := rc4_start\<rparr>)"
proof -
  have "inj_on (of_nat :: nat \<Rightarrow> u8) {0..<256}"
    by (rule inj_onI) (metis atLeastLessThan_iff unat_of_nat_u8)
  then show ?thesis by (simp add: rc4_perm_def rc4_start_def distinct_map del: upt_rec_numeral)
qed

lemma rc4_init_ok:
  "0 < len \<Longrightarrow> len \<le> length data \<Longrightarrow> \<exists>ctx'. rc4_init ctx data len = Some ctx' \<and> rc4_perm ctx'"
  unfolding rc4_init_def by (rule rc4_schedule_ok [OF rc4_perm_start]) simp_all

text \<open>The key stream of the cipher, which does not depend on the data.\<close>

fun rc4_stream :: "nat \<Rightarrow> nat \<Rightarrow> nat \<Rightarrow> rc4_context \<Rightarrow> u8 list" where
  "rc4_stream i j 0 ctx = []"
| "rc4_stream i j (Suc n) ctx =
     (let i = (i + 1) mod 256; s = rc_s ctx; j = (j + unat (s ! i)) mod 256;
          s' = s[i := s ! j, j := s ! i] in
      s' ! ((unat (s' ! i) + unat (s' ! j)) mod 256) # rc4_stream i j n (ctx\<lparr>rc_s := s'\<rparr>))"

lemma length_rc4_stream [simp]: "length (rc4_stream i j n ctx) = n"
  by (induction n arbitrary: i j ctx) (simp_all add: Let_def)

lemma rc4_loop_xor:
  "rc4_perm ctx \<Longrightarrow> k + n \<le> length data \<Longrightarrow>
   \<exists>ctx'. rc4_loop i j k n ctx data =
     Some (ctx', take k data @ map2 (XOR) (take n (drop k data)) (rc4_stream i j n ctx) @ drop (k + n) data)
     \<and> rc4_perm ctx'"
proof (induction n arbitrary: i j k ctx data)
  case (Suc n)
  let ?i = "(i + 1) mod 256" and ?s = "rc_s ctx"
  let ?j = "(j + unat (?s ! ?i)) mod 256"
  let ?c = "ctx\<lparr>rc_s := ?s[?i := ?s ! ?j, ?j := ?s ! ?i]\<rparr>"
  have b: "?i < 256" "?j < 256" by simp_all
  note sw = rc4_swap_ok [OF Suc.prems(1) b]
  have l: "length ?s = 256" "length (rc_s ?c) = 256" using Suc.prems(1) sw(2) by (simp_all add: rc4_perm_def)
  let ?x = "rc_s ?c ! ((unat (rc_s ?c ! ?i) + unat (rc_s ?c ! ?j)) mod 256)"
  have run: "rc4_loop i j k (Suc n) ctx data = rc4_loop ?i ?j (Suc k) n ?c (data[k := data ! k XOR ?x])"
    using Suc.prems(2) l b sw(1) by (simp add: Let_def del: rc4_swap_def)
  have "take (Suc n) (drop k data) = data ! k # take n (drop (Suc k) data)"
    using Suc.prems(2) by (simp add: Cons_nth_drop_Suc [symmetric])
  moreover have "take (Suc k) (data[k := data ! k XOR ?x]) = take k data @ [data ! k XOR ?x]"
    using Suc.prems(2) by (simp add: take_Suc_conv_app_nth)
  moreover have "drop (Suc k) (data[k := data ! k XOR ?x]) = drop (Suc k) data"
    "drop (Suc k + n) (data[k := data ! k XOR ?x]) = drop (Suc k + n) data" by simp_all
  moreover note Suc.IH [OF sw(2), of "Suc k" "data[k := data ! k XOR ?x]" ?i ?j]
  ultimately show ?case using Suc.prems(2) unfolding run by (simp add: Let_def)
qed simp

lemma xor_twice: "length s = length d \<Longrightarrow> map2 (XOR) (map2 (XOR) d s) s = (d :: u8 list)"
  by (induction d s rule: list_induct2') (auto simp: xor.assoc)

text \<open>The encryption of the first \<open>len\<close> bytes of \<open>data\<close>.\<close>

definition rc4_xor :: "rc4_context \<Rightarrow> u8 list \<Rightarrow> nat \<Rightarrow> u8 list" where
  "rc4_xor ctx data len = map2 (XOR) (take len data) (rc4_stream 0 0 len ctx) @ drop len data"

lemma rc4_crypt_eq:
  assumes "rc4_perm ctx" "len \<le> length data"
  shows "\<exists>ctx'. rc4_crypt ctx data len = Some (ctx', rc4_xor ctx data len) \<and> rc4_perm ctx'"
  using rc4_loop_xor [OF assms(1), of 0 len data 0 0] assms(2) by (simp add: rc4_crypt_def rc4_xor_def)

lemma rc4_xor_twice: "len \<le> length data \<Longrightarrow> rc4_xor ctx (rc4_xor ctx data len) len = data"
  by (simp add: rc4_xor_def xor_twice)

lemma length_rc4_xor [simp]: "len \<le> length data \<Longrightarrow> length (rc4_xor ctx data len) = length data"
  by (simp add: rc4_xor_def)

text \<open>C18: RC4 decrypts what it encrypts: with any non-empty key, scheduling the key and encrypting the data,
  then scheduling the same key again and encrypting the result, gives back the data; neither
  pass accesses its arrays out of bounds.\<close>

theorem rc4_round_trip:
  assumes "key \<noteq> []" and "len \<le> length data"
  shows "\<exists>c1 c1' c2 c2' out. rc4_init ctx key (length key) = Some c1 \<and> rc4_crypt c1 data len = Some (c1', out)
    \<and> rc4_init ctx' key (length key) = Some c2 \<and> rc4_crypt c2 out len = Some (c2', data)"
proof -
  obtain c1 where c1: "rc4_init ctx key (length key) = Some c1" "rc4_perm c1"
    using rc4_init_ok [of "length key" key ctx] assms(1) by auto
  have c2: "rc4_init ctx' key (length key) = Some c1"
    using c1(1) by (cases ctx; cases ctx') (simp add: rc4_init_def)
  obtain c1' where e: "rc4_crypt c1 data len = Some (c1', rc4_xor c1 data len)"
    using rc4_crypt_eq [OF c1(2) assms(2)] by blast
  obtain c2' where "rc4_crypt c1 (rc4_xor c1 data len) len = Some (c2', rc4_xor c1 (rc4_xor c1 data len) len)"
    using rc4_crypt_eq [OF c1(2), of len "rc4_xor c1 data len"] assms(2) by auto
  with c1 c2 e show ?thesis using rc4_xor_twice [OF assms(2)] by auto
qed

theorem rc4_round_trip_witness:
  "\<exists>c1 c1' c2 c2' out. rc4_init \<lparr>rc_s = []\<rparr> [1, 2, 3] (length [1, 2, 3 :: u8]) = Some c1
    \<and> rc4_crypt c1 [4, 5, 6, 7] 3 = Some (c1', out)
    \<and> rc4_init \<lparr>rc_s = [9]\<rparr> [1, 2, 3] (length [1, 2, 3 :: u8]) = Some c2
    \<and> rc4_crypt c2 out 3 = Some (c2', [4, 5, 6, 7])"
  by (rule rc4_round_trip) simp_all

end
