(* ===== verification/Eeprom.thy ===== *)
theory Eeprom
  imports Sha1 Rc4
begin

text \<open>
  Generation of the EEPROM image of a console, \<^verbatim>\<open>hw/xbox/eeprom_generation.c\<close>: the packed
  structure, its two checksums, the keyed hash and the encryption of the security section.

  The random number generator (\<open>qcrypto_random_bytes\<close>) is a parameter: \<open>rnd k n\<close> are the \<open>n\<close> bytes of
  the \<open>k\<close>-th call. Whether the file can be opened and written are parameters too. The lemmas show
  that the image is accepted by a reader of the format: its checksums match and its security
  section decrypts to data with the stored hash.
\<close>

section \<open>The image\<close>

record xbox_eeprom =
  ee_hash :: "u8 list"
  ee_confounder :: "u8 list"
  ee_hdd_key :: "u8 list"
  ee_region :: u32
  ee_checksum :: u32
  ee_serial :: "u8 list"
  ee_mac :: "u8 list"
  ee_padding :: u16
  ee_online_key :: "u8 list"
  ee_video_standard :: u32
  ee_padding2 :: u32
  ee_user_checksum :: u32
  ee_user_section :: "u8 list"

text \<open>The bytes of the packed structure, from its start, from \<open>serial\<close> and from \<open>user_section\<close>.\<close>

definition ee_factory_bytes :: "xbox_eeprom \<Rightarrow> u8 list" where
  "ee_factory_bytes e = ee_serial e @ ee_mac e @ le16_bytes (ee_padding e) @ ee_online_key e @
     le32_bytes (ee_video_standard e) @ le32_bytes (ee_padding2 e)"

definition ee_security_bytes :: "xbox_eeprom \<Rightarrow> u8 list" where
  "ee_security_bytes e = ee_confounder e @ ee_hdd_key e @ le32_bytes (ee_region e)"

definition ee_bytes :: "xbox_eeprom \<Rightarrow> u8 list" where
  "ee_bytes e = ee_hash e @ ee_security_bytes e @ le32_bytes (ee_checksum e) @ ee_factory_bytes e @
     le32_bytes (ee_user_checksum e) @ ee_user_section e"

definition ee_zero :: xbox_eeprom where
  "ee_zero = \<lparr>ee_hash = replicate 20 0, ee_confounder = replicate 8 0, ee_hdd_key = replicate 16 0,
     ee_region = 0, ee_checksum = 0, ee_serial = replicate 12 0, ee_mac = replicate 6 0, ee_padding = 0,
     ee_online_key = replicate 16 0, ee_video_standard = 0, ee_padding2 = 0, ee_user_checksum = 0,
     ee_user_section = replicate 156 0\<rparr>"

datatype eeprom_version =
    XBOX_EEPROM_VERSION_D | XBOX_EEPROM_VERSION_R1 | XBOX_EEPROM_VERSION_R2 | XBOX_EEPROM_VERSION_R3

section \<open>Checksum\<close>

definition crc_step :: "u32 \<times> u32 \<Rightarrow> u32 \<Rightarrow> u32 \<times> u32" where
  "crc_step hl v =
     (let (high, low) = hl; sum = push_bit 32 (ucast high) OR ucast low :: u64
      in (ucast (drop_bit 32 (sum + ucast v)), low + v))"

fun crc_loop :: "u8 list \<Rightarrow> nat \<Rightarrow> nat \<Rightarrow> u32 \<times> u32 \<Rightarrow> (u32 \<times> u32) option" where
  "crc_loop data i 0 hl = Some hl"
| "crc_loop data i (Suc n) hl = do {
     v \<leftarrow> load_le32 data (4 * i);
     crc_loop data (Suc i) n (crc_step hl v)
   }"

definition xbox_eeprom_crc :: "u8 list \<Rightarrow> nat \<Rightarrow> u32 option" where
  "xbox_eeprom_crc data len = do {
     (high, low) \<leftarrow> crc_loop data 0 (len div 4) (0, 0);
     Some (NOT (high + low))
   }"

section \<open>Keyed hash\<close>

fun xbox_sha1_state :: "eeprom_version \<Rightarrow> bool \<Rightarrow> sha1_context \<Rightarrow> sha1_context" where
  "xbox_sha1_state XBOX_EEPROM_VERSION_D first ctx =
     (if first then sha1_fill ctx 0x85F9E51A 0xE04613D2 0x6D86A50C 0x77C32E3C 0x4BD717A4
      else sha1_fill ctx 0x5D7A9C6B 0xE1922BEB 0xB82CCDBC 0x3137AB34 0x486B52B3)"
| "xbox_sha1_state XBOX_EEPROM_VERSION_R2 first ctx =
     (if first then sha1_fill ctx 0x39B06E79 0xC9BD25E8 0xDBC6B498 0x40B4389D 0x86BBD7ED
      else sha1_fill ctx 0x9B49BED3 0x84B430FC 0x6B8749CD 0xEBFE5FE5 0xD96E7393)"
| "xbox_sha1_state XBOX_EEPROM_VERSION_R3 first ctx =
     (if first then sha1_fill ctx 0x8058763A 0xF97D4E0E 0x865A9762 0x8A3D920D 0x08995B2C
      else sha1_fill ctx 0x01075307 0xA2f1E037 0x1186EEEA 0x88DA9992 0x168A5609)"
| "xbox_sha1_state XBOX_EEPROM_VERSION_R1 first ctx =
     (if first then sha1_fill ctx 0x72127625 0x336472B9 0xBE609BEA 0xF55E226B 0x99958DAC
      else sha1_fill ctx 0x76441D41 0x4DE82659 0x2E8EF85E 0xB256FACA 0xC4FE2DE8)"

definition xbox_sha1_reset :: "sha1_context \<Rightarrow> eeprom_version \<Rightarrow> bool \<Rightarrow> sha1_context" where
  "xbox_sha1_reset ctx ver first =
     xbox_sha1_state ver first (ctx\<lparr>msg_blk_index := 0, computed := False, sha_length := 512\<rparr>)"

definition xbox_sha1_compute ::
  "sha1_context \<Rightarrow> eeprom_version \<Rightarrow> u8 list \<Rightarrow> nat \<Rightarrow> (u8 list \<times> sha1_context) option" where
  "xbox_sha1_compute ctx ver data len = do {
     ctx \<leftarrow> sha1_input (xbox_sha1_reset ctx ver True) data len;
     (d, ctx) \<leftarrow> sha1_result ctx;
     let ctx = ctx\<lparr>msg_blk := blit (msg_blk ctx) 0 d\<rparr>;
     ctx \<leftarrow> sha1_input_from own_block 20 (xbox_sha1_reset ctx ver False);
     sha1_result ctx
   }"

section \<open>Generation\<close>

definition ee_user_defaults :: "u8 list" where
  "ee_user_defaults =
     [0x00, 0x00, 0x00, 0x00, 0x47, 0x4D, 0x54, 0x00, 0x42, 0x53, 0x54, 0x00,
      0x00, 0x00, 0x00, 0x00, 0x00, 0x00, 0x00, 0x00, 0x0A, 0x05, 0x00, 0x02, 0x03, 0x05, 0x00, 0x01, 0x00, 0x00,
      0x00, 0x00, 0x00, 0x00, 0x00, 0x00, 0x00, 0x00, 0x00, 0x00, 0xC4, 0xFF, 0xFF, 0xFF]"

definition ee_fill :: "(nat \<Rightarrow> nat \<Rightarrow> u8 list) \<Rightarrow> xbox_eeprom" where
  "ee_fill rnd = ee_zero\<lparr>
     ee_region := 1,
     ee_video_standard := 0x00400100,
     ee_confounder := rnd 0 8,
     ee_hdd_key := rnd 1 16,
     ee_online_key := rnd 2 16,
     ee_mac := [0x00, 0x50, 0xF2] @ rnd 3 3,
     ee_serial := map (\<lambda>b. 0x30 + b mod 10) (rnd 4 12),
     ee_user_section :=
       blit (blit (ee_user_section ee_zero) 0 ee_user_defaults) 0x2C (le32_bytes 1)\<rparr>"

definition ee_store_security :: "xbox_eeprom \<Rightarrow> u8 list \<Rightarrow> xbox_eeprom option" where
  "ee_store_security e bs = do {
     r \<leftarrow> load_le32 bs 24;
     Some (e\<lparr>ee_confounder := take 8 bs, ee_hdd_key := take 16 (drop 8 bs), ee_region := r\<rparr>)
   }"

definition ee_generate ::
  "(nat \<Rightarrow> nat \<Rightarrow> u8 list) \<Rightarrow> sha1_context \<Rightarrow> rc4_context \<Rightarrow> eeprom_version \<Rightarrow> xbox_eeprom option" where
  "ee_generate rnd sctx rctx ver = do {
     let e = ee_fill rnd;
     c \<leftarrow> xbox_eeprom_crc (ee_factory_bytes e) 0x2C;
     let e = e\<lparr>ee_checksum := c\<rparr>;
     c \<leftarrow> xbox_eeprom_crc (ee_user_section e) 0x5C;
     let e = e\<lparr>ee_user_checksum := c\<rparr>;
     (hash, sctx) \<leftarrow> xbox_sha1_compute sctx ver (ee_security_bytes e) 0x1C;
     let e = e\<lparr>ee_hash := hash\<rparr>;
     (seed, sctx) \<leftarrow> xbox_sha1_compute sctx ver (ee_hash e) 20;
     rctx \<leftarrow> rc4_init rctx seed 20;
     (rctx, out) \<leftarrow> rc4_crypt rctx (ee_security_bytes e) 0x1C;
     ee_store_security e out
   }"

text \<open>The result: success, and the bytes of the file when it was written.\<close>

definition xbox_eeprom_generate ::
  "(nat \<Rightarrow> nat \<Rightarrow> u8 list) \<Rightarrow> sha1_context \<Rightarrow> rc4_context \<Rightarrow> bool \<Rightarrow> bool \<Rightarrow> eeprom_version
    \<Rightarrow> (bool \<times> u8 list option) option" where
  "xbox_eeprom_generate rnd sctx rctx opened written ver = do {
     e \<leftarrow> ee_generate rnd sctx rctx ver;
     if \<not> opened then Some (False, None)
     else if \<not> written then Some (False, None)
     else Some (True, Some (ee_bytes e))
   }"

section \<open>Lemmas\<close>

subsection \<open>Checksum\<close>

fun le32_words :: "nat \<Rightarrow> u8 list \<Rightarrow> u32 list" where
  "le32_words 0 m = []"
| "le32_words (Suc n) m = le32 (m ! 0) (m ! 1) (m ! 2) (m ! 3) # le32_words n (drop 4 m)"

lemma crc_loop_fold:
  "4 * (i + n) \<le> length data \<Longrightarrow>
   crc_loop data i n hl = Some (foldl crc_step hl (le32_words n (drop (4 * i) data)))"
proof (induction n arbitrary: i hl)
  case (Suc n)
  have "load_le32 data (4 * i) = Some (le32 (drop (4 * i) data ! 0) (drop (4 * i) data ! 1)
      (drop (4 * i) data ! 2) (drop (4 * i) data ! 3))"
    using Suc.prems by (simp add: load_le32_in)
  moreover have "drop 4 (drop (4 * i) data) = drop (4 * Suc i) data" by (simp add: add.commute)
  ultimately show ?case using Suc.IH [of "Suc i"] Suc.prems by simp
qed simp

text \<open>The pair of words is the sum of all words, as one number.\<close>

definition hl_value :: "u32 \<times> u32 \<Rightarrow> nat" where
  "hl_value hl = unat (fst hl) * 2 ^ 32 + unat (snd hl)"

lemma unat_high_low:
  fixes h l :: u32
  shows "unat (push_bit 32 (ucast h) OR ucast l :: u64) = unat h * 2 ^ 32 + unat l"
proof -
  have b: "unat h < 4294967296" "unat l < 4294967296" by (rule unat_u32_bound)+
  have u: "unat (ucast h :: u64) = unat h" "unat (ucast l :: u64) = unat l"
    by (rule unat_ucast_up, simp)+
  have e: "push_bit 32 (ucast h) + ucast l = (push_bit 32 (ucast h) OR ucast l :: u64)"
    by (rule disjunctive_add) (auto simp: bit_simps dest!: bit_imp_le_length)
  have p: "unat (push_bit 32 (ucast h) :: u64) = unat h * 2 ^ 32"
    using b u by (simp add: push_bit_eq_mult unat_word_ariths)
  have "unat (push_bit 32 (ucast h) + ucast l :: u64) = (unat h * 2 ^ 32 + unat l) mod 2 ^ 64"
    unfolding unat_word_ariths(1) p u(2) by simp
  then have "unat (push_bit 32 (ucast h) OR ucast l :: u64) = (unat h * 2 ^ 32 + unat l) mod 2 ^ 64"
    unfolding e .
  then show ?thesis using b by simp
qed

lemma hl_value_step:
  assumes "hl_value hl + unat v < 2 ^ 64"
  shows "hl_value (crc_step hl v) = hl_value hl + unat v"
proof -
  obtain h l where hl: "hl = (h, l)" by force
  let ?sum = "push_bit 32 (ucast h) OR ucast l :: u64" and ?n = "hl_value hl + unat v"
  have v: "unat (ucast v :: u64) = unat v" by (rule unat_ucast_up) simp
  have s: "unat (?sum + ucast v) = ?n"
    using assms by (simp add: unat_word_ariths unat_high_low v hl_value_def hl)
  have "?n div 2 ^ 32 < 2 ^ 32" using assms by (intro less_mult_imp_div_less) simp
  then have hi: "unat (ucast (drop_bit 32 (?sum + ucast v)) :: u32) = ?n div 2 ^ 32"
    by (simp add: unsigned_ucast_eq drop_bit_eq_div take_bit_eq_mod unat_div_distrib s)
  have "unat (l + v) = (unat l + unat v) mod 2 ^ 32" by (simp add: unat_word_ariths)
  also have "\<dots> = ?n mod 2 ^ 32" by (simp add: hl_value_def hl add.assoc)
  finally have lo: "unat (l + v) = ?n mod 2 ^ 32" .
  show ?thesis
    unfolding hl_value_def [of "crc_step hl v"] by (simp add: crc_step_def hl hi lo [unfolded hl] del: One_nat_def)
qed

lemma crc_fold_value:
  "hl_value hl + sum_list (map unat ws) < 2 ^ 64 \<Longrightarrow>
   hl_value (foldl crc_step hl ws) = hl_value hl + sum_list (map unat ws)"
proof (induction ws arbitrary: hl)
  case (Cons v ws)
  then have "hl_value (crc_step hl v) = hl_value hl + unat v" by (intro hl_value_step) simp
  with Cons show ?case by simp
qed simp

lemma length_le32_words [simp]: "length (le32_words n m) = n"
  by (induction n arbitrary: m) simp_all

lemma sum_words_bound: "sum_list (map unat (ws :: u32 list)) \<le> length ws * (2 ^ 32 - 1)"
proof (induction ws)
  case (Cons w ws)
  have "unat w \<le> 2 ^ 32 - 1" using unat_u32_bound [of w] by simp
  with Cons show ?case by simp
qed simp

lemma unat_not_u32: "unat (NOT (x :: u32)) = 2 ^ 32 - 1 - unat x"
proof -
  have "NOT x = - 1 - x" by (simp add: not_eq_complement)
  moreover have "unat (- 1 - x) = unat (- 1 :: u32) - unat x" by (rule unat_sub) simp
  ultimately show ?thesis by (simp add: unsigned_minus_1_eq_mask mask_eq_exp_minus_1)
qed

lemma fold_carry: "h + l < 4294967296 \<Longrightarrow>
    h * 4294967296 + l + (4294967295 - (h + l)) = (h + 1) * (4294967295 :: nat)"
proof -
  assume "h + l < 4294967296"
  then obtain k where "4294967295 = h + l + k" using le_Suc_ex [of "h + l" 4294967295] by auto
  then have "4294967295 - (h + l) = k" "h * 4294967296 + l + k = h * 4294967295 + 4294967295" by simp_all
  then show ?thesis by simp
qed

lemma xbox_eeprom_crc_value:
  fixes data
  defines "S \<equiv> \<lambda>n. sum_list (map unat (le32_words n data))"
  assumes "len \<le> length data" "len \<le> 2 ^ 34"
  shows "xbox_eeprom_crc data len =
    Some (NOT (of_nat (S (len div 4) div 2 ^ 32) + of_nat (S (len div 4) mod 2 ^ 32)))"
proof -
  let ?n = "len div 4"
  obtain h l where hl: "foldl crc_step (0, 0) (le32_words ?n data) = (h, l)" by force
  have "?n \<le> 2 ^ 32" using div_le_mono [OF assms(3), of 4] by simp
  then have "?n * (2 ^ 32 - 1) < 2 ^ 64"
    using mult_le_mono1 [of ?n "2 ^ 32" "2 ^ 32 - 1"] by simp
  then have "S ?n < 2 ^ 64" unfolding S_def using sum_words_bound [of "le32_words ?n data"] by simp
  then have v: "unat h * 2 ^ 32 + unat l = S ?n"
    using crc_fold_value [of "(0, 0)" "le32_words ?n data"] by (simp add: hl_value_def hl S_def)
  have b: "unat l < 2 ^ 32" using unat_u32_bound [of l] by simp
  have "S ?n div 2 ^ 32 = unat h" "S ?n mod 2 ^ 32 = unat l" using b by (simp_all flip: v)
  moreover have "crc_loop data 0 ?n (0, 0) = Some (h, l)"
    using assms(2) by (simp add: crc_loop_fold hl)
  ultimately show ?thesis by (simp add: xbox_eeprom_crc_def)
qed

text \<open>The checksum closes the sum: adding it to the sum of the little-endian words it was computed over
  gives 0 in ones' complement arithmetic, that is modulo \<open>2 ^ 32 - 1\<close>, whenever folding the
  carry into the sum does not carry again.\<close>

theorem eeprom_crc_closes_sum:
  assumes "len \<le> length data" "len \<le> 2 ^ 34"
    and "sum_list (map unat (le32_words (len div 4) data)) div 2 ^ 32
       + sum_list (map unat (le32_words (len div 4) data)) mod 2 ^ 32 < 2 ^ 32"
  shows "\<exists>c. xbox_eeprom_crc data len = Some c \<and>
    (sum_list (map unat (le32_words (len div 4) data)) + unat c) mod (2 ^ 32 - 1) = 0"
proof -
  define S where "S = sum_list (map unat (le32_words (len div 4) data))"
  let ?h = "S div 2 ^ 32" and ?l = "S mod 2 ^ 32"
  have hl: "?h + ?l < 2 ^ 32" using assms(3) by (simp add: S_def)
  have u: "unat (of_nat ?h + of_nat ?l :: u32) = ?h + ?l"
    using hl by (simp add: unat_of_nat flip: of_nat_add)
  let ?c = "NOT (of_nat ?h + of_nat ?l) :: u32"
  have "S = ?h * 2 ^ 32 + ?l" by simp
  then have "S + unat ?c = ?h * 4294967296 + ?l + (4294967295 - (?h + ?l))"
    using hl unfolding unat_not_u32 u by simp
  also have "\<dots> = (?h + 1) * 4294967295" using hl by (intro fold_carry) simp
  finally have "(S + unat ?c) mod 4294967295 = 0" by (simp only: mod_mult_self2_is_0)
  then show ?thesis using xbox_eeprom_crc_value [OF assms(1,2)] by (simp add: S_def)
qed

theorem eeprom_crc_closes_sum_witness:
  "\<exists>c. xbox_eeprom_crc [1, 2, 3, 255] 4 = Some c \<and>
    (sum_list (map unat (le32_words (4 div 4) [1, 2, 3, 255])) + unat c) mod (2 ^ 32 - 1) = 0"
  by (rule eeprom_crc_closes_sum) (simp_all add: le32_def)

subsection \<open>Keyed hash\<close>

text \<open>The chaining values the inner and the outer hash start from.\<close>

definition xbox_inner :: "eeprom_version \<Rightarrow> u32 list" where
  "xbox_inner ver = intermediate (xbox_sha1_state ver True sha1_blank)"

definition xbox_outer :: "eeprom_version \<Rightarrow> u32 list" where
  "xbox_outer ver = intermediate (xbox_sha1_state ver False sha1_blank)"

definition xbox_hmac :: "eeprom_version \<Rightarrow> u8 list \<Rightarrow> u8 list" where
  "xbox_hmac ver m =
     sha1_from (xbox_outer ver) (512 + 160)
       (sha1_from (xbox_inner ver) (512 + of_nat (8 * length m)) m)"

lemma xbox_sha1_reset_fields [simp]:
  "msg_blk (xbox_sha1_reset ctx ver f) = msg_blk ctx"
  "msg_blk_index (xbox_sha1_reset ctx ver f) = 0"
  "sha_length (xbox_sha1_reset ctx ver f) = 512"
  "computed (xbox_sha1_reset ctx ver f) = False"
  "intermediate (xbox_sha1_reset ctx ver True) = xbox_inner ver"
  "intermediate (xbox_sha1_reset ctx ver False) = xbox_outer ver"
  by (cases ver; simp add: xbox_sha1_reset_def xbox_inner_def xbox_outer_def sha1_fill_def)+

lemma length_sha1_from [simp]: "length (sha1_from h bits m) = 20"
  by (simp add: sha1_from_def sha1_bytes_def)

lemma xbox_sha1_compute_eq:
  assumes "length (msg_blk ctx) = 64"
  shows "\<exists>ctx'. xbox_sha1_compute ctx ver data (length data) = Some (xbox_hmac ver data, ctx')
    \<and> length (msg_blk ctx') = 64"
proof -
  let ?r = "xbox_sha1_reset ctx ver True"
  let ?d = "sha1_from (xbox_inner ver) (512 + of_nat (8 * length data)) data"
  have "sha1_fresh ?r" using assms by (simp add: sha1_fresh_def)
  from sha1_digest [OF this, of data] obtain c c' where
    c: "sha1_input ?r data (length data) = Some c" "sha1_result c = Some (?d, c')" "length (msg_blk c') = 64"
    by auto
  let ?c = "xbox_sha1_reset (c'\<lparr>msg_blk := blit (msg_blk c') 0 ?d\<rparr>) ver False"
  have "sha1_fresh ?c" using c(3) by (simp add: sha1_fresh_def)
  moreover have "take 20 (msg_blk ?c) = ?d" by (simp add: blit_def)
  ultimately obtain e e' where
    "sha1_input_from own_block 20 ?c = Some e" "sha1_result e = Some (xbox_hmac ver data, e')"
    "length (msg_blk e') = 64"
    using sha1_own_digest [of ?c 20] by (auto simp: xbox_hmac_def)
  then show ?thesis using c(1,2) by (simp add: xbox_sha1_compute_def)
qed



subsection \<open>The generated image\<close>

text \<open>What a reader of the image checks: the size, the two checksums, and that the security section,
  decrypted with the key derived from the stored hash, has that hash.\<close>

definition eeprom_opens :: "eeprom_version \<Rightarrow> u8 list \<Rightarrow> bool" where
  "eeprom_opens ver bs =
     (let hash = take 20 bs in
      case rc4_init \<lparr>rc_s = []\<rparr> (xbox_hmac ver hash) 20 of
        None \<Rightarrow> False
      | Some c \<Rightarrow>
          (case rc4_crypt c (take 28 (drop 20 bs)) 28 of
             None \<Rightarrow> False
           | Some (_, plain) \<Rightarrow> xbox_hmac ver plain = hash))"

definition eeprom_accepted :: "eeprom_version \<Rightarrow> u8 list \<Rightarrow> bool" where
  "eeprom_accepted ver bs =
     (length bs = 256 \<and> load_le32 bs 48 = xbox_eeprom_crc (drop 52 bs) 0x2C
      \<and> load_le32 bs 96 = xbox_eeprom_crc (drop 100 bs) 0x5C \<and> eeprom_opens ver bs)"

lemma le32_words_append: "4 * n \<le> length a \<Longrightarrow> le32_words n (a @ b) = le32_words n a"
  by (induction n arbitrary: a) (auto simp: nth_append)

lemma crc_append: "len \<le> length a \<Longrightarrow> xbox_eeprom_crc (a @ b) len = xbox_eeprom_crc a len"
  by (simp add: xbox_eeprom_crc_def crc_loop_fold le32_words_append)

lemma crc_some: "len \<le> length a \<Longrightarrow> \<exists>c. xbox_eeprom_crc a len = Some c"
  by (simp add: xbox_eeprom_crc_def crc_loop_fold split: prod.splits)

lemma ee_store_security_bytes:
  assumes "length bs = 28"
  shows "\<exists>e'. ee_store_security e bs = Some e' \<and> ee_security_bytes e' = bs \<and> ee_hash e' = ee_hash e
    \<and> ee_checksum e' = ee_checksum e \<and> ee_factory_bytes e' = ee_factory_bytes e
    \<and> ee_user_checksum e' = ee_user_checksum e \<and> ee_user_section e' = ee_user_section e"
proof -
  have d: "drop 24 bs = [bs ! 24, bs ! 25, bs ! 26, bs ! 27]"
    using list_of_4 [of "drop 24 bs"] assms by simp
  have "take 8 bs @ take 16 (drop 8 bs) @ drop 16 (drop 8 bs) = bs" by (simp only: append_take_drop_id)
  then have "take 8 bs @ take 16 (drop 8 bs) @ [bs ! 24, bs ! 25, bs ! 26, bs ! 27] = bs"
    using d by simp
  then show ?thesis
    using assms by (simp add: ee_store_security_def load_le32_in ee_security_bytes_def ee_factory_bytes_def
        le32_bytes_le32)
qed

lemma ee_fill_lengths:
  assumes "\<And>k n. length (rnd k n) = n"
  shows "length (ee_security_bytes (ee_fill rnd)) = 28" "length (ee_factory_bytes (ee_fill rnd)) = 44"
    "length (ee_user_section (ee_fill rnd)) = 156"
  using assms by (simp_all add: ee_fill_def ee_zero_def ee_security_bytes_def ee_factory_bytes_def
      ee_user_defaults_def)

lemma ee_generate_ok:
  assumes rnd: "\<And>k n. length (rnd k n) = n" and ctx: "length (msg_blk sctx) = 64"
  shows "\<exists>e c. ee_generate rnd sctx rctx ver = Some e
    \<and> ee_hash e = xbox_hmac ver (ee_security_bytes (ee_fill rnd))
    \<and> rc4_init \<lparr>rc_s = []\<rparr> (xbox_hmac ver (ee_hash e)) 20 = Some c \<and> rc4_perm c
    \<and> ee_security_bytes e = rc4_xor c (ee_security_bytes (ee_fill rnd)) 28
    \<and> xbox_eeprom_crc (ee_factory_bytes e) 0x2C = Some (ee_checksum e) \<and> length (ee_factory_bytes e) = 44
    \<and> xbox_eeprom_crc (ee_user_section e) 0x5C = Some (ee_user_checksum e) \<and> length (ee_user_section e) = 156"
proof -
  let ?e = "ee_fill rnd"
  note l = ee_fill_lengths [of rnd, OF rnd]
  obtain c1 c2 where crc: "xbox_eeprom_crc (ee_factory_bytes ?e) 0x2C = Some c1"
    "xbox_eeprom_crc (ee_user_section ?e) 0x5C = Some c2"
    using crc_some [of "0x2C" "ee_factory_bytes ?e"] crc_some [of "0x5C" "ee_user_section ?e"] l by auto
  let ?P = "ee_security_bytes ?e" and ?H = "xbox_hmac ver (ee_security_bytes ?e)"
  obtain s1 where s1: "xbox_sha1_compute sctx ver ?P 0x1C = Some (?H, s1)" "length (msg_blk s1) = 64"
    using xbox_sha1_compute_eq [OF ctx, of ver ?P] l(1) by auto
  have H: "length ?H = 20" "length (xbox_hmac ver ?H) = 20" by (simp_all add: xbox_hmac_def)
  obtain s2 where s2: "xbox_sha1_compute s1 ver ?H 20 = Some (xbox_hmac ver ?H, s2)"
    using xbox_sha1_compute_eq [OF s1(2), of ver ?H] H(1) by auto
  obtain c where c: "rc4_init \<lparr>rc_s = []\<rparr> (xbox_hmac ver ?H) 20 = Some c" "rc4_perm c"
    using rc4_init_ok [of 20 "xbox_hmac ver ?H" "\<lparr>rc_s = []\<rparr>"] H(2) by auto
  then have c': "rc4_init rctx (xbox_hmac ver ?H) 20 = Some c"
    by (cases rctx) (simp add: rc4_init_def)
  obtain x where x: "rc4_crypt c ?P 0x1C = Some (x, rc4_xor c ?P 28)"
    using rc4_crypt_eq [OF c(2), of 28 ?P] l(1) by auto
  let ?e1 = "?e\<lparr>ee_checksum := c1, ee_user_checksum := c2, ee_hash := ?H\<rparr>"
  obtain e' where e': "ee_store_security ?e1 (rc4_xor c ?P 28) = Some e'"
    "ee_security_bytes e' = rc4_xor c ?P 28" "ee_hash e' = ?H" "ee_checksum e' = c1"
    "ee_factory_bytes e' = ee_factory_bytes ?e" "ee_user_checksum e' = c2"
    "ee_user_section e' = ee_user_section ?e"
    using ee_store_security_bytes [of "rc4_xor c ?P 28" ?e1] l(1) by (auto simp: ee_factory_bytes_def)
  have sec: "ee_security_bytes (?e\<lparr>ee_checksum := c1, ee_user_checksum := c2\<rparr>) = ?P"
    "ee_security_bytes ?e1 = ?P" by (simp_all add: ee_security_bytes_def)
  have "ee_generate rnd sctx rctx ver = Some e'"
    using crc s1(1) s2 c' x e'(1) sec unfolding ee_generate_def Let_def
    by (simp add: ee_factory_bytes_def)
  then show ?thesis using e' c crc l by auto
qed

text \<open>C15: A generated EEPROM image is valid: for every kernel version and all random bytes the generator
  succeeds, writes 256 bytes, both checksums match the data they cover, and the security
  section decrypts, with the key derived from the stored hash, to data with that hash. The
  contents of the uninitialised hash and cipher contexts on the stack do not matter.\<close>

theorem xbox_eeprom_generate_accepted:
  assumes rnd: "\<And>k n. length (rnd k n) = n" and ctx: "length (msg_blk sctx) = 64"
  shows "\<exists>bs. xbox_eeprom_generate rnd sctx rctx True True ver = Some (True, Some bs)
    \<and> eeprom_accepted ver bs"
proof -
  from ee_generate_ok [of rnd sctx rctx ver, OF rnd ctx] obtain e c where
    e: "ee_generate rnd sctx rctx ver = Some e" "ee_hash e = xbox_hmac ver (ee_security_bytes (ee_fill rnd))"
    "ee_security_bytes e = rc4_xor c (ee_security_bytes (ee_fill rnd)) 28"
    "xbox_eeprom_crc (ee_factory_bytes e) 0x2C = Some (ee_checksum e)" "length (ee_factory_bytes e) = 44"
    "xbox_eeprom_crc (ee_user_section e) 0x5C = Some (ee_user_checksum e)" "length (ee_user_section e) = 156"
    and c: "rc4_init \<lparr>rc_s = []\<rparr> (xbox_hmac ver (ee_hash e)) 20 = Some c" "rc4_perm c" by blast
  let ?P = "ee_security_bytes (ee_fill rnd)" and ?bs = "ee_bytes e"
  have P: "length ?P = 28" by (rule ee_fill_lengths [of rnd, OF rnd])
  have l: "length (ee_hash e) = 20" "length (ee_security_bytes e) = 28"
    using e P by (simp_all add: xbox_hmac_def)
  obtain x where "rc4_crypt c (ee_security_bytes e) 28 = Some (x, ?P)"
    using rc4_crypt_eq [OF c(2), of 28 "ee_security_bytes e"] l(2) rc4_xor_twice [of 28 ?P c] P e(3) by auto
  moreover have "take 20 ?bs = ee_hash e" "take 28 (drop 20 ?bs) = ee_security_bytes e"
    using l by (simp_all add: ee_bytes_def)
  ultimately have op: "eeprom_opens ver ?bs" using c(1) e(2) by (simp add: eeprom_opens_def)
  have "drop 52 ?bs = ee_factory_bytes e @ le32_bytes (ee_user_checksum e) @ ee_user_section e"
    "drop 100 ?bs = ee_user_section e"
    using l e(5) by (simp_all add: ee_bytes_def)
  moreover have "load_le32 ?bs 48 = Some (ee_checksum e)"
    using load_le32_bytes [of "ee_hash e @ ee_security_bytes e" "ee_checksum e"] l by (simp add: ee_bytes_def)
  moreover have "load_le32 ?bs 96 = Some (ee_user_checksum e)"
    using load_le32_bytes [of "ee_hash e @ ee_security_bytes e @ le32_bytes (ee_checksum e) @ ee_factory_bytes e"
        "ee_user_checksum e"] l e(5) by (simp add: ee_bytes_def)
  moreover have "length ?bs = 256" using l e(5,7) by (simp add: ee_bytes_def)
  ultimately have "eeprom_accepted ver ?bs" using op e(4-6) by (simp add: eeprom_accepted_def crc_append)
  then show ?thesis using e(1) by (simp add: xbox_eeprom_generate_def)
qed

theorem xbox_eeprom_generate_accepted_witness:
  "\<exists>bs. xbox_eeprom_generate (\<lambda>k n. replicate n 7) sha1_blank \<lparr>rc_s = []\<rparr> True True XBOX_EEPROM_VERSION_R2
      = Some (True, Some bs) \<and> eeprom_accepted XBOX_EEPROM_VERSION_R2 bs"
  by (rule xbox_eeprom_generate_accepted) (simp_all add: sha1_blank_def)

end
