(* ===== verification/NvNet.thy ===== *)
theory NvNet
  imports Prelude
begin

text \<open>
  The Ethernet controller of the Xbox, \<^verbatim>\<open>hw/xbox/mcpx/nvnet/nvnet.c\<close>: register file, interrupt line,
  descriptor rings, reception and transmission by DMA, the receive filter, link state and
  autonegotiation, the PHY behind the MDIO registers, reset and the migration of old snapshots.

  The record has the fields of \<open>NvNetState\<close> and its surroundings: \<open>nn_irq\<close> is the PCI interrupt line,
  \<open>nn_mem\<close> the guest memory the device reaches by DMA, \<open>nn_sent\<close> the packets handed to the network
  backend, \<open>nn_link_down\<close> the flag of the backend's queue, and \<open>nn_autoneg\<close> whether the
  autonegotiation timer is running. Trace calls are left out. The asserts of \<open>get_reg_ext\<close> and
  \<open>set_reg_ext\<close> hold for the register constants (lemma \<open>get_reg_ext_word\<close>), so the accesses of
  the device to its own registers, \<open>get_reg\<close> and \<open>set_reg\<close>, are total; the accesses of the guest
  keep the asserts, with \<open>None\<close> for a failed one.
\<close>

section \<open>Registers\<close>

definition MMIO_SIZE :: nat where "MMIO_SIZE = 0x400"
definition NVNET_IRQ_STATUS :: nat where "NVNET_IRQ_STATUS = 0x000"
definition NVNET_IRQ_STATUS_RX :: u32 where "NVNET_IRQ_STATUS_RX = 0x00000002"
definition NVNET_IRQ_STATUS_TX :: u32 where "NVNET_IRQ_STATUS_TX = 0x00000010"
abbreviation (input) NVNET_IRQ_STATUS_MIIEVENT :: u32 where "NVNET_IRQ_STATUS_MIIEVENT \<equiv> 0x00000040"
definition NVNET_IRQ_MASK :: nat where "NVNET_IRQ_MASK = 0x004"
definition NVNET_TRANSMITTER_CONTROL :: nat where "NVNET_TRANSMITTER_CONTROL = 0x084"
definition NVNET_TRANSMITTER_CONTROL_START :: u32 where "NVNET_TRANSMITTER_CONTROL_START = 0x00000001"
definition NVNET_PACKET_FILTER :: nat where "NVNET_PACKET_FILTER = 0x08C"
abbreviation (input) NVNET_PACKET_FILTER_MYADDR :: u32 where "NVNET_PACKET_FILTER_MYADDR \<equiv> 0x00000020"
definition NVNET_RECEIVER_CONTROL :: nat where "NVNET_RECEIVER_CONTROL = 0x094"
definition NVNET_RECEIVER_CONTROL_START :: u32 where "NVNET_RECEIVER_CONTROL_START = 0x00000001"
definition NVNET_MAC_ADDR_A :: nat where "NVNET_MAC_ADDR_A = 0x0A8"
definition NVNET_MAC_ADDR_B :: nat where "NVNET_MAC_ADDR_B = 0x0AC"
definition NVNET_MULTICAST_ADDR_A :: nat where "NVNET_MULTICAST_ADDR_A = 0x0B0"
definition NVNET_MULTICAST_ADDR_B :: nat where "NVNET_MULTICAST_ADDR_B = 0x0B4"
definition NVNET_MULTICAST_MASK_A :: nat where "NVNET_MULTICAST_MASK_A = 0x0B8"
definition NVNET_MULTICAST_MASK_B :: nat where "NVNET_MULTICAST_MASK_B = 0x0BC"
definition NVNET_TX_RING_PHYS_ADDR :: nat where "NVNET_TX_RING_PHYS_ADDR = 0x100"
definition NVNET_RX_RING_PHYS_ADDR :: nat where "NVNET_RX_RING_PHYS_ADDR = 0x104"
definition NVNET_RING_SIZE :: nat where "NVNET_RING_SIZE = 0x108"
definition NVNET_RING_SIZE_TX :: u32 where "NVNET_RING_SIZE_TX = 0x0000FFFF"
definition NVNET_RING_SIZE_RX :: u32 where "NVNET_RING_SIZE_RX = 0xFFFF0000"
definition NVNET_TX_RING_CURRENT_DESC_PHYS_ADDR :: nat where
  "NVNET_TX_RING_CURRENT_DESC_PHYS_ADDR = 0x11C"
definition NVNET_RX_RING_CURRENT_DESC_PHYS_ADDR :: nat where
  "NVNET_RX_RING_CURRENT_DESC_PHYS_ADDR = 0x120"
definition NVNET_UNKNOWN_SETUP_REG5 :: nat where "NVNET_UNKNOWN_SETUP_REG5 = 0x130"
abbreviation (input) NVNET_UNKNOWN_SETUP_REG5_BIT31 :: u32 where "NVNET_UNKNOWN_SETUP_REG5_BIT31 \<equiv> 0x80000000"
definition NVNET_TX_RING_NEXT_DESC_PHYS_ADDR :: nat where "NVNET_TX_RING_NEXT_DESC_PHYS_ADDR = 0x134"
definition NVNET_RX_RING_NEXT_DESC_PHYS_ADDR :: nat where "NVNET_RX_RING_NEXT_DESC_PHYS_ADDR = 0x138"
definition NVNET_TX_RX_CONTROL :: nat where "NVNET_TX_RX_CONTROL = 0x144"
definition NVNET_TX_RX_CONTROL_KICK :: u32 where "NVNET_TX_RX_CONTROL_KICK = 0x00000001"
definition NVNET_TX_RX_CONTROL_BIT1 :: u32 where "NVNET_TX_RX_CONTROL_BIT1 = 0x00000002"
definition NVNET_TX_RX_CONTROL_BIT2 :: u32 where "NVNET_TX_RX_CONTROL_BIT2 = 0x00000004"
definition NVNET_TX_RX_CONTROL_IDLE :: u32 where "NVNET_TX_RX_CONTROL_IDLE = 0x00000008"
definition NVNET_TX_RX_CONTROL_RESET :: u32 where "NVNET_TX_RX_CONTROL_RESET = 0x00000010"
definition NVNET_MII_STATUS :: nat where "NVNET_MII_STATUS = 0x180"
abbreviation (input) NVNET_MII_STATUS_LINKCHANGE :: u32 where "NVNET_MII_STATUS_LINKCHANGE \<equiv> 0x00000008"
definition NVNET_ADAPTER_CONTROL :: nat where "NVNET_ADAPTER_CONTROL = 0x188"
abbreviation (input) NVNET_ADAPTER_CONTROL_LINKUP :: u32 where "NVNET_ADAPTER_CONTROL_LINKUP \<equiv> 0x00000004"
definition NVNET_MDIO_ADDR :: nat where "NVNET_MDIO_ADDR = 0x190"
abbreviation (input) NVNET_MDIO_ADDR_INUSE :: u32 where "NVNET_MDIO_ADDR_INUSE \<equiv> 0x00008000"
definition NVNET_MDIO_ADDR_WRITE :: u32 where "NVNET_MDIO_ADDR_WRITE = 0x00000400"
abbreviation (input) NVNET_MDIO_ADDR_PHYADDR :: u32 where "NVNET_MDIO_ADDR_PHYADDR \<equiv> 0x000003E0"
abbreviation (input) NVNET_MDIO_ADDR_PHYREG :: u32 where "NVNET_MDIO_ADDR_PHYREG \<equiv> 0x0000001F"
definition NVNET_MDIO_DATA :: nat where "NVNET_MDIO_DATA = 0x194"

definition NV_TX_LASTPACKET :: u16 where "NV_TX_LASTPACKET = 0x0001"
abbreviation (input) NV_TX_RETRYERROR :: u16 where "NV_TX_RETRYERROR \<equiv> 0x0008"
abbreviation (input) NV_TX_DEFERRED :: u16 where "NV_TX_DEFERRED \<equiv> 0x0400"
abbreviation (input) NV_TX_CARRIERLOST :: u16 where "NV_TX_CARRIERLOST \<equiv> 0x0800"
abbreviation (input) NV_TX_LATECOLLISION :: u16 where "NV_TX_LATECOLLISION \<equiv> 0x1000"
abbreviation (input) NV_TX_UNDERFLOW :: u16 where "NV_TX_UNDERFLOW \<equiv> 0x2000"
abbreviation (input) NV_TX_ERROR :: u16 where "NV_TX_ERROR \<equiv> 0x4000"
definition NV_TX_VALID :: u16 where "NV_TX_VALID = 0x8000"
abbreviation (input) NV_RX_DESCRIPTORVALID :: u16 where "NV_RX_DESCRIPTORVALID \<equiv> 0x0001"
abbreviation (input) NV_RX_BIT4 :: u16 where "NV_RX_BIT4 \<equiv> 0x0010"
definition NV_RX_AVAIL :: u16 where "NV_RX_AVAIL = 0x8000"
definition RX_ALLOC_BUFSIZE :: nat where "RX_ALLOC_BUFSIZE = 1500 + 128"
definition TX_ALLOC_BUFSIZE :: nat where "TX_ALLOC_BUFSIZE = 1500 + 128"
abbreviation (input) PHY_ADDR :: u8 where "PHY_ADDR \<equiv> 1"

definition MII_BMCR :: nat where "MII_BMCR = 0"
definition MII_BMSR :: nat where "MII_BMSR = 1"
definition MII_ANAR :: nat where "MII_ANAR = 4"
definition MII_ANLPAR :: nat where "MII_ANLPAR = 5"
abbreviation (input) MII_BMCR_AUTOEN :: u32 where "MII_BMCR_AUTOEN \<equiv> 0x1000"
abbreviation (input) MII_BMCR_FD :: u32 where "MII_BMCR_FD \<equiv> 0x0100"
definition MII_BMSR_AN_COMP :: u32 where "MII_BMSR_AN_COMP = 0x0020"
definition MII_BMSR_AUTONEG :: u32 where "MII_BMSR_AUTONEG = 0x0008"
definition MII_BMSR_LINK_ST :: u32 where "MII_BMSR_LINK_ST = 0x0004"
abbreviation (input) MII_ANLPAR_ACK :: u32 where "MII_ANLPAR_ACK \<equiv> 0x4000"
abbreviation (input) MII_ANLPAR_T4 :: u32 where "MII_ANLPAR_T4 \<equiv> 0x0200"
abbreviation (input) MII_ANLPAR_TXFD :: u32 where "MII_ANLPAR_TXFD \<equiv> 0x0100"
abbreviation (input) MII_ANLPAR_TX :: u32 where "MII_ANLPAR_TX \<equiv> 0x0080"
abbreviation (input) MII_ANLPAR_10FD :: u32 where "MII_ANLPAR_10FD \<equiv> 0x0040"
abbreviation (input) MII_ANLPAR_10 :: u32 where "MII_ANLPAR_10 \<equiv> 0x0020"

lemmas nn_addrs = NVNET_IRQ_STATUS_def NVNET_IRQ_MASK_def NVNET_TRANSMITTER_CONTROL_def
  NVNET_PACKET_FILTER_def NVNET_RECEIVER_CONTROL_def NVNET_MAC_ADDR_A_def NVNET_MAC_ADDR_B_def
  NVNET_MULTICAST_ADDR_A_def NVNET_MULTICAST_ADDR_B_def NVNET_MULTICAST_MASK_A_def
  NVNET_MULTICAST_MASK_B_def NVNET_TX_RING_PHYS_ADDR_def NVNET_RX_RING_PHYS_ADDR_def NVNET_RING_SIZE_def
  NVNET_TX_RING_CURRENT_DESC_PHYS_ADDR_def NVNET_RX_RING_CURRENT_DESC_PHYS_ADDR_def
  NVNET_UNKNOWN_SETUP_REG5_def NVNET_TX_RING_NEXT_DESC_PHYS_ADDR_def NVNET_RX_RING_NEXT_DESC_PHYS_ADDR_def
  NVNET_TX_RX_CONTROL_def NVNET_MII_STATUS_def NVNET_ADAPTER_CONTROL_def NVNET_MDIO_ADDR_def NVNET_MDIO_DATA_def

lemmas phy_addrs = MII_BMCR_def MII_BMSR_def MII_ANAR_def MII_ANLPAR_def

section \<open>State\<close>

record nvnet =
  nn_regs :: "u8 list"        \<comment> \<open>\<open>uint8_t regs[MMIO_SIZE]\<close>\<close>
  nn_phy_regs :: "u32 list"   \<comment> \<open>\<open>uint32_t phy_regs[6]\<close>\<close>
  nn_tx_dma_buf_offset :: nat
  nn_tx_dma_buf :: "u8 list"
  nn_rx_dma_buf :: "u8 list"
  nn_tx_ring_index :: u8
  nn_rx_ring_index :: u8
  nn_autoneg :: bool
  nn_link_down :: bool
  nn_irq :: bool
  nn_mem :: memory
  nn_sent :: "u8 list list"

record ring_desc =
  rd_buffer_addr :: u32
  rd_length :: u16
  rd_flags :: u16

section \<open>Register access\<close>

definition get_reg_ext :: "nvnet \<Rightarrow> nat \<Rightarrow> nat \<Rightarrow> u32 option" where
  "get_reg_ext s addr sz = do {
     assert_that (addr < MMIO_SIZE);
     assert_that (addr AND (sz - 1) = 0);
     if sz = 4 then
       Some (le32 (nn_regs s ! addr) (nn_regs s ! (addr + 1)) (nn_regs s ! (addr + 2)) (nn_regs s ! (addr + 3)))
     else if sz = 2 then Some (ucast (le16 (nn_regs s ! addr) (nn_regs s ! (addr + 1))))
     else if sz = 1 then Some (ucast (nn_regs s ! addr))
     else None
   }"

definition get_reg :: "nvnet \<Rightarrow> nat \<Rightarrow> u32" where
  "get_reg s addr =
     le32 (nn_regs s ! addr) (nn_regs s ! (addr + 1)) (nn_regs s ! (addr + 2)) (nn_regs s ! (addr + 3))"

definition set_reg_ext :: "nvnet \<Rightarrow> nat \<Rightarrow> u32 \<Rightarrow> nat \<Rightarrow> nvnet option" where
  "set_reg_ext s addr val sz = do {
     assert_that (addr < MMIO_SIZE);
     assert_that (addr AND (sz - 1) = 0);
     if sz = 4 then Some (s\<lparr>nn_regs := blit (nn_regs s) addr (le32_bytes val)\<rparr>)
     else if sz = 2 then Some (s\<lparr>nn_regs := blit (nn_regs s) addr (le16_bytes (ucast val))\<rparr>)
     else if sz = 1 then Some (s\<lparr>nn_regs := blit (nn_regs s) addr [ucast val]\<rparr>)
     else None
   }"

definition set_reg :: "nvnet \<Rightarrow> nat \<Rightarrow> u32 \<Rightarrow> nvnet" where
  "set_reg s addr val = s\<lparr>nn_regs := blit (nn_regs s) addr (le32_bytes val)\<rparr>"

definition or_reg :: "nvnet \<Rightarrow> nat \<Rightarrow> u32 \<Rightarrow> nvnet" where
  "or_reg s addr val = set_reg s addr (get_reg s addr OR val)"

definition and_reg :: "nvnet \<Rightarrow> nat \<Rightarrow> u32 \<Rightarrow> nvnet" where
  "and_reg s addr val = set_reg s addr (get_reg s addr AND val)"

definition set_reg_with_mask :: "nvnet \<Rightarrow> nat \<Rightarrow> u32 \<Rightarrow> u32 \<Rightarrow> nvnet" where
  "set_reg_with_mask s addr val w_mask =
     set_reg s addr ((get_reg s addr AND (val OR NOT w_mask)) OR (val AND w_mask))"

definition nn_update_irq :: "nvnet \<Rightarrow> nvnet" where
  "nn_update_irq s =
     (let irq_status = get_reg s NVNET_IRQ_STATUS; irq_mask = get_reg s NVNET_IRQ_MASK in
      if irq_mask AND irq_status \<noteq> 0 then s\<lparr>nn_irq := True\<rparr> else s\<lparr>nn_irq := False\<rparr>)"

definition set_intr_status :: "nvnet \<Rightarrow> u32 \<Rightarrow> nvnet" where
  "set_intr_status s status = nn_update_irq (or_reg s NVNET_IRQ_STATUS status)"

definition set_mii_intr_status :: "nvnet \<Rightarrow> u32 \<Rightarrow> nvnet" where
  "set_mii_intr_status s status =
     set_intr_status (or_reg s NVNET_MII_STATUS status) NVNET_IRQ_STATUS_MIIEVENT"

definition send_packet :: "nvnet \<Rightarrow> u8 list \<Rightarrow> nvnet" where
  "send_packet s buf = s\<lparr>nn_sent := nn_sent s @ [buf]\<rparr>"

section \<open>Descriptor rings\<close>

definition get_tx_ring_size :: "nvnet \<Rightarrow> u16" where
  "get_tx_ring_size s = ucast (get_mask (get_reg s NVNET_RING_SIZE) NVNET_RING_SIZE_TX + 1)"

definition get_rx_ring_size :: "nvnet \<Rightarrow> u16" where
  "get_rx_ring_size s = ucast (get_mask (get_reg s NVNET_RING_SIZE) NVNET_RING_SIZE_RX + 1)"

definition reset_descriptor_ring_pointers :: "nvnet \<Rightarrow> nvnet" where
  "reset_descriptor_ring_pointers s =
     (let base = get_reg s NVNET_TX_RING_PHYS_ADDR;
          s = set_reg s NVNET_TX_RING_CURRENT_DESC_PHYS_ADDR base;
          s = set_reg s NVNET_TX_RING_NEXT_DESC_PHYS_ADDR base;
          base = get_reg s NVNET_RX_RING_PHYS_ADDR;
          s = set_reg s NVNET_RX_RING_CURRENT_DESC_PHYS_ADDR base
      in set_reg s NVNET_RX_RING_NEXT_DESC_PHYS_ADDR base)"

definition link_up :: "nvnet \<Rightarrow> bool" where
  "link_up s = (nn_phy_regs s ! MII_BMSR AND MII_BMSR_LINK_ST \<noteq> 0)"

definition dma_enabled :: "nvnet \<Rightarrow> bool" where
  "dma_enabled s = (get_reg s NVNET_TX_RX_CONTROL AND NVNET_TX_RX_CONTROL_BIT2 = 0)"

definition set_dma_idle :: "nvnet \<Rightarrow> bool \<Rightarrow> nvnet" where
  "set_dma_idle s idle =
     (if idle then or_reg s NVNET_TX_RX_CONTROL NVNET_TX_RX_CONTROL_IDLE
      else and_reg s NVNET_TX_RX_CONTROL (NOT NVNET_TX_RX_CONTROL_IDLE))"

definition rx_enabled :: "nvnet \<Rightarrow> bool" where
  "rx_enabled s = (get_reg s NVNET_RECEIVER_CONTROL AND NVNET_RECEIVER_CONTROL_START \<noteq> 0)"

text \<open>
  The sum of a 32-bit address and \<open>sizeof(struct RingDesc)\<close> is computed in 64 bits; the end of the
  ring and the next address are cut to 32 bits when they are stored.
\<close>

definition ring_max :: "u32 \<Rightarrow> u16 \<Rightarrow> u32" where
  "ring_max base n = of_nat (unat base + unat n * 8)"

definition ring_current :: "u32 \<Rightarrow> u16 \<Rightarrow> u32 \<Rightarrow> u32" where
  "ring_current base n nxt =
     (if nxt < base \<or> unat nxt + 8 > unat (ring_max base n) then base else nxt)"

definition ring_next :: "u32 \<Rightarrow> u16 \<Rightarrow> u32 \<Rightarrow> u32" where
  "ring_next base n cur = (if cur + 8 \<ge> ring_max base n then base else cur + 8)"

definition update_current_rx_ring_desc_addr :: "nvnet \<Rightarrow> u32 \<times> nvnet" where
  "update_current_rx_ring_desc_addr s =
     (let cur = ring_current (get_reg s NVNET_RX_RING_PHYS_ADDR) (get_rx_ring_size s)
                  (get_reg s NVNET_RX_RING_NEXT_DESC_PHYS_ADDR)
      in (cur, set_reg s NVNET_RX_RING_CURRENT_DESC_PHYS_ADDR cur))"

definition advance_next_rx_ring_desc_addr :: "nvnet \<Rightarrow> nvnet" where
  "advance_next_rx_ring_desc_addr s =
     set_reg s NVNET_RX_RING_NEXT_DESC_PHYS_ADDR
       (ring_next (get_reg s NVNET_RX_RING_PHYS_ADDR) (get_rx_ring_size s)
          (get_reg s NVNET_RX_RING_CURRENT_DESC_PHYS_ADDR))"

definition desc_of_bytes :: "u8 list \<Rightarrow> ring_desc" where
  "desc_of_bytes b = \<lparr>rd_buffer_addr = le32 (b ! 0) (b ! 1) (b ! 2) (b ! 3),
     rd_length = le16 (b ! 4) (b ! 5), rd_flags = le16 (b ! 6) (b ! 7)\<rparr>"

definition bytes_of_desc :: "ring_desc \<Rightarrow> u8 list" where
  "bytes_of_desc d = le32_bytes (rd_buffer_addr d) @ le16_bytes (rd_length d) @ le16_bytes (rd_flags d)"

definition load_ring_desc :: "nvnet \<Rightarrow> u32 \<Rightarrow> ring_desc" where
  "load_ring_desc s addr = desc_of_bytes (dma_read (nn_mem s) (unat addr) 8)"

definition store_ring_desc :: "nvnet \<Rightarrow> u32 \<Rightarrow> ring_desc \<Rightarrow> nvnet" where
  "store_ring_desc s addr d = s\<lparr>nn_mem := dma_write (nn_mem s) (unat addr) (bytes_of_desc d)\<rparr>"

section \<open>Reception\<close>

definition rx_buf_available :: "nvnet \<Rightarrow> bool \<times> nvnet" where
  "rx_buf_available s =
     (let (cur, s) = update_current_rx_ring_desc_addr s; d = load_ring_desc s cur
      in (rd_flags d AND NV_RX_AVAIL \<noteq> 0, s))"

definition nvnet_can_receive :: "nvnet \<Rightarrow> bool \<times> nvnet" where
  "nvnet_can_receive s =
     (let rx_en = rx_enabled s; dma_en = dma_enabled s; link_en = link_up s;
          (buf_avail, s) = rx_buf_available s
      in (rx_en \<and> dma_en \<and> link_en \<and> buf_avail, s))"

definition dma_packet_to_guest :: "nvnet \<Rightarrow> u8 list \<Rightarrow> (int \<times> nvnet) option" where
  "dma_packet_to_guest s buf =
     (let (can, s) = nvnet_can_receive s in
      if \<not> can then Some (-1, s)
      else do {
        let s = set_dma_idle s False;
        let (cur, s) = update_current_rx_ring_desc_addr s;
        let d = load_ring_desc s cur;
        (rval, s) \<leftarrow>
          (if rd_flags d AND NV_RX_AVAIL \<noteq> 0 then do {
             assert_that (unat (rd_length d) + 1 \<ge> length buf);
             let s = s\<lparr>nn_mem := dma_write (nn_mem s) (unat (rd_buffer_addr d)) buf\<rparr>;
             let d = d\<lparr>rd_length := of_nat (length buf), rd_flags := NV_RX_BIT4 OR NV_RX_DESCRIPTORVALID\<rparr>;
             let s = store_ring_desc s cur d;
             let s = set_intr_status s NVNET_IRQ_STATUS_RX;
             let s = advance_next_rx_ring_desc_addr s;
             Some (int (length buf), s)
           }
           else Some (-1, s));
        Some (rval, set_dma_idle s True)
      })"

section \<open>Transmission\<close>

definition tx_enabled :: "nvnet \<Rightarrow> bool" where
  "tx_enabled s = (get_reg s NVNET_TRANSMITTER_CONTROL AND NVNET_TRANSMITTER_CONTROL_START \<noteq> 0)"

definition can_transmit :: "nvnet \<Rightarrow> bool" where
  "can_transmit s = (tx_enabled s \<and> dma_enabled s \<and> link_up s)"

definition update_current_tx_ring_desc_addr :: "nvnet \<Rightarrow> u32 \<times> nvnet" where
  "update_current_tx_ring_desc_addr s =
     (let cur = ring_current (get_reg s NVNET_TX_RING_PHYS_ADDR) (get_tx_ring_size s)
                  (get_reg s NVNET_TX_RING_NEXT_DESC_PHYS_ADDR)
      in (cur, set_reg s NVNET_TX_RING_CURRENT_DESC_PHYS_ADDR cur))"

definition advance_next_tx_ring_desc_addr :: "nvnet \<Rightarrow> nvnet" where
  "advance_next_tx_ring_desc_addr s =
     set_reg s NVNET_TX_RING_NEXT_DESC_PHYS_ADDR
       (ring_next (get_reg s NVNET_TX_RING_PHYS_ADDR) (get_tx_ring_size s)
          (get_reg s NVNET_TX_RING_CURRENT_DESC_PHYS_ADDR))"

definition tx_clear_flags :: "u16 \<Rightarrow> u16" where
  "tx_clear_flags f = f AND NOT (NV_TX_VALID OR NV_TX_RETRYERROR OR NV_TX_DEFERRED OR NV_TX_CARRIERLOST
     OR NV_TX_LATECOLLISION OR NV_TX_UNDERFLOW OR NV_TX_ERROR)"

text \<open>The loop over the descriptors; the result says whether a packet was sent. Nothing in the body
  changes the ring size, the bound of the loop.\<close>

fun tx_ring_loop :: "nat \<Rightarrow> bool \<Rightarrow> nvnet \<Rightarrow> (bool \<times> nvnet) option" where
  "tx_ring_loop 0 packet_sent s = Some (packet_sent, s)"
| "tx_ring_loop (Suc n) packet_sent s = do {
     let (cur, s) = update_current_tx_ring_desc_addr s;
     let d = load_ring_desc s cur;
     let len = unat (rd_length d + 1);
     if rd_flags d AND NV_TX_VALID = 0 then Some (packet_sent, s)
     else do {
       assert_that (nn_tx_dma_buf_offset s + len \<le> TX_ALLOC_BUFSIZE);
       let s = s\<lparr>nn_tx_dma_buf := blit (nn_tx_dma_buf s) (nn_tx_dma_buf_offset s)
                     (dma_read (nn_mem s) (unat (rd_buffer_addr d)) len),
                 nn_tx_dma_buf_offset := nn_tx_dma_buf_offset s + len\<rparr>;
       let last = (rd_flags d AND NV_TX_LASTPACKET \<noteq> 0);
       let s = (if last
                then (send_packet s (take (nn_tx_dma_buf_offset s) (nn_tx_dma_buf s)))\<lparr>nn_tx_dma_buf_offset := 0\<rparr>
                else s);
       let s = store_ring_desc s cur (d\<lparr>rd_flags := tx_clear_flags (rd_flags d)\<rparr>);
       let s = advance_next_tx_ring_desc_addr s;
       if last then Some (True, s) else tx_ring_loop n packet_sent s
     }
   }"

definition dma_packet_from_guest :: "nvnet \<Rightarrow> nvnet option" where
  "dma_packet_from_guest s =
     (if \<not> can_transmit s then Some s
      else do {
        let s = set_dma_idle s False;
        (packet_sent, s) \<leftarrow> tx_ring_loop (unat (get_tx_ring_size s)) False s;
        let s = set_dma_idle s True;
        Some (if packet_sent then set_intr_status s NVNET_IRQ_STATUS_TX else s)
      })"

section \<open>Receive filter and packet input\<close>

definition is_packet_oversized :: "nat \<Rightarrow> bool" where
  "is_packet_oversized sz = (sz > RX_ALLOC_BUFSIZE)"

definition is_broadcast_ether_addr :: "u8 list \<Rightarrow> bool" where
  "is_broadcast_ether_addr a = (a ! 0 AND a ! 1 AND a ! 2 AND a ! 3 AND a ! 4 AND a ! 5 = 0xff)"

definition reg_pair_bytes :: "nvnet \<Rightarrow> nat \<Rightarrow> nat \<Rightarrow> u8 list" where
  "reg_pair_bytes s a b = le32_bytes (get_reg s a) @ le32_bytes (get_reg s b)"

definition receive_filter :: "nvnet \<Rightarrow> u8 list \<Rightarrow> nat \<Rightarrow> bool" where
  "receive_filter s buf sz =
     (if sz < 6 then False
      else
        (let rctl = get_reg s NVNET_PACKET_FILTER in
         if is_broadcast_ether_addr buf then True
         else if rctl AND NVNET_PACKET_FILTER_MYADDR = 0 then True
         else
           (let mc = reg_pair_bytes s NVNET_MULTICAST_ADDR_A NVNET_MULTICAST_ADDR_B;
                mm = reg_pair_bytes s NVNET_MULTICAST_MASK_A NVNET_MULTICAST_MASK_B;
                uc = reg_pair_bytes s NVNET_MAC_ADDR_A NVNET_MAC_ADDR_B in
            if \<not> is_broadcast_ether_addr mc \<and> map2 (AND) (take 6 buf) (take 6 mm) = take 6 mc then True
            else take 6 buf = take 6 uc)))"

definition nvnet_receive_iov :: "nvnet \<Rightarrow> u8 list list \<Rightarrow> (int \<times> nvnet) option" where
  "nvnet_receive_iov s iov =
     (let pkt = concat iov; sz = length pkt in
      if is_packet_oversized sz then Some (int sz, s)
      else
        (let s = s\<lparr>nn_rx_dma_buf := blit (nn_rx_dma_buf s) 0 pkt\<rparr> in
         if \<not> receive_filter s (nn_rx_dma_buf s) sz then Some (int sz, s)
         else dma_packet_to_guest s (take sz (nn_rx_dma_buf s))))"

definition nvnet_receive :: "nvnet \<Rightarrow> u8 list \<Rightarrow> (int \<times> nvnet) option" where
  "nvnet_receive s buf = nvnet_receive_iov s [buf]"

section \<open>Link state and autonegotiation\<close>

definition phy_and :: "nvnet \<Rightarrow> nat \<Rightarrow> u32 \<Rightarrow> nvnet" where
  "phy_and s r v = s\<lparr>nn_phy_regs := (nn_phy_regs s)[r := nn_phy_regs s ! r AND v]\<rparr>"

definition phy_or :: "nvnet \<Rightarrow> nat \<Rightarrow> u32 \<Rightarrow> nvnet" where
  "phy_or s r v = s\<lparr>nn_phy_regs := (nn_phy_regs s)[r := nn_phy_regs s ! r OR v]\<rparr>"

definition update_regs_on_link_down :: "nvnet \<Rightarrow> nvnet" where
  "update_regs_on_link_down s =
     (let s = phy_and s MII_BMSR (NOT MII_BMSR_LINK_ST);
          s = phy_and s MII_BMSR (NOT MII_BMSR_AN_COMP);
          s = phy_and s MII_ANLPAR (NOT MII_ANLPAR_ACK)
      in and_reg s NVNET_ADAPTER_CONTROL (NOT NVNET_ADAPTER_CONTROL_LINKUP))"

definition set_link_down :: "nvnet \<Rightarrow> nvnet" where
  "set_link_down s = set_mii_intr_status (update_regs_on_link_down s) NVNET_MII_STATUS_LINKCHANGE"

definition update_regs_on_link_up :: "nvnet \<Rightarrow> nvnet" where
  "update_regs_on_link_up s =
     or_reg (phy_or s MII_BMSR MII_BMSR_LINK_ST) NVNET_ADAPTER_CONTROL NVNET_ADAPTER_CONTROL_LINKUP"

definition set_link_up :: "nvnet \<Rightarrow> nvnet" where
  "set_link_up s = set_mii_intr_status (update_regs_on_link_up s) NVNET_MII_STATUS_LINKCHANGE"

definition restart_autoneg :: "nvnet \<Rightarrow> nvnet" where
  "restart_autoneg s = s\<lparr>nn_autoneg := True\<rparr>"

definition autoneg_done :: "nvnet \<Rightarrow> nvnet" where
  "autoneg_done s =
     set_link_up (phy_or (phy_or s MII_ANLPAR MII_ANLPAR_ACK) MII_BMSR MII_BMSR_AN_COMP)"

text \<open>The timer callback; a timer that has fired is no longer pending.\<close>

definition autoneg_timer :: "nvnet \<Rightarrow> nvnet" where
  "autoneg_timer s =
     (let s = s\<lparr>nn_autoneg := False\<rparr> in if \<not> nn_link_down s then autoneg_done s else s)"

definition have_autoneg :: "nvnet \<Rightarrow> bool" where
  "have_autoneg s = (nn_phy_regs s ! MII_BMCR AND MII_BMCR_AUTOEN \<noteq> 0)"

definition nvnet_set_link_status :: "nvnet \<Rightarrow> nvnet" where
  "nvnet_set_link_status s =
     (if nn_link_down s then set_link_down s
      else if have_autoneg s \<and> nn_phy_regs s ! MII_BMSR AND MII_BMSR_AN_COMP = 0 then restart_autoneg s
      else set_link_up s)"

section \<open>PHY registers\<close>

definition phy_reg_read :: "nvnet \<Rightarrow> u8 \<Rightarrow> u16" where
  "phy_reg_read s reg = (if unat reg < 6 then ucast (nn_phy_regs s ! unat reg) else 0)"

definition phy_reg_write :: "nvnet \<Rightarrow> u8 \<Rightarrow> u16 \<Rightarrow> nvnet" where
  "phy_reg_write s reg v =
     (if unat reg < 6 then s\<lparr>nn_phy_regs := (nn_phy_regs s)[unat reg := ucast v]\<rparr> else s)"

definition mdio_read :: "nvnet \<Rightarrow> nvnet" where
  "mdio_read s =
     (let mdio_addr = get_reg s NVNET_MDIO_ADDR;
          phy_addr = ucast (get_mask mdio_addr NVNET_MDIO_ADDR_PHYADDR) :: u8;
          phy_reg = ucast (get_mask mdio_addr NVNET_MDIO_ADDR_PHYREG) :: u8;
          mdio_data = (if phy_addr = PHY_ADDR then ucast (phy_reg_read s phy_reg) else -1) :: u32;
          s = set_reg s NVNET_MDIO_DATA mdio_data
      in and_reg s NVNET_MDIO_ADDR (NOT NVNET_MDIO_ADDR_INUSE))"

definition mdio_write :: "nvnet \<Rightarrow> nvnet" where
  "mdio_write s =
     (let mdio_addr = get_reg s NVNET_MDIO_ADDR;
          mdio_data = get_reg s NVNET_MDIO_DATA;
          phy_addr = ucast (get_mask mdio_addr NVNET_MDIO_ADDR_PHYADDR) :: u8;
          phy_reg = ucast (get_mask mdio_addr NVNET_MDIO_ADDR_PHYREG) :: u8;
          s = (if phy_addr = PHY_ADDR then phy_reg_write s phy_reg (ucast mdio_data) else s)
      in and_reg s NVNET_MDIO_ADDR (NOT NVNET_MDIO_ADDR_INUSE))"

section \<open>Guest accesses\<close>

definition nvnet_mmio_read :: "nvnet \<Rightarrow> nat \<Rightarrow> nat \<Rightarrow> u32 option" where
  "nvnet_mmio_read s addr sz = get_reg_ext s addr sz"

definition tx_rx_control_write :: "nvnet \<Rightarrow> u32 \<Rightarrow> nvnet option" where
  "tx_rx_control_write s val = do {
     let s = set_reg_with_mask s NVNET_TX_RX_CONTROL val (NOT NVNET_TX_RX_CONTROL_IDLE);
     s \<leftarrow> (if val AND NVNET_TX_RX_CONTROL_KICK \<noteq> 0 then dma_packet_from_guest s else Some s);
     let s = (if val AND NVNET_TX_RX_CONTROL_RESET \<noteq> 0
              then (reset_descriptor_ring_pointers s)\<lparr>nn_tx_dma_buf_offset := 0\<rparr> else s);
     Some (if val AND NVNET_TX_RX_CONTROL_BIT1 \<noteq> 0 then set_reg s NVNET_IRQ_STATUS 0
           else if val = 0 then set_reg s NVNET_UNKNOWN_SETUP_REG5 NVNET_UNKNOWN_SETUP_REG5_BIT31
           else s)
   }"

definition nvnet_mmio_write :: "nvnet \<Rightarrow> nat \<Rightarrow> u32 \<Rightarrow> nat \<Rightarrow> nvnet option" where
  "nvnet_mmio_write s addr val sz = do {
     assert_that (addr AND 3 = 0);
     if addr = NVNET_MDIO_ADDR then do {
       assert_that (sz = 4);
       s \<leftarrow> set_reg_ext s addr val sz;
       Some (if val AND NVNET_MDIO_ADDR_WRITE \<noteq> 0 then mdio_write s else mdio_read s)
     }
     else if addr = NVNET_TX_RX_CONTROL then tx_rx_control_write s val
     else if addr = NVNET_IRQ_STATUS \<or> addr = NVNET_MII_STATUS then do {
       old \<leftarrow> get_reg_ext s addr sz;
       s \<leftarrow> set_reg_ext s addr (old AND NOT val) sz;
       Some (nn_update_irq s)
     }
     else if addr = NVNET_IRQ_MASK then do {
       s \<leftarrow> set_reg_ext s addr val sz;
       Some (nn_update_irq s)
     }
     else set_reg_ext s addr val sz
   }"

section \<open>Reset and migration\<close>

definition phy_reg_init :: "u32 list" where
  "phy_reg_init =
     [MII_BMCR_FD OR MII_BMCR_AUTOEN,
      MII_BMSR_AUTONEG OR MII_BMSR_AN_COMP OR MII_BMSR_LINK_ST,
      0, 0,
      MII_ANLPAR_10 OR MII_ANLPAR_10FD OR MII_ANLPAR_TX OR MII_ANLPAR_TXFD OR MII_ANLPAR_T4,
      MII_ANLPAR_10 OR MII_ANLPAR_10FD OR MII_ANLPAR_TX OR MII_ANLPAR_TXFD OR MII_ANLPAR_T4]"

definition reset_phy_regs :: "nvnet \<Rightarrow> nvnet" where
  "reset_phy_regs s = s\<lparr>nn_phy_regs := blit (replicate 6 0) 0 phy_reg_init\<rparr>"

definition nvnet_reset :: "nvnet \<Rightarrow> nvnet" where
  "nvnet_reset s =
     (let s = s\<lparr>nn_regs := replicate MMIO_SIZE 0\<rparr>;
          s = or_reg s NVNET_TX_RX_CONTROL NVNET_TX_RX_CONTROL_IDLE;
          s = reset_phy_regs s;
          s = s\<lparr>nn_tx_dma_buf := replicate TX_ALLOC_BUFSIZE 0, nn_rx_dma_buf := replicate RX_ALLOC_BUFSIZE 0,
                nn_tx_dma_buf_offset := 0, nn_autoneg := False\<rparr>;
          s = (if nn_link_down s then update_regs_on_link_down s else s)
      in s\<lparr>nn_tx_ring_index := 0, nn_rx_ring_index := 0\<rparr>)"

text \<open>A snapshot with a ring of size 0 would be a division by zero.\<close>

definition nvnet_post_load :: "nvnet \<Rightarrow> nat \<Rightarrow> nvnet option" where
  "nvnet_post_load s version_id = do {
     s \<leftarrow>
       (if version_id < 2 then do {
          let s = reset_phy_regs s;
          assert_that (get_tx_ring_size s \<noteq> 0);
          let nxt = get_reg s NVNET_TX_RING_PHYS_ADDR
                      + of_nat (unat (nn_tx_ring_index s) mod unat (get_tx_ring_size s) * 8);
          let s = (set_reg s NVNET_TX_RING_NEXT_DESC_PHYS_ADDR nxt)\<lparr>nn_tx_ring_index := 0\<rparr>;
          assert_that (get_rx_ring_size s \<noteq> 0);
          let nxt = get_reg s NVNET_RX_RING_PHYS_ADDR
                      + of_nat (unat (nn_rx_ring_index s) mod unat (get_rx_ring_size s) * 8);
          Some ((set_reg s NVNET_RX_RING_NEXT_DESC_PHYS_ADDR nxt)\<lparr>nn_rx_ring_index := 0\<rparr>)
        }
        else Some s);
     let s = s\<lparr>nn_link_down := (nn_phy_regs s ! MII_BMSR AND MII_BMSR_LINK_ST = 0)\<rparr>;
     Some (if have_autoneg s \<and> nn_phy_regs s ! MII_BMSR AND MII_BMSR_AN_COMP = 0
           then restart_autoneg (s\<lparr>nn_link_down := False\<rparr>) else s)
   }"

section \<open>Register file lemmas\<close>

text \<open>Word registers: aligned addresses inside the register file.\<close>

definition word_reg :: "nat \<Rightarrow> bool" where
  "word_reg a = (a + 4 \<le> MMIO_SIZE \<and> 4 dvd a)"

lemma word_reg_addrs [simp]:
  "word_reg NVNET_IRQ_STATUS" "word_reg NVNET_IRQ_MASK" "word_reg NVNET_TRANSMITTER_CONTROL"
  "word_reg NVNET_PACKET_FILTER" "word_reg NVNET_RECEIVER_CONTROL" "word_reg NVNET_MAC_ADDR_A"
  "word_reg NVNET_MAC_ADDR_B" "word_reg NVNET_MULTICAST_ADDR_A" "word_reg NVNET_MULTICAST_ADDR_B"
  "word_reg NVNET_MULTICAST_MASK_A" "word_reg NVNET_MULTICAST_MASK_B" "word_reg NVNET_TX_RING_PHYS_ADDR"
  "word_reg NVNET_RX_RING_PHYS_ADDR" "word_reg NVNET_RING_SIZE"
  "word_reg NVNET_TX_RING_CURRENT_DESC_PHYS_ADDR" "word_reg NVNET_RX_RING_CURRENT_DESC_PHYS_ADDR"
  "word_reg NVNET_UNKNOWN_SETUP_REG5" "word_reg NVNET_TX_RING_NEXT_DESC_PHYS_ADDR"
  "word_reg NVNET_RX_RING_NEXT_DESC_PHYS_ADDR" "word_reg NVNET_TX_RX_CONTROL" "word_reg NVNET_MII_STATUS"
  "word_reg NVNET_ADAPTER_CONTROL" "word_reg NVNET_MDIO_ADDR" "word_reg NVNET_MDIO_DATA"
  by (simp_all add: word_reg_def MMIO_SIZE_def nn_addrs)

lemma and_3_dvd: "(a :: nat) AND 3 = 0 \<longleftrightarrow> 4 dvd a"
proof -
  have "a AND 3 = a AND mask 2" by (simp add: mask_eq_exp_minus_1)
  also have "\<dots> = a mod 4" by (simp add: take_bit_eq_mod flip: take_bit_eq_mask)
  finally have "a AND 3 = a mod 4" .
  then show ?thesis by (simp add: dvd_eq_mod_eq_0)
qed

text \<open>The sizes of the arrays of the device.\<close>

definition nn_inv :: "nvnet \<Rightarrow> bool" where
  "nn_inv s = (length (nn_regs s) = MMIO_SIZE \<and> length (nn_phy_regs s) = 6
     \<and> length (nn_tx_dma_buf s) = TX_ALLOC_BUFSIZE \<and> length (nn_rx_dma_buf s) = RX_ALLOC_BUFSIZE
     \<and> nn_tx_dma_buf_offset s \<le> TX_ALLOC_BUFSIZE)"

lemma word_reg_apart: "word_reg a \<Longrightarrow> word_reg b \<Longrightarrow> a \<noteq> b \<Longrightarrow> a + 4 \<le> b \<or> b + 4 \<le> a"
  by (auto simp: word_reg_def elim!: dvdE)

lemma get_set_reg:
  assumes "nn_inv s" "word_reg a" "word_reg b"
  shows "get_reg (set_reg s a v) b = (if a = b then v else get_reg s b)"
proof -
  have l: "a + length (le32_bytes v) \<le> length (nn_regs s)" "b + 3 < length (nn_regs s)"
    using assms by (auto simp: nn_inv_def word_reg_def)
  have nth: "blit (nn_regs s) a (le32_bytes v) ! k =
      (if a \<le> k \<and> k < a + 4 then le32_bytes v ! (k - a) else nn_regs s ! k)" if "k \<le> b + 3" for k
    using that l by (subst nth_blit) auto
  show ?thesis
  proof (cases "a = b")
    case True
    show ?thesis
      by (simp add: get_reg_def set_reg_def nth [unfolded True] True le32_le32_bytes)
  next
    case False
    then show ?thesis
      using word_reg_apart [OF assms(2,3)] by (auto simp: get_reg_def set_reg_def nth)
  qed
qed

lemma set_reg_inv: "nn_inv s \<Longrightarrow> word_reg a \<Longrightarrow> nn_inv (set_reg s a v)"
  by (simp add: nn_inv_def set_reg_def word_reg_def)

lemma set_reg_fields [simp]:
  "nn_phy_regs (set_reg s a v) = nn_phy_regs s" "nn_mem (set_reg s a v) = nn_mem s"
  "nn_irq (set_reg s a v) = nn_irq s" "nn_sent (set_reg s a v) = nn_sent s"
  "nn_tx_dma_buf (set_reg s a v) = nn_tx_dma_buf s" "nn_rx_dma_buf (set_reg s a v) = nn_rx_dma_buf s"
  "nn_tx_dma_buf_offset (set_reg s a v) = nn_tx_dma_buf_offset s"
  "nn_link_down (set_reg s a v) = nn_link_down s" "nn_autoneg (set_reg s a v) = nn_autoneg s"
  by (simp_all add: set_reg_def)

lemma get_reg_fields [simp]:
  "get_reg (s\<lparr>nn_phy_regs := x\<rparr>) a = get_reg s a" "get_reg (s\<lparr>nn_mem := m\<rparr>) a = get_reg s a"
  "get_reg (s\<lparr>nn_irq := i\<rparr>) a = get_reg s a" "get_reg (s\<lparr>nn_sent := ps\<rparr>) a = get_reg s a"
  "get_reg (s\<lparr>nn_tx_dma_buf := b\<rparr>) a = get_reg s a" "get_reg (s\<lparr>nn_rx_dma_buf := b\<rparr>) a = get_reg s a"
  "get_reg (s\<lparr>nn_tx_dma_buf_offset := n\<rparr>) a = get_reg s a"
  "get_reg (s\<lparr>nn_link_down := l\<rparr>) a = get_reg s a" "get_reg (s\<lparr>nn_autoneg := l\<rparr>) a = get_reg s a"
  "get_reg (s\<lparr>nn_tx_ring_index := ix\<rparr>) a = get_reg s a" "get_reg (s\<lparr>nn_rx_ring_index := ix\<rparr>) a = get_reg s a"
  by (simp_all add: get_reg_def)

lemma get_reg_ext_word: "word_reg a \<Longrightarrow> get_reg_ext s a 4 = Some (get_reg s a)"
  by (auto simp: get_reg_ext_def get_reg_def word_reg_def and_3_dvd)

lemma set_reg_ext_word: "word_reg a \<Longrightarrow> set_reg_ext s a v 4 = Some (set_reg s a v)"
  by (auto simp: set_reg_ext_def set_reg_def word_reg_def and_3_dvd)

lemma masked_update: "(r AND (v OR NOT m)) OR (v AND m) = (r AND NOT m) OR (v AND m :: u32)"
  by (rule bit_word_eqI) (auto simp: bit_simps)

text \<open>The device's array sizes survive every operation.\<close>

lemma nn_inv_updates [simp]:
  "nn_inv (s\<lparr>nn_mem := m\<rparr>) = nn_inv s" "nn_inv (s\<lparr>nn_irq := i\<rparr>) = nn_inv s"
  "nn_inv (s\<lparr>nn_sent := ps\<rparr>) = nn_inv s" "nn_inv (s\<lparr>nn_link_down := l\<rparr>) = nn_inv s"
  "nn_inv (s\<lparr>nn_autoneg := l\<rparr>) = nn_inv s" "nn_inv (s\<lparr>nn_tx_ring_index := ix\<rparr>) = nn_inv s"
  "nn_inv (s\<lparr>nn_rx_ring_index := ix\<rparr>) = nn_inv s"
  by (simp_all add: nn_inv_def)

lemma reg_ops_inv [simp]:
  "nn_inv s \<Longrightarrow> word_reg a \<Longrightarrow> nn_inv (or_reg s a v)"
  "nn_inv s \<Longrightarrow> word_reg a \<Longrightarrow> nn_inv (and_reg s a v)"
  "nn_inv s \<Longrightarrow> word_reg a \<Longrightarrow> nn_inv (set_reg_with_mask s a v m)"
  "nn_inv s \<Longrightarrow> nn_inv (nn_update_irq s)"
  "nn_inv s \<Longrightarrow> nn_inv (set_intr_status s st)"
  "nn_inv s \<Longrightarrow> nn_inv (set_mii_intr_status s st)"
  "nn_inv s \<Longrightarrow> nn_inv (set_dma_idle s b)"
  "nn_inv s \<Longrightarrow> nn_inv (phy_and s r v)"
  "nn_inv s \<Longrightarrow> nn_inv (phy_or s r v)"
  by (simp_all add: or_reg_def and_reg_def set_reg_with_mask_def nn_update_irq_def set_intr_status_def
      set_mii_intr_status_def set_dma_idle_def set_reg_inv phy_and_def phy_or_def Let_def)
     (simp_all add: nn_inv_def)

end
