(* ===== verification/NvNet_Props.thy ===== *)
theory NvNet_Props
  imports NvNet
begin

text \<open>
  Properties of the Ethernet controller: the descriptor ring pointers stay in their ring and visit its
  slots in turn, the interrupt line follows the status and mask registers, a received packet
  arrives in the guest's buffer, a transmitted packet is the concatenation of its fragments,
  and the PHY registers behind the MDIO port keep what is written to them.
\<close>

section \<open>Ring pointers\<close>

text \<open>A ring of \<open>n\<close> descriptors that fits below the end of the address space, and its \<open>k\<close>-th slot.\<close>

definition ring_ok :: "u32 \<Rightarrow> u16 \<Rightarrow> bool" where
  "ring_ok base n = (n \<noteq> 0 \<and> unat base + 8 * unat n < 2 ^ 32)"

definition ring_slot :: "u32 \<Rightarrow> nat \<Rightarrow> u32" where
  "ring_slot base k = of_nat (unat base + 8 * k)"

lemma ring_max_unat: "ring_ok base n \<Longrightarrow> unat (ring_max base n) = unat base + 8 * unat n"
  unfolding ring_max_def ring_ok_def unat_of_nat by (subst mod_less) simp_all

lemma ring_slot_unat: "ring_ok base n \<Longrightarrow> k \<le> unat n \<Longrightarrow> unat (ring_slot base k) = unat base + 8 * k"
  unfolding ring_slot_def ring_ok_def unat_of_nat by (subst mod_less) simp_all

lemma ring_current_slot:
  assumes "ring_ok base n" and "k < unat n"
  shows "ring_current base n (ring_slot base k) = ring_slot base k"
  using assms ring_slot_unat [OF assms(1), of k] ring_max_unat [OF assms(1)]
  by (auto simp: ring_current_def word_less_nat_alt)

lemma ring_next_slot:
  assumes ok: "ring_ok base n" and k: "k < unat n"
  shows "ring_next base n (ring_slot base k) = ring_slot base ((k + 1) mod unat n)"
proof -
  have step: "ring_slot base k + 8 = ring_slot base (k + 1)"
    by (simp add: ring_slot_def)
  have u: "unat (ring_slot base (k + 1)) = unat base + 8 * (k + 1)"
    using ring_slot_unat [OF ok] k by simp
  show ?thesis
  proof (cases "k + 1 = unat n")
    case True
    then have "ring_max base n \<le> ring_slot base (k + 1)"
      using u ring_max_unat [OF ok] by (simp add: word_le_nat_alt)
    then show ?thesis unfolding ring_next_def step True by (simp add: ring_slot_def)
  next
    case False
    then have "\<not> ring_max base n \<le> ring_slot base (k + 1)"
      using u k ring_max_unat [OF ok] by (simp add: word_le_nat_alt)
    then show ?thesis unfolding ring_next_def step using False k by simp
  qed
qed

text \<open>Whatever the guest has left in the next-descriptor register, the descriptor the device uses lies
  inside the ring, so the device never reads or writes a descriptor outside the ring the
  guest set up.\<close>

theorem nvnet_ring_current_bounds:
  assumes "ring_ok base n"
  shows "unat base \<le> unat (ring_current base n nxt)
    \<and> unat (ring_current base n nxt) + 8 \<le> unat base + 8 * unat n"
proof -
  have "0 < unat n" using assms by (simp add: ring_ok_def unat_gt_0)
  then show ?thesis
    using assms ring_max_unat [OF assms] by (auto simp: ring_current_def word_less_nat_alt not_less)
qed

theorem nvnet_ring_current_bounds_witness:
  "unat (0x1000 :: u32) \<le> unat (ring_current 0x1000 4 0xffffffff)
    \<and> unat (ring_current 0x1000 4 0xffffffff) + 8 \<le> unat (0x1000 :: u32) + 8 * unat (4 :: u16)"
  by (rule nvnet_ring_current_bounds) (simp add: ring_ok_def)

text \<open>Going round the ring: the pointer after \<open>m\<close> descriptors have been used.\<close>

fun ring_walk :: "u32 \<Rightarrow> u16 \<Rightarrow> nat \<Rightarrow> u32 \<Rightarrow> u32" where
  "ring_walk base n 0 nxt = nxt"
| "ring_walk base n (Suc m) nxt = ring_walk base n m (ring_next base n (ring_current base n nxt))"

text \<open>The descriptors are used in turn: starting at any slot, after \<open>m\<close> descriptors the pointer is at
  the slot \<open>m\<close> further on, modulo the size of the ring; in particular a whole round returns
  to the start.\<close>

theorem nvnet_ring_walk_cyclic:
  assumes "ring_ok base n" and "k < unat n"
  shows "ring_walk base n m (ring_slot base k) = ring_slot base ((k + m) mod unat n)"
  using assms
proof (induction m arbitrary: k)
  case (Suc m)
  have "(k + 1) mod unat n < unat n" by (rule mod_less_divisor) (use Suc.prems in linarith)
  then show ?case
    using Suc.IH [OF Suc.prems(1), of "(k + 1) mod unat n"] Suc.prems
    by (simp add: ring_current_slot ring_next_slot mod_simps)
qed simp

theorem nvnet_ring_walk_cyclic_witness:
  "ring_walk 0x1000 4 6 (ring_slot 0x1000 3) = ring_slot 0x1000 ((3 + 6) mod unat (4 :: u16))"
  by (rule nvnet_ring_walk_cyclic) (simp_all add: ring_ok_def)

section \<open>Interrupt line\<close>

definition irq_ok :: "nvnet \<Rightarrow> bool" where
  "irq_ok s = (nn_irq s \<longleftrightarrow> get_reg s NVNET_IRQ_MASK AND get_reg s NVNET_IRQ_STATUS \<noteq> 0)"

lemma irq_ok_update: "irq_ok (nn_update_irq s)"
  by (simp add: irq_ok_def nn_update_irq_def Let_def)

definition irq_reg :: "nat \<Rightarrow> bool" where
  "irq_reg a = (a = NVNET_IRQ_STATUS \<or> a = NVNET_IRQ_MASK)"

lemma irq_reg_addrs [simp]:
  "\<not> irq_reg NVNET_TX_RX_CONTROL" "\<not> irq_reg NVNET_MII_STATUS" "\<not> irq_reg NVNET_ADAPTER_CONTROL"
  "\<not> irq_reg NVNET_MDIO_ADDR" "\<not> irq_reg NVNET_MDIO_DATA" "\<not> irq_reg NVNET_UNKNOWN_SETUP_REG5"
  "\<not> irq_reg NVNET_TX_RING_CURRENT_DESC_PHYS_ADDR" "\<not> irq_reg NVNET_RX_RING_CURRENT_DESC_PHYS_ADDR"
  "\<not> irq_reg NVNET_TX_RING_NEXT_DESC_PHYS_ADDR" "\<not> irq_reg NVNET_RX_RING_NEXT_DESC_PHYS_ADDR"
  by (simp_all add: irq_reg_def nn_addrs)

lemma irq_ok_set_reg:
  "nn_inv s \<Longrightarrow> word_reg a \<Longrightarrow> \<not> irq_reg a \<Longrightarrow> irq_ok (set_reg s a v) = irq_ok s"
  by (simp add: irq_ok_def get_set_reg irq_reg_def)

lemma irq_ok_fields [simp]:
  "irq_ok (s\<lparr>nn_phy_regs := x\<rparr>) = irq_ok s" "irq_ok (s\<lparr>nn_mem := m\<rparr>) = irq_ok s"
  "irq_ok (s\<lparr>nn_sent := ps\<rparr>) = irq_ok s" "irq_ok (s\<lparr>nn_tx_dma_buf := b\<rparr>) = irq_ok s"
  "irq_ok (s\<lparr>nn_rx_dma_buf := b\<rparr>) = irq_ok s" "irq_ok (s\<lparr>nn_tx_dma_buf_offset := n\<rparr>) = irq_ok s"
  "irq_ok (s\<lparr>nn_link_down := l\<rparr>) = irq_ok s" "irq_ok (s\<lparr>nn_autoneg := l\<rparr>) = irq_ok s"
  by (simp_all add: irq_ok_def)

text \<open>The device is in order: its arrays have their sizes and the line follows the registers.\<close>

definition nn_good :: "nvnet \<Rightarrow> bool" where
  "nn_good s = (nn_inv s \<and> irq_ok s)"

lemma good_set_reg: "nn_good s \<Longrightarrow> word_reg a \<Longrightarrow> \<not> irq_reg a \<Longrightarrow> nn_good (set_reg s a v)"
  by (simp add: nn_good_def irq_ok_set_reg set_reg_inv)

lemma good_or_reg: "nn_good s \<Longrightarrow> word_reg a \<Longrightarrow> \<not> irq_reg a \<Longrightarrow> nn_good (or_reg s a v)"
  and good_and_reg: "nn_good s \<Longrightarrow> word_reg a \<Longrightarrow> \<not> irq_reg a \<Longrightarrow> nn_good (and_reg s a v)"
  by (simp_all add: or_reg_def and_reg_def good_set_reg)

lemma good_update_irq: "nn_inv s \<Longrightarrow> nn_good (nn_update_irq s)"
  by (simp add: nn_good_def irq_ok_update)

lemma good_intr: "nn_inv s \<Longrightarrow> nn_good (set_intr_status s st)"
  by (simp add: set_intr_status_def good_update_irq)

lemma good_mii_intr: "nn_inv s \<Longrightarrow> nn_good (set_mii_intr_status s st)"
  by (simp add: set_mii_intr_status_def good_intr)

lemma good_idle: "nn_good s \<Longrightarrow> nn_good (set_dma_idle s b)"
  by (simp add: set_dma_idle_def good_or_reg good_and_reg)

lemma good_inv: "nn_good s \<Longrightarrow> nn_inv s"
  by (simp add: nn_good_def)

lemma good_mem: "nn_good s \<Longrightarrow> nn_good (s\<lparr>nn_mem := m\<rparr>)"
  by (simp add: nn_good_def)

lemma good_phy: "nn_good s \<Longrightarrow> nn_good (phy_and s r v)" "nn_good s \<Longrightarrow> nn_good (phy_or s r v)"
  by (simp_all add: nn_good_def phy_and_def phy_or_def) (simp_all add: nn_inv_def)

lemmas good_regs = good_set_reg good_or_reg good_and_reg good_update_irq good_intr good_mii_intr good_idle
  good_mem good_phy


lemma good_set_ext:
  assumes good: "nn_good s" and a: "4 dvd addr" "\<not> irq_reg addr" and eq: "set_reg_ext s addr v sz = Some s'"
  shows "nn_good s'"
proof -
  obtain bs where s': "s' = s\<lparr>nn_regs := blit (nn_regs s) addr bs\<rparr>" and l: "length bs \<le> 4"
    and lt: "addr < MMIO_SIZE"
    using eq by (auto simp: set_reg_ext_def bind_eq_Some_conv assert_that_def split: if_splits)
  have ge: "8 \<le> addr" using a by (auto simp: irq_reg_def nn_addrs elim!: dvdE)
  have fit: "addr + length bs \<le> length (nn_regs s)"
    using lt l a(1) good by (auto simp: nn_good_def nn_inv_def MMIO_SIZE_def elim!: dvdE)
  have "blit (nn_regs s) addr bs ! k = nn_regs s ! k" if "k < 8" for k
    using that ge fit by (subst nth_blit) auto
  then have "get_reg s' r = get_reg s r" if "r \<le> 4" for r
    using that by (simp add: s' get_reg_def)
  then have "irq_ok s' = irq_ok s"
    by (simp add: irq_ok_def nn_addrs) (simp add: s')
  then show ?thesis using good fit by (simp add: nn_good_def) (simp add: s' nn_inv_def)
qed

lemma inv_set_ext:
  assumes "nn_inv s" and "4 dvd addr" and "set_reg_ext s addr v sz = Some s'"
  shows "nn_inv s'"
  using assms
  by (auto simp: set_reg_ext_def bind_eq_Some_conv assert_that_def nn_inv_def MMIO_SIZE_def
      split: if_splits elim!: dvdE)

section \<open>One round of the transmit loop\<close>

definition tx_cur :: "nvnet \<Rightarrow> u32" where
  "tx_cur s = ring_current (get_reg s NVNET_TX_RING_PHYS_ADDR) (get_tx_ring_size s)
     (get_reg s NVNET_TX_RING_NEXT_DESC_PHYS_ADDR)"

definition tx_desc :: "nvnet \<Rightarrow> ring_desc" where
  "tx_desc s = load_ring_desc s (tx_cur s)"

definition tx_frag :: "nvnet \<Rightarrow> u8 list" where
  "tx_frag s = dma_read (nn_mem s) (unat (rd_buffer_addr (tx_desc s))) (unat (rd_length (tx_desc s) + 1))"

definition tx_last :: "nvnet \<Rightarrow> bool" where
  "tx_last s = (rd_flags (tx_desc s) AND NV_TX_LASTPACKET \<noteq> 0)"

definition tx_gathered :: "nvnet \<Rightarrow> u8 list" where
  "tx_gathered s = take (nn_tx_dma_buf_offset s) (nn_tx_dma_buf s)"

definition tx_copy :: "nvnet \<Rightarrow> nvnet" where
  "tx_copy s = s\<lparr>nn_tx_dma_buf := blit (nn_tx_dma_buf s) (nn_tx_dma_buf_offset s) (tx_frag s),
     nn_tx_dma_buf_offset := nn_tx_dma_buf_offset s + unat (rd_length (tx_desc s) + 1)\<rparr>"

definition tx_flush :: "nvnet \<Rightarrow> nvnet" where
  "tx_flush s = (send_packet s (tx_gathered s))\<lparr>nn_tx_dma_buf_offset := 0\<rparr>"

definition tx_take :: "nvnet \<Rightarrow> nvnet" where
  "tx_take s = (let t = set_reg s NVNET_TX_RING_CURRENT_DESC_PHYS_ADDR (tx_cur s);
     u = (if tx_last s then tx_flush (tx_copy t) else tx_copy t)
     in advance_next_tx_ring_desc_addr
          (store_ring_desc u (tx_cur s) ((tx_desc s)\<lparr>rd_flags := tx_clear_flags (rd_flags (tx_desc s))\<rparr>)))"

lemma load_desc_set_reg [simp]: "load_ring_desc (set_reg s a v) c = load_ring_desc s c"
  by (simp add: load_ring_desc_def)

lemma get_set_reg_other:
  "nn_inv s \<Longrightarrow> word_reg a \<Longrightarrow> word_reg b \<Longrightarrow> a \<noteq> b \<Longrightarrow> get_reg (set_reg s a v) b = get_reg s b"
  by (simp add: get_set_reg)

lemma tx_cur_set_current:
  assumes "nn_inv s"
  shows "tx_cur (set_reg s NVNET_TX_RING_CURRENT_DESC_PHYS_ADDR v) = tx_cur s"
    "tx_desc (set_reg s NVNET_TX_RING_CURRENT_DESC_PHYS_ADDR v) = tx_desc s"
    "tx_frag (set_reg s NVNET_TX_RING_CURRENT_DESC_PHYS_ADDR v) = tx_frag s"
proof -
  show c: "tx_cur (set_reg s NVNET_TX_RING_CURRENT_DESC_PHYS_ADDR v) = tx_cur s"
    using assms by (simp add: tx_cur_def get_set_reg get_tx_ring_size_def) (simp add: nn_addrs)
  show d: "tx_desc (set_reg s NVNET_TX_RING_CURRENT_DESC_PHYS_ADDR v) = tx_desc s"
    by (simp add: tx_desc_def c)
  show "tx_frag (set_reg s NVNET_TX_RING_CURRENT_DESC_PHYS_ADDR v) = tx_frag s"
    by (simp add: tx_frag_def d)
qed

lemma tx_ring_loop_Suc:
  assumes "nn_inv s"
  shows "tx_ring_loop (Suc n) sent s =
    (if rd_flags (tx_desc s) AND NV_TX_VALID = 0
     then Some (sent, set_reg s NVNET_TX_RING_CURRENT_DESC_PHYS_ADDR (tx_cur s))
     else if nn_tx_dma_buf_offset s + unat (rd_length (tx_desc s) + 1) > TX_ALLOC_BUFSIZE then None
     else if tx_last s then Some (True, tx_take s) else tx_ring_loop n sent (tx_take s))"
  using tx_cur_set_current [OF assms]
  by (simp add: update_current_tx_ring_desc_addr_def Let_def tx_take_def tx_copy_def tx_flush_def
      tx_gathered_def tx_frag_def tx_last_def assert_that_def
      flip: tx_cur_def tx_desc_def)

lemma tx_copy_inv:
  "nn_inv s \<Longrightarrow> nn_tx_dma_buf_offset s + unat (rd_length (tx_desc s) + 1) \<le> TX_ALLOC_BUFSIZE \<Longrightarrow> nn_inv (tx_copy s)"
  by (simp add: tx_copy_def nn_inv_def tx_frag_def)

lemma tx_take_good:
  assumes "nn_good s" and "nn_tx_dma_buf_offset s + unat (rd_length (tx_desc s) + 1) \<le> TX_ALLOC_BUFSIZE"
  shows "nn_good (tx_take s)"
proof -
  let ?t = "set_reg s NVNET_TX_RING_CURRENT_DESC_PHYS_ADDR (tx_cur s)"
  have t: "nn_good ?t" using assms by (simp add: good_set_reg)
  have "nn_good (tx_copy ?t)"
    using t assms tx_cur_set_current by (simp add: nn_good_def tx_copy_inv) (simp add: tx_copy_def)
  moreover have "nn_good (tx_flush u)" if "nn_good u" for u
    using that by (simp add: nn_good_def tx_flush_def send_packet_def) (simp add: nn_inv_def)
  ultimately show ?thesis
    by (auto simp: tx_take_def Let_def advance_next_tx_ring_desc_addr_def store_ring_desc_def
        intro!: good_set_reg good_mem)
qed

lemma good_tx_loop: "nn_good s \<Longrightarrow> tx_ring_loop n sent s = Some (sent', s') \<Longrightarrow> nn_good s'"
proof (induction n arbitrary: s)
  case (Suc n)
  then show ?case
    by (auto simp: tx_ring_loop_Suc good_inv not_less simp del: tx_ring_loop.simps
        intro!: good_set_reg tx_take_good split: if_splits)
qed simp

section \<open>The device as an event system\<close>

lemma good_rx_current: "nn_good s \<Longrightarrow> nn_good (snd (nvnet_can_receive s))"
  by (simp add: nvnet_can_receive_def rx_buf_available_def update_current_rx_ring_desc_addr_def Let_def good_set_reg)

lemma good_to_guest:
  assumes "nn_good s" and "dma_packet_to_guest s buf = Some (r, s')"
  shows "nn_good s'"
  using good_rx_current [OF assms(1)] assms(2)
  by (auto simp: dma_packet_to_guest_def update_current_rx_ring_desc_addr_def store_ring_desc_def
      advance_next_rx_ring_desc_addr_def bind_eq_Some_conv assert_that_def Let_def split_beta
      intro!: good_regs good_inv [THEN set_reg_inv] split: if_splits prod.splits)

lemma rx_buf_good: "nn_good s \<Longrightarrow> length b = RX_ALLOC_BUFSIZE \<Longrightarrow> nn_good (s\<lparr>nn_rx_dma_buf := b\<rparr>)"
  by (simp add: nn_good_def) (simp add: nn_inv_def)

lemma good_receive:
  assumes "nn_good s" and "nvnet_receive s buf = Some (r, s')"
  shows "nn_good s'"
proof (cases "is_packet_oversized (length buf)")
  case False
  then have "nn_good (s\<lparr>nn_rx_dma_buf := blit (nn_rx_dma_buf s) 0 buf\<rparr>)"
    using assms(1) by (intro rx_buf_good) (simp_all add: is_packet_oversized_def nn_good_def nn_inv_def)
  then show ?thesis
    using assms False good_to_guest
    by (auto simp: nvnet_receive_def nvnet_receive_iov_def Let_def split: if_splits)
qed (use assms in \<open>simp add: nvnet_receive_def nvnet_receive_iov_def Let_def\<close>)

lemma good_from_guest: "nn_good s \<Longrightarrow> dma_packet_from_guest s = Some s' \<Longrightarrow> nn_good s'"
  by (auto simp: dma_packet_from_guest_def bind_eq_Some_conv Let_def split: if_splits
      intro!: good_idle good_intr good_inv [OF good_idle] dest!: good_tx_loop [rotated])

lemma good_link: "nn_good s \<Longrightarrow> nn_good (nvnet_set_link_status s)" "nn_good s \<Longrightarrow> nn_good (autoneg_timer s)"
  by (auto simp: nvnet_set_link_status_def autoneg_timer_def set_link_down_def set_link_up_def autoneg_done_def
      update_regs_on_link_down_def update_regs_on_link_up_def restart_autoneg_def Let_def nn_good_def
      intro!: good_mii_intr [unfolded nn_good_def, THEN conjunct1] good_mii_intr [unfolded nn_good_def, THEN conjunct2])

lemma good_phy_write: "nn_good s \<Longrightarrow> nn_good (phy_reg_write s r v)"
  by (simp add: phy_reg_write_def nn_good_def) (simp add: nn_inv_def)

lemma good_mdio: "nn_good s \<Longrightarrow> nn_good (mdio_read s)" "nn_good s \<Longrightarrow> nn_good (mdio_write s)"
  by (simp_all add: mdio_read_def mdio_write_def Let_def good_and_reg good_set_reg good_phy_write)

lemma good_ring_reset: "nn_good s \<Longrightarrow> nn_good (reset_descriptor_ring_pointers s)"
  by (simp add: reset_descriptor_ring_pointers_def Let_def good_set_reg)

lemma good_offset: "nn_good s \<Longrightarrow> nn_good (s\<lparr>nn_tx_dma_buf_offset := 0\<rparr>)"
  by (simp add: nn_good_def) (simp add: nn_inv_def)

lemma good_tx_rx_control:
  assumes "nn_good s" and "val AND NVNET_TX_RX_CONTROL_BIT1 = 0" and "tx_rx_control_write s val = Some s'"
  shows "nn_good s'"
proof -
  let ?a = "set_reg_with_mask s NVNET_TX_RX_CONTROL val (NOT NVNET_TX_RX_CONTROL_IDLE)"
  have a: "nn_good ?a" using assms(1) by (simp add: set_reg_with_mask_def good_set_reg)
  obtain b where b: "(if val AND NVNET_TX_RX_CONTROL_KICK \<noteq> 0 then dma_packet_from_guest ?a else Some ?a) = Some b"
    and s': "s' = (let s = (if val AND NVNET_TX_RX_CONTROL_RESET \<noteq> 0
              then (reset_descriptor_ring_pointers b)\<lparr>nn_tx_dma_buf_offset := 0\<rparr> else b)
        in if val = 0 then set_reg s NVNET_UNKNOWN_SETUP_REG5 NVNET_UNKNOWN_SETUP_REG5_BIT31 else s)"
    using assms(2,3) unfolding tx_rx_control_write_def by (auto simp: bind_eq_Some_conv Let_def)
  have "nn_good b" using b a good_from_guest by (auto split: if_splits)
  then show ?thesis by (simp add: s' Let_def good_set_reg good_ring_reset good_offset)
qed

lemma good_mmio_write:
  assumes good: "nn_good s" and bit1: "addr = NVNET_TX_RX_CONTROL \<Longrightarrow> val AND NVNET_TX_RX_CONTROL_BIT1 = 0"
    and eq: "nvnet_mmio_write s addr val sz = Some s'"
  shows "nn_good s'"
proof -
  have al: "4 dvd addr" using eq by (simp add: nvnet_mmio_write_def assert_that_def and_3_dvd split: if_splits)
  consider (mdio) "addr = NVNET_MDIO_ADDR" | (ctl) "addr = NVNET_TX_RX_CONTROL"
    | (st) "addr = NVNET_IRQ_STATUS \<or> addr = NVNET_MII_STATUS" | (mask) "addr = NVNET_IRQ_MASK"
    | (other) "\<not> irq_reg addr" "addr \<notin> {NVNET_MDIO_ADDR, NVNET_TX_RX_CONTROL, NVNET_MII_STATUS}"
    by (auto simp: irq_reg_def)
  then show ?thesis
  proof cases
    case mdio
    then show ?thesis
      using eq good good_set_ext [OF good al]
      by (auto simp: nvnet_mmio_write_def assert_that_def bind_eq_Some_conv good_mdio split: if_splits)
  next
    case ctl
    then have "tx_rx_control_write s val = Some s'"
      using eq by (simp add: nvnet_mmio_write_def assert_that_def nn_addrs split: if_splits)
    then show ?thesis using good_tx_rx_control good bit1 ctl by blast
  next
    case st
    then show ?thesis
      using eq inv_set_ext [OF good_inv [OF good] al]
      by (auto simp: nvnet_mmio_write_def assert_that_def bind_eq_Some_conv nn_addrs
          intro!: good_update_irq split: if_splits)
  next
    case mask
    then show ?thesis
      using eq inv_set_ext [OF good_inv [OF good] al]
      by (auto simp: nvnet_mmio_write_def assert_that_def bind_eq_Some_conv nn_addrs
          intro!: good_update_irq split: if_splits)
  next
    case other
    then show ?thesis
      using eq good_set_ext [OF good al other(1)]
      by (auto simp: nvnet_mmio_write_def assert_that_def irq_reg_def split: if_splits)
  qed
qed

text \<open>What happens to the device: a guest write, a packet from the network, a change of the link, the
  autonegotiation timer.\<close>

datatype nn_event = MmioWrite nat u32 nat | Receive "u8 list" | LinkStatus bool | AutonegTimer

fun nn_event_step :: "nvnet \<Rightarrow> nn_event \<Rightarrow> nvnet option" where
  "nn_event_step s (MmioWrite addr val sz) = nvnet_mmio_write s addr val sz"
| "nn_event_step s (Receive pkt) = map_option snd (nvnet_receive s pkt)"
| "nn_event_step s (LinkStatus down) = Some (nvnet_set_link_status (s\<lparr>nn_link_down := down\<rparr>))"
| "nn_event_step s AutonegTimer = Some (autoneg_timer s)"

fun nn_run :: "nvnet \<Rightarrow> nn_event list \<Rightarrow> nvnet option" where
  "nn_run s [] = Some s"
| "nn_run s (e # es) = do { s \<leftarrow> nn_event_step s e; nn_run s es }"

fun clears_status :: "nn_event \<Rightarrow> bool" where
  "clears_status (MmioWrite addr val sz) = (addr = NVNET_TX_RX_CONTROL \<and> val AND NVNET_TX_RX_CONTROL_BIT1 \<noteq> 0)"
| "clears_status _ = False"

lemma good_link_down: "nn_good (s\<lparr>nn_link_down := d\<rparr>) = nn_good s"
  by (simp add: nn_good_def)

lemma good_event: "nn_good s \<Longrightarrow> \<not> clears_status e \<Longrightarrow> nn_event_step s e = Some s' \<Longrightarrow> nn_good s'"
proof (cases e)
  case (MmioWrite addr val sz)
  assume "nn_good s" "\<not> clears_status e" "nn_event_step s e = Some s'"
  then show ?thesis using good_mmio_write [of s addr val sz s'] MmioWrite by auto
qed (use good_receive good_link good_link_down in \<open>fastforce+\<close>)

lemma good_run: "nn_good s \<Longrightarrow> list_all (\<lambda>e. \<not> clears_status e) es \<Longrightarrow> nn_run s es = Some s' \<Longrightarrow> nn_good s'"
  by (induction s es rule: nn_run.induct) (auto simp: bind_eq_Some_conv dest: good_event)


definition nvnet_blank :: nvnet where
  "nvnet_blank = \<lparr>nn_regs = replicate MMIO_SIZE 0, nn_phy_regs = replicate 6 0, nn_tx_dma_buf_offset = 0,
     nn_tx_dma_buf = replicate TX_ALLOC_BUFSIZE 0, nn_rx_dma_buf = replicate RX_ALLOC_BUFSIZE 0,
     nn_tx_ring_index = 0, nn_rx_ring_index = 0, nn_autoneg = False, nn_link_down = False, nn_irq = False,
     nn_mem = (\<lambda>_. 0), nn_sent = []\<rparr>"

text \<open>The state after a reset.\<close>

definition reset_base :: "nvnet \<Rightarrow> nvnet" where
  "reset_base s = (set_reg (s\<lparr>nn_regs := replicate MMIO_SIZE 0\<rparr>) NVNET_TX_RX_CONTROL NVNET_TX_RX_CONTROL_IDLE)
     \<lparr>nn_phy_regs := phy_reg_init, nn_tx_dma_buf := replicate TX_ALLOC_BUFSIZE 0,
      nn_rx_dma_buf := replicate RX_ALLOC_BUFSIZE 0, nn_tx_dma_buf_offset := 0, nn_autoneg := False\<rparr>"

lemma nvnet_reset_eq:
  "nvnet_reset s = (if nn_link_down s then update_regs_on_link_down (reset_base s) else reset_base s)
     \<lparr>nn_tx_ring_index := 0, nn_rx_ring_index := 0\<rparr>"
  by (simp add: nvnet_reset_def reset_base_def Let_def reset_phy_regs_def blit_def phy_reg_init_def or_reg_def
      get_reg_def MMIO_SIZE_def le32_def NVNET_TX_RX_CONTROL_def)

lemma reset_base_inv: "nn_inv (reset_base s)"
  by (simp add: nn_inv_def reset_base_def phy_reg_init_def) (simp add: set_reg_def MMIO_SIZE_def nn_addrs)

lemma reset_base_regs: "r \<in> {NVNET_IRQ_STATUS, NVNET_IRQ_MASK} \<Longrightarrow> get_reg (reset_base s) r = 0"
  by (auto simp: reset_base_def set_reg_def get_reg_def nth_blit MMIO_SIZE_def nn_addrs le32_def)

lemma reset_base_control: "get_reg (reset_base nvnet_blank) NVNET_TX_RX_CONTROL = NVNET_TX_RX_CONTROL_IDLE"
proof -
  have "nn_inv (nvnet_blank\<lparr>nn_regs := replicate MMIO_SIZE 0\<rparr>)" by (simp add: nn_inv_def nvnet_blank_def)
  then show ?thesis by (simp add: reset_base_def get_set_reg)
qed

lemma nvnet_reset_good:
  assumes "\<not> nn_irq s"
  shows "nn_good (nvnet_reset s)"
proof -
  have "nn_good (reset_base s)"
    using assms by (simp add: nn_good_def irq_ok_def reset_base_inv reset_base_regs) (simp add: reset_base_def)
  then have "nn_good (if nn_link_down s then update_regs_on_link_down (reset_base s) else reset_base s)"
    by (simp add: update_regs_on_link_down_def good_regs)
  then show ?thesis unfolding nvnet_reset_eq by (simp add: nn_good_def irq_ok_def)
qed

text \<open>C19: From a reset on, through every sequence of guest writes, packets from the network, link changes and
  timer events, the interrupt line of the Ethernet controller is raised exactly while an
  unmasked status bit is set, as long as the guest does not use bit 1 of the control register;
  the register file, the PHY registers and the packet buffers keep their sizes.\<close>

theorem nvnet_irq_line_follows:
  assumes "\<not> nn_irq s" and "list_all (\<lambda>e. \<not> clears_status e) es" and "nn_run (nvnet_reset s) es = Some s'"
  shows "nn_inv s' \<and> (nn_irq s' \<longleftrightarrow> get_reg s' NVNET_IRQ_MASK AND get_reg s' NVNET_IRQ_STATUS \<noteq> 0)"
  using good_run [OF nvnet_reset_good [OF assms(1)] assms(2,3)] by (simp add: nn_good_def irq_ok_def)

theorem nvnet_irq_line_follows_witness:
  "\<exists>s'. nn_run (nvnet_reset nvnet_blank) [MmioWrite NVNET_IRQ_MASK NVNET_IRQ_STATUS_MIIEVENT 4, LinkStatus True] = Some s'
     \<and> nn_inv s' \<and> (nn_irq s' \<longleftrightarrow> get_reg s' NVNET_IRQ_MASK AND get_reg s' NVNET_IRQ_STATUS \<noteq> 0)"
proof -
  let ?es = "[MmioWrite NVNET_IRQ_MASK NVNET_IRQ_STATUS_MIIEVENT 4, LinkStatus True]"
  obtain s' where s': "nn_run (nvnet_reset nvnet_blank) ?es = Some s'"
    by (simp add: nvnet_mmio_write_def set_reg_ext_def nn_addrs MMIO_SIZE_def)
  have "\<not> nn_irq nvnet_blank" by (simp add: nvnet_blank_def)
  moreover have "list_all (\<lambda>e. \<not> clears_status e) ?es" by (simp add: nn_addrs)
  ultimately show ?thesis using nvnet_irq_line_follows [OF _ _ s'] s' by blast
qed

text \<open>C23: Bit 1 of the control register clears the status register without lowering the interrupt line: with an
  event pending and unmasked, a guest write of 2 leaves the line raised although no status bit
  is set any more.\<close>

theorem nvnet_irq_stale_after_bit1:
  assumes "nn_inv s" and "nn_irq s"
  shows "\<exists>s'. nvnet_mmio_write s NVNET_TX_RX_CONTROL NVNET_TX_RX_CONTROL_BIT1 4 = Some s'
    \<and> nn_irq s' \<and> get_reg s' NVNET_IRQ_STATUS = 0"
proof -
  have "nvnet_mmio_write s NVNET_TX_RX_CONTROL NVNET_TX_RX_CONTROL_BIT1 4 =
      tx_rx_control_write s NVNET_TX_RX_CONTROL_BIT1"
    by (simp add: nvnet_mmio_write_def nn_addrs)
  also have "\<dots> = Some (set_reg (set_reg_with_mask s NVNET_TX_RX_CONTROL NVNET_TX_RX_CONTROL_BIT1
      (NOT NVNET_TX_RX_CONTROL_IDLE)) NVNET_IRQ_STATUS 0)"
    by (simp add: tx_rx_control_write_def Let_def NVNET_TX_RX_CONTROL_BIT1_def NVNET_TX_RX_CONTROL_KICK_def
        NVNET_TX_RX_CONTROL_RESET_def)
  finally show ?thesis
    using assms by (simp add: get_set_reg) (simp add: set_reg_with_mask_def)
qed

theorem nvnet_irq_stale_after_bit1_witness:
  "\<exists>s'. nvnet_mmio_write ((reset_base nvnet_blank)\<lparr>nn_irq := True\<rparr>) NVNET_TX_RX_CONTROL NVNET_TX_RX_CONTROL_BIT1 4 = Some s'
    \<and> nn_irq s' \<and> get_reg s' NVNET_IRQ_STATUS = 0"
  by (rule nvnet_irq_stale_after_bit1) (simp_all add: reset_base_inv)

section \<open>Transmitting a packet\<close>

definition tx_cleared :: "nvnet \<Rightarrow> ring_desc" where
  "tx_cleared s = (tx_desc s)\<lparr>rd_flags := tx_clear_flags (rd_flags (tx_desc s))\<rparr>"

lemma tx_take_shape:
  "tx_take s = advance_next_tx_ring_desc_addr
     ((if tx_last s then tx_flush (tx_copy t) else tx_copy t)
        \<lparr>nn_mem := dma_write (nn_mem s) (unat (tx_cur s)) (bytes_of_desc (tx_cleared s))\<rparr>)"
  if "t = set_reg s NVNET_TX_RING_CURRENT_DESC_PHYS_ADDR (tx_cur s)"
  using that
  by (simp add: tx_take_def Let_def store_ring_desc_def tx_cleared_def tx_flush_def tx_copy_def send_packet_def)

lemma tx_take_fields:
  assumes "nn_inv s"
  shows "nn_mem (tx_take s) = dma_write (nn_mem s) (unat (tx_cur s)) (bytes_of_desc (tx_cleared s))"
    and "nn_phy_regs (tx_take s) = nn_phy_regs s"
    and "nn_sent (tx_take s) =
      (if tx_last s then nn_sent s @ [take (nn_tx_dma_buf_offset s + unat (rd_length (tx_desc s) + 1))
         (blit (nn_tx_dma_buf s) (nn_tx_dma_buf_offset s) (tx_frag s))] else nn_sent s)"
    and "nn_tx_dma_buf_offset (tx_take s) =
      (if tx_last s then 0 else nn_tx_dma_buf_offset s + unat (rd_length (tx_desc s) + 1))"
    and "nn_tx_dma_buf (tx_take s) = blit (nn_tx_dma_buf s) (nn_tx_dma_buf_offset s) (tx_frag s)"
  using tx_cur_set_current [OF assms]
  by (simp_all add: tx_take_shape [OF refl] advance_next_tx_ring_desc_addr_def tx_flush_def tx_copy_def
      tx_gathered_def send_packet_def)

lemma get_reg_tx_take:
  assumes inv: "nn_inv s" and r: "word_reg r" "r \<noteq> NVNET_TX_RING_CURRENT_DESC_PHYS_ADDR"
    and fit: "nn_tx_dma_buf_offset s + unat (rd_length (tx_desc s) + 1) \<le> TX_ALLOC_BUFSIZE"
  shows "get_reg (tx_take s) r =
    (if r = NVNET_TX_RING_NEXT_DESC_PHYS_ADDR
     then ring_next (get_reg s NVNET_TX_RING_PHYS_ADDR) (get_tx_ring_size s) (tx_cur s) else get_reg s r)"
proof -
  let ?t = "set_reg s NVNET_TX_RING_CURRENT_DESC_PHYS_ADDR (tx_cur s)"
  let ?u = "if tx_last s then tx_flush (tx_copy ?t) else tx_copy ?t"
  have g: "get_reg ?u a = get_reg ?t a" for a
    by (simp add: tx_flush_def tx_copy_def send_packet_def)
  have "nn_inv (tx_copy ?t)"
    using inv fit tx_cur_set_current [OF inv] by (intro tx_copy_inv) (simp_all add: set_reg_inv)
  then have iu: "nn_inv ?u"
    by (simp add: tx_flush_def send_packet_def) (simp add: nn_inv_def)
  show ?thesis
    unfolding tx_take_shape [OF refl] advance_next_tx_ring_desc_addr_def get_tx_ring_size_def
    using iu r inv by (simp add: get_set_reg g) (simp add: get_set_reg nn_addrs)
qed

text \<open>
  The descriptors \<open>ds\<close> wait in the slots \<open>k\<close>, \<open>k + 1\<close>, \dots of the transmit ring, and their buffers lie
  outside the ring.
\<close>

definition frag_of :: "memory \<Rightarrow> ring_desc \<Rightarrow> u8 list" where
  "frag_of m d = dma_read m (unat (rd_buffer_addr d)) (unat (rd_length d + 1))"

definition outside_ring :: "u32 \<Rightarrow> u16 \<Rightarrow> ring_desc \<Rightarrow> bool" where
  "outside_ring base n d = (unat (rd_buffer_addr d) + unat (rd_length d + 1) \<le> unat base
     \<or> unat base + 8 * unat n \<le> unat (rd_buffer_addr d))"

definition tx_ring_at :: "nvnet \<Rightarrow> u32 \<Rightarrow> u16 \<Rightarrow> nat \<Rightarrow> bool" where
  "tx_ring_at s base n k = (ring_ok base n \<and> k < unat n \<and> get_reg s NVNET_TX_RING_PHYS_ADDR = base
     \<and> get_tx_ring_size s = n \<and> get_reg s NVNET_TX_RING_NEXT_DESC_PHYS_ADDR = ring_slot base k)"

definition tx_waiting :: "nvnet \<Rightarrow> u32 \<Rightarrow> u16 \<Rightarrow> nat \<Rightarrow> ring_desc list \<Rightarrow> bool" where
  "tx_waiting s base n k ds = (length ds \<le> unat n \<and> (\<forall>i < length ds.
     load_ring_desc s (ring_slot base ((k + i) mod unat n)) = ds ! i
     \<and> rd_flags (ds ! i) AND NV_TX_VALID \<noteq> 0 \<and> outside_ring base n (ds ! i)))"

fun tx_chain :: "ring_desc list \<Rightarrow> bool" where
  "tx_chain [] = False"
| "tx_chain [d] = (rd_flags d AND NV_TX_LASTPACKET \<noteq> 0)"
| "tx_chain (d # e # ds) = (rd_flags d AND NV_TX_LASTPACKET = 0 \<and> tx_chain (e # ds))"

lemma tx_chain_Cons:
  "tx_chain (d # ds) = (if ds = [] then rd_flags d AND NV_TX_LASTPACKET \<noteq> 0
     else rd_flags d AND NV_TX_LASTPACKET = 0 \<and> tx_chain ds)"
  by (cases ds) auto

lemma slots_apart:
  assumes "ring_ok base n" "i < unat n" "j < unat n" "i \<noteq> j"
  shows "unat (ring_slot base i) + 8 \<le> unat (ring_slot base j) \<or> unat (ring_slot base j) + 8 \<le> unat (ring_slot base i)"
  using assms by (auto simp: ring_slot_unat)

lemma cyclic_neq: "k < n \<Longrightarrow> 0 < i \<Longrightarrow> i < n \<Longrightarrow> (k + i) mod n \<noteq> (k :: nat)"
proof
  assume a: "k < n" "0 < i" "i < n" and e: "(k + i) mod n = k"
  have "k + i < n \<or> (k + i) mod n = k + i - n"
    using a by (cases "k + i < n") (auto simp: not_less le_mod_geq)
  then show False using a e by auto
qed

lemma bytes_of_desc_load: "desc_of_bytes (bytes_of_desc d) = d" and length_bytes_of_desc [simp]: "length (bytes_of_desc d) = 8"
proof -
  show "length (bytes_of_desc d) = 8" by (simp add: bytes_of_desc_def le16_bytes_def)
  show "desc_of_bytes (bytes_of_desc d) = d"
    by (simp add: desc_of_bytes_def bytes_of_desc_def nth_append le32_le32_bytes le16_le16_bytes le16_bytes_def)
qed

lemma load_store_desc:
  "load_ring_desc (store_ring_desc s a d) a = d"
  using dma_read_write_same [of "nn_mem s" "unat a" "bytes_of_desc d"]
  by (simp add: load_ring_desc_def store_ring_desc_def bytes_of_desc_load)

lemma load_store_desc_other:
  "unat a + 8 \<le> unat b \<or> unat b + 8 \<le> unat a \<Longrightarrow> load_ring_desc (store_ring_desc s a d) b = load_ring_desc s b"
  by (simp add: load_ring_desc_def store_ring_desc_def dma_read_write_disjoint)

lemma tx_cur_ring: "tx_ring_at s base n k \<Longrightarrow> tx_cur s = ring_slot base k"
  by (simp add: tx_ring_at_def tx_cur_def ring_current_slot)

lemma load_desc_tx_take:
  assumes inv: "nn_inv s" and ring: "tx_ring_at s base n k" and j: "j < unat n"
  shows "load_ring_desc (tx_take s) (ring_slot base j) =
    (if j = k then tx_cleared s else load_ring_desc s (ring_slot base j))"
proof -
  have "load_ring_desc (tx_take s) a = load_ring_desc (store_ring_desc s (ring_slot base k) (tx_cleared s)) a" for a
    by (simp add: load_ring_desc_def store_ring_desc_def tx_take_fields [OF inv] tx_cur_ring [OF ring])
  then show ?thesis
    using slots_apart [of base n k j] ring j load_store_desc load_store_desc_other
    by (auto simp: tx_ring_at_def)
qed

lemma tx_take_ring:
  assumes "nn_inv s" "tx_ring_at s base n k"
    "nn_tx_dma_buf_offset s + unat (rd_length (tx_desc s) + 1) \<le> TX_ALLOC_BUFSIZE"
  shows "tx_ring_at (tx_take s) base n ((k + 1) mod unat n)"
proof -
  have "tx_cur s = ring_slot base k" by (rule tx_cur_ring [OF assms(2)])
  moreover have "(k + 1) mod unat n < unat n"
    by (rule mod_less_divisor) (use assms(2) in \<open>simp add: tx_ring_at_def\<close>)
  ultimately show ?thesis
    using assms ring_next_slot [of base n k]
    by (auto simp: tx_ring_at_def get_tx_ring_size_def get_reg_tx_take nn_addrs word_reg_def MMIO_SIZE_def)
qed

lemma tx_mem_outside:
  assumes "nn_inv s" "tx_ring_at s base n k" and "x < unat base \<or> unat base + 8 * unat n \<le> x"
  shows "nn_mem (tx_take s) x = nn_mem s x"
proof -
  have "unat (ring_slot base k) = unat base + 8 * k" "k < unat n"
    using assms(2) ring_slot_unat [of base n k] by (simp_all add: tx_ring_at_def)
  then show ?thesis
    using assms(3) by (auto simp: tx_take_fields [OF assms(1)] tx_cur_ring [OF assms(2)] intro!: dma_write_outside)
qed

lemma frag_outside:
  assumes "outside_ring base n d" and "\<And>x. x < unat base \<or> unat base + 8 * unat n \<le> x \<Longrightarrow> m' x = m x"
  shows "frag_of m' d = frag_of m d"
  unfolding frag_of_def by (rule dma_read_cong) (use assms in \<open>auto simp: outside_ring_def\<close>)

lemma tx_take_waiting:
  assumes inv: "nn_inv s" and ring: "tx_ring_at s base n k" and w: "tx_waiting s base n k (d # ds)"
  shows "tx_waiting (tx_take s) base n ((k + 1) mod unat n) ds"
proof -
  have n: "k < unat n" "length ds < unat n" using ring w by (auto simp: tx_ring_at_def tx_waiting_def)
  have "load_ring_desc (tx_take s) (ring_slot base (((k + 1) mod unat n + i) mod unat n)) = ds ! i
      \<and> rd_flags (ds ! i) AND NV_TX_VALID \<noteq> 0 \<and> outside_ring base n (ds ! i)" if i: "i < length ds" for i
  proof -
    have s: "((k + 1) mod unat n + i) mod unat n = (k + Suc i) mod unat n" by (simp add: mod_simps)
    have "(k + Suc i) mod unat n \<noteq> k" by (rule cyclic_neq) (use n i in auto)
    moreover have "(k + Suc i) mod unat n < unat n" by (rule mod_less_divisor) (use n in auto)
    ultimately show ?thesis
      using w i unfolding s load_desc_tx_take [OF inv ring \<open>(k + Suc i) mod unat n < unat n\<close>] tx_waiting_def
      by (auto dest!: spec [of _ "Suc i"])
  qed
  then show ?thesis using n by (simp add: tx_waiting_def)
qed

lemma tx_head:
  assumes "tx_ring_at s base n k" and "tx_waiting s base n k (d # ds)"
  shows "tx_desc s = d" "rd_flags d AND NV_TX_VALID \<noteq> 0" "outside_ring base n d"
    "tx_frag s = frag_of (nn_mem s) d" "k < unat n"
proof -
  show k: "k < unat n" using assms(1) by (simp add: tx_ring_at_def)
  show d: "tx_desc s = d"
    using assms k by (auto simp: tx_desc_def tx_cur_ring tx_waiting_def dest!: spec [of _ 0])
  show "rd_flags d AND NV_TX_VALID \<noteq> 0" "outside_ring base n d"
    using assms(2) by (auto simp: tx_waiting_def dest!: spec [of _ 0])
  show "tx_frag s = frag_of (nn_mem s) d" by (simp add: tx_frag_def frag_of_def d)
qed

lemma take_blit_end:
  "off + length f \<le> length b \<Longrightarrow> take (off + length f) (blit b off f) = take off b @ f"
  by (cases f) (simp_all add: blit_def min_def)

definition frags_fit :: "nvnet \<Rightarrow> ring_desc list \<Rightarrow> bool" where
  "frags_fit s ds =
     (nn_tx_dma_buf_offset s + sum_list (map (\<lambda>d. unat (rd_length d + 1)) ds) \<le> TX_ALLOC_BUFSIZE)"

definition tx_delivered :: "nvnet \<Rightarrow> u32 \<Rightarrow> u16 \<Rightarrow> nat \<Rightarrow> ring_desc list \<Rightarrow> nvnet \<Rightarrow> bool" where
  "tx_delivered s base n k ds s' =
     (nn_sent s' = nn_sent s @ [tx_gathered s @ concat (map (frag_of (nn_mem s)) ds)]
      \<and> nn_tx_dma_buf_offset s' = 0 \<and> tx_ring_at s' base n ((k + length ds) mod unat n)
      \<and> (\<forall>j < unat n. load_ring_desc s' (ring_slot base j) =
           (let d = load_ring_desc s (ring_slot base j) in
            if (j + unat n - k) mod unat n < length ds then d\<lparr>rd_flags := tx_clear_flags (rd_flags d)\<rparr> else d))
      \<and> (\<forall>x. x < unat base \<or> unat base + 8 * unat n \<le> x \<longrightarrow> nn_mem s' x = nn_mem s x))"

lemma ring_dist_Suc:
  fixes j k n m :: nat
  assumes "j < n" "k < n" "m < n"
  shows "(j + n - k) mod n < Suc m \<longleftrightarrow> j = k \<or> (j + n - (k + 1) mod n) mod n < m"
proof -
  have a: "(j + n - k) mod n = (if k \<le> j then j - k else j + n - k)"
    using assms by (auto simp: le_mod_geq not_le mod_if)
  have b: "(k + 1) mod n = (if k + 1 = n then 0 else k + 1)" using assms by auto
  have c: "(j + n - (k + 1) mod n) mod n = (if k + 1 = n then j else if k + 1 \<le> j then j - (k + 1) else j + n - (k + 1))"
    using assms by (auto simp: b le_mod_geq not_le mod_if)
  show ?thesis unfolding a c using assms by auto
qed

lemma ring_dist_behind:
  fixes k n :: nat
  assumes "k < n"
  shows "(k + n - (k + 1) mod n) mod n = n - 1"
  using assms by (cases "k + 1 = n") auto

lemma tx_gather_loop:
  assumes "nn_inv s" "nn_good s" "tx_ring_at s base n k" "tx_waiting s base n k ds" "tx_chain ds" "frags_fit s ds"
    "length ds \<le> fuel"
  shows "\<exists>s'. tx_ring_loop fuel sent s = Some (True, s') \<and> tx_delivered s base n k ds s'"
  using assms
proof (induction ds arbitrary: s k fuel)
  case (Cons d ds)
  note head = tx_head [OF Cons.prems(3,4)]
  obtain f where f: "fuel = Suc f" "length ds \<le> f" using Cons.prems(7) by (cases fuel) auto
  have fit: "nn_tx_dma_buf_offset s + unat (rd_length (tx_desc s) + 1) \<le> TX_ALLOC_BUFSIZE"
    using Cons.prems(6) head(1) by (simp add: frags_fit_def)
  have last: "tx_last s \<longleftrightarrow> ds = []"
    using Cons.prems(5) head(1) by (simp add: tx_last_def tx_chain_Cons split: if_splits)
  have n: "length ds < unat n" using Cons.prems(4) by (simp add: tx_waiting_def)
  let ?t = "tx_take s"
  have gathered: "take (nn_tx_dma_buf_offset s + unat (rd_length d + 1))
      (blit (nn_tx_dma_buf s) (nn_tx_dma_buf_offset s) (tx_frag s)) = tx_gathered s @ frag_of (nn_mem s) d"
    using take_blit_end [of "nn_tx_dma_buf_offset s" "frag_of (nn_mem s) d" "nn_tx_dma_buf s"] fit Cons.prems(1) head
    by (simp add: tx_gathered_def frag_of_def nn_inv_def)
  have clr: "tx_cleared s = (let d = load_ring_desc s (ring_slot base k) in d\<lparr>rd_flags := tx_clear_flags (rd_flags d)\<rparr>)"
    by (simp add: tx_cleared_def tx_desc_def tx_cur_ring [OF Cons.prems(3)] Let_def)
  note tfields = tx_take_fields(2-5) [OF Cons.prems(1)] load_desc_tx_take [OF Cons.prems(1,3)]
    tx_mem_outside [OF Cons.prems(1,3)]
  note ring = tx_take_ring [OF Cons.prems(1,3) fit]
  show ?case
  proof (cases "ds = []")
    case True
    have "tx_delivered s base n k [d] ?t"
      using last True gathered ring_dist_Suc [of _ "unat n" k 0] head n ring
      by (auto simp: tx_delivered_def tfields clr Let_def)
    then show ?thesis
      using True f fit head last by (simp add: tx_ring_loop_Suc [OF Cons.prems(1)] del: tx_ring_loop.simps)
  next
    case False
    have good: "nn_good ?t" by (rule tx_take_good [OF Cons.prems(2) fit])
    have "frags_fit ?t ds" using Cons.prems(6) head(1) last False by (simp add: frags_fit_def tfields)
    then obtain s' where s': "tx_ring_loop f sent ?t = Some (True, s')"
      "tx_delivered ?t base n ((k + 1) mod unat n) ds s'"
      using Cons.IH [OF good_inv [OF good] good ring tx_take_waiting [OF Cons.prems(1,3,4)]] False Cons.prems(5) f(2)
      by (auto simp: tx_chain_Cons)
    have "outside_ring base n e" if "e \<in> set ds" for e
      using that Cons.prems(4) unfolding tx_waiting_def in_set_conv_nth by (metis Suc_less_eq length_Cons nth_Cons_Suc)
    moreover have "frag_of (nn_mem ?t) e = frag_of (nn_mem s) e" if "outside_ring base n e" for e
      by (rule frag_outside [OF that]) (rule tx_mem_outside [OF Cons.prems(1,3)])
    ultimately have fr: "map (frag_of (nn_mem ?t)) ds = map (frag_of (nn_mem s)) ds" by simp
    have tg: "tx_gathered ?t = tx_gathered s @ frag_of (nn_mem s) d"
      using last False gathered head(1) unfolding tx_gathered_def [of ?t] by (simp add: tfields)
    have slot: "((k + 1) mod unat n + length ds) mod unat n = (k + length (d # ds)) mod unat n"
      by (simp add: mod_simps)
    have "load_ring_desc s' (ring_slot base j) =
           (let e = load_ring_desc s (ring_slot base j) in
            if (j + unat n - k) mod unat n < Suc (length ds) then e\<lparr>rd_flags := tx_clear_flags (rd_flags e)\<rparr> else e)"
      if j: "j < unat n" for j
      using s'(2) j ring_dist_Suc [OF j head(5) n] ring_dist_behind [OF head(5)] n
      by (cases "j = k") (auto simp: tx_delivered_def tfields clr Let_def)
    then have "tx_delivered s base n k (d # ds) s'"
      using s'(2) last False fr tg slot by (simp add: tx_delivered_def tfields)
    then show ?thesis
      using f fit head last False s'(1) by (simp add: tx_ring_loop_Suc [OF Cons.prems(1)] del: tx_ring_loop.simps)
  qed
qed simp

text \<open>Registers other than those of the ring leave the ring as it is.\<close>

lemma idle_is_set_reg: "\<exists>v. set_dma_idle s b = set_reg s NVNET_TX_RX_CONTROL v"
  by (auto simp: set_dma_idle_def or_reg_def and_reg_def)

lemma intr_is_set_reg:
  "\<exists>i. set_intr_status s st = (set_reg s NVNET_IRQ_STATUS (get_reg s NVNET_IRQ_STATUS OR st))\<lparr>nn_irq := i\<rparr>"
  by (auto simp: set_intr_status_def or_reg_def nn_update_irq_def Let_def)

lemma ring_frame:
  assumes "nn_inv s" and "r \<in> {NVNET_TX_RX_CONTROL, NVNET_IRQ_STATUS}"
  shows "tx_ring_at (set_reg s r v) base n k = tx_ring_at s base n k"
    "tx_waiting (set_reg s r v) base n k ds = tx_waiting s base n k ds"
    "tx_gathered (set_reg s r v) = tx_gathered s" "frags_fit (set_reg s r v) ds = frags_fit s ds"
proof -
  show "tx_ring_at (set_reg s r v) base n k = tx_ring_at s base n k"
    using assms
    by (auto simp: tx_ring_at_def get_tx_ring_size_def get_set_reg nn_addrs word_reg_def MMIO_SIZE_def)
qed (simp_all add: tx_waiting_def tx_gathered_def frags_fit_def)

lemma ring_irq_frame [simp]: "tx_ring_at (s\<lparr>nn_irq := i\<rparr>) base n k = tx_ring_at s base n k"
  by (simp add: tx_ring_at_def get_tx_ring_size_def)

lemma load_desc_irq [simp]: "load_ring_desc (s\<lparr>nn_irq := i\<rparr>) a = load_ring_desc s a"
  by (simp add: load_ring_desc_def)

lemma done_frame:
  assumes "nn_inv s'" "r \<in> {NVNET_TX_RX_CONTROL, NVNET_IRQ_STATUS}"
  shows "tx_delivered s base n k ds (set_reg s' r v) = tx_delivered s base n k ds s'"
  using ring_frame(1) [OF assms] by (simp add: tx_delivered_def)

text \<open>C12: Transmission: when a chain of valid descriptors, the last of them marked as the end of the packet,
  waits at the current slot of the transmit ring and its fragments fit the device's buffer, then the
  device sends exactly one packet, the concatenation of the fragments in ring order, gives exactly
  those descriptors back to the guest with their valid and error bits cleared, leaves the rest
  of the ring and all memory outside it alone, moves its ring pointer past the chain and raises
  the transmit status bit.\<close>

theorem nvnet_transmits_packet:
  assumes good: "nn_good s" and can: "can_transmit s" and off: "nn_tx_dma_buf_offset s = 0"
    and ring: "tx_ring_at s base n k" and w: "tx_waiting s base n k ds" and chain: "tx_chain ds"
    and fit: "sum_list (map (\<lambda>d. unat (rd_length d + 1)) ds) \<le> TX_ALLOC_BUFSIZE"
  shows "\<exists>s'. dma_packet_from_guest s = Some s'
    \<and> nn_sent s' = nn_sent s @ [concat (map (frag_of (nn_mem s)) ds)]
    \<and> tx_ring_at s' base n ((k + length ds) mod unat n)
    \<and> (\<forall>j < unat n. load_ring_desc s' (ring_slot base j) =
         (let d = load_ring_desc s (ring_slot base j) in
          if (j + unat n - k) mod unat n < length ds then d\<lparr>rd_flags := tx_clear_flags (rd_flags d)\<rparr> else d))
    \<and> (\<forall>x. x < unat base \<or> unat base + 8 * unat n \<le> x \<longrightarrow> nn_mem s' x = nn_mem s x)
    \<and> get_reg s' NVNET_IRQ_STATUS AND NVNET_IRQ_STATUS_TX \<noteq> 0"
proof -
  obtain v where v: "set_dma_idle s False = set_reg s NVNET_TX_RX_CONTROL v" using idle_is_set_reg by blast
  let ?t = "set_reg s NVNET_TX_RX_CONTROL v"
  have inv: "nn_inv s" and t: "nn_good ?t" using good by (simp_all add: nn_good_def good_set_reg [unfolded nn_good_def])
  note fr = ring_frame [OF inv, of NVNET_TX_RX_CONTROL]
  have "get_tx_ring_size ?t = n" using ring fr(1) [of v base n k] by (simp add: tx_ring_at_def)
  moreover obtain u where u: "tx_ring_loop (unat n) False ?t = Some (True, u)" "tx_delivered ?t base n k ds u"
    using tx_gather_loop [OF good_inv [OF t] t, of base n k ds "unat n" False] ring w chain fit off fr
    by (auto simp: tx_waiting_def frags_fit_def)
  moreover obtain v' where v': "set_dma_idle u True = set_reg u NVNET_TX_RX_CONTROL v'" using idle_is_set_reg by blast
  moreover obtain i where
    i: "set_intr_status (set_reg u NVNET_TX_RX_CONTROL v') NVNET_IRQ_STATUS_TX =
        (set_reg (set_reg u NVNET_TX_RX_CONTROL v') NVNET_IRQ_STATUS
          (get_reg (set_reg u NVNET_TX_RX_CONTROL v') NVNET_IRQ_STATUS OR NVNET_IRQ_STATUS_TX))\<lparr>nn_irq := i\<rparr>"
    using intr_is_set_reg by blast
  ultimately have run: "dma_packet_from_guest s = Some ((set_reg (set_reg u NVNET_TX_RX_CONTROL v') NVNET_IRQ_STATUS
          (get_reg (set_reg u NVNET_TX_RX_CONTROL v') NVNET_IRQ_STATUS OR NVNET_IRQ_STATUS_TX))\<lparr>nn_irq := i\<rparr>)"
    using can v by (simp add: dma_packet_from_guest_def)
  have iu: "nn_inv u" using good_tx_loop [OF t u(1)] by (rule good_inv)
  then have iu': "nn_inv (set_reg u NVNET_TX_RX_CONTROL v')" by (simp add: set_reg_inv)
  have "tx_gathered ?t = []" using off by (simp add: tx_gathered_def)
  then show ?thesis
    using u(2) unfolding run
    by (simp add: tx_delivered_def get_set_reg iu' ring_frame(1) [OF iu'] ring_frame(1) [OF iu])
      (simp add: NVNET_IRQ_STATUS_TX_def and_or_nonzero)
qed

text \<open>A ring of two descriptors at 0x1000 that describe one packet in two fragments.\<close>

definition tx_example_descs :: "ring_desc list" where
  "tx_example_descs =
     [\<lparr>rd_buffer_addr = 0x2000, rd_length = 2, rd_flags = NV_TX_VALID\<rparr>,
      \<lparr>rd_buffer_addr = 0x3000, rd_length = 1, rd_flags = NV_TX_VALID OR NV_TX_LASTPACKET\<rparr>]"

definition tx_example :: nvnet where
  "tx_example =
     (let s = set_reg (reset_base nvnet_blank) NVNET_TX_RING_PHYS_ADDR 0x1000;
          s = set_reg s NVNET_RING_SIZE 1;
          s = set_reg s NVNET_TX_RING_NEXT_DESC_PHYS_ADDR 0x1000;
          s = set_reg s NVNET_TRANSMITTER_CONTROL NVNET_TRANSMITTER_CONTROL_START;
          s = store_ring_desc s 0x1000 (tx_example_descs ! 0)
      in store_ring_desc s 0x1008 (tx_example_descs ! 1))"

lemma tx_example_regs:
  "nn_inv tx_example" "get_reg tx_example NVNET_TX_RING_PHYS_ADDR = 0x1000"
  "get_reg tx_example NVNET_RING_SIZE = 1" "get_reg tx_example NVNET_TX_RING_NEXT_DESC_PHYS_ADDR = 0x1000"
  "get_reg tx_example NVNET_TRANSMITTER_CONTROL = NVNET_TRANSMITTER_CONTROL_START"
  "get_reg tx_example NVNET_TX_RX_CONTROL = NVNET_TX_RX_CONTROL_IDLE"
  "nn_phy_regs tx_example = phy_reg_init" "nn_tx_dma_buf_offset tx_example = 0"
  "load_ring_desc tx_example 0x1000 = tx_example_descs ! 0"
  "load_ring_desc tx_example 0x1008 = tx_example_descs ! 1"
  "nn_irq tx_example = False" "get_reg tx_example NVNET_IRQ_MASK = 0"
proof -
  show "nn_inv tx_example" by (simp add: tx_example_def Let_def store_ring_desc_def set_reg_inv reset_base_inv)
  show "get_reg tx_example NVNET_TX_RING_PHYS_ADDR = 0x1000"
    "get_reg tx_example NVNET_RING_SIZE = 1" "get_reg tx_example NVNET_TX_RING_NEXT_DESC_PHYS_ADDR = 0x1000"
    "get_reg tx_example NVNET_TRANSMITTER_CONTROL = NVNET_TRANSMITTER_CONTROL_START"
    "get_reg tx_example NVNET_TX_RX_CONTROL = NVNET_TX_RX_CONTROL_IDLE" "get_reg tx_example NVNET_IRQ_MASK = 0"
    using reset_base_control reset_base_regs
    by (simp_all add: tx_example_def Let_def store_ring_desc_def get_set_reg set_reg_inv reset_base_inv)
       (simp_all add: nn_addrs)
  show "load_ring_desc tx_example 0x1008 = tx_example_descs ! 1"
    unfolding tx_example_def Let_def by (rule load_store_desc)
  show "load_ring_desc tx_example 0x1000 = tx_example_descs ! 0"
    unfolding tx_example_def Let_def by (subst load_store_desc_other) (simp_all add: load_store_desc)
qed (simp_all add: tx_example_def Let_def store_ring_desc_def reset_base_def nvnet_blank_def)

theorem nvnet_transmits_packet_witness:
  "\<exists>s'. dma_packet_from_guest tx_example = Some s'
    \<and> nn_sent s' = nn_sent tx_example @ [concat (map (frag_of (nn_mem tx_example)) tx_example_descs)]
    \<and> tx_ring_at s' 0x1000 2 ((0 + length tx_example_descs) mod unat (2 :: u16))
    \<and> (\<forall>j < unat (2 :: u16). load_ring_desc s' (ring_slot 0x1000 j) =
         (let d = load_ring_desc tx_example (ring_slot 0x1000 j) in
          if (j + unat (2 :: u16) - 0) mod unat (2 :: u16) < length tx_example_descs
          then d\<lparr>rd_flags := tx_clear_flags (rd_flags d)\<rparr> else d))
    \<and> (\<forall>x. x < unat (0x1000 :: u32) \<or> unat (0x1000 :: u32) + 8 * unat (2 :: u16) \<le> x \<longrightarrow> nn_mem s' x = nn_mem tx_example x)
    \<and> get_reg s' NVNET_IRQ_STATUS AND NVNET_IRQ_STATUS_TX \<noteq> 0"
proof (rule nvnet_transmits_packet)
  show "nn_good tx_example" by (simp add: nn_good_def irq_ok_def tx_example_regs)
  show "can_transmit tx_example"
    by (simp add: can_transmit_def tx_enabled_def dma_enabled_def link_up_def tx_example_regs phy_reg_init_def
        NVNET_TRANSMITTER_CONTROL_START_def NVNET_TX_RX_CONTROL_IDLE_def NVNET_TX_RX_CONTROL_BIT2_def MII_BMSR_def
        MII_BMSR_LINK_ST_def MII_BMSR_AUTONEG_def MII_BMSR_AN_COMP_def)
  show "tx_ring_at tx_example 0x1000 2 0"
    by (simp add: tx_ring_at_def ring_ok_def tx_example_regs get_tx_ring_size_def ring_slot_def
        NVNET_RING_SIZE_TX_def get_mask_def ctz32_def upt_conv_Cons [of 0 32])
  show "tx_waiting tx_example 0x1000 2 0 tx_example_descs"
    unfolding tx_waiting_def
  proof (intro conjI allI impI)
    fix i assume "i < length tx_example_descs"
    then have i: "i = 0 \<or> i = 1" by (auto simp: tx_example_descs_def)
    then show "load_ring_desc tx_example (ring_slot 0x1000 ((0 + i) mod unat (2 :: u16))) = tx_example_descs ! i"
      using tx_example_regs(9,10) by (auto simp: ring_slot_def)
    show "rd_flags (tx_example_descs ! i) AND NV_TX_VALID \<noteq> 0" "outside_ring 0x1000 2 (tx_example_descs ! i)"
      using i by (auto simp: tx_example_descs_def outside_ring_def NV_TX_VALID_def NV_TX_LASTPACKET_def)
  qed (simp add: tx_example_descs_def)
  show "tx_chain tx_example_descs"
    by (simp add: tx_example_descs_def NV_TX_VALID_def NV_TX_LASTPACKET_def)
  show "sum_list (map (\<lambda>d. unat (rd_length d + 1)) tx_example_descs) \<le> TX_ALLOC_BUFSIZE"
    by (simp add: tx_example_descs_def TX_ALLOC_BUFSIZE_def)
qed (simp add: tx_example_regs)

section \<open>Receiving a packet\<close>

definition rx_ring_at :: "nvnet \<Rightarrow> u32 \<Rightarrow> u16 \<Rightarrow> nat \<Rightarrow> bool" where
  "rx_ring_at s base n k = (ring_ok base n \<and> k < unat n \<and> get_reg s NVNET_RX_RING_PHYS_ADDR = base
     \<and> get_rx_ring_size s = n \<and> get_reg s NVNET_RX_RING_NEXT_DESC_PHYS_ADDR = ring_slot base k)"

definition rx_ready :: "nvnet \<Rightarrow> bool" where
  "rx_ready s = (rx_enabled s \<and> dma_enabled s \<and> link_up s)"

lemma rx_frame:
  assumes "nn_inv s" and "r \<in> {NVNET_TX_RX_CONTROL, NVNET_IRQ_STATUS, NVNET_RX_RING_CURRENT_DESC_PHYS_ADDR}"
  shows "rx_ring_at (set_reg s r v) base n k = rx_ring_at s base n k"
  using assms
  by (auto simp: rx_ring_at_def get_rx_ring_size_def get_set_reg nn_addrs word_reg_def MMIO_SIZE_def)

lemma rx_frame_fields [simp]:
  "rx_ring_at (s\<lparr>nn_irq := i\<rparr>) base n k = rx_ring_at s base n k"
  "rx_ring_at (s\<lparr>nn_mem := m\<rparr>) base n k = rx_ring_at s base n k"
  "rx_ring_at (s\<lparr>nn_rx_dma_buf := b\<rparr>) base n k = rx_ring_at s base n k"
  by (simp_all add: rx_ring_at_def get_rx_ring_size_def)

lemma update_current_rx:
  "rx_ring_at s base n k \<Longrightarrow> update_current_rx_ring_desc_addr s =
     (ring_slot base k, set_reg s NVNET_RX_RING_CURRENT_DESC_PHYS_ADDR (ring_slot base k))"
  by (simp add: update_current_rx_ring_desc_addr_def rx_ring_at_def ring_current_slot Let_def)

lemma advance_rx:
  assumes "nn_inv s" "rx_ring_at s base n k" "get_reg s NVNET_RX_RING_CURRENT_DESC_PHYS_ADDR = ring_slot base k"
  shows "rx_ring_at (advance_next_rx_ring_desc_addr s) base n ((k + 1) mod unat n)"
proof -
  have "(k + 1) mod unat n < unat n"
    by (rule mod_less_divisor) (use assms(2) in \<open>simp add: rx_ring_at_def\<close>)
  then show ?thesis
    using assms ring_next_slot [of base n k]
    by (auto simp: rx_ring_at_def advance_next_rx_ring_desc_addr_def get_rx_ring_size_def get_set_reg
        nn_addrs word_reg_def MMIO_SIZE_def)
qed

definition rx_filled :: "ring_desc \<Rightarrow> u8 list \<Rightarrow> ring_desc" where
  "rx_filled d pkt = d\<lparr>rd_length := of_nat (length pkt), rd_flags := NV_RX_BIT4 OR NV_RX_DESCRIPTORVALID\<rparr>"

definition rx_mem :: "nvnet \<Rightarrow> u32 \<Rightarrow> u8 list \<Rightarrow> memory" where
  "rx_mem s a pkt = (let d = load_ring_desc s a in
     dma_write (dma_write (nn_mem s) (unat (rd_buffer_addr d)) pkt) (unat a) (bytes_of_desc (rx_filled d pkt)))"

lemma rx_delivers:
  assumes inv: "nn_inv s" and ready: "rx_ready s" and ring: "rx_ring_at s base n k"
    and d: "d = load_ring_desc s (ring_slot base k)" and avail: "rd_flags d AND NV_RX_AVAIL \<noteq> 0"
    and fits: "length pkt \<le> unat (rd_length d) + 1"
  shows "\<exists>s'. dma_packet_to_guest s pkt = Some (int (length pkt), s')
    \<and> nn_mem s' = rx_mem s (ring_slot base k) pkt
    \<and> rx_ring_at s' base n ((k + 1) mod unat n)
    \<and> get_reg s' NVNET_IRQ_STATUS AND NVNET_IRQ_STATUS_RX \<noteq> 0"
proof -
  let ?c = "NVNET_RX_RING_CURRENT_DESC_PHYS_ADDR" and ?a = "ring_slot base k"
  let ?s1 = "set_reg s ?c ?a"
  obtain v where v: "set_dma_idle ?s1 False = set_reg ?s1 NVNET_TX_RX_CONTROL v" using idle_is_set_reg by blast
  let ?s2 = "set_reg ?s1 NVNET_TX_RX_CONTROL v"
  let ?s3 = "set_reg ?s2 ?c ?a"
  let ?s4 = "?s3\<lparr>nn_mem := rx_mem s ?a pkt\<rparr>"
  have i: "nn_inv ?s1" "nn_inv ?s2" "nn_inv ?s3" "nn_inv ?s4" using inv by (simp_all add: set_reg_inv)
  have can: "nvnet_can_receive s = (True, ?s1)"
    using ready avail d update_current_rx [OF ring]
    by (simp add: nvnet_can_receive_def rx_buf_available_def rx_ready_def)
  have r3: "rx_ring_at ?s3 base n k" and r2: "rx_ring_at ?s2 base n k"
    using ring inv i by (simp_all add: rx_frame)
  obtain q where q: "set_intr_status ?s4 NVNET_IRQ_STATUS_RX =
      (set_reg ?s4 NVNET_IRQ_STATUS (get_reg ?s4 NVNET_IRQ_STATUS OR NVNET_IRQ_STATUS_RX))\<lparr>nn_irq := q\<rparr>"
    using intr_is_set_reg by blast
  let ?s5 = "(set_reg ?s4 NVNET_IRQ_STATUS (get_reg ?s4 NVNET_IRQ_STATUS OR NVNET_IRQ_STATUS_RX))\<lparr>nn_irq := q\<rparr>"
  let ?s6 = "advance_next_rx_ring_desc_addr ?s5"
  obtain v' where v': "set_dma_idle ?s6 True = set_reg ?s6 NVNET_TX_RX_CONTROL v'" using idle_is_set_reg by blast
  have i5: "nn_inv ?s5" using i by (simp add: set_reg_inv)
  have i6: "nn_inv ?s6" using i5 by (simp add: advance_next_rx_ring_desc_addr_def set_reg_inv)
  have run: "dma_packet_to_guest s pkt = Some (int (length pkt), set_reg ?s6 NVNET_TX_RX_CONTROL v')"
    using can v update_current_rx [OF r2] avail d fits q v'
    by (simp add: dma_packet_to_guest_def assert_that_def store_ring_desc_def rx_mem_def rx_filled_def Let_def)
  have r5: "rx_ring_at ?s5 base n k" using r3 i by (simp add: rx_frame)
  have cur: "get_reg ?s5 ?c = ?a" using i inv by (simp add: get_set_reg) (simp add: nn_addrs)
  have "nn_mem (set_reg ?s6 NVNET_TX_RX_CONTROL v') = rx_mem s ?a pkt"
    by (simp add: advance_next_rx_ring_desc_addr_def)
  moreover have "rx_ring_at (set_reg ?s6 NVNET_TX_RX_CONTROL v') base n ((k + 1) mod unat n)"
    using advance_rx [OF i5 r5 cur] i6 by (simp add: rx_frame)
  moreover have "get_reg (set_reg ?s6 NVNET_TX_RX_CONTROL v') NVNET_IRQ_STATUS = get_reg ?s5 NVNET_IRQ_STATUS"
    unfolding get_set_reg [OF i6 word_reg_addrs(20) word_reg_addrs(1)]
    unfolding advance_next_rx_ring_desc_addr_def get_set_reg [OF i5 word_reg_addrs(19) word_reg_addrs(1)]
    by (simp add: nn_addrs)
  moreover have "get_reg ?s5 NVNET_IRQ_STATUS AND NVNET_IRQ_STATUS_RX \<noteq> 0"
    using i by (simp add: get_set_reg) (simp add: NVNET_IRQ_STATUS_RX_def and_or_nonzero)
  ultimately show ?thesis using run by auto
qed

lemma take_blit_0: "length p \<le> length b \<Longrightarrow> take (length p) (blit b 0 p) = p"
  by (simp add: blit_def)

lemma filter_prefix:
  assumes "6 \<le> sz" and "take 6 b = take 6 b'" and "6 \<le> length b" "6 \<le> length b'"
  shows "receive_filter s b sz = receive_filter s b' sz"
proof -
  have "b ! i = b' ! i" if "i < 6" for i
    using assms that by (metis nth_take)
  then show ?thesis using assms(2) by (simp add: receive_filter_def is_broadcast_ether_addr_def Let_def)
qed

lemma filter_blit:
  assumes "nn_inv s" "length pkt \<le> RX_ALLOC_BUFSIZE" "6 \<le> length pkt"
  shows "receive_filter (s\<lparr>nn_rx_dma_buf := b\<rparr>) (blit (nn_rx_dma_buf s) 0 pkt) (length pkt) =
    receive_filter s pkt (length pkt)"
proof -
  let ?b = "blit (nn_rx_dma_buf s) 0 pkt"
  have l: "length pkt \<le> length (nn_rx_dma_buf s)" using assms(1,2) by (simp add: nn_inv_def)
  have "take 6 ?b = take 6 pkt"
    using take_blit_0 [OF l] assms(3) by (metis min.absorb1 take_take)
  then have "receive_filter s ?b (length pkt) = receive_filter s pkt (length pkt)"
    using filter_prefix [of "length pkt" ?b pkt s] assms(3) l by simp
  moreover have "receive_filter (s\<lparr>nn_rx_dma_buf := b\<rparr>) c sz = receive_filter s c sz" for c sz
    by (simp add: receive_filter_def reg_pair_bytes_def)
  ultimately show ?thesis by simp
qed

lemma receive_is_dma:
  assumes "nn_inv s" "length pkt \<le> RX_ALLOC_BUFSIZE" "receive_filter s pkt (length pkt)"
  shows "nvnet_receive s pkt = dma_packet_to_guest (s\<lparr>nn_rx_dma_buf := blit (nn_rx_dma_buf s) 0 pkt\<rparr>) pkt"
proof -
  have l: "length pkt \<le> length (nn_rx_dma_buf s)" using assms(1,2) by (simp add: nn_inv_def)
  have six: "6 \<le> length pkt" using assms(3) by (simp add: receive_filter_def split: if_splits)
  show ?thesis
    using assms(2,3) take_blit_0 [OF l] filter_blit [OF assms(1,2) six]
    by (simp add: nvnet_receive_def nvnet_receive_iov_def is_packet_oversized_def Let_def)
qed

text \<open>C13: Reception: a packet that passes the receive filter, arriving while the receiver is started, DMA is
  not stopped, the link is up and the current receive descriptor is available with room for it, is
  accepted whole; its bytes are in the guest's buffer, the descriptor is handed back with the
  packet's length and the valid flag, no other byte of guest memory changes, the ring pointer
  moves to the next slot and the receive status bit is set.\<close>

theorem nvnet_receives_packet:
  assumes inv: "nn_inv s" and ready: "rx_ready s" and ring: "rx_ring_at s base n k"
    and d: "d = load_ring_desc s (ring_slot base k)" and avail: "rd_flags d AND NV_RX_AVAIL \<noteq> 0"
    and fits: "length pkt \<le> unat (rd_length d) + 1" "length pkt \<le> RX_ALLOC_BUFSIZE"
    and acc: "receive_filter s pkt (length pkt)"
    and apart: "unat (rd_buffer_addr d) + length pkt \<le> unat (ring_slot base k)
      \<or> unat (ring_slot base k) + 8 \<le> unat (rd_buffer_addr d)"
  shows "\<exists>s'. nvnet_receive s pkt = Some (int (length pkt), s')
    \<and> dma_read (nn_mem s') (unat (rd_buffer_addr d)) (length pkt) = pkt
    \<and> load_ring_desc s' (ring_slot base k) =
        d\<lparr>rd_length := of_nat (length pkt), rd_flags := NV_RX_BIT4 OR NV_RX_DESCRIPTORVALID\<rparr>
    \<and> (\<forall>x. (x < unat (rd_buffer_addr d) \<or> unat (rd_buffer_addr d) + length pkt \<le> x)
          \<and> (x < unat (ring_slot base k) \<or> unat (ring_slot base k) + 8 \<le> x) \<longrightarrow> nn_mem s' x = nn_mem s x)
    \<and> rx_ring_at s' base n ((k + 1) mod unat n)
    \<and> get_reg s' NVNET_IRQ_STATUS AND NVNET_IRQ_STATUS_RX \<noteq> 0"
proof -
  let ?t = "s\<lparr>nn_rx_dma_buf := blit (nn_rx_dma_buf s) 0 pkt\<rparr>" and ?a = "ring_slot base k"
  have ld: "load_ring_desc ?t ?a = d" by (simp add: d load_ring_desc_def)
  have "nn_inv ?t" using inv fits(2) by (simp add: nn_inv_def)
  moreover have "rx_ready ?t" using ready by (simp add: rx_ready_def rx_enabled_def dma_enabled_def link_up_def)
  moreover have "rx_ring_at ?t base n k" using ring by simp
  ultimately obtain s' where s': "nvnet_receive s pkt = Some (int (length pkt), s')"
    "nn_mem s' = rx_mem ?t ?a pkt" "rx_ring_at s' base n ((k + 1) mod unat n)"
    "get_reg s' NVNET_IRQ_STATUS AND NVNET_IRQ_STATUS_RX \<noteq> 0"
    using rx_delivers [OF _ _ _ ld [symmetric] avail fits(1)] receive_is_dma [OF inv fits(2) acc] by auto
  have m: "nn_mem s' = dma_write (dma_write (nn_mem s) (unat (rd_buffer_addr d)) pkt) (unat ?a)
      (bytes_of_desc (rx_filled d pkt))"
    using s'(2) by (simp add: rx_mem_def Let_def ld)
  have "dma_read (nn_mem s') (unat (rd_buffer_addr d)) (length pkt) = pkt"
    using apart by (auto simp: m dma_read_write_disjoint dma_read_write_same)
  moreover have "load_ring_desc s' ?a = rx_filled d pkt"
    using dma_read_write_same [of _ "unat ?a" "bytes_of_desc (rx_filled d pkt)"]
    by (simp add: load_ring_desc_def m bytes_of_desc_load)
  moreover have "nn_mem s' x = nn_mem s x" if "x < unat (rd_buffer_addr d) \<or> unat (rd_buffer_addr d) + length pkt \<le> x"
    "x < unat ?a \<or> unat ?a + 8 \<le> x" for x
    using that by (auto simp: m dma_write_outside)
  ultimately show ?thesis using s' by (auto simp: rx_filled_def)
qed

text \<open>A receive ring of two descriptors at 0x1000, the first of them available, and a broadcast packet.\<close>

definition rx_example_desc :: ring_desc where
  "rx_example_desc = \<lparr>rd_buffer_addr = 0x2000, rd_length = 1513, rd_flags = NV_RX_AVAIL\<rparr>"

definition rx_example :: nvnet where
  "rx_example =
     (let s = set_reg (reset_base nvnet_blank) NVNET_RX_RING_PHYS_ADDR 0x1000;
          s = set_reg s NVNET_RING_SIZE 0x10000;
          s = set_reg s NVNET_RX_RING_NEXT_DESC_PHYS_ADDR 0x1000;
          s = set_reg s NVNET_RECEIVER_CONTROL NVNET_RECEIVER_CONTROL_START
      in store_ring_desc s 0x1000 rx_example_desc)"

lemma rx_example_regs:
  "nn_inv rx_example" "get_reg rx_example NVNET_RX_RING_PHYS_ADDR = 0x1000"
  "get_reg rx_example NVNET_RING_SIZE = 0x10000" "get_reg rx_example NVNET_RX_RING_NEXT_DESC_PHYS_ADDR = 0x1000"
  "get_reg rx_example NVNET_RECEIVER_CONTROL = NVNET_RECEIVER_CONTROL_START"
  "get_reg rx_example NVNET_TX_RX_CONTROL = NVNET_TX_RX_CONTROL_IDLE"
  "nn_phy_regs rx_example = phy_reg_init" "load_ring_desc rx_example 0x1000 = rx_example_desc"
proof -
  show "nn_inv rx_example" by (simp add: rx_example_def Let_def store_ring_desc_def set_reg_inv reset_base_inv)
  show "get_reg rx_example NVNET_RX_RING_PHYS_ADDR = 0x1000"
    "get_reg rx_example NVNET_RING_SIZE = 0x10000" "get_reg rx_example NVNET_RX_RING_NEXT_DESC_PHYS_ADDR = 0x1000"
    "get_reg rx_example NVNET_RECEIVER_CONTROL = NVNET_RECEIVER_CONTROL_START"
    "get_reg rx_example NVNET_TX_RX_CONTROL = NVNET_TX_RX_CONTROL_IDLE"
    using reset_base_control
    by (simp_all add: rx_example_def Let_def store_ring_desc_def get_set_reg set_reg_inv reset_base_inv)
       (simp_all add: nn_addrs)
  show "load_ring_desc rx_example 0x1000 = rx_example_desc"
    unfolding rx_example_def Let_def by (rule load_store_desc)
qed (simp add: rx_example_def Let_def store_ring_desc_def reset_base_def)

lemma ctz32_rx: "ctz32 NVNET_RING_SIZE_RX = 16"
  by code_simp

lemma rx_example_ready: "rx_ready rx_example" "rx_ring_at rx_example 0x1000 2 0"
proof -
  show "rx_ready rx_example"
    by (simp add: rx_ready_def rx_enabled_def dma_enabled_def link_up_def rx_example_regs phy_reg_init_def
        NVNET_RECEIVER_CONTROL_START_def NVNET_TX_RX_CONTROL_IDLE_def NVNET_TX_RX_CONTROL_BIT2_def MII_BMSR_def
        MII_BMSR_LINK_ST_def MII_BMSR_AUTONEG_def MII_BMSR_AN_COMP_def)
  show "rx_ring_at rx_example 0x1000 2 0"
    unfolding rx_ring_at_def get_rx_ring_size_def get_mask_def ctz32_rx rx_example_regs
    by (simp add: ring_ok_def ring_slot_def NVNET_RING_SIZE_RX_def)
qed

theorem nvnet_receives_packet_witness:
  "\<exists>s'. nvnet_receive rx_example (replicate 6 0xff) = Some (int (length (replicate 6 (0xff :: u8))), s')
    \<and> dma_read (nn_mem s') (unat (rd_buffer_addr rx_example_desc)) (length (replicate 6 (0xff :: u8))) = replicate 6 0xff
    \<and> load_ring_desc s' (ring_slot 0x1000 0) =
        rx_example_desc\<lparr>rd_length := of_nat (length (replicate 6 (0xff :: u8))), rd_flags := NV_RX_BIT4 OR NV_RX_DESCRIPTORVALID\<rparr>
    \<and> (\<forall>x. (x < unat (rd_buffer_addr rx_example_desc)
             \<or> unat (rd_buffer_addr rx_example_desc) + length (replicate 6 (0xff :: u8)) \<le> x)
          \<and> (x < unat (ring_slot 0x1000 0) \<or> unat (ring_slot 0x1000 0) + 8 \<le> x) \<longrightarrow> nn_mem s' x = nn_mem rx_example x)
    \<and> rx_ring_at s' 0x1000 2 ((0 + 1) mod unat (2 :: u16))
    \<and> get_reg s' NVNET_IRQ_STATUS AND NVNET_IRQ_STATUS_RX \<noteq> 0"
proof (rule nvnet_receives_packet [OF rx_example_regs(1) rx_example_ready])
  have slot: "ring_slot 0x1000 0 = 0x1000" by (simp add: ring_slot_def)
  show "rx_example_desc = load_ring_desc rx_example (ring_slot 0x1000 0)" by (simp add: slot rx_example_regs)
  show "receive_filter rx_example (replicate 6 0xff) (length (replicate 6 (0xff :: u8)))"
    by (simp add: receive_filter_def is_broadcast_ether_addr_def)
qed (simp_all add: rx_example_desc_def NV_RX_AVAIL_def RX_ALLOC_BUFSIZE_def ring_slot_def)

section \<open>Refused packets and the limits of the device\<close>



lemma tx_fragment_too_long:
  assumes inv: "nn_inv s" and can: "can_transmit s" and n: "get_tx_ring_size s \<noteq> 0"
    and valid: "rd_flags (tx_desc s) AND NV_TX_VALID \<noteq> 0"
    and long: "nn_tx_dma_buf_offset s + unat (rd_length (tx_desc s) + 1) > TX_ALLOC_BUFSIZE"
  shows "dma_packet_from_guest s = None"
proof -
  obtain v where v: "set_dma_idle s False = set_reg s NVNET_TX_RX_CONTROL v" using idle_is_set_reg by blast
  have inv': "nn_inv (set_reg s NVNET_TX_RX_CONTROL v)" using inv by (simp add: set_reg_inv)
  have sz: "get_tx_ring_size (set_reg s NVNET_TX_RX_CONTROL v) = get_tx_ring_size s"
    using inv by (simp add: get_tx_ring_size_def get_set_reg) (simp add: nn_addrs)
  have cur: "tx_cur (set_reg s NVNET_TX_RX_CONTROL v) = tx_cur s"
    using inv sz by (simp add: tx_cur_def get_set_reg) (simp add: nn_addrs)
  obtain m where m: "unat (get_tx_ring_size s) = Suc m" using n by (metis not0_implies_Suc unat_eq_zero)
  have "tx_ring_loop (Suc m) False (set_reg s NVNET_TX_RX_CONTROL v) = None"
    unfolding tx_ring_loop_Suc [OF inv'] tx_desc_def cur using valid long by (simp add: tx_desc_def)
  then show ?thesis using can v sz m by (simp add: dma_packet_from_guest_def)
qed

lemma rx_descriptor_too_short:
  assumes inv: "nn_inv s" and ready: "rx_ready s" and ring: "rx_ring_at s base n k"
    and avail: "rd_flags (load_ring_desc s (ring_slot base k)) AND NV_RX_AVAIL \<noteq> 0"
    and short: "length pkt > unat (rd_length (load_ring_desc s (ring_slot base k))) + 1"
  shows "dma_packet_to_guest s pkt = None"
proof -
  let ?s1 = "set_reg s NVNET_RX_RING_CURRENT_DESC_PHYS_ADDR (ring_slot base k)"
  obtain v where v: "set_dma_idle ?s1 False = set_reg ?s1 NVNET_TX_RX_CONTROL v" using idle_is_set_reg by blast
  have r2: "rx_ring_at (set_reg ?s1 NVNET_TX_RX_CONTROL v) base n k" using ring inv by (simp add: rx_frame set_reg_inv)
  have "nvnet_can_receive s = (True, ?s1)"
    using ready avail update_current_rx [OF ring] by (simp add: nvnet_can_receive_def rx_buf_available_def rx_ready_def)
  then show ?thesis
    using v update_current_rx [OF r2] avail short by (simp add: dma_packet_to_guest_def assert_that_def)
qed



section \<open>PHY registers behind the MDIO port\<close>

definition mdio_at :: "u32 \<Rightarrow> nat \<Rightarrow> bool" where
  "mdio_at a r = (ucast (get_mask a NVNET_MDIO_ADDR_PHYADDR) = PHY_ADDR
     \<and> unat (ucast (get_mask a NVNET_MDIO_ADDR_PHYREG) :: u8) = r)"

lemma mmio_mdio_data: "nvnet_mmio_write s NVNET_MDIO_DATA v 4 = Some (set_reg s NVNET_MDIO_DATA v)"
  using set_reg_ext_word [OF word_reg_addrs(24), of s v] by (simp add: nvnet_mmio_write_def nn_addrs)

lemma mmio_mdio:
  "nvnet_mmio_write s NVNET_MDIO_ADDR v 4 =
     Some (if v AND NVNET_MDIO_ADDR_WRITE \<noteq> 0 then mdio_write (set_reg s NVNET_MDIO_ADDR v)
           else mdio_read (set_reg s NVNET_MDIO_ADDR v))"
  by (simp add: nvnet_mmio_write_def set_reg_ext_word) (simp add: nn_addrs)

text \<open>C20: The MDIO port reaches the PHY registers: data written to the data register and committed by a write
  command for PHY register \<open>r\<close> is what a later read command for that register returns in the data
  register, cut to sixteen bits, and the other PHY registers keep their values.\<close>

theorem nvnet_mdio_round_trip:
  assumes inv: "nn_inv s" and r: "r < 6"
    and w: "mdio_at aw r" "aw AND NVNET_MDIO_ADDR_WRITE \<noteq> 0"
    and rd: "mdio_at ar r" "ar AND NVNET_MDIO_ADDR_WRITE = 0"
  shows "\<exists>s'. do { s1 \<leftarrow> nvnet_mmio_write s NVNET_MDIO_DATA v 4;
                   s2 \<leftarrow> nvnet_mmio_write s1 NVNET_MDIO_ADDR aw 4;
                   s3 \<leftarrow> nvnet_mmio_write s2 NVNET_MDIO_DATA junk 4;
                   nvnet_mmio_write s3 NVNET_MDIO_ADDR ar 4 } = Some s'
      \<and> nvnet_mmio_read s' NVNET_MDIO_DATA 4 = Some (v AND 0xffff)
      \<and> (\<forall>q. q \<noteq> r \<longrightarrow> nn_phy_regs s' ! q = nn_phy_regs s ! q)"
proof -
  let ?s1 = "set_reg s NVNET_MDIO_DATA v"
  let ?s2 = "mdio_write (set_reg ?s1 NVNET_MDIO_ADDR aw)"
  let ?s3 = "set_reg ?s2 NVNET_MDIO_DATA junk"
  let ?s4 = "mdio_read (set_reg ?s3 NVNET_MDIO_ADDR ar)"
  have len: "length (nn_phy_regs s) = 6" using inv by (simp add: nn_inv_def)
  have i1: "nn_inv ?s1" "nn_inv (set_reg ?s1 NVNET_MDIO_ADDR aw)" using inv by (simp_all add: set_reg_inv)
  have regs: "get_reg (set_reg ?s1 NVNET_MDIO_ADDR aw) NVNET_MDIO_ADDR = aw"
    "get_reg (set_reg ?s1 NVNET_MDIO_ADDR aw) NVNET_MDIO_DATA = v"
    using inv i1 by (simp_all add: get_set_reg) (simp_all add: nn_addrs)
  have p2: "nn_phy_regs ?s2 = (nn_phy_regs s)[r := ucast (ucast v :: u16)]"
    using w r regs by (simp add: mdio_write_def Let_def mdio_at_def phy_reg_write_def and_reg_def)
  have i2: "nn_inv ?s2"
    using i1 regs by (simp add: mdio_write_def Let_def phy_reg_write_def) (simp add: nn_inv_def and_reg_def set_reg_def nn_addrs MMIO_SIZE_def)
  have i3: "nn_inv (set_reg ?s3 NVNET_MDIO_ADDR ar)" using i2 by (simp add: set_reg_inv)
  have a3: "get_reg (set_reg ?s3 NVNET_MDIO_ADDR ar) NVNET_MDIO_ADDR = ar"
    using i2 by (simp add: get_set_reg set_reg_inv)
  have "get_reg ?s4 NVNET_MDIO_DATA = ucast (phy_reg_read (set_reg ?s3 NVNET_MDIO_ADDR ar) (ucast (get_mask ar NVNET_MDIO_ADDR_PHYREG)))"
    using i3 a3 rd by (simp add: mdio_read_def Let_def mdio_at_def and_reg_def get_set_reg set_reg_inv) (simp add: nn_addrs)
  also have "\<dots> = ucast (ucast v :: u16)"
    using rd r p2 len by (auto simp: phy_reg_read_def mdio_at_def intro!: bit_word_eqI simp: bit_simps)
  also have "\<dots> = v AND mask 16" by (rule bit_word_eqI) (auto simp: bit_simps)
  also have "\<dots> = v AND 0xffff" by (simp add: mask_eq_exp_minus_1)
  finally have d: "nvnet_mmio_read ?s4 NVNET_MDIO_DATA 4 = Some (v AND 0xffff)"
    by (simp add: nvnet_mmio_read_def get_reg_ext_word)
  have "nn_phy_regs ?s4 = nn_phy_regs ?s2" by (simp add: mdio_read_def Let_def and_reg_def)
  moreover have "do { s1 \<leftarrow> nvnet_mmio_write s NVNET_MDIO_DATA v 4;
                   s2 \<leftarrow> nvnet_mmio_write s1 NVNET_MDIO_ADDR aw 4;
                   s3 \<leftarrow> nvnet_mmio_write s2 NVNET_MDIO_DATA junk 4;
                   nvnet_mmio_write s3 NVNET_MDIO_ADDR ar 4 } = Some ?s4"
    using w rd by (simp add: mmio_mdio mmio_mdio_data)
  ultimately show ?thesis using d p2 by auto
qed

theorem nvnet_mdio_round_trip_witness:
  "\<exists>s'. do { s1 \<leftarrow> nvnet_mmio_write nvnet_blank NVNET_MDIO_DATA 0x12345678 4;
             s2 \<leftarrow> nvnet_mmio_write s1 NVNET_MDIO_ADDR (0x400 OR 0x20 OR 4) 4;
             s3 \<leftarrow> nvnet_mmio_write s2 NVNET_MDIO_DATA 0 4;
             nvnet_mmio_write s3 NVNET_MDIO_ADDR (0x20 OR 4) 4 } = Some s'
      \<and> nvnet_mmio_read s' NVNET_MDIO_DATA 4 = Some (0x12345678 AND 0xffff)
      \<and> (\<forall>q. q \<noteq> 4 \<longrightarrow> nn_phy_regs s' ! q = nn_phy_regs nvnet_blank ! q)"
proof (rule nvnet_mdio_round_trip)
  show "mdio_at (0x400 OR 0x20 OR 4) 4" "mdio_at (0x20 OR 4) 4" by code_simp+
  show "(0x400 OR 0x20 OR 4) AND NVNET_MDIO_ADDR_WRITE \<noteq> 0" "(0x20 OR 4) AND NVNET_MDIO_ADDR_WRITE = 0"
    by (simp_all add: NVNET_MDIO_ADDR_WRITE_def)
qed (simp_all add: nn_inv_def nvnet_blank_def)

end
