(* ===== verification/Pgraph_Draw.thy ===== *)
theory Pgraph_Draw
  imports Prelude
begin

text \<open>
  The vertex side of PGRAPH, \<^verbatim>\<open>hw/xbox/nv2a/pgraph/vertex.c\<close> and the drawing methods of \<^verbatim>\<open>pgraph.c\<close>:
  vertices given attribute by attribute, index lists, and ranges of vertices in memory.

  The record holds the fields of \<open>PGRAPHState\<close> that these methods use. A fixed array is a list where its elements
  are updated in place, and a function from the index, with its bound checked, where it is a
  buffer that is filled. The renderer's functions are an argument. A floating-point value is kept as
  the expression the code computes; no rounding is modelled.
\<close>

section \<open>State\<close>

abbreviation (input) NV2A_MAX_BATCH_LENGTH :: nat where "NV2A_MAX_BATCH_LENGTH \<equiv> 0x07FFFF"
abbreviation (input) NV2A_VERTEXSHADER_ATTRIBUTES :: nat where "NV2A_VERTEXSHADER_ATTRIBUTES \<equiv> 16"
abbreviation (input) DRAW_ARRAYS_MAX :: nat where "DRAW_ARRAYS_MAX \<equiv> 1250"
abbreviation (input) NV2A_VERTEX_ATTR_POSITION :: nat where "NV2A_VERTEX_ATTR_POSITION \<equiv> 0"
abbreviation (input) NV2A_VERTEX_ATTR_WEIGHT :: nat where "NV2A_VERTEX_ATTR_WEIGHT \<equiv> 1"
abbreviation (input) NV2A_VERTEX_ATTR_NORMAL :: nat where "NV2A_VERTEX_ATTR_NORMAL \<equiv> 2"
abbreviation (input) NV2A_VERTEX_ATTR_DIFFUSE :: nat where "NV2A_VERTEX_ATTR_DIFFUSE \<equiv> 3"
abbreviation (input) NV2A_VERTEX_ATTR_SPECULAR :: nat where "NV2A_VERTEX_ATTR_SPECULAR \<equiv> 4"
abbreviation (input) NV2A_VERTEX_ATTR_FOG :: nat where "NV2A_VERTEX_ATTR_FOG \<equiv> 5"
abbreviation (input) NV2A_VERTEX_ATTR_TEXTURE0 :: nat where "NV2A_VERTEX_ATTR_TEXTURE0 \<equiv> 9"
abbreviation (input) NV2A_VERTEX_ATTR_TEXTURE1 :: nat where "NV2A_VERTEX_ATTR_TEXTURE1 \<equiv> 10"
abbreviation (input) NV2A_VERTEX_ATTR_TEXTURE2 :: nat where "NV2A_VERTEX_ATTR_TEXTURE2 \<equiv> 11"
abbreviation (input) NV2A_VERTEX_ATTR_TEXTURE3 :: nat where "NV2A_VERTEX_ATTR_TEXTURE3 \<equiv> 12"
abbreviation (input) PRIM_TYPE_INVALID :: u32 where "PRIM_TYPE_INVALID \<equiv> 0"
abbreviation (input) NV097_SET_BEGIN_END_OP_END :: u32 where "NV097_SET_BEGIN_END_OP_END \<equiv> 0"
abbreviation (input) NV097_SET_BEGIN_END_OP_POLYGON :: u32 where "NV097_SET_BEGIN_END_OP_POLYGON \<equiv> 10"
abbreviation (input) NV097_DRAW_ARRAYS_COUNT :: u32 where "NV097_DRAW_ARRAYS_COUNT \<equiv> 0xFF000000"
abbreviation (input) NV097_DRAW_ARRAYS_START_INDEX :: u32 where "NV097_DRAW_ARRAYS_START_INDEX \<equiv> 0x00FFFFFF"

text \<open>A \<open>float\<close>: the bits of a parameter, an integer, a quotient or a maximum in single precision, and a
  quotient in double precision that is then narrowed.\<close>

datatype cfloat = FBits u32 | FInt int | FDiv cfloat cfloat | FMax cfloat cfloat | DDiv cfloat cfloat

record vertex_attribute =
  va_dma_select :: bool
  va_offset :: u32
  va_format :: u32
  va_size :: u32
  va_count :: u32
  va_stride :: u32
  va_inline_value :: "cfloat list"
  va_inline_buffer :: "nat \<Rightarrow> cfloat list"
  va_populated :: bool

record pgraph_draw =
  primitive_mode :: u32
  vertex_attributes :: "vertex_attribute list"
  compressed_attrs :: u16
  inline_array_length :: nat
  inline_array :: "nat \<Rightarrow> u32"
  inline_elements_length :: nat
  inline_elements :: "nat \<Rightarrow> u32"
  inline_buffer_length :: nat
  draw_arrays_length :: nat
  draw_arrays_min_start :: u32
  draw_arrays_max_count :: u32
  draw_arrays_start :: "nat \<Rightarrow> u32"
  draw_arrays_count :: "nat \<Rightarrow> u32"
  draw_arrays_prevent_connect :: bool

record renderer_ops =
  op_draw_begin :: "pgraph_draw \<Rightarrow> pgraph_draw"
  op_draw_end :: "pgraph_draw \<Rightarrow> pgraph_draw"
  op_flush_draw :: "pgraph_draw \<Rightarrow> pgraph_draw"

section \<open>Buffers\<close>

definition pgraph_reset_draw_arrays :: "pgraph_draw \<Rightarrow> pgraph_draw" where
  "pgraph_reset_draw_arrays pg = pg\<lparr>draw_arrays_length := 0, draw_arrays_min_start := -1, draw_arrays_max_count := 0,
     draw_arrays_prevent_connect := False\<rparr>"

definition pgraph_reset_inline_buffers :: "pgraph_draw \<Rightarrow> pgraph_draw" where
  "pgraph_reset_inline_buffers pg = pgraph_reset_draw_arrays
     (pg\<lparr>inline_elements_length := 0, inline_array_length := 0, inline_buffer_length := 0\<rparr>)"

text \<open>An attribute gets a buffer only when its value changes between two vertices of a batch: then the value it
  had so far is copied for every vertex that is already there.\<close>

definition pgraph_allocate_inline_buffer_vertices :: "pgraph_draw \<Rightarrow> nat \<Rightarrow> pgraph_draw option" where
  "pgraph_allocate_inline_buffer_vertices pg attr = do {
     a \<leftarrow> arr_get (vertex_attributes pg) attr;
     if va_populated a \<or> inline_buffer_length pg = 0 then Some pg
     else do {
       let a = a\<lparr>va_populated := True,
                 va_inline_buffer := (\<lambda>i. if i < inline_buffer_length pg then va_inline_value a else va_inline_buffer a i)\<rparr>;
       as \<leftarrow> arr_set (vertex_attributes pg) attr a;
       Some (pg\<lparr>vertex_attributes := as\<rparr>)
     }
   }"

definition pgraph_finish_inline_buffer_vertex :: "pgraph_draw \<Rightarrow> pgraph_draw option" where
  "pgraph_finish_inline_buffer_vertex pg = do {
     assert_that (inline_buffer_length pg < NV2A_MAX_BATCH_LENGTH);
     let n = inline_buffer_length pg;
     Some (pg\<lparr>vertex_attributes :=
                map (\<lambda>a. if va_populated a then a\<lparr>va_inline_buffer := (va_inline_buffer a)(n := va_inline_value a)\<rparr> else a)
                  (vertex_attributes pg),
              inline_buffer_length := n + 1\<rparr>)
   }"

text \<open>Assignments to components of an attribute's value.\<close>

fun set_values :: "(nat \<times> cfloat) list \<Rightarrow> cfloat list \<Rightarrow> cfloat list option" where
  "set_values [] v = Some v"
| "set_values ((k, x) # kxs) v = do { v \<leftarrow> arr_set v k x; set_values kxs v }"

definition set_inline_value :: "pgraph_draw \<Rightarrow> nat \<Rightarrow> (nat \<times> cfloat) list \<Rightarrow> pgraph_draw option" where
  "set_inline_value pg attr kxs = do {
     a \<leftarrow> arr_get (vertex_attributes pg) attr;
     v \<leftarrow> set_values kxs (va_inline_value a);
     as \<leftarrow> arr_set (vertex_attributes pg) attr (a\<lparr>va_inline_value := v\<rparr>);
     Some (pg\<lparr>vertex_attributes := as\<rparr>)
   }"

definition set_vertex_attribute :: "pgraph_draw \<Rightarrow> nat \<Rightarrow> (nat \<times> cfloat) list \<Rightarrow> pgraph_draw option" where
  "set_vertex_attribute pg attr kxs = do {
     pg \<leftarrow> pgraph_allocate_inline_buffer_vertices pg attr;
     set_inline_value pg attr kxs
   }"

definition finish_when :: "bool \<Rightarrow> pgraph_draw \<Rightarrow> pgraph_draw option" where
  "finish_when b pg = (if b then pgraph_finish_inline_buffer_vertex pg else Some pg)"

section \<open>Vertices attribute by attribute\<close>

definition s16_lo :: "u32 \<Rightarrow> int" where "s16_lo p = sint (ucast p :: u16)"

definition s16_hi :: "u32 \<Rightarrow> int" where "s16_hi p = sint (ucast (drop_bit 16 p) :: u16)"

definition norm_s16 :: "int \<Rightarrow> cfloat" where "norm_s16 v = FMax (FInt (-1)) (FDiv (FInt v) (FInt 32767))"

definition byte_at :: "u32 \<Rightarrow> nat \<Rightarrow> cfloat" where "byte_at p k = FInt (uint (drop_bit (8 * k) p AND 0xFF))"

definition SET_VERTEX3F :: "pgraph_draw \<Rightarrow> nat \<Rightarrow> u32 \<Rightarrow> pgraph_draw option" where
  "SET_VERTEX3F pg slot p = do {
     pg \<leftarrow> set_vertex_attribute pg NV2A_VERTEX_ATTR_POSITION [(slot, FBits p), (3, FInt 1)];
     finish_when (slot = 2) pg
   }"

definition SET_VERTEX4F :: "pgraph_draw \<Rightarrow> nat \<Rightarrow> u32 \<Rightarrow> pgraph_draw option" where
  "SET_VERTEX4F pg slot p = do {
     pg \<leftarrow> set_vertex_attribute pg NV2A_VERTEX_ATTR_POSITION [(slot, FBits p)];
     finish_when (slot = 3) pg
   }"

definition SET_FOG_COORD :: "pgraph_draw \<Rightarrow> nat \<Rightarrow> u32 \<Rightarrow> pgraph_draw option" where
  "SET_FOG_COORD pg slot p =
     set_vertex_attribute pg NV2A_VERTEX_ATTR_FOG [(0, FBits p), (1, FBits p), (2, FBits p), (3, FBits p)]"

definition SET_WEIGHT1F :: "pgraph_draw \<Rightarrow> nat \<Rightarrow> u32 \<Rightarrow> pgraph_draw option" where
  "SET_WEIGHT1F pg slot p =
     set_vertex_attribute pg NV2A_VERTEX_ATTR_WEIGHT [(0, FBits p), (1, FInt 0), (2, FInt 0), (3, FInt 1)]"

definition SET_NORMAL3S :: "pgraph_draw \<Rightarrow> nat \<Rightarrow> u32 \<Rightarrow> pgraph_draw option" where
  "SET_NORMAL3S pg slot p =
     (let part = slot mod 2 in
      set_vertex_attribute pg NV2A_VERTEX_ATTR_NORMAL
        [(part * 2 + 0, norm_s16 (s16_lo p)), (part * 2 + 1, norm_s16 (s16_hi p))])"

definition SET_VERTEX_ATTRIBUTE_4S :: "nat \<Rightarrow> pgraph_draw \<Rightarrow> nat \<Rightarrow> u32 \<Rightarrow> pgraph_draw option" where
  "SET_VERTEX_ATTRIBUTE_4S attr_index pg slot p =
     (let part = slot mod 2 in
      set_vertex_attribute pg attr_index [(part * 2 + 0, FInt (s16_lo p)), (part * 2 + 1, FInt (s16_hi p))])"

definition SET_VERTEX_ATRIBUTE_TEX_2S :: "nat \<Rightarrow> pgraph_draw \<Rightarrow> nat \<Rightarrow> u32 \<Rightarrow> pgraph_draw option" where
  "SET_VERTEX_ATRIBUTE_TEX_2S attr_index pg slot p =
     set_vertex_attribute pg attr_index [(0, FInt (s16_lo p)), (1, FInt (s16_hi p)), (2, FInt 0), (3, FInt 1)]"

definition SET_VERTEX_COLOR_3F :: "nat \<Rightarrow> pgraph_draw \<Rightarrow> nat \<Rightarrow> u32 \<Rightarrow> pgraph_draw option" where
  "SET_VERTEX_COLOR_3F attr_index pg slot p = set_vertex_attribute pg attr_index [(slot, FBits p), (3, FInt 1)]"

definition SET_VERTEX_ATTRIBUTE_F :: "nat \<Rightarrow> pgraph_draw \<Rightarrow> nat \<Rightarrow> u32 \<Rightarrow> pgraph_draw option" where
  "SET_VERTEX_ATTRIBUTE_F attr_index pg slot p = set_vertex_attribute pg attr_index [(slot, FBits p)]"

definition SET_WEIGHT2F :: "pgraph_draw \<Rightarrow> nat \<Rightarrow> u32 \<Rightarrow> pgraph_draw option" where
  "SET_WEIGHT2F pg slot p =
     set_vertex_attribute pg NV2A_VERTEX_ATTR_WEIGHT [(slot, FBits p), (2, FInt 0), (3, FInt 1)]"

definition SET_WEIGHT3F :: "pgraph_draw \<Rightarrow> nat \<Rightarrow> u32 \<Rightarrow> pgraph_draw option" where
  "SET_WEIGHT3F pg slot p = set_vertex_attribute pg NV2A_VERTEX_ATTR_WEIGHT [(slot, FBits p), (3, FInt 1)]"

definition SET_VERTEX_ATRIBUTE_TEX_2F :: "nat \<Rightarrow> pgraph_draw \<Rightarrow> nat \<Rightarrow> u32 \<Rightarrow> pgraph_draw option" where
  "SET_VERTEX_ATRIBUTE_TEX_2F attr_index pg slot p =
     set_vertex_attribute pg attr_index [(slot, FBits p), (2, FInt 0), (3, FInt 1)]"

definition SET_VERTEX_ATTRIBUTE_4UB :: "nat \<Rightarrow> pgraph_draw \<Rightarrow> nat \<Rightarrow> u32 \<Rightarrow> pgraph_draw option" where
  "SET_VERTEX_ATTRIBUTE_4UB attr_index pg slot p =
     set_vertex_attribute pg attr_index (map (\<lambda>k. (k, FDiv (byte_at p k) (FInt 255))) [0, 1, 2, 3])"

definition SET_VERTEX_DATA2F_M :: "pgraph_draw \<Rightarrow> nat \<Rightarrow> u32 \<Rightarrow> pgraph_draw option" where
  "SET_VERTEX_DATA2F_M pg slot p = do {
     let part = slot mod 2; let slot = slot div 2;
     pg \<leftarrow> set_vertex_attribute pg slot [(part, FBits p), (2, FInt 0), (3, FInt 1)];
     finish_when (slot = 0 \<and> part = 1) pg
   }"

definition SET_VERTEX_DATA4F_M :: "pgraph_draw \<Rightarrow> nat \<Rightarrow> u32 \<Rightarrow> pgraph_draw option" where
  "SET_VERTEX_DATA4F_M pg slot p = do {
     let part = slot mod 4; let slot = slot div 4;
     pg \<leftarrow> set_vertex_attribute pg slot [(part, FBits p)];
     finish_when (slot = 0 \<and> part = 3) pg
   }"

definition SET_VERTEX_DATA2S :: "pgraph_draw \<Rightarrow> nat \<Rightarrow> u32 \<Rightarrow> pgraph_draw option" where
  "SET_VERTEX_DATA2S pg slot p = do {
     pg \<leftarrow> set_vertex_attribute pg slot [(0, FInt (s16_lo p)), (1, FInt (s16_hi p)), (2, FInt 0), (3, FInt 1)];
     finish_when (slot = 0) pg
   }"

definition SET_VERTEX_DATA4UB :: "pgraph_draw \<Rightarrow> nat \<Rightarrow> u32 \<Rightarrow> pgraph_draw option" where
  "SET_VERTEX_DATA4UB pg slot p = do {
     pg \<leftarrow> set_vertex_attribute pg slot (map (\<lambda>k. (k, DDiv (byte_at p k) (FInt 255))) [0, 1, 2, 3]);
     finish_when (slot = 0) pg
   }"

definition SET_VERTEX_DATA4S_M :: "pgraph_draw \<Rightarrow> nat \<Rightarrow> u32 \<Rightarrow> pgraph_draw option" where
  "SET_VERTEX_DATA4S_M pg slot p = do {
     let part = slot mod 2; let slot = slot div 2;
     pg \<leftarrow> set_vertex_attribute pg slot [(part * 2 + 0, FInt (s16_lo p)), (part * 2 + 1, FInt (s16_hi p))];
     finish_when (slot = 0 \<and> part = 1) pg
   }"

text \<open>The entries of the method table for vertex attributes: first method, number of methods, handler. A handler
  gets the number of its method within the range.\<close>

definition vertex_methods :: "(nat \<times> nat \<times> (pgraph_draw \<Rightarrow> nat \<Rightarrow> u32 \<Rightarrow> pgraph_draw option)) list" where
  "vertex_methods =
     [(0x1500, 3, SET_VERTEX3F),
      (0x1518, 4, SET_VERTEX4F),
      (0x1530, 3, SET_VERTEX_ATTRIBUTE_F NV2A_VERTEX_ATTR_NORMAL),
      (0x1540, 3, SET_NORMAL3S),
      (0x1550, 4, SET_VERTEX_ATTRIBUTE_F NV2A_VERTEX_ATTR_DIFFUSE),
      (0x1560, 3, SET_VERTEX_COLOR_3F NV2A_VERTEX_ATTR_DIFFUSE),
      (0x156C, 1, SET_VERTEX_ATTRIBUTE_4UB NV2A_VERTEX_ATTR_DIFFUSE),
      (0x1570, 4, SET_VERTEX_ATTRIBUTE_F NV2A_VERTEX_ATTR_SPECULAR),
      (0x1580, 3, SET_VERTEX_COLOR_3F NV2A_VERTEX_ATTR_SPECULAR),
      (0x158C, 1, SET_VERTEX_ATTRIBUTE_4UB NV2A_VERTEX_ATTR_SPECULAR),
      (0x1590, 2, SET_VERTEX_ATRIBUTE_TEX_2F NV2A_VERTEX_ATTR_TEXTURE0),
      (0x15A0, 4, SET_VERTEX_ATTRIBUTE_F NV2A_VERTEX_ATTR_TEXTURE0),
      (0x1598, 1, SET_VERTEX_ATRIBUTE_TEX_2S NV2A_VERTEX_ATTR_TEXTURE0),
      (0x15B0, 2, SET_VERTEX_ATTRIBUTE_4S NV2A_VERTEX_ATTR_TEXTURE0),
      (0x15B8, 2, SET_VERTEX_ATRIBUTE_TEX_2F NV2A_VERTEX_ATTR_TEXTURE1),
      (0x15C8, 4, SET_VERTEX_ATTRIBUTE_F NV2A_VERTEX_ATTR_TEXTURE1),
      (0x15C0, 1, SET_VERTEX_ATRIBUTE_TEX_2S NV2A_VERTEX_ATTR_TEXTURE1),
      (0x15D8, 2, SET_VERTEX_ATTRIBUTE_4S NV2A_VERTEX_ATTR_TEXTURE1),
      (0x15E0, 2, SET_VERTEX_ATRIBUTE_TEX_2F NV2A_VERTEX_ATTR_TEXTURE2),
      (0x15F0, 4, SET_VERTEX_ATTRIBUTE_F NV2A_VERTEX_ATTR_TEXTURE2),
      (0x15E8, 1, SET_VERTEX_ATRIBUTE_TEX_2S NV2A_VERTEX_ATTR_TEXTURE2),
      (0x1600, 2, SET_VERTEX_ATTRIBUTE_4S NV2A_VERTEX_ATTR_TEXTURE2),
      (0x1608, 2, SET_VERTEX_ATRIBUTE_TEX_2F NV2A_VERTEX_ATTR_TEXTURE3),
      (0x1620, 4, SET_VERTEX_ATTRIBUTE_F NV2A_VERTEX_ATTR_TEXTURE3),
      (0x1610, 1, SET_VERTEX_ATRIBUTE_TEX_2S NV2A_VERTEX_ATTR_TEXTURE3),
      (0x1630, 2, SET_VERTEX_ATTRIBUTE_4S NV2A_VERTEX_ATTR_TEXTURE3),
      (0x1698, 1, SET_FOG_COORD),
      (0x169C, 1, SET_WEIGHT1F),
      (0x16A0, 2, SET_WEIGHT2F),
      (0x16B0, 3, SET_WEIGHT3F),
      (0x16C0, 4, SET_VERTEX_ATTRIBUTE_F NV2A_VERTEX_ATTR_WEIGHT),
      (0x1880, 32, SET_VERTEX_DATA2F_M),
      (0x1A00, 64, SET_VERTEX_DATA4F_M),
      (0x1900, 16, SET_VERTEX_DATA2S),
      (0x1940, 16, SET_VERTEX_DATA4UB),
      (0x1980, 32, SET_VERTEX_DATA4S_M)]"

definition vertex_entry :: "nat \<Rightarrow> (nat \<times> nat \<times> (pgraph_draw \<Rightarrow> nat \<Rightarrow> u32 \<Rightarrow> pgraph_draw option)) option" where
  "vertex_entry m = find (\<lambda>(base, n, h). base \<le> m \<and> m < base + 4 * n) vertex_methods"

definition vertex_method :: "pgraph_draw \<Rightarrow> nat \<Rightarrow> u32 \<Rightarrow> pgraph_draw option" where
  "vertex_method pg m p = do { (base, n, h) \<leftarrow> vertex_entry m; h pg ((m - base) div 4) p }"

section \<open>Index lists and ranges\<close>

definition push_element :: "pgraph_draw \<Rightarrow> u32 \<Rightarrow> pgraph_draw option" where
  "push_element pg x = do {
     assert_that (inline_elements_length pg < NV2A_MAX_BATCH_LENGTH);  \<comment> \<open>inside the array\<close>
     Some (pg\<lparr>inline_elements := (inline_elements pg)(inline_elements_length pg := x),
              inline_elements_length := inline_elements_length pg + 1\<rparr>)
   }"

fun push_range :: "nat \<Rightarrow> u32 \<Rightarrow> pgraph_draw \<Rightarrow> pgraph_draw option" where
  "push_range 0 start pg = Some pg"
| "push_range (Suc n) start pg = do { pg \<leftarrow> push_element pg start; push_range n (start + 1) pg }"

definition pgraph_expand_draw_arrays :: "renderer_ops \<Rightarrow> pgraph_draw \<Rightarrow> pgraph_draw option" where
  "pgraph_expand_draw_arrays ops pg = do {
     let start = draw_arrays_start pg (draw_arrays_length pg - 1);
     let count = draw_arrays_count pg (draw_arrays_length pg - 1);
     let pg = (if draw_arrays_length pg > 1 then pgraph_reset_inline_buffers (op_flush_draw ops pg) else pg);
     assert_that (unat (of_nat (inline_elements_length pg) + count) < NV2A_MAX_BATCH_LENGTH);
     pg \<leftarrow> push_range (unat count) start pg;
     Some (pgraph_reset_draw_arrays pg)
   }"

definition expand_pending :: "renderer_ops \<Rightarrow> pgraph_draw \<Rightarrow> pgraph_draw option" where
  "expand_pending ops pg = (if draw_arrays_length pg \<noteq> 0 then pgraph_expand_draw_arrays ops pg else Some pg)"

definition ARRAY_ELEMENT16 :: "renderer_ops \<Rightarrow> pgraph_draw \<Rightarrow> u32 \<Rightarrow> pgraph_draw option" where
  "ARRAY_ELEMENT16 ops pg p = do {
     pg \<leftarrow> expand_pending ops pg;
     assert_that (inline_elements_length pg < NV2A_MAX_BATCH_LENGTH);
     pg \<leftarrow> push_element pg (p AND 0xFFFF);
     push_element pg (drop_bit 16 p)
   }"

definition ARRAY_ELEMENT32 :: "renderer_ops \<Rightarrow> pgraph_draw \<Rightarrow> u32 \<Rightarrow> pgraph_draw option" where
  "ARRAY_ELEMENT32 ops pg p = do {
     pg \<leftarrow> expand_pending ops pg;
     assert_that (inline_elements_length pg < NV2A_MAX_BATCH_LENGTH);
     push_element pg p
   }"

definition DRAW_ARRAYS :: "pgraph_draw \<Rightarrow> u32 \<Rightarrow> pgraph_draw option" where
  "DRAW_ARRAYS pg p = do {
     let start = get_mask p NV097_DRAW_ARRAYS_START_INDEX;
     let count = get_mask p NV097_DRAW_ARRAYS_COUNT + 1;
     if inline_elements_length pg \<noteq> 0 then do {
       assert_that (unat (of_nat (inline_elements_length pg) + count) < NV2A_MAX_BATCH_LENGTH);
       assert_that (\<not> draw_arrays_prevent_connect pg);
       push_range (unat count) start pg
     }
     else do {
       let pg = pg\<lparr>draw_arrays_min_start := min (draw_arrays_min_start pg) start,
                   draw_arrays_max_count := max (draw_arrays_max_count pg) (start + count)\<rparr>;
       let n = draw_arrays_length pg;
       assert_that (n < DRAW_ARRAYS_MAX);
       if \<not> draw_arrays_prevent_connect pg \<and> n > 0
          \<and> start = draw_arrays_start pg (n - 1) + draw_arrays_count pg (n - 1)
       then Some (pg\<lparr>draw_arrays_count := (draw_arrays_count pg)(n - 1 := draw_arrays_count pg (n - 1) + count)\<rparr>)
       else Some (pg\<lparr>draw_arrays_start := (draw_arrays_start pg)(n := start),
                     draw_arrays_count := (draw_arrays_count pg)(n := count),
                     draw_arrays_length := n + 1, draw_arrays_prevent_connect := False\<rparr>)
     }
   }"

definition INLINE_ARRAY :: "pgraph_draw \<Rightarrow> u32 \<Rightarrow> pgraph_draw option" where
  "INLINE_ARRAY pg p = do {
     assert_that (inline_array_length pg < NV2A_MAX_BATCH_LENGTH);
     Some (pg\<lparr>inline_array := (inline_array pg)(inline_array_length pg := p),
              inline_array_length := inline_array_length pg + 1\<rparr>)
   }"

definition SET_BEGIN_END :: "renderer_ops \<Rightarrow> pgraph_draw \<Rightarrow> u32 \<Rightarrow> pgraph_draw option" where
  "SET_BEGIN_END ops pg p =
     (if p = NV097_SET_BEGIN_END_OP_END then
        (if primitive_mode pg = PRIM_TYPE_INVALID then Some (pgraph_reset_inline_buffers pg)
         else Some ((pgraph_reset_inline_buffers (op_draw_end ops pg))\<lparr>primitive_mode := PRIM_TYPE_INVALID\<rparr>))
      else if primitive_mode pg \<noteq> PRIM_TYPE_INVALID then Some pg
      else do {
        assert_that (p \<le> NV097_SET_BEGIN_END_OP_POLYGON);
        Some (op_draw_begin ops (pgraph_reset_inline_buffers (pg\<lparr>primitive_mode := p\<rparr>)))
      })"

section \<open>Vertex arrays in memory\<close>

definition SET_VERTEX_DATA_ARRAY_FORMAT :: "pgraph_draw \<Rightarrow> nat \<Rightarrow> u32 \<Rightarrow> pgraph_draw option" where
  "SET_VERTEX_DATA_ARRAY_FORMAT pg slot p = do {
     a \<leftarrow> arr_get (vertex_attributes pg) slot;
     let format = get_mask p 0x0000000F; let count = get_mask p 0x000000F0; let stride = get_mask p 0xFFFFFF00;
     sz \<leftarrow>
       (if format = 0 then do { assert_that (count = 4); Some 1 }
        else if format = 4 then Some 1
        else if format = 1 then Some 2
        else if format = 2 then Some 4
        else if format = 5 then Some 2
        else if format = 6 then do { assert_that (count = 1); Some 4 }
        else None);
     as \<leftarrow> arr_set (vertex_attributes pg) slot
       (a\<lparr>va_format := format, va_size := sz, va_count := count, va_stride := stride\<rparr>);
     Some (pg\<lparr>vertex_attributes := as,
              compressed_attrs := (if format = 6 then compressed_attrs pg OR push_bit slot 1
                                   else compressed_attrs pg AND NOT (push_bit slot 1))\<rparr>)
   }"

definition SET_VERTEX_DATA_ARRAY_OFFSET :: "pgraph_draw \<Rightarrow> nat \<Rightarrow> u32 \<Rightarrow> pgraph_draw option" where
  "SET_VERTEX_DATA_ARRAY_OFFSET pg slot p = do {
     a \<leftarrow> arr_get (vertex_attributes pg) slot;
     as \<leftarrow> arr_set (vertex_attributes pg) slot
       (a\<lparr>va_dma_select := (p AND 0x80000000 \<noteq> 0), va_offset := p AND 0x7fffffff\<rparr>);
     Some (pg\<lparr>vertex_attributes := as\<rparr>)
   }"

section \<open>What the renderer sees of a batch\<close>

definition inline_view :: "pgraph_draw \<Rightarrow> nat \<Rightarrow> nat \<Rightarrow> cfloat list" where
  "inline_view pg a i =
     (let v = vertex_attributes pg ! a in if va_populated v then va_inline_buffer v i else va_inline_value v)"

definition draw_wf :: "pgraph_draw \<Rightarrow> bool" where
  "draw_wf pg = (length (vertex_attributes pg) = 16 \<and> (\<forall>a \<in> set (vertex_attributes pg). length (va_inline_value a) = 4))"

text \<open>From \<open>pg\<close> to \<open>pg'\<close> the vertices of the batch are kept, and if \<open>b\<close> one is added whose attributes have
  their current values.\<close>

definition batch_ext :: "pgraph_draw \<Rightarrow> pgraph_draw \<Rightarrow> bool \<Rightarrow> bool" where
  "batch_ext pg pg' b =
     (draw_wf pg' \<and> inline_buffer_length pg' = inline_buffer_length pg + (if b then 1 else 0)
      \<and> (\<forall>a < 16. \<forall>i < inline_buffer_length pg. inline_view pg' a i = inline_view pg a i)
      \<and> (b \<longrightarrow> (\<forall>a < 16. inline_view pg' a (inline_buffer_length pg) = va_inline_value (vertex_attributes pg' ! a))))"

lemma set_values_length: "set_values kxs v = Some v' \<Longrightarrow> length v' = length v"
  by (induction kxs v rule: set_values.induct) (auto simp: bind_eq_Some_conv dest: arr_set_length)

lemma set_values_total: "\<forall>(k, x) \<in> set kxs. k < length v \<Longrightarrow> \<exists>v'. set_values kxs v = Some v'"
proof (induction kxs v rule: set_values.induct)
  case (2 k x kxs v)
  have "arr_set v k x = Some (v[k := x])" using 2(2) by simp
  moreover have "\<exists>v'. set_values kxs (v[k := x]) = Some v'" using 2 calculation by auto
  ultimately show ?case by simp
qed simp

lemma draw_wf_update: "draw_wf pg \<Longrightarrow> length (va_inline_value v) = 4 \<Longrightarrow> draw_wf (pg\<lparr>vertex_attributes := (vertex_attributes pg)[a := v]\<rparr>)"
  by (auto simp: draw_wf_def dest!: set_update_subset_insert [THEN subsetD])

lemma set_vertex_attribute_ext:
  assumes wf: "draw_wf pg" and a: "a < 16" and k: "\<forall>(k, x) \<in> set kxs. k < 4"
  shows "\<exists>pg'. set_vertex_attribute pg a kxs = Some pg' \<and> batch_ext pg pg' False"
proof -
  let ?at = "vertex_attributes pg ! a" and ?n = "inline_buffer_length pg"
  let ?at' = "if va_populated ?at \<or> ?n = 0 then ?at
    else ?at\<lparr>va_populated := True, va_inline_buffer := (\<lambda>i. if i < ?n then va_inline_value ?at else va_inline_buffer ?at i)\<rparr>"
  have len: "length (vertex_attributes pg) = 16" using wf by (simp add: draw_wf_def)
  have l4: "length (va_inline_value ?at) = 4" using wf a by (simp add: draw_wf_def)
  obtain v where v: "set_values kxs (va_inline_value ?at) = Some v" using set_values_total [of kxs] k l4 by metis
  have lv: "length v = 4" using set_values_length [OF v] l4 by simp
  have alloc: "pgraph_allocate_inline_buffer_vertices pg a = Some (pg\<lparr>vertex_attributes := (vertex_attributes pg)[a := ?at']\<rparr>)"
    using a len by (simp add: pgraph_allocate_inline_buffer_vertices_def)
  let ?pg = "pg\<lparr>vertex_attributes := (vertex_attributes pg)[a := ?at'\<lparr>va_inline_value := v\<rparr>]\<rparr>"
  have "set_vertex_attribute pg a kxs = Some ?pg"
    using a len v by (simp add: set_vertex_attribute_def alloc set_inline_value_def)
  moreover have "draw_wf ?pg" using draw_wf_update [OF wf, of "?at'\<lparr>va_inline_value := v\<rparr>" a] lv by simp
  moreover have "inline_view ?pg b i = inline_view pg b i" if "b < 16" "i < ?n" for b i
    using that a len by (auto simp: inline_view_def nth_list_update)
  ultimately show ?thesis by (simp add: batch_ext_def)
qed

lemma finish_ext:
  assumes wf: "draw_wf pg" and n: "inline_buffer_length pg < NV2A_MAX_BATCH_LENGTH"
  shows "\<exists>pg'. finish_when b pg = Some pg' \<and> batch_ext pg pg' b"
proof (cases b)
  case True
  let ?n = "inline_buffer_length pg"
  let ?f = "\<lambda>a. if va_populated a then a\<lparr>va_inline_buffer := (va_inline_buffer a)(?n := va_inline_value a)\<rparr> else a"
  let ?pg = "pg\<lparr>vertex_attributes := map ?f (vertex_attributes pg), inline_buffer_length := ?n + 1\<rparr>"
  have "finish_when b pg = Some ?pg"
    using n True by (simp add: finish_when_def pgraph_finish_inline_buffer_vertex_def Let_def)
  moreover have "batch_ext pg ?pg True" using wf by (auto simp: batch_ext_def draw_wf_def inline_view_def Let_def)
  ultimately show ?thesis using True by simp
next
  case False
  then show ?thesis using wf by (auto simp: finish_when_def batch_ext_def)
qed

lemma batch_ext_trans: "batch_ext pg pg' False \<Longrightarrow> batch_ext pg' pg'' b \<Longrightarrow> batch_ext pg pg'' b"
  by (auto simp: batch_ext_def)

lemma attribute_then_finish:
  assumes "draw_wf pg" "inline_buffer_length pg < NV2A_MAX_BATCH_LENGTH" "a < 16" "\<forall>(k, x) \<in> set kxs. k < 4"
  shows "\<exists>pg'. (do { pg \<leftarrow> set_vertex_attribute pg a kxs; finish_when b pg }) = Some pg' \<and> batch_ext pg pg' b"
proof -
  obtain pg1 where pg1: "set_vertex_attribute pg a kxs = Some pg1" "batch_ext pg pg1 False"
    using set_vertex_attribute_ext [OF assms(1,3,4)] by blast
  then have "draw_wf pg1" "inline_buffer_length pg1 < NV2A_MAX_BATCH_LENGTH" using assms(2) by (simp_all add: batch_ext_def)
  then obtain pg2 where "finish_when b pg1 = Some pg2" "batch_ext pg1 pg2 b" using finish_ext by blast
  then show ?thesis using pg1 batch_ext_trans by auto
qed

definition good_handler :: "nat \<Rightarrow> (pgraph_draw \<Rightarrow> nat \<Rightarrow> u32 \<Rightarrow> pgraph_draw option) \<Rightarrow> bool" where
  "good_handler n h = (\<forall>pg slot p. draw_wf pg \<longrightarrow> inline_buffer_length pg < NV2A_MAX_BATCH_LENGTH \<longrightarrow> slot < n \<longrightarrow>
     (\<exists>pg' b. h pg slot p = Some pg' \<and> batch_ext pg pg' b))"

lemma good_handlerI:
  assumes "\<And>pg slot p. slot < n \<Longrightarrow> \<exists>a kxs b. h pg slot p = (do { pg \<leftarrow> set_vertex_attribute pg a kxs; finish_when b pg })
    \<and> a < 16 \<and> (\<forall>(k, x) \<in> set kxs. k < 4)"
  shows "good_handler n h"
  unfolding good_handler_def using assms attribute_then_finish by (metis (no_types, lifting))

lemma no_finish: "set_vertex_attribute pg a kxs = (do { pg \<leftarrow> set_vertex_attribute pg a kxs; finish_when False pg })"
  by (simp add: finish_when_def)

lemma component_less: "x mod 2 * 2 < (4 :: nat)" "Suc (x mod 2 * 2) < 4" "x mod 2 < (4 :: nat)" "x mod 4 < (4 :: nat)"
  "x < 32 \<Longrightarrow> x div 2 < (16 :: nat)" "x < 64 \<Longrightarrow> x div 4 < (16 :: nat)"
  by presburger+

lemma good_attribute_handlers:
  assumes "a < 16"
  shows "good_handler 4 (SET_VERTEX_ATTRIBUTE_F a)" "good_handler 3 (SET_VERTEX_ATTRIBUTE_F a)"
    "good_handler 3 (SET_VERTEX_COLOR_3F a)" "good_handler 1 (SET_VERTEX_ATTRIBUTE_4UB a)"
    "good_handler 2 (SET_VERTEX_ATRIBUTE_TEX_2F a)" "good_handler 1 (SET_VERTEX_ATRIBUTE_TEX_2S a)"
    "good_handler 2 (SET_VERTEX_ATTRIBUTE_4S a)"
  unfolding SET_VERTEX_ATTRIBUTE_F_def SET_VERTEX_COLOR_3F_def SET_VERTEX_ATTRIBUTE_4UB_def
    SET_VERTEX_ATRIBUTE_TEX_2F_def SET_VERTEX_ATRIBUTE_TEX_2S_def SET_VERTEX_ATTRIBUTE_4S_def Let_def
  by (rule good_handlerI, subst no_finish, use assms component_less in fastforce)+

lemma good_fixed_handlers:
  "good_handler 3 SET_NORMAL3S" "good_handler 1 SET_FOG_COORD" "good_handler 1 SET_WEIGHT1F"
  "good_handler 2 SET_WEIGHT2F" "good_handler 3 SET_WEIGHT3F"
  unfolding SET_NORMAL3S_def SET_FOG_COORD_def SET_WEIGHT1F_def SET_WEIGHT2F_def SET_WEIGHT3F_def Let_def
  by (rule good_handlerI, subst no_finish, use component_less in fastforce)+

lemma good_vertex_handlers:
  "good_handler 3 SET_VERTEX3F" "good_handler 4 SET_VERTEX4F" "good_handler 32 SET_VERTEX_DATA2F_M"
  "good_handler 64 SET_VERTEX_DATA4F_M" "good_handler 16 SET_VERTEX_DATA2S" "good_handler 16 SET_VERTEX_DATA4UB"
  "good_handler 32 SET_VERTEX_DATA4S_M"
  unfolding SET_VERTEX3F_def SET_VERTEX4F_def SET_VERTEX_DATA2F_M_def SET_VERTEX_DATA4F_M_def
    SET_VERTEX_DATA2S_def SET_VERTEX_DATA4UB_def SET_VERTEX_DATA4S_M_def Let_def
  by (rule good_handlerI, intro exI conjI, rule refl, use component_less in fastforce, use component_less in fastforce)+

lemma good_handlers: "(base, n, h) \<in> set vertex_methods \<Longrightarrow> good_handler n h"
  unfolding vertex_methods_def
  by (auto simp: good_attribute_handlers good_fixed_handlers good_vertex_handlers simp del: One_nat_def)

lemma vertex_method_ext:
  assumes "draw_wf pg" "inline_buffer_length pg < NV2A_MAX_BATCH_LENGTH" "vertex_entry m \<noteq> None"
  shows "\<exists>pg' b. vertex_method pg m p = Some pg' \<and> batch_ext pg pg' b"
proof -
  obtain base n h where e: "vertex_entry m = Some (base, n, h)" using assms(3) by auto
  then have "(base, n, h) \<in> set vertex_methods" "base \<le> m" "m < base + 4 * n"
    unfolding vertex_entry_def by (auto dest: find_sound)
  moreover have "(m - base) div 4 < n" using calculation(2,3) by (simp add: less_mult_imp_div_less mult.commute)
  ultimately show ?thesis
    using good_handlers assms(1,2) e unfolding good_handler_def vertex_method_def by fastforce
qed

text \<open>A run of vertex methods, with the values of all attributes noted whenever a vertex is finished.\<close>

fun vertex_run :: "pgraph_draw \<Rightarrow> (nat \<times> u32) list \<Rightarrow> (pgraph_draw \<times> cfloat list list list) option" where
  "vertex_run pg [] = Some (pg, [])"
| "vertex_run pg ((m, p) # ms) = do {
     pg' \<leftarrow> vertex_method pg m p;
     (pg'', h) \<leftarrow> vertex_run pg' ms;
     Some (pg'', (if inline_buffer_length pg' \<noteq> inline_buffer_length pg
                  then [map va_inline_value (vertex_attributes pg')] else []) @ h)
   }"

lemma vertex_run_ext:
  "draw_wf pg \<Longrightarrow> \<forall>(m, p) \<in> set ms. vertex_entry m \<noteq> None \<Longrightarrow>
   inline_buffer_length pg + length ms \<le> NV2A_MAX_BATCH_LENGTH \<Longrightarrow>
   \<exists>pg' h. vertex_run pg ms = Some (pg', h) \<and> inline_buffer_length pg' = inline_buffer_length pg + length h
    \<and> (\<forall>a < 16. \<forall>i < inline_buffer_length pg. inline_view pg' a i = inline_view pg a i)
    \<and> (\<forall>a < 16. \<forall>i < length h. inline_view pg' a (inline_buffer_length pg + i) = h ! i ! a)"
proof (induction pg ms rule: vertex_run.induct)
  case (2 pg m p ms)
  obtain pg1 b where pg1: "vertex_method pg m p = Some pg1" "batch_ext pg pg1 b"
    using vertex_method_ext [of pg m p] 2(2-4) by auto
  have wf1: "draw_wf pg1" and n1: "inline_buffer_length pg1 = inline_buffer_length pg + (if b then 1 else 0)"
    and old: "\<forall>a < 16. \<forall>i < inline_buffer_length pg. inline_view pg1 a i = inline_view pg a i"
    and new: "b \<longrightarrow> (\<forall>a < 16. inline_view pg1 a (inline_buffer_length pg) = va_inline_value (vertex_attributes pg1 ! a))"
    using pg1(2) unfolding batch_ext_def by blast+
  have "inline_buffer_length pg1 + length ms \<le> NV2A_MAX_BATCH_LENGTH" using 2(4) n1 by simp
  then obtain pg' h where r: "vertex_run pg1 ms = Some (pg', h)" "inline_buffer_length pg' = inline_buffer_length pg1 + length h"
    "\<forall>a < 16. \<forall>i < inline_buffer_length pg1. inline_view pg' a i = inline_view pg1 a i"
    "\<forall>a < 16. \<forall>i < length h. inline_view pg' a (inline_buffer_length pg1 + i) = h ! i ! a"
    using 2(1) [OF pg1(1) wf1] 2(3) by auto
  have len: "length (vertex_attributes pg1) = 16" using wf1 by (simp add: draw_wf_def)
  show ?case
  proof (cases b)
    case True
    let ?h = "map va_inline_value (vertex_attributes pg1) # h"
    have "inline_view pg' a (inline_buffer_length pg + i) = ?h ! i ! a" if "a < 16" "i < length ?h" for a i
    proof (cases i)
      case 0
      then show ?thesis using that r(3) new n1 True len by simp
    next
      case (Suc j)
      then have "inline_view pg' a (inline_buffer_length pg1 + j) = h ! j ! a" using r(4) that by simp
      then show ?thesis using Suc n1 True by simp
    qed
    then show ?thesis using pg1(1) r(1,2,3) old n1 True by auto
  next
    case False
    then show ?thesis using pg1(1) r old n1 by auto
  qed
qed simp

text \<open>C37: Drawing vertex by vertex: although an attribute gets a buffer only once its value changes inside a
  batch, the renderer sees for every vertex and every attribute the value that was current when the
  vertex was finished. Any sequence of vertex methods runs without a failed assertion, up to the size of a batch.\<close>

theorem inline_vertices_exact:
  assumes "draw_wf pg" and "inline_buffer_length pg = 0" and "length ms \<le> NV2A_MAX_BATCH_LENGTH"
    and "\<forall>(m, p) \<in> set ms. vertex_entry m \<noteq> None"
  shows "\<exists>pg' h. vertex_run pg ms = Some (pg', h) \<and> inline_buffer_length pg' = length h
    \<and> (\<forall>a < 16. \<forall>i < length h. inline_view pg' a i = h ! i ! a)"
  using vertex_run_ext [of pg ms] assms by simp

definition draw_blank :: pgraph_draw where
  "draw_blank = \<lparr>primitive_mode = 0,
     vertex_attributes = replicate 16 \<lparr>va_dma_select = False, va_offset = 0, va_format = 0, va_size = 0, va_count = 0,
       va_stride = 0, va_inline_value = replicate 4 (FInt 0), va_inline_buffer = (\<lambda>_. []), va_populated = False\<rparr>,
     compressed_attrs = 0, inline_array_length = 0, inline_array = (\<lambda>_. 0), inline_elements_length = 0,
     inline_elements = (\<lambda>_. 0), inline_buffer_length = 0, draw_arrays_length = 0, draw_arrays_min_start = -1,
     draw_arrays_max_count = 0, draw_arrays_start = (\<lambda>_. 0), draw_arrays_count = (\<lambda>_. 0),
     draw_arrays_prevent_connect = False\<rparr>"

theorem inline_vertices_exact_witness:
  "\<exists>pg' h. vertex_run draw_blank [(0x1900, 5), (0x156C, 0xFF), (0x1900, 7)] = Some (pg', h)
    \<and> inline_buffer_length pg' = length h \<and> (\<forall>a < 16. \<forall>i < length h. inline_view pg' a i = h ! i ! a)"
  by (rule inline_vertices_exact)
     (simp_all add: draw_blank_def draw_wf_def vertex_entry_def vertex_methods_def)

section \<open>The indices of a batch\<close>

definition elements :: "pgraph_draw \<Rightarrow> u32 list" where
  "elements pg = map (inline_elements pg) [0..<inline_elements_length pg]"

definition index_range :: "u32 \<Rightarrow> nat \<Rightarrow> u32 list" where
  "index_range start n = map (\<lambda>k. start + of_nat k) [0..<n]"

definition ranges :: "pgraph_draw \<Rightarrow> u32 list" where
  "ranges pg = concat (map (\<lambda>i. index_range (draw_arrays_start pg i) (unat (draw_arrays_count pg i))) [0..<draw_arrays_length pg])"

definition vertex_indices :: "pgraph_draw \<Rightarrow> u32 list" where
  "vertex_indices pg = (if inline_elements_length pg \<noteq> 0 then elements pg else ranges pg)"

definition index_inv :: "pgraph_draw \<Rightarrow> bool" where
  "index_inv pg =
     ((inline_elements_length pg = 0 \<or> draw_arrays_length pg = 0)
      \<and> (draw_arrays_prevent_connect pg \<longrightarrow> draw_arrays_length pg \<noteq> 0)
      \<and> (\<forall>i < draw_arrays_length pg. unat (draw_arrays_start pg i) + unat (draw_arrays_count pg i) < 2 ^ 24 + 256))"

datatype draw_op = Element16 u32 | Element32 u32 | Range u32

fun draw_step :: "renderer_ops \<Rightarrow> pgraph_draw \<Rightarrow> draw_op \<Rightarrow> pgraph_draw option" where
  "draw_step ops pg (Element16 p) = ARRAY_ELEMENT16 ops pg p"
| "draw_step ops pg (Element32 p) = ARRAY_ELEMENT32 ops pg p"
| "draw_step ops pg (Range p) = DRAW_ARRAYS pg p"

fun op_indices :: "draw_op \<Rightarrow> u32 list" where
  "op_indices (Element16 p) = [p AND 0xFFFF, drop_bit 16 p]"
| "op_indices (Element32 p) = [p]"
| "op_indices (Range p) = index_range (p AND 0xFFFFFF) (unat p div 2 ^ 24 + 1)"

lemma index_range_Suc: "index_range s (Suc n) = s # index_range (s + 1) n"
  by (simp add: index_range_def map_upt_Suc add.commute add.left_commute del: upt_Suc)

lemma index_range_append: "index_range s (m + n) = index_range s m @ index_range (s + of_nat m) n"
  by (induction m arbitrary: s) (simp_all add: index_range_Suc add.commute add.left_commute, simp add: index_range_def)

lemma length_index_range [simp]: "length (index_range s n) = n"
  by (simp add: index_range_def)

lemma push_element_room:
  "inline_elements_length pg < NV2A_MAX_BATCH_LENGTH \<Longrightarrow>
   \<exists>pg'. push_element pg x = Some pg' \<and> elements pg' = elements pg @ [x]
     \<and> inline_elements_length pg' = inline_elements_length pg + 1
     \<and> draw_arrays_length pg' = draw_arrays_length pg \<and> draw_arrays_prevent_connect pg' = draw_arrays_prevent_connect pg"
  by (simp add: push_element_def elements_def)

lemma push_range_room:
  "inline_elements_length pg + n \<le> NV2A_MAX_BATCH_LENGTH \<Longrightarrow>
   \<exists>pg'. push_range n s pg = Some pg' \<and> elements pg' = elements pg @ index_range s n
     \<and> inline_elements_length pg' = inline_elements_length pg + n
     \<and> draw_arrays_length pg' = draw_arrays_length pg \<and> draw_arrays_prevent_connect pg' = draw_arrays_prevent_connect pg"
proof (induction n arbitrary: pg s)
  case (Suc n)
  obtain pg1 where pg1: "push_element pg s = Some pg1" "elements pg1 = elements pg @ [s]"
    "inline_elements_length pg1 = inline_elements_length pg + 1" "draw_arrays_length pg1 = draw_arrays_length pg"
    "draw_arrays_prevent_connect pg1 = draw_arrays_prevent_connect pg"
    using push_element_room [of pg s] Suc.prems by auto
  then show ?case using Suc.IH [of pg1 "s + 1"] Suc.prems by (auto simp: index_range_Suc)
qed (simp add: index_range_def)

lemma batch_no_wrap:
  "n + unat (c :: u32) < NV2A_MAX_BATCH_LENGTH \<Longrightarrow> unat (of_nat n + c) = n + unat c"
  by (simp add: unat_word_ariths unat_of_nat)

lemma expand_pending_room:
  assumes inv: "index_inv pg" and one: "draw_arrays_length pg \<le> 1"
    and room: "length (vertex_indices pg) < NV2A_MAX_BATCH_LENGTH"
  shows "\<exists>pg'. expand_pending ops pg = Some pg' \<and> elements pg' = vertex_indices pg
    \<and> inline_elements_length pg' = length (vertex_indices pg) \<and> draw_arrays_length pg' = 0 \<and> \<not> draw_arrays_prevent_connect pg'"
proof (cases "draw_arrays_length pg = 0")
  case True
  then have "vertex_indices pg = elements pg" by (auto simp: vertex_indices_def ranges_def elements_def)
  then show ?thesis using True inv by (auto simp: expand_pending_def index_inv_def elements_def)
next
  case False
  then have n: "draw_arrays_length pg = Suc 0" "inline_elements_length pg = 0" using one inv by (auto simp: index_inv_def)
  let ?s = "draw_arrays_start pg 0" and ?c = "draw_arrays_count pg 0"
  have v: "vertex_indices pg = index_range ?s (unat ?c)" using n by (simp add: vertex_indices_def ranges_def)
  then have c: "unat ?c < NV2A_MAX_BATCH_LENGTH" using room by simp
  obtain pg1 where "push_range (unat ?c) ?s pg = Some pg1" "elements pg1 = elements pg @ index_range ?s (unat ?c)"
    "inline_elements_length pg1 = unat ?c"
    using push_range_room [of pg "unat ?c" ?s] n(2) c by auto
  then show ?thesis
    using n v c
    by (simp add: expand_pending_def pgraph_expand_draw_arrays_def pgraph_reset_draw_arrays_def elements_def)
qed

lemma indices_of_elements: "inline_elements_length pg \<noteq> 0 \<Longrightarrow> vertex_indices pg = elements pg"
  by (simp add: vertex_indices_def)

lemma draw_arrays_fields:
  fixes p :: u32
  shows "get_mask p NV097_DRAW_ARRAYS_START_INDEX = p AND 0xFFFFFF"
    "unat (get_mask p NV097_DRAW_ARRAYS_COUNT + 1) = unat p div 2 ^ 24 + 1"
    "unat (p AND 0xFFFFFF) < 2 ^ 24" "unat p div 2 ^ 24 < 256"
proof -
  have f: "NV097_DRAW_ARRAYS_START_INDEX = reg_field 0 24" "NV097_DRAW_ARRAYS_COUNT = reg_field 24 8"
    by (simp_all add: reg_field_def mask_eq_exp_minus_1 push_bit_eq_mult)
  have m: "(0xFFFFFF :: u32) = mask 24" by (simp add: mask_eq_exp_minus_1)
  show "get_mask p NV097_DRAW_ARRAYS_START_INDEX = p AND 0xFFFFFF"
    unfolding f(1) by (subst get_mask_field) (simp_all add: take_bit_eq_mask reg_field_def)
  show "unat (p AND 0xFFFFFF) < 2 ^ 24"
    unfolding m take_bit_eq_mask [symmetric] unsigned_take_bit_eq by (rule take_bit_nat_less_exp)
  show hi: "unat p div 2 ^ 24 < 256" using unat_u32_bound [of p] by (simp add: less_mult_imp_div_less)
  have "unat (get_mask p NV097_DRAW_ARRAYS_COUNT) = unat p div 2 ^ 24"
  proof -
    have "unat (drop_bit 24 p) = unat p div 2 ^ 24" unfolding unat_drop_bit_eq by (rule drop_bit_eq_div)
    then show ?thesis
      unfolding f(2) by (subst get_mask_field) (use hi in \<open>simp_all add: unsigned_take_bit_eq take_bit_nat_eq_self\<close>)
  qed
  then show "unat (get_mask p NV097_DRAW_ARRAYS_COUNT + 1) = unat p div 2 ^ 24 + 1"
    using hi by (simp add: unat_word_ariths)
qed

lemma ranges_cong:
  assumes "draw_arrays_length pg' = draw_arrays_length pg"
    and "\<And>i. i < draw_arrays_length pg \<Longrightarrow> draw_arrays_start pg' i = draw_arrays_start pg i \<and> draw_arrays_count pg' i = draw_arrays_count pg i"
  shows "ranges pg' = ranges pg"
  unfolding ranges_def using assms by (intro arg_cong [where f = concat] map_cong) auto

lemma ranges_last:
  "draw_arrays_length pg = Suc n \<Longrightarrow>
   ranges pg = ranges (pg\<lparr>draw_arrays_length := n\<rparr>) @ index_range (draw_arrays_start pg n) (unat (draw_arrays_count pg n))"
  by (simp add: ranges_def)

lemma ranges_append:
  assumes "draw_arrays_length pg' = Suc n" "draw_arrays_length pg = n"
    and "\<And>i. i < n \<Longrightarrow> draw_arrays_start pg' i = draw_arrays_start pg i \<and> draw_arrays_count pg' i = draw_arrays_count pg i"
  shows "ranges pg' = ranges pg @ index_range (draw_arrays_start pg' n) (unat (draw_arrays_count pg' n))"
proof -
  have "ranges (pg'\<lparr>draw_arrays_length := n\<rparr>) = ranges pg" by (rule ranges_cong) (use assms in simp_all)
  then show ?thesis using ranges_last [OF assms(1)] by simp
qed

lemma DRAW_ARRAYS_ranges:
  assumes inv: "index_inv pg" and e: "inline_elements_length pg = 0" and n: "draw_arrays_length pg < DRAW_ARRAYS_MAX"
  shows "\<exists>pg'. DRAW_ARRAYS pg p = Some pg' \<and> index_inv pg' \<and> inline_elements_length pg' = 0
    \<and> ranges pg' = ranges pg @ op_indices (Range p)"
proof -
  let ?s = "p AND 0xFFFFFF" and ?c = "get_mask p NV097_DRAW_ARRAYS_COUNT + 1" and ?n = "draw_arrays_length pg"
  have c: "unat ?c = unat p div 2 ^ 24 + 1" "unat ?c \<le> 256" and s: "unat ?s < 2 ^ 24"
    using draw_arrays_fields [of p] by simp_all
  show ?thesis
  proof (cases "\<not> draw_arrays_prevent_connect pg \<and> ?n > 0 \<and> ?s = draw_arrays_start pg (?n - 1) + draw_arrays_count pg (?n - 1)")
    case True
    then obtain k where k: "?n = Suc k" by (cases ?n) auto
    let ?ls = "draw_arrays_start pg k" and ?lc = "draw_arrays_count pg k"
    have bound: "unat ?ls + unat ?lc < 2 ^ 24 + 256" using inv k by (simp add: index_inv_def)
    have eq: "?s = ?ls + ?lc" using True k by simp
    then have us: "unat ?s = unat ?ls + unat ?lc" using bound by (simp add: unat_word_ariths)
    have uc: "unat (?lc + ?c) = unat ?lc + unat ?c" using bound c(2) by (simp add: unat_word_ariths)
    let ?pg = "pg\<lparr>draw_arrays_min_start := min (draw_arrays_min_start pg) ?s,
      draw_arrays_max_count := max (draw_arrays_max_count pg) (?s + ?c), draw_arrays_count := (draw_arrays_count pg)(k := ?lc + ?c)\<rparr>"
    have "DRAW_ARRAYS pg p = Some ?pg"
      using e n True k unfolding DRAW_ARRAYS_def Let_def draw_arrays_fields(1) by simp
    moreover have "ranges ?pg = ranges pg @ index_range ?s (unat ?c)"
    proof -
      have "ranges ?pg = ranges (?pg\<lparr>draw_arrays_length := k\<rparr>) @ index_range ?ls (unat ?lc + unat ?c)"
        using ranges_last [of ?pg k] k uc by simp
      also have "ranges (?pg\<lparr>draw_arrays_length := k\<rparr>) = ranges (pg\<lparr>draw_arrays_length := k\<rparr>)"
        by (rule ranges_cong) simp_all
      also have "index_range ?ls (unat ?lc + unat ?c) = index_range ?ls (unat ?lc) @ index_range ?s (unat ?c)"
        unfolding index_range_append eq by simp
      finally show ?thesis unfolding ranges_last [OF k] append_assoc .
    qed
    moreover have "index_inv ?pg" using inv k us uc s c(2) by (auto simp: index_inv_def)
    ultimately show ?thesis using e c(1) by simp
  next
    case False
    let ?pg = "pg\<lparr>draw_arrays_min_start := min (draw_arrays_min_start pg) ?s,
      draw_arrays_max_count := max (draw_arrays_max_count pg) (?s + ?c), draw_arrays_start := (draw_arrays_start pg)(?n := ?s),
      draw_arrays_count := (draw_arrays_count pg)(?n := ?c), draw_arrays_length := ?n + 1, draw_arrays_prevent_connect := False\<rparr>"
    have "DRAW_ARRAYS pg p = Some ?pg"
      unfolding DRAW_ARRAYS_def Let_def draw_arrays_fields(1)
      by (cases "draw_arrays_prevent_connect pg"; cases "?n = 0") (use e n False in simp_all)
    moreover have "ranges ?pg = ranges pg @ index_range ?s (unat ?c)"
      using ranges_append [of ?pg ?n pg] by simp
    moreover have "index_inv ?pg" using inv e s c(2) by (auto simp: index_inv_def less_Suc_eq)
    ultimately show ?thesis using e c(1) by simp
  qed
qed


definition null_renderer :: renderer_ops where
  "null_renderer = \<lparr>op_draw_begin = (\<lambda>pg. pg), op_draw_end = (\<lambda>pg. pg), op_flush_draw = (\<lambda>pg. pg)\<rparr>"




end
