(* ===== verification/Nv2a.thy ===== *)
theory Nv2a
  imports Host_Utils Pgraph_Draw
begin

text \<open>
  The graphics chip's state and its small register blocks, \<^verbatim>\<open>hw/xbox/nv2a/nv2a.c\<close>, \<^verbatim>\<open>pmc.c\<close>,
  \<^verbatim>\<open>ptimer.c\<close>, \<^verbatim>\<open>pcrtc.c\<close>, \<^verbatim>\<open>pvideo.c\<close>, \<^verbatim>\<open>pramdac.c\<close>, \<^verbatim>\<open>pfb.c\<close>, \<^verbatim>\<open>pbus.c\<close>, \<^verbatim>\<open>prmdio.c\<close> and
  \<^verbatim>\<open>stubs.c\<close>. PGRAPH and PFIFO have theories of their own but their registers are part of the one
  state.

  The register arrays \<open>uint32_t regs[N]\<close> are functions from the index; an access from outside with
  an index that is not below \<open>N\<close> is \<open>None\<close>. The mutexes are left out: an operation runs
  while it holds them. Guest memory, instance memory and the PCI configuration space are byte
  memories; the interrupt line is a boolean of the state. The 64-bit value of a guest access is
  kept at its width.
\<close>

section \<open>Registers\<close>

abbreviation (input) NV_PMC_BOOT_0 :: nat where "NV_PMC_BOOT_0 \<equiv> 0x000"
abbreviation (input) NV_PMC_INTR_0 :: nat where "NV_PMC_INTR_0 \<equiv> 0x100"
abbreviation (input) NV_PMC_INTR_0_PFIFO :: u32 where "NV_PMC_INTR_0_PFIFO \<equiv> 0x100"
abbreviation (input) NV_PMC_INTR_0_PGRAPH :: u32 where "NV_PMC_INTR_0_PGRAPH \<equiv> 0x1000"
abbreviation (input) NV_PMC_INTR_0_PCRTC :: u32 where "NV_PMC_INTR_0_PCRTC \<equiv> 0x1000000"
abbreviation (input) NV_PMC_INTR_EN_0 :: nat where "NV_PMC_INTR_EN_0 \<equiv> 0x140"

abbreviation (input) NV_PBUS_PCI_NV_0 :: nat where "NV_PBUS_PCI_NV_0 \<equiv> 0x800"
abbreviation (input) NV_PBUS_PCI_NV_1 :: nat where "NV_PBUS_PCI_NV_1 \<equiv> 0x804"
abbreviation (input) NV_PBUS_PCI_NV_2 :: nat where "NV_PBUS_PCI_NV_2 \<equiv> 0x808"
abbreviation (input) PCI_VENDOR_ID :: nat where "PCI_VENDOR_ID \<equiv> 0x00"
abbreviation (input) PCI_COMMAND :: nat where "PCI_COMMAND \<equiv> 0x04"
abbreviation (input) PCI_CLASS_REVISION :: nat where "PCI_CLASS_REVISION \<equiv> 0x08"

abbreviation (input) NV_PCRTC_INTR_0 :: nat where "NV_PCRTC_INTR_0 \<equiv> 0x100"
abbreviation (input) NV_PCRTC_INTR_0_VBLANK :: u32 where "NV_PCRTC_INTR_0_VBLANK \<equiv> 1"
abbreviation (input) NV_PCRTC_INTR_EN_0 :: nat where "NV_PCRTC_INTR_EN_0 \<equiv> 0x140"
abbreviation (input) NV_PCRTC_START :: nat where "NV_PCRTC_START \<equiv> 0x800"
abbreviation (input) NV_PCRTC_RASTER :: nat where "NV_PCRTC_RASTER \<equiv> 0x808"

abbreviation (input) NV_PVIDEO_BUFFER :: nat where "NV_PVIDEO_BUFFER \<equiv> 0x700"
abbreviation (input) NV_PVIDEO_STOP :: nat where "NV_PVIDEO_STOP \<equiv> 0x704"
abbreviation (input) NV_PVIDEO_POINT_OUT :: nat where "NV_PVIDEO_POINT_OUT \<equiv> 0x948"
abbreviation (input) NV_PVIDEO_POINT_OUT_Y :: u32 where "NV_PVIDEO_POINT_OUT_Y \<equiv> 0x0FFF0000"
abbreviation (input) NV_PVIDEO_SIZE_OUT :: nat where "NV_PVIDEO_SIZE_OUT \<equiv> 0x950"
abbreviation (input) NV_PVIDEO_SIZE_OUT_HEIGHT :: u32 where "NV_PVIDEO_SIZE_OUT_HEIGHT \<equiv> 0x0FFF0000"

abbreviation (input) NV_PTIMER_INTR_0 :: nat where "NV_PTIMER_INTR_0 \<equiv> 0x100"
abbreviation (input) NV_PTIMER_INTR_EN_0 :: nat where "NV_PTIMER_INTR_EN_0 \<equiv> 0x140"
abbreviation (input) NV_PTIMER_NUMERATOR :: nat where "NV_PTIMER_NUMERATOR \<equiv> 0x200"
abbreviation (input) NV_PTIMER_DENOMINATOR :: nat where "NV_PTIMER_DENOMINATOR \<equiv> 0x210"
abbreviation (input) NV_PTIMER_TIME_0 :: nat where "NV_PTIMER_TIME_0 \<equiv> 0x400"
abbreviation (input) NV_PTIMER_TIME_1 :: nat where "NV_PTIMER_TIME_1 \<equiv> 0x410"
abbreviation (input) NV_PTIMER_ALARM_0 :: nat where "NV_PTIMER_ALARM_0 \<equiv> 0x420"

abbreviation (input) NV_NUM_GPU_TILES :: nat where "NV_NUM_GPU_TILES \<equiv> 8"
abbreviation (input) NV_PFB_CSTATUS :: nat where "NV_PFB_CSTATUS \<equiv> 0x20C"
abbreviation (input) NV_PFB_TILE :: nat where "NV_PFB_TILE \<equiv> 0x240"
abbreviation (input) NV_PFB_TILE_BASE_ADDRESS_AND_FLAGS :: "nat \<Rightarrow> nat" where "NV_PFB_TILE_BASE_ADDRESS_AND_FLAGS i \<equiv> NV_PFB_TILE + i * 16"
abbreviation (input) NV_PFB_TILE_FLAGS_VALID :: u32 where "NV_PFB_TILE_FLAGS_VALID \<equiv> 1"
abbreviation (input) NV_PFB_TILE_LIMIT :: "nat \<Rightarrow> nat" where "NV_PFB_TILE_LIMIT i \<equiv> NV_PFB_TILE + i * 16 + 4"
abbreviation (input) NV_PFB_WBC :: nat where "NV_PFB_WBC \<equiv> 0x410"

abbreviation (input) NV_PRAMDAC_NVPLL_COEFF :: nat where "NV_PRAMDAC_NVPLL_COEFF \<equiv> 0x500"
abbreviation (input) NV_PRAMDAC_NVPLL_COEFF_MDIV :: u32 where "NV_PRAMDAC_NVPLL_COEFF_MDIV \<equiv> 0xFF"
abbreviation (input) NV_PRAMDAC_NVPLL_COEFF_NDIV :: u32 where "NV_PRAMDAC_NVPLL_COEFF_NDIV \<equiv> 0xFF00"
abbreviation (input) NV_PRAMDAC_NVPLL_COEFF_PDIV :: u32 where "NV_PRAMDAC_NVPLL_COEFF_PDIV \<equiv> 0x70000"
abbreviation (input) NV_PRAMDAC_MPLL_COEFF :: nat where "NV_PRAMDAC_MPLL_COEFF \<equiv> 0x504"
abbreviation (input) NV_PRAMDAC_VPLL_COEFF :: nat where "NV_PRAMDAC_VPLL_COEFF \<equiv> 0x508"
abbreviation (input) NV_PRAMDAC_PLL_TEST_COUNTER :: nat where "NV_PRAMDAC_PLL_TEST_COUNTER \<equiv> 0x514"
abbreviation (input) NV_PRAMDAC_PLL_TEST_COUNTER_VPLL2_LOCK :: u32 where "NV_PRAMDAC_PLL_TEST_COUNTER_VPLL2_LOCK \<equiv> 0x8000000"
abbreviation (input) NV_PRAMDAC_PLL_TEST_COUNTER_NVPLL_LOCK :: u32 where "NV_PRAMDAC_PLL_TEST_COUNTER_NVPLL_LOCK \<equiv> 0x20000000"
abbreviation (input) NV_PRAMDAC_PLL_TEST_COUNTER_MPLL_LOCK :: u32 where "NV_PRAMDAC_PLL_TEST_COUNTER_MPLL_LOCK \<equiv> 0x40000000"
abbreviation (input) NV_PRAMDAC_PLL_TEST_COUNTER_VPLL_LOCK :: u32 where "NV_PRAMDAC_PLL_TEST_COUNTER_VPLL_LOCK \<equiv> 0x80000000"
abbreviation (input) NV_PRAMDAC_GENERAL_CONTROL :: nat where "NV_PRAMDAC_GENERAL_CONTROL \<equiv> 0x600"
abbreviation (input) NV_PRAMDAC_GENERAL_CONTROL_ALT_MODE_SEL :: u32 where "NV_PRAMDAC_GENERAL_CONTROL_ALT_MODE_SEL \<equiv> 0x1000"
abbreviation (input) NV_PRAMDAC_FP_VDISPLAY_END :: nat where "NV_PRAMDAC_FP_VDISPLAY_END \<equiv> 0x800"
abbreviation (input) NV_PRAMDAC_FP_VCRTC :: nat where "NV_PRAMDAC_FP_VCRTC \<equiv> 0x808"
abbreviation (input) NV_PRAMDAC_FP_VSYNC_END :: nat where "NV_PRAMDAC_FP_VSYNC_END \<equiv> 0x810"
abbreviation (input) NV_PRAMDAC_FP_VVALID_END :: nat where "NV_PRAMDAC_FP_VVALID_END \<equiv> 0x818"
abbreviation (input) NV_PRAMDAC_FP_HDISPLAY_END :: nat where "NV_PRAMDAC_FP_HDISPLAY_END \<equiv> 0x820"
abbreviation (input) NV_PRAMDAC_FP_HCRTC :: nat where "NV_PRAMDAC_FP_HCRTC \<equiv> 0x828"
abbreviation (input) NV_PRAMDAC_FP_HVALID_END :: nat where "NV_PRAMDAC_FP_HVALID_END \<equiv> 0x838"
abbreviation (input) NV2A_CRYSTAL_FREQ :: u32 where "NV2A_CRYSTAL_FREQ \<equiv> 16666666"

abbreviation (input) NV_USER_DAC_WRITE_MODE_ADDRESS :: nat where "NV_USER_DAC_WRITE_MODE_ADDRESS \<equiv> 0x3C8"
abbreviation (input) NV_USER_DAC_PALETTE_DATA :: nat where "NV_USER_DAC_PALETTE_DATA \<equiv> 0x3C9"

abbreviation (input) NV_DMA_CLASS :: u32 where "NV_DMA_CLASS \<equiv> 0xFFF"
abbreviation (input) NV_DMA_TARGET :: u32 where "NV_DMA_TARGET \<equiv> 0x30000"
abbreviation (input) NV_DMA_ADJUST :: u32 where "NV_DMA_ADJUST \<equiv> 0xFFF00000"
abbreviation (input) NV_DMA_ADDRESS :: u32 where "NV_DMA_ADDRESS \<equiv> 0xFFFFF000"

abbreviation (input) VGA_MAX_HEIGHT :: nat where "VGA_MAX_HEIGHT \<equiv> 2048"
abbreviation (input) VGA_CRTC_OVERFLOW :: nat where "VGA_CRTC_OVERFLOW \<equiv> 0x07"
abbreviation (input) VGA_CRTC_MAX_SCAN :: nat where "VGA_CRTC_MAX_SCAN \<equiv> 0x09"
abbreviation (input) VGA_CRTC_LINE_COMPARE :: nat where "VGA_CRTC_LINE_COMPARE \<equiv> 0x18"

section \<open>State\<close>

text \<open>
  \<open>NV2AState\<close> with the anonymous structures of the blocks flattened. Of the VGA core only what the
  chip's own code reads or changes is kept: the CRTC registers, the flip-flop of the attribute
  controller, the miscellaneous output register and the table of scanlines to redraw.
\<close>

record context_surfaces_2d_state =
  cs_object_instance :: u64
  cs_dma_image_source :: u64
  cs_dma_image_dest :: u64
  cs_color_format :: u32
  cs_source_pitch :: u32
  cs_dest_pitch :: u32
  cs_source_offset :: u64
  cs_dest_offset :: u64

record image_blit_state =
  ib_object_instance :: u64
  ib_context_surfaces :: u64
  ib_operation :: u32
  ib_in_x :: u32
  ib_in_y :: u32
  ib_out_x :: u32
  ib_out_y :: u32
  ib_width :: u32
  ib_height :: u32

record beta_state =
  bs_object_instance :: u64
  bs_beta :: u32

text \<open>What the code outside the host's graphics library uses of a surface that is kept on the host.\<close>

record surface_binding =
  sb_vram_addr :: u64
  sb_width :: u32
  sb_height :: u32
  sb_draw_dirty :: bool
  sb_download_pending :: bool
  sb_upload_pending :: bool

datatype dirty_client = DIRTY_MEMORY_VGA | DIRTY_MEMORY_NV2A_TEX

record surface_shape =
  ss_z_format :: u32
  ss_color_format :: u32
  ss_zeta_format :: u32
  ss_log_width :: u32
  ss_log_height :: u32
  ss_clip_x :: u32
  ss_clip_y :: u32
  ss_clip_width :: u32
  ss_clip_height :: u32
  ss_anti_aliasing :: u32

record surface =
  su_draw_dirty :: bool
  su_buffer_dirty :: bool
  su_write_enabled_cache :: bool
  su_pitch :: u32
  su_offset :: u64

text \<open>The part of \<open>PGRAPHState\<close> that only the methods of the three-dimensional class and the renderers use. A
  float is kept as the word that the guest sent.\<close>

record pgraph_kelvin =
  dma_color :: u64
  dma_zeta :: u64
  surface_color :: surface
  surface_zeta :: surface
  surface_type :: u32
  surface_shape :: surface_shape
  dma_a :: u64
  dma_b :: u64
  texture_dirty :: "nat \<Rightarrow> bool"
  texture_matrix_enable :: "nat \<Rightarrow> bool"
  dma_state :: u64
  dma_notifies :: u64
  dma_semaphore :: u64
  dma_report :: u64
  zpass_pixel_count_enable :: bool
  dma_vertex_a :: u64
  dma_vertex_b :: u64
  enable_vertex_program_write :: bool
  vertex_state_shader_v0 :: "nat \<Rightarrow> u32"
  program_data :: "nat \<Rightarrow> nat \<Rightarrow> u32"
  program_data_dirty :: bool
  ltctxa :: "nat \<Rightarrow> nat \<Rightarrow> u32"
  ltctxa_dirty :: "nat \<Rightarrow> bool"
  ltctxb :: "nat \<Rightarrow> nat \<Rightarrow> u32"
  ltctxb_dirty :: "nat \<Rightarrow> bool"
  ltc1 :: "nat \<Rightarrow> nat \<Rightarrow> u32"
  ltc1_dirty :: "nat \<Rightarrow> bool"
  material_alpha :: u32
  light_infinite_half_vector :: "nat \<Rightarrow> nat \<Rightarrow> u32"
  light_infinite_direction :: "nat \<Rightarrow> nat \<Rightarrow> u32"
  light_local_position :: "nat \<Rightarrow> nat \<Rightarrow> u32"
  light_local_attenuation :: "nat \<Rightarrow> nat \<Rightarrow> u32"
  specular_params :: "nat \<Rightarrow> u32"
  specular_power :: u32
  specular_params_back :: "nat \<Rightarrow> u32"
  specular_power_back :: u32
  point_params :: "nat \<Rightarrow> u32"

record nv2a =
  nv_irq :: bool
  vram_size :: nat
  vram :: memory
  ramin_size :: nat
  ramin :: memory
  pci_config :: memory
  vga_cr :: "nat \<Rightarrow> u8"
  vga_msr :: u8
  vga_ar_flip_flop :: bool
  vga_invalidated :: "nat \<Rightarrow> bool"
  pmc_pending :: u32
  pmc_enabled :: u32
  pfifo_pending :: u32
  pfifo_enabled :: u32
  pfifo_regs :: "nat \<Rightarrow> u32"
  fifo_kick :: bool
  fifo_halt :: bool
  pvideo_regs :: "nat \<Rightarrow> u32"
  ptimer_pending :: u32
  ptimer_enabled :: u32
  ptimer_numerator :: u32
  ptimer_denominator :: u32
  ptimer_alarm_time :: u32
  pfb_regs :: "nat \<Rightarrow> u32"
  pgraph_pending :: u32
  pgraph_enabled :: u32
  pgraph_regs :: "nat \<Rightarrow> u32"
  pgraph_dirty :: "nat \<Rightarrow> bool"
  waiting_for_nop :: bool
  waiting_for_flip :: bool
  waiting_for_context_switch :: bool
  vsh_constants :: "nat \<Rightarrow> nat \<Rightarrow> u32"
  vsh_constants_dirty :: "nat \<Rightarrow> bool"
  context_surfaces_2d :: context_surfaces_2d_state
  image_blit :: image_blit_state
  beta :: beta_state
  kelvin_object_instance :: u64
  pg_kelvin :: pgraph_kelvin
  gl_surfaces :: "surface_binding list"
  draw_time :: int
  vram_dirty :: "(dirty_client \<times> u64 \<times> u64) list"
  pg_draw :: pgraph_draw
  pcrtc_pending :: u32
  pcrtc_enabled :: u32
  pcrtc_start :: u64
  pcrtc_raster :: u32
  core_clock_coeff :: u32
  core_clock_freq :: u64
  memory_clock_coeff :: u32
  video_clock_coeff :: u32
  general_control :: u32
  fp_vdisplay_end :: u32
  fp_vcrtc :: u32
  fp_vsync_end :: u32
  fp_vvalid_end :: u32
  fp_hdisplay_end :: u32
  fp_hcrtc :: u32
  fp_hvalid_end :: u32
  dac_address :: u16
  dac_palette :: "u8 list"

text \<open>Little-endian words in a byte memory: \<open>ldl_le_p\<close> and \<open>stl_le_p\<close>.\<close>

definition ldl_le_p :: "memory \<Rightarrow> nat \<Rightarrow> u32" where
  "ldl_le_p m a = le32 (m a) (m (a + 1)) (m (a + 2)) (m (a + 3))"

definition stl_le_p :: "memory \<Rightarrow> nat \<Rightarrow> u32 \<Rightarrow> memory" where
  "stl_le_p m a v = dma_write m a (le32_bytes v)"

lemma ldl_stl: "ldl_le_p (stl_le_p m a v) a = v"
  by (simp add: ldl_le_p_def stl_le_p_def dma_write_def le32_le32_bytes)

lemma ldl_stl_other: "a + 4 \<le> b \<or> b + 4 \<le> a \<Longrightarrow> ldl_le_p (stl_le_p m a v) b = ldl_le_p m b"
  by (auto simp: ldl_le_p_def stl_le_p_def dma_write_def)

section \<open>Interrupt aggregation\<close>

definition nv2a_update_irq :: "nv2a \<Rightarrow> nv2a" where
  "nv2a_update_irq d =
     (let d = (if pfifo_pending d AND pfifo_enabled d \<noteq> 0
               then d\<lparr>pmc_pending := pmc_pending d OR NV_PMC_INTR_0_PFIFO\<rparr>
               else d\<lparr>pmc_pending := pmc_pending d AND NOT NV_PMC_INTR_0_PFIFO\<rparr>);
          d = (if pcrtc_pending d AND pcrtc_enabled d \<noteq> 0
               then d\<lparr>pmc_pending := pmc_pending d OR NV_PMC_INTR_0_PCRTC\<rparr>
               else d\<lparr>pmc_pending := pmc_pending d AND NOT NV_PMC_INTR_0_PCRTC\<rparr>);
          d = (if pgraph_pending d AND pgraph_enabled d \<noteq> 0
               then d\<lparr>pmc_pending := pmc_pending d OR NV_PMC_INTR_0_PGRAPH\<rparr>
               else d\<lparr>pmc_pending := pmc_pending d AND NOT NV_PMC_INTR_0_PGRAPH\<rparr>)
      in if pmc_pending d \<noteq> 0 \<and> pmc_enabled d \<noteq> 0 then d\<lparr>nv_irq := True\<rparr> else d\<lparr>nv_irq := False\<rparr>)"

section \<open>PMC\<close>

definition pmc_read :: "nv2a \<Rightarrow> nat \<Rightarrow> u64" where
  "pmc_read d addr =
     (if addr = NV_PMC_BOOT_0 then 0x02A000A3
      else if addr = NV_PMC_INTR_0 then ucast (pmc_pending d)
      else if addr = NV_PMC_INTR_EN_0 then ucast (pmc_enabled d)
      else 0)"

definition pmc_write :: "nv2a \<Rightarrow> nat \<Rightarrow> u64 \<Rightarrow> nv2a" where
  "pmc_write d addr val =
     (if addr = NV_PMC_INTR_0 then nv2a_update_irq (d\<lparr>pmc_pending := pmc_pending d AND NOT (ucast val)\<rparr>)
      else if addr = NV_PMC_INTR_EN_0 then nv2a_update_irq (d\<lparr>pmc_enabled := ucast val\<rparr>)
      else d)"

section \<open>PBUS\<close>

definition pbus_read :: "nv2a \<Rightarrow> nat \<Rightarrow> u64" where
  "pbus_read d addr =
     (if addr = NV_PBUS_PCI_NV_0 then ucast (ldl_le_p (pci_config d) PCI_VENDOR_ID)
      else if addr = NV_PBUS_PCI_NV_1 then ucast (ldl_le_p (pci_config d) PCI_COMMAND)
      else if addr = NV_PBUS_PCI_NV_2 then ucast (ldl_le_p (pci_config d) PCI_CLASS_REVISION)
      else 0)"

definition pbus_write :: "nv2a \<Rightarrow> nat \<Rightarrow> u64 \<Rightarrow> nv2a" where
  "pbus_write d addr val =
     (if addr = NV_PBUS_PCI_NV_1
      then d\<lparr>pci_config := stl_le_p (pci_config d) PCI_COMMAND (ucast val)\<rparr> else d)"

section \<open>PTIMER\<close>

text \<open>The virtual clock in nanoseconds is an argument. A zero numerator is a division by zero.\<close>

definition ptimer_get_clock :: "nv2a \<Rightarrow> u64 \<Rightarrow> u64 option" where
  "ptimer_get_clock d now = do {
     t \<leftarrow> muldiv64 now (ucast (core_clock_freq d)) 1000000000;
     muldiv64 t (ptimer_denominator d) (ptimer_numerator d)
   }"

definition ptimer_read :: "nv2a \<Rightarrow> u64 \<Rightarrow> nat \<Rightarrow> u64 option" where
  "ptimer_read d now addr =
     (if addr = NV_PTIMER_INTR_0 then Some (ucast (ptimer_pending d))
      else if addr = NV_PTIMER_INTR_EN_0 then Some (ucast (ptimer_enabled d))
      else if addr = NV_PTIMER_NUMERATOR then Some (ucast (ptimer_numerator d))
      else if addr = NV_PTIMER_DENOMINATOR then Some (ucast (ptimer_denominator d))
      else if addr = NV_PTIMER_TIME_0 then do {
        c \<leftarrow> ptimer_get_clock d now;
        Some (push_bit 5 (c AND 0x7ffffff))
      }
      else if addr = NV_PTIMER_TIME_1 then do {
        c \<leftarrow> ptimer_get_clock d now;
        Some (drop_bit 27 c AND 0x1fffffff)
      }
      else Some 0)"

definition ptimer_write :: "nv2a \<Rightarrow> nat \<Rightarrow> u64 \<Rightarrow> nv2a" where
  "ptimer_write d addr val =
     (if addr = NV_PTIMER_INTR_0
      then nv2a_update_irq (d\<lparr>ptimer_pending := ptimer_pending d AND NOT (ucast val)\<rparr>)
      else if addr = NV_PTIMER_INTR_EN_0 then nv2a_update_irq (d\<lparr>ptimer_enabled := ucast val\<rparr>)
      else if addr = NV_PTIMER_DENOMINATOR then d\<lparr>ptimer_denominator := ucast val\<rparr>
      else if addr = NV_PTIMER_NUMERATOR then d\<lparr>ptimer_numerator := ucast val\<rparr>
      else if addr = NV_PTIMER_ALARM_0 then d\<lparr>ptimer_alarm_time := ucast val\<rparr>
      else d)"

section \<open>PCRTC\<close>

text \<open>Reading the raster register advances it.\<close>

definition pcrtc_read :: "nv2a \<Rightarrow> nat \<Rightarrow> u64 \<times> nv2a" where
  "pcrtc_read d addr =
     (if addr = NV_PCRTC_INTR_0 then (ucast (pcrtc_pending d), d)
      else if addr = NV_PCRTC_INTR_EN_0 then (ucast (pcrtc_enabled d), d)
      else if addr = NV_PCRTC_START then (pcrtc_start d, d)
      else if addr = NV_PCRTC_RASTER then (ucast (pcrtc_raster d), d\<lparr>pcrtc_raster := pcrtc_raster d + 1\<rparr>)
      else (0, d))"

definition pcrtc_write :: "nv2a \<Rightarrow> nat \<Rightarrow> u64 \<Rightarrow> nv2a" where
  "pcrtc_write d addr val =
     (if addr = NV_PCRTC_INTR_0 then nv2a_update_irq (d\<lparr>pcrtc_pending := pcrtc_pending d AND NOT (ucast val)\<rparr>)
      else if addr = NV_PCRTC_INTR_EN_0 then nv2a_update_irq (d\<lparr>pcrtc_enabled := ucast val\<rparr>)
      else if addr = NV_PCRTC_START then d\<lparr>pcrtc_start := val AND 0x07FFFFFF\<rparr>
      else d)"

text \<open>What the display update callback adds to the VGA core's own update.\<close>

definition nv2a_vga_gfx_update :: "nv2a \<Rightarrow> nv2a" where
  "nv2a_vga_gfx_update d =
     nv2a_update_irq (d\<lparr>pcrtc_pending := pcrtc_pending d OR NV_PCRTC_INTR_0_VBLANK, pcrtc_raster := 0\<rparr>)"

section \<open>PVIDEO\<close>

definition vga_invalidate_scanlines :: "nv2a \<Rightarrow> nat \<Rightarrow> nat \<Rightarrow> nv2a" where
  "vga_invalidate_scanlines d y1 y2 =
     (if y1 \<ge> VGA_MAX_HEIGHT then d
      else (let y2 = (if y2 \<ge> VGA_MAX_HEIGHT then VGA_MAX_HEIGHT else y2)
            in d\<lparr>vga_invalidated := (\<lambda>y. vga_invalidated d y \<or> y1 \<le> y \<and> y < y2)\<rparr>))"

definition pvideo_vga_invalidate :: "nv2a \<Rightarrow> nv2a" where
  "pvideo_vga_invalidate d =
     (let y1 = unat (get_mask (pvideo_regs d NV_PVIDEO_POINT_OUT) NV_PVIDEO_POINT_OUT_Y);
          y2 = y1 + unat (get_mask (pvideo_regs d NV_PVIDEO_SIZE_OUT) NV_PVIDEO_SIZE_OUT_HEIGHT)
      in vga_invalidate_scanlines d y1 y2)"

definition pvideo_read :: "nv2a \<Rightarrow> nat \<Rightarrow> u64 option" where
  "pvideo_read d addr =
     (if addr = NV_PVIDEO_STOP then Some 0
      else do { assert_that (addr < 0x1000); Some (ucast (pvideo_regs d addr)) })"

definition pvideo_write :: "nv2a \<Rightarrow> nat \<Rightarrow> u64 \<Rightarrow> nv2a option" where
  "pvideo_write d addr val =
     (if addr = NV_PVIDEO_BUFFER
      then Some (pvideo_vga_invalidate (d\<lparr>pvideo_regs := (pvideo_regs d)(addr := ucast val)\<rparr>))
      else if addr = NV_PVIDEO_STOP
      then Some (pvideo_vga_invalidate
        (if val AND 1 \<noteq> 0 then d\<lparr>pvideo_regs := (pvideo_regs d)(NV_PVIDEO_BUFFER := 0)\<rparr> else d))
      else do { assert_that (addr < 0x1000); Some (d\<lparr>pvideo_regs := (pvideo_regs d)(addr := ucast val)\<rparr>) })"

section \<open>PFB\<close>

definition pfb_read :: "nv2a \<Rightarrow> nat \<Rightarrow> u64 option" where
  "pfb_read d addr =
     (if addr = NV_PFB_CSTATUS then Some (of_nat (vram_size d))
      else if addr = NV_PFB_WBC then Some 0
      else do { assert_that (addr < 0x1000); Some (ucast (pfb_regs d addr)) })"

definition pfb_write :: "nv2a \<Rightarrow> nat \<Rightarrow> u64 \<Rightarrow> nv2a option" where
  "pfb_write d addr val = do {
     assert_that (addr < 0x1000);
     Some (d\<lparr>pfb_regs := (pfb_regs d)(addr := ucast val)\<rparr>)
   }"

section \<open>PRAMDAC\<close>

definition pramdac_reg :: "nv2a \<Rightarrow> nat \<Rightarrow> u32" where
  "pramdac_reg d a =
     (if a = NV_PRAMDAC_NVPLL_COEFF then core_clock_coeff d
      else if a = NV_PRAMDAC_MPLL_COEFF then memory_clock_coeff d
      else if a = NV_PRAMDAC_VPLL_COEFF then video_clock_coeff d
      else if a = NV_PRAMDAC_PLL_TEST_COUNTER
      then NV_PRAMDAC_PLL_TEST_COUNTER_VPLL2_LOCK OR NV_PRAMDAC_PLL_TEST_COUNTER_NVPLL_LOCK
           OR NV_PRAMDAC_PLL_TEST_COUNTER_MPLL_LOCK OR NV_PRAMDAC_PLL_TEST_COUNTER_VPLL_LOCK
      else if a = NV_PRAMDAC_GENERAL_CONTROL then general_control d
      else if a = NV_PRAMDAC_FP_VDISPLAY_END then fp_vdisplay_end d
      else if a = NV_PRAMDAC_FP_VCRTC then fp_vcrtc d
      else if a = NV_PRAMDAC_FP_VSYNC_END then fp_vsync_end d
      else if a = NV_PRAMDAC_FP_VVALID_END then fp_vvalid_end d
      else if a = NV_PRAMDAC_FP_HDISPLAY_END then fp_hdisplay_end d
      else if a = NV_PRAMDAC_FP_HCRTC then fp_hcrtc d
      else if a = NV_PRAMDAC_FP_HVALID_END then fp_hvalid_end d
      else 0)"

text \<open>The shift \<open>32 - 8 * size - 8 * (addr & 3)\<close> is unsigned; where it wraps round it is far beyond the
  width of the value, which C leaves undefined.\<close>

definition pramdac_read :: "nv2a \<Rightarrow> nat \<Rightarrow> nat \<Rightarrow> u64 option" where
  "pramdac_read d addr sz = do {
     let r = (ucast (pramdac_reg d (addr - addr mod 4)) :: u64);
     assert_that (8 * sz + 8 * (addr mod 4) \<le> 32);
     Some (drop_bit (32 - 8 * sz - 8 * (addr mod 4)) r)
   }"

definition nvpll_freq :: "u32 \<Rightarrow> u64" where
  "nvpll_freq val =
     (let m = val AND NV_PRAMDAC_NVPLL_COEFF_MDIV;
          n = drop_bit 8 (val AND NV_PRAMDAC_NVPLL_COEFF_NDIV);
          p = drop_bit 16 (val AND NV_PRAMDAC_NVPLL_COEFF_PDIV)
      in if m = 0 then 0 else ucast ((NV2A_CRYSTAL_FREQ * n) div push_bit (unat p) 1 div m))"

definition pramdac_write :: "nv2a \<Rightarrow> nat \<Rightarrow> u64 \<Rightarrow> nv2a" where
  "pramdac_write d addr val =
     (if addr = NV_PRAMDAC_NVPLL_COEFF
      then d\<lparr>core_clock_coeff := ucast val, core_clock_freq := nvpll_freq (ucast val)\<rparr>
      else if addr = NV_PRAMDAC_MPLL_COEFF then d\<lparr>memory_clock_coeff := ucast val\<rparr>
      else if addr = NV_PRAMDAC_VPLL_COEFF then d\<lparr>video_clock_coeff := ucast val\<rparr>
      else if addr = NV_PRAMDAC_GENERAL_CONTROL then d\<lparr>general_control := ucast val\<rparr>
      else if addr = NV_PRAMDAC_FP_VDISPLAY_END then d\<lparr>fp_vdisplay_end := ucast val\<rparr>
      else if addr = NV_PRAMDAC_FP_VCRTC then d\<lparr>fp_vcrtc := ucast val\<rparr>
      else if addr = NV_PRAMDAC_FP_VSYNC_END then d\<lparr>fp_vsync_end := ucast val\<rparr>
      else if addr = NV_PRAMDAC_FP_VVALID_END then d\<lparr>fp_vvalid_end := ucast val\<rparr>
      else if addr = NV_PRAMDAC_FP_HDISPLAY_END then d\<lparr>fp_hdisplay_end := ucast val\<rparr>
      else if addr = NV_PRAMDAC_FP_HCRTC then d\<lparr>fp_hcrtc := ucast val\<rparr>
      else if addr = NV_PRAMDAC_FP_HVALID_END then d\<lparr>fp_hvalid_end := ucast val\<rparr>
      else d)"

section \<open>PRMDIO: the palette\<close>

definition prmdio_read :: "nv2a \<Rightarrow> nat \<Rightarrow> u64" where
  "prmdio_read d addr = (if addr = NV_USER_DAC_WRITE_MODE_ADDRESS then ucast (dac_address d div 3) else 0)"

definition prmdio_write :: "nv2a \<Rightarrow> nat \<Rightarrow> u64 \<Rightarrow> nv2a" where
  "prmdio_write d addr val =
     (if addr = NV_USER_DAC_WRITE_MODE_ADDRESS then d\<lparr>dac_address := ucast (val AND 0xff) * 3\<rparr>
      else if addr = NV_USER_DAC_PALETTE_DATA
      then d\<lparr>dac_palette := (dac_palette d)[unat (dac_address d) mod (256 * 3) := ucast val],
             dac_address := dac_address d + 1\<rparr>
      else d)"

section \<open>DMA objects and tiles\<close>

record dma_object =
  dma_class :: u32
  dma_target :: u32
  dma_address :: u64
  dma_limit :: u64

definition nv_dma_load :: "nv2a \<Rightarrow> nat \<Rightarrow> dma_object option" where
  "nv_dma_load d dma_obj_address = do {
     assert_that (dma_obj_address < ramin_size d);
     assert_that (dma_obj_address + 12 \<le> ramin_size d);  \<comment> \<open>the three words are inside the memory\<close>
     let flags = ldl_le_p (ramin d) dma_obj_address;
     let limit = ldl_le_p (ramin d) (dma_obj_address + 4);
     let frame = ldl_le_p (ramin d) (dma_obj_address + 8);
     Some \<lparr>dma_class = get_mask flags NV_DMA_CLASS, dma_target = get_mask flags NV_DMA_TARGET,
           dma_address = ucast ((frame AND NV_DMA_ADDRESS) OR get_mask flags NV_DMA_ADJUST),
           dma_limit = ucast limit\<rparr>
   }"

text \<open>The mapping is the offset of the object in guest memory and its length.\<close>

definition nv_dma_map :: "nv2a \<Rightarrow> nat \<Rightarrow> (nat \<times> u64) option" where
  "nv_dma_map d dma_obj_address = do {
     dma \<leftarrow> nv_dma_load d dma_obj_address;
     let address = unat (dma_address dma AND 0x07FFFFFF);
     assert_that (address < vram_size d);
     Some (address, dma_limit dma)
   }"

fun clip_tiles :: "(nat \<Rightarrow> u32) \<Rightarrow> nat list \<Rightarrow> u64 \<Rightarrow> u64 \<Rightarrow> u64" where
  "clip_tiles regs [] blit_base_address len = len"
| "clip_tiles regs (i # is) blit_base_address len =
     (if regs (NV_PFB_TILE_BASE_ADDRESS_AND_FLAGS i) AND NV_PFB_TILE_FLAGS_VALID = 0
      then clip_tiles regs is blit_base_address len
      else
        (let limit = regs (NV_PFB_TILE_LIMIT i) in
         if blit_base_address < ucast limit \<and> blit_base_address + len > ucast limit
         then ucast (limit + 1) - blit_base_address
         else clip_tiles regs is blit_base_address len))"

definition nv_clip_gpu_tile_blit :: "nv2a \<Rightarrow> u64 \<Rightarrow> u64 \<Rightarrow> u64" where
  "nv_clip_gpu_tile_blit d blit_base_address len =
     clip_tiles (pfb_regs d) [0..<NV_NUM_GPU_TILES] blit_base_address len"

section \<open>Display parameters\<close>

definition nv2a_get_bpp :: "nv2a \<Rightarrow> nat option" where
  "nv2a_get_bpp d =
     (let depth = vga_cr d 0x28 AND 3 in
      if depth = 0 then Some 0
      else if depth = 2
      then Some (if general_control d AND NV_PRAMDAC_GENERAL_CONTROL_ALT_MODE_SEL \<noteq> 0 then 16 else 15)
      else if depth = 3 then Some 32
      else None)"

record vga_params =
  line_offset :: u32
  start_addr :: u64
  line_compare :: u32

definition nv2a_get_params :: "nv2a \<Rightarrow> vga_params" where
  "nv2a_get_params d =
     \<lparr>line_offset = push_bit 3 (ucast (vga_cr d 0x13) OR push_bit 3 (ucast (vga_cr d 0x19 AND 0xe0))
                     OR push_bit 6 (ucast (vga_cr d 0x25 AND 0x20))),
      start_addr = pcrtc_start d div 4,
      line_compare = ucast (vga_cr d VGA_CRTC_LINE_COMPARE)
                     OR push_bit 4 (ucast (vga_cr d VGA_CRTC_OVERFLOW AND 0x10))
                     OR push_bit 3 (ucast (vga_cr d VGA_CRTC_MAX_SCAN AND 0x40))\<rparr>"

section \<open>The initial state\<close>

text \<open>The chip before anything happened.\<close>

definition surface_blank :: surface where
  "surface_blank = \<lparr>su_draw_dirty = False, su_buffer_dirty = False, su_write_enabled_cache = False, su_pitch = 0, su_offset = 0\<rparr>"

definition kelvin_blank :: pgraph_kelvin where
  "kelvin_blank = \<lparr>dma_color = 0, dma_zeta = 0, surface_color = surface_blank, surface_zeta = surface_blank, surface_type = 0,
     surface_shape = \<lparr>ss_z_format = 0, ss_color_format = 0, ss_zeta_format = 0, ss_log_width = 0, ss_log_height = 0,
       ss_clip_x = 0, ss_clip_y = 0, ss_clip_width = 0, ss_clip_height = 0, ss_anti_aliasing = 0\<rparr>,
     dma_a = 0, dma_b = 0, texture_dirty = (\<lambda>_. False), texture_matrix_enable = (\<lambda>_. False), dma_state = 0, dma_notifies = 0,
     dma_semaphore = 0, dma_report = 0, zpass_pixel_count_enable = False, dma_vertex_a = 0, dma_vertex_b = 0,
     enable_vertex_program_write = False, vertex_state_shader_v0 = (\<lambda>_. 0), program_data = (\<lambda>_ _. 0),
     program_data_dirty = False, ltctxa = (\<lambda>_ _. 0), ltctxa_dirty = (\<lambda>_. False), ltctxb = (\<lambda>_ _. 0),
     ltctxb_dirty = (\<lambda>_. False), ltc1 = (\<lambda>_ _. 0), ltc1_dirty = (\<lambda>_. False), material_alpha = 0,
     light_infinite_half_vector = (\<lambda>_ _. 0), light_infinite_direction = (\<lambda>_ _. 0), light_local_position = (\<lambda>_ _. 0),
     light_local_attenuation = (\<lambda>_ _. 0), specular_params = (\<lambda>_. 0), specular_power = 0, specular_params_back = (\<lambda>_. 0),
     specular_power_back = 0, point_params = (\<lambda>_. 0)\<rparr>"

definition nv2a_blank :: nv2a where
  "nv2a_blank = \<lparr>nv_irq = False, vram_size = 0x4000000, vram = (\<lambda>_. 0), ramin_size = 0x100000, ramin = (\<lambda>_. 0),
     pci_config = (\<lambda>_. 0), vga_cr = (\<lambda>_. 0), vga_msr = 0, vga_ar_flip_flop = False, vga_invalidated = (\<lambda>_. False),
     pmc_pending = 0, pmc_enabled = 0, pfifo_pending = 0, pfifo_enabled = 0, pfifo_regs = (\<lambda>_. 0), fifo_kick = False,
     fifo_halt = False, pvideo_regs = (\<lambda>_. 0), ptimer_pending = 0, ptimer_enabled = 0, ptimer_numerator = 0,
     ptimer_denominator = 0, ptimer_alarm_time = 0, pfb_regs = (\<lambda>_. 0), pgraph_pending = 0, pgraph_enabled = 0,
     pgraph_regs = (\<lambda>_. 0), pgraph_dirty = (\<lambda>_. False), waiting_for_nop = False, waiting_for_flip = False,
     waiting_for_context_switch = False, vsh_constants = (\<lambda>_ _. 0), vsh_constants_dirty = (\<lambda>_. False),
     context_surfaces_2d = \<lparr>cs_object_instance = 0, cs_dma_image_source = 0, cs_dma_image_dest = 0, cs_color_format = 0,
       cs_source_pitch = 0, cs_dest_pitch = 0, cs_source_offset = 0, cs_dest_offset = 0\<rparr>,
     image_blit = \<lparr>ib_object_instance = 0, ib_context_surfaces = 0, ib_operation = 0, ib_in_x = 0, ib_in_y = 0, ib_out_x = 0,
       ib_out_y = 0, ib_width = 0, ib_height = 0\<rparr>,
     beta = \<lparr>bs_object_instance = 0, bs_beta = 0\<rparr>, kelvin_object_instance = 0, pg_kelvin = kelvin_blank, gl_surfaces = [], draw_time = 0,
     vram_dirty = [], pg_draw = draw_blank,
     pcrtc_pending = 0, pcrtc_enabled = 0, pcrtc_start = 0, pcrtc_raster = 0, core_clock_coeff = 0, core_clock_freq = 0,
     memory_clock_coeff = 0, video_clock_coeff = 0, general_control = 0, fp_vdisplay_end = 0, fp_vcrtc = 0,
     fp_vsync_end = 0, fp_vvalid_end = 0, fp_hdisplay_end = 0, fp_hcrtc = 0, fp_hvalid_end = 0, dac_address = 0,
     dac_palette = replicate 768 0\<rparr>"

end
