(* ===== verification/Pgraph.thy ===== *)
theory Pgraph
  imports Nv2a
begin

text \<open>
  PGRAPH's register window, \<open>pgraph_read\<close> and \<open>pgraph_write\<close> of \<^verbatim>\<open>hw/xbox/nv2a/pgraph/pgraph.c\<close>,
  the register accessors of \<^verbatim>\<open>pgraph.h\<close>, the indirect window of \<^verbatim>\<open>rdi.c\<close>, the context switch, and the
  methods by which a pushed command stream and the CPU wait for each other: the no-operation that
  raises an interrupt, and the flip counters.
\<close>

section \<open>Registers\<close>

abbreviation (input) NV_PGRAPH_DEBUG_3 :: nat where "NV_PGRAPH_DEBUG_3 \<equiv> 0x8C"
abbreviation (input) NV_PGRAPH_DEBUG_3_HW_CONTEXT_SWITCH :: u32 where "NV_PGRAPH_DEBUG_3_HW_CONTEXT_SWITCH \<equiv> 0x4"
abbreviation (input) NV_PGRAPH_INTR :: nat where "NV_PGRAPH_INTR \<equiv> 0x100"
abbreviation (input) NV_PGRAPH_INTR_CONTEXT_SWITCH :: u32 where "NV_PGRAPH_INTR_CONTEXT_SWITCH \<equiv> 0x1000"
abbreviation (input) NV_PGRAPH_INTR_ERROR :: u32 where "NV_PGRAPH_INTR_ERROR \<equiv> 0x100000"
abbreviation (input) NV_PGRAPH_NSOURCE :: nat where "NV_PGRAPH_NSOURCE \<equiv> 0x108"
abbreviation (input) NV_PGRAPH_NSOURCE_NOTIFICATION :: u32 where "NV_PGRAPH_NSOURCE_NOTIFICATION \<equiv> 1"
abbreviation (input) NV_PGRAPH_INTR_EN :: nat where "NV_PGRAPH_INTR_EN \<equiv> 0x140"
abbreviation (input) NV_PGRAPH_CTX_CONTROL :: nat where "NV_PGRAPH_CTX_CONTROL \<equiv> 0x144"
abbreviation (input) NV_PGRAPH_CTX_CONTROL_CHID :: u32 where "NV_PGRAPH_CTX_CONTROL_CHID \<equiv> 0x10000"
abbreviation (input) NV_PGRAPH_CTX_USER :: nat where "NV_PGRAPH_CTX_USER \<equiv> 0x148"
abbreviation (input) NV_PGRAPH_CTX_USER_CHID :: u32 where "NV_PGRAPH_CTX_USER_CHID \<equiv> 0x1F000000"
abbreviation (input) NV_PGRAPH_TRAPPED_ADDR :: nat where "NV_PGRAPH_TRAPPED_ADDR \<equiv> 0x704"
abbreviation (input) NV_PGRAPH_TRAPPED_ADDR_MTHD :: u32 where "NV_PGRAPH_TRAPPED_ADDR_MTHD \<equiv> 0x1FFF"
abbreviation (input) NV_PGRAPH_TRAPPED_ADDR_SUBCH :: u32 where "NV_PGRAPH_TRAPPED_ADDR_SUBCH \<equiv> 0x70000"
abbreviation (input) NV_PGRAPH_TRAPPED_ADDR_CHID :: u32 where "NV_PGRAPH_TRAPPED_ADDR_CHID \<equiv> 0x1F00000"
abbreviation (input) NV_PGRAPH_TRAPPED_DATA_LOW :: nat where "NV_PGRAPH_TRAPPED_DATA_LOW \<equiv> 0x708"
abbreviation (input) NV_PGRAPH_SURFACE :: nat where "NV_PGRAPH_SURFACE \<equiv> 0x710"
abbreviation (input) NV_PGRAPH_SURFACE_WRITE_3D :: u32 where "NV_PGRAPH_SURFACE_WRITE_3D \<equiv> 0x700000"
abbreviation (input) NV_PGRAPH_SURFACE_READ_3D :: u32 where "NV_PGRAPH_SURFACE_READ_3D \<equiv> 0x7000000"
abbreviation (input) NV_PGRAPH_SURFACE_MODULO_3D :: u32 where "NV_PGRAPH_SURFACE_MODULO_3D \<equiv> 0x70000000"
abbreviation (input) NV_PGRAPH_INCREMENT :: nat where "NV_PGRAPH_INCREMENT \<equiv> 0x71C"
abbreviation (input) NV_PGRAPH_INCREMENT_READ_3D :: u64 where "NV_PGRAPH_INCREMENT_READ_3D \<equiv> 0x2"
abbreviation (input) NV_PGRAPH_FIFO :: nat where "NV_PGRAPH_FIFO \<equiv> 0x720"
abbreviation (input) NV_PGRAPH_FIFO_ACCESS :: u32 where "NV_PGRAPH_FIFO_ACCESS \<equiv> 1"
abbreviation (input) NV_PGRAPH_RDI_INDEX :: nat where "NV_PGRAPH_RDI_INDEX \<equiv> 0x750"
abbreviation (input) NV_PGRAPH_RDI_INDEX_ADDRESS :: u32 where "NV_PGRAPH_RDI_INDEX_ADDRESS \<equiv> 0x1FFC"
abbreviation (input) NV_PGRAPH_RDI_INDEX_SELECT :: u32 where "NV_PGRAPH_RDI_INDEX_SELECT \<equiv> 0x1FF0000"
abbreviation (input) NV_PGRAPH_RDI_DATA :: nat where "NV_PGRAPH_RDI_DATA \<equiv> 0x754"
abbreviation (input) NV_PGRAPH_CHANNEL_CTX_POINTER :: nat where "NV_PGRAPH_CHANNEL_CTX_POINTER \<equiv> 0x784"
abbreviation (input) NV_PGRAPH_CHANNEL_CTX_POINTER_INST :: u32 where "NV_PGRAPH_CHANNEL_CTX_POINTER_INST \<equiv> 0xFFFF"
abbreviation (input) NV_PGRAPH_CHANNEL_CTX_TRIGGER :: nat where "NV_PGRAPH_CHANNEL_CTX_TRIGGER \<equiv> 0x788"
abbreviation (input) NV_PGRAPH_CHANNEL_CTX_TRIGGER_READ_IN :: u64 where "NV_PGRAPH_CHANNEL_CTX_TRIGGER_READ_IN \<equiv> 1"
abbreviation (input) RDI_INDEX_VTX_CONSTANTS0 :: u32 where "RDI_INDEX_VTX_CONSTANTS0 \<equiv> 0x17"
abbreviation (input) RDI_INDEX_VTX_CONSTANTS1 :: u32 where "RDI_INDEX_VTX_CONSTANTS1 \<equiv> 0xCC"
abbreviation (input) NV2A_VERTEXSHADER_CONSTANTS :: nat where "NV2A_VERTEXSHADER_CONSTANTS \<equiv> 192"

section \<open>Register accessors\<close>

text \<open>The array has \<open>0x2000\<close> entries and is indexed by the byte offset of the register.\<close>

definition pgraph_reg_r :: "nv2a \<Rightarrow> nat \<Rightarrow> u32 option" where
  "pgraph_reg_r d r = do {
     assert_that (r mod 4 = 0);
     assert_that (r < 0x2000);
     Some (pgraph_regs d r)
   }"

definition pgraph_reg_w :: "nv2a \<Rightarrow> nat \<Rightarrow> u32 \<Rightarrow> nv2a option" where
  "pgraph_reg_w d r v = do {
     assert_that (r mod 4 = 0);
     assert_that (r < 0x2000);
     let d = (if pgraph_regs d r \<noteq> v then d\<lparr>pgraph_dirty := (pgraph_dirty d)(r div 4 := True)\<rparr> else d);
     Some (d\<lparr>pgraph_regs := (pgraph_regs d)(r := v)\<rparr>)
   }"

definition pg_get_mask :: "nv2a \<Rightarrow> nat \<Rightarrow> u32 \<Rightarrow> u32 option" where
  "pg_get_mask d reg m = do { v \<leftarrow> pgraph_reg_r d reg; Some (get_mask v m) }"

definition pg_set_mask :: "nv2a \<Rightarrow> nat \<Rightarrow> u32 \<Rightarrow> u32 \<Rightarrow> nv2a option" where
  "pg_set_mask d reg m v = do { rv \<leftarrow> pgraph_reg_r d reg; pgraph_reg_w d reg (set_mask rv m v) }"

definition pgraph_is_reg_dirty :: "nv2a \<Rightarrow> nat \<Rightarrow> bool" where
  "pgraph_is_reg_dirty d reg = pgraph_dirty d (reg div 4)"

definition pgraph_clear_dirty_reg_map :: "nv2a \<Rightarrow> nv2a" where
  "pgraph_clear_dirty_reg_map d = d\<lparr>pgraph_dirty := (\<lambda>_. False)\<rparr>"

section \<open>Indirect access\<close>

definition pgraph_rdi_read :: "nv2a \<Rightarrow> u32 \<Rightarrow> u32 \<Rightarrow> u32 option" where
  "pgraph_rdi_read d select address =
     (if select = RDI_INDEX_VTX_CONSTANTS0 \<or> select = RDI_INDEX_VTX_CONSTANTS1 then do {
        assert_that (unat address div 4 < NV2A_VERTEXSHADER_CONSTANTS);
        Some (vsh_constants d (unat address div 4) (3 - unat address mod 4))
      }
      else None)"

text \<open>The write to the vertex constants is behind an assertion that always fails.\<close>

definition pgraph_rdi_write :: "nv2a \<Rightarrow> u32 \<Rightarrow> u32 \<Rightarrow> u32 \<Rightarrow> nv2a option" where
  "pgraph_rdi_write d select address val =
     (if select = RDI_INDEX_VTX_CONSTANTS0 \<or> select = RDI_INDEX_VTX_CONSTANTS1 then None else Some d)"

section \<open>Guest accesses\<close>

definition pfifo_kick :: "nv2a \<Rightarrow> nv2a" where
  "pfifo_kick d = d\<lparr>fifo_kick := True\<rparr>"

definition rdi_advance :: "nv2a \<Rightarrow> u32 \<Rightarrow> nv2a option" where
  "rdi_advance d address = do {
     assert_that (address < get_mask NV_PGRAPH_RDI_INDEX_ADDRESS NV_PGRAPH_RDI_INDEX_ADDRESS);
     pg_set_mask d NV_PGRAPH_RDI_INDEX NV_PGRAPH_RDI_INDEX_ADDRESS (address + 1)
   }"

definition pgraph_read :: "nv2a \<Rightarrow> nat \<Rightarrow> (u64 \<times> nv2a) option" where
  "pgraph_read d addr =
     (if addr = NV_PGRAPH_INTR then Some (ucast (pgraph_pending d), d)
      else if addr = NV_PGRAPH_INTR_EN then Some (ucast (pgraph_enabled d), d)
      else if addr = NV_PGRAPH_RDI_DATA then do {
        select \<leftarrow> pg_get_mask d NV_PGRAPH_RDI_INDEX NV_PGRAPH_RDI_INDEX_SELECT;
        address \<leftarrow> pg_get_mask d NV_PGRAPH_RDI_INDEX NV_PGRAPH_RDI_INDEX_ADDRESS;
        r \<leftarrow> pgraph_rdi_read d select address;
        d \<leftarrow> rdi_advance d address;
        Some (ucast r, d)
      }
      else do { r \<leftarrow> pgraph_reg_r d addr; Some (ucast r, d) })"

text \<open>A flip counter: one more, modulo the register's modulus; a zero modulus is a division by zero.\<close>

definition flip_increment :: "nv2a \<Rightarrow> u32 \<Rightarrow> nv2a option" where
  "flip_increment d counter = do {
     c \<leftarrow> pg_get_mask d NV_PGRAPH_SURFACE counter;
     m \<leftarrow> pg_get_mask d NV_PGRAPH_SURFACE NV_PGRAPH_SURFACE_MODULO_3D;
     assert_that (m \<noteq> 0);
     pg_set_mask d NV_PGRAPH_SURFACE counter ((c + 1) mod m)
   }"

definition pgraph_write :: "nv2a \<Rightarrow> nat \<Rightarrow> u64 \<Rightarrow> nv2a option" where
  "pgraph_write d addr val = do {
     d \<leftarrow>
       (if addr = NV_PGRAPH_INTR then
          (let d = d\<lparr>pgraph_pending := pgraph_pending d AND NOT (ucast val)\<rparr>;
               d = (if pgraph_pending d AND NV_PGRAPH_INTR_ERROR = 0 then d\<lparr>waiting_for_nop := False\<rparr> else d);
               d = (if pgraph_pending d AND NV_PGRAPH_INTR_CONTEXT_SWITCH = 0
                    then d\<lparr>waiting_for_context_switch := False\<rparr> else d)
           in Some (pfifo_kick d))
        else if addr = NV_PGRAPH_INTR_EN then Some (d\<lparr>pgraph_enabled := ucast val\<rparr>)
        else if addr = NV_PGRAPH_INCREMENT then
          (if val AND NV_PGRAPH_INCREMENT_READ_3D \<noteq> 0
           then do { d \<leftarrow> flip_increment d NV_PGRAPH_SURFACE_READ_3D; Some (pfifo_kick d) }
           else Some d)
        else if addr = NV_PGRAPH_RDI_DATA then do {
          select \<leftarrow> pg_get_mask d NV_PGRAPH_RDI_INDEX NV_PGRAPH_RDI_INDEX_SELECT;
          address \<leftarrow> pg_get_mask d NV_PGRAPH_RDI_INDEX NV_PGRAPH_RDI_INDEX_ADDRESS;
          d \<leftarrow> pgraph_rdi_write d select address (ucast val);
          rdi_advance d address
        }
        else if addr = NV_PGRAPH_CHANNEL_CTX_TRIGGER then do {
          inst \<leftarrow> pg_get_mask d NV_PGRAPH_CHANNEL_CTX_POINTER NV_PGRAPH_CHANNEL_CTX_POINTER_INST;
          let context_address = unat (push_bit 4 inst);
          if val AND NV_PGRAPH_CHANNEL_CTX_TRIGGER_READ_IN \<noteq> 0 then do {
            assert_that (context_address < ramin_size d);
            assert_that (context_address + 4 \<le> ramin_size d);
            pgraph_reg_w d NV_PGRAPH_CTX_USER (ldl_le_p (ramin d) context_address)
          }
          else Some d
        }
        else pgraph_reg_w d addr (ucast val));
     Some (if addr = NV_PGRAPH_FIFO then pfifo_kick d else d)
   }"

section \<open>Context switch and methods that wait\<close>

definition pgraph_context_switch :: "nv2a \<Rightarrow> u32 \<Rightarrow> nv2a option" where
  "pgraph_context_switch d channel_id = do {
     ctl \<leftarrow> pgraph_reg_r d NV_PGRAPH_CTX_CONTROL;
     chid \<leftarrow> pg_get_mask d NV_PGRAPH_CTX_USER NV_PGRAPH_CTX_USER_CHID;
     if ctl AND NV_PGRAPH_CTX_CONTROL_CHID \<noteq> 0 \<and> chid = channel_id then Some d
     else do {
       d \<leftarrow> pg_set_mask d NV_PGRAPH_TRAPPED_ADDR NV_PGRAPH_TRAPPED_ADDR_CHID channel_id;
       hw \<leftarrow> pg_get_mask d NV_PGRAPH_DEBUG_3 NV_PGRAPH_DEBUG_3_HW_CONTEXT_SWITCH;
       assert_that (hw = 0);
       let d = d\<lparr>waiting_for_context_switch := True\<rparr>;
       Some (nv2a_update_irq (d\<lparr>pgraph_pending := pgraph_pending d OR NV_PGRAPH_INTR_CONTEXT_SWITCH\<rparr>))
     }
   }"

definition NV097_NO_OPERATION_handler :: "nv2a \<Rightarrow> u32 \<Rightarrow> u32 \<Rightarrow> u32 \<Rightarrow> nv2a option" where
  "NV097_NO_OPERATION_handler d subchannel meth parameter =
     (if parameter = 0 then Some d
      else do {
        chid \<leftarrow> pg_get_mask d NV_PGRAPH_CTX_USER NV_PGRAPH_CTX_USER_CHID;
        assert_that (pgraph_pending d AND NV_PGRAPH_INTR_ERROR = 0);
        d \<leftarrow> pg_set_mask d NV_PGRAPH_TRAPPED_ADDR NV_PGRAPH_TRAPPED_ADDR_CHID chid;
        d \<leftarrow> pg_set_mask d NV_PGRAPH_TRAPPED_ADDR NV_PGRAPH_TRAPPED_ADDR_SUBCH subchannel;
        d \<leftarrow> pg_set_mask d NV_PGRAPH_TRAPPED_ADDR NV_PGRAPH_TRAPPED_ADDR_MTHD meth;
        d \<leftarrow> pgraph_reg_w d NV_PGRAPH_TRAPPED_DATA_LOW parameter;
        d \<leftarrow> pgraph_reg_w d NV_PGRAPH_NSOURCE NV_PGRAPH_NSOURCE_NOTIFICATION;
        Some (nv2a_update_irq (d\<lparr>pgraph_pending := pgraph_pending d OR NV_PGRAPH_INTR_ERROR,
                                 waiting_for_nop := True\<rparr>))
      })"

definition NV097_SET_FLIP_READ_handler :: "nv2a \<Rightarrow> u32 \<Rightarrow> nv2a option" where
  "NV097_SET_FLIP_READ_handler d parameter =
     pg_set_mask d NV_PGRAPH_SURFACE NV_PGRAPH_SURFACE_READ_3D parameter"

definition NV097_SET_FLIP_WRITE_handler :: "nv2a \<Rightarrow> u32 \<Rightarrow> nv2a option" where
  "NV097_SET_FLIP_WRITE_handler d parameter =
     pg_set_mask d NV_PGRAPH_SURFACE NV_PGRAPH_SURFACE_WRITE_3D parameter"

definition NV097_SET_FLIP_MODULO_handler :: "nv2a \<Rightarrow> u32 \<Rightarrow> nv2a option" where
  "NV097_SET_FLIP_MODULO_handler d parameter =
     pg_set_mask d NV_PGRAPH_SURFACE NV_PGRAPH_SURFACE_MODULO_3D parameter"

text \<open>The frame counter that the increment also bumps is a statistic and is left out.\<close>

definition NV097_FLIP_INCREMENT_WRITE_handler :: "nv2a \<Rightarrow> nv2a option" where
  "NV097_FLIP_INCREMENT_WRITE_handler d = flip_increment d NV_PGRAPH_SURFACE_WRITE_3D"

text \<open>The renderer is told to finish its surfaces and to present before the flag is set.\<close>

definition NV097_FLIP_STALL_handler :: "nv2a \<Rightarrow> nv2a" where
  "NV097_FLIP_STALL_handler d = d\<lparr>waiting_for_flip := True\<rparr>"

section \<open>Lemmas\<close>

lemma pgraph_reg_w_eq:
  "r mod 4 = 0 \<Longrightarrow> r < 0x2000 \<Longrightarrow>
   pgraph_reg_w d r v = Some (d\<lparr>pgraph_dirty := (pgraph_dirty d)(r div 4 := pgraph_dirty d (r div 4) \<or> pgraph_regs d r \<noteq> v),
     pgraph_regs := (pgraph_regs d)(r := v)\<rparr>)"
  by (auto simp: pgraph_reg_w_def intro: nv2a.equality)

lemma pgraph_reg_r_eq: "r mod 4 = 0 \<Longrightarrow> r < 0x2000 \<Longrightarrow> pgraph_reg_r d r = Some (pgraph_regs d r)"
  by (simp add: pgraph_reg_r_def)

lemma pg_get_mask_eq: "r mod 4 = 0 \<Longrightarrow> r < 0x2000 \<Longrightarrow> pg_get_mask d r m = Some (get_mask (pgraph_regs d r) m)"
  by (simp add: pg_get_mask_def pgraph_reg_r_eq)

lemma pg_set_mask_eq:
  "r mod 4 = 0 \<Longrightarrow> r < 0x2000 \<Longrightarrow>
   pg_set_mask d r m x = Some (d\<lparr>pgraph_dirty := (pgraph_dirty d)(r div 4 := pgraph_dirty d (r div 4)
        \<or> pgraph_regs d r \<noteq> set_mask (pgraph_regs d r) m x),
     pgraph_regs := (pgraph_regs d)(r := set_mask (pgraph_regs d r) m x)\<rparr>)"
  by (simp add: pg_set_mask_def pgraph_reg_r_eq pgraph_reg_w_eq)

lemmas pgraph_regs_eq = pgraph_reg_r_eq pgraph_reg_w_eq pg_get_mask_eq pg_set_mask_eq

end
