(* ===== verification/Pfifo.thy ===== *)
theory Pfifo
  imports Pgraph
begin

text \<open>
  PFIFO, \<^verbatim>\<open>hw/xbox/nv2a/pfifo.c\<close>, and the channel window of \<^verbatim>\<open>user.c\<close>: the DMA pusher that reads the
  command stream from guest memory, the puller that resolves object handles through the RAMHT hash
  table and hands methods to PGRAPH, and the conditions under which both stand still.

  What takes the methods is an argument of the puller and the pusher, so that their lemmas hold for every such engine:
  a function from the state, the subchannel, the method, the parameter, the address of the
  parameter words, the two counts and the increment flag to the number of words it took and the
  new state. \<^verbatim>\<open>Pgraph_Method\<close> has the engine of the code, \<open>pgraph_method\<close>. The pusher's loop is given fuel; its
  result says whether the loop came to its end.
\<close>

section \<open>Registers\<close>

abbreviation (input) NV_PFIFO_INTR_0 :: nat where "NV_PFIFO_INTR_0 \<equiv> 0x100"
abbreviation (input) NV_PFIFO_INTR_EN_0 :: nat where "NV_PFIFO_INTR_EN_0 \<equiv> 0x140"
abbreviation (input) NV_PFIFO_RAMHT :: nat where "NV_PFIFO_RAMHT \<equiv> 0x210"
abbreviation (input) NV_PFIFO_RAMHT_BASE_ADDRESS :: u32 where "NV_PFIFO_RAMHT_BASE_ADDRESS \<equiv> 0x1F0"
abbreviation (input) NV_PFIFO_RAMHT_SIZE :: u32 where "NV_PFIFO_RAMHT_SIZE \<equiv> 0x30000"
abbreviation (input) NV_PFIFO_RUNOUT_STATUS :: nat where "NV_PFIFO_RUNOUT_STATUS \<equiv> 0x400"
abbreviation (input) NV_PFIFO_RUNOUT_STATUS_LOW_MARK :: u32 where "NV_PFIFO_RUNOUT_STATUS_LOW_MARK \<equiv> 0x10"
abbreviation (input) NV_PFIFO_MODE :: nat where "NV_PFIFO_MODE \<equiv> 0x504"
abbreviation (input) NV_PFIFO_CACHE1_PUSH0 :: nat where "NV_PFIFO_CACHE1_PUSH0 \<equiv> 0x1200"
abbreviation (input) NV_PFIFO_CACHE1_PUSH0_ACCESS :: u32 where "NV_PFIFO_CACHE1_PUSH0_ACCESS \<equiv> 1"
abbreviation (input) NV_PFIFO_CACHE1_PUSH1 :: nat where "NV_PFIFO_CACHE1_PUSH1 \<equiv> 0x1204"
abbreviation (input) NV_PFIFO_CACHE1_PUSH1_CHID :: u32 where "NV_PFIFO_CACHE1_PUSH1_CHID \<equiv> 0x1F"
abbreviation (input) NV_PFIFO_CACHE1_PUSH1_MODE :: u32 where "NV_PFIFO_CACHE1_PUSH1_MODE \<equiv> 0x100"
abbreviation (input) NV_PFIFO_CACHE1_PUSH1_MODE_DMA :: u32 where "NV_PFIFO_CACHE1_PUSH1_MODE_DMA \<equiv> 1"
abbreviation (input) NV_PFIFO_CACHE1_STATUS :: nat where "NV_PFIFO_CACHE1_STATUS \<equiv> 0x1214"
abbreviation (input) NV_PFIFO_CACHE1_STATUS_LOW_MARK :: u32 where "NV_PFIFO_CACHE1_STATUS_LOW_MARK \<equiv> 0x10"
abbreviation (input) NV_PFIFO_CACHE1_DMA_PUSH :: nat where "NV_PFIFO_CACHE1_DMA_PUSH \<equiv> 0x1220"
abbreviation (input) NV_PFIFO_CACHE1_DMA_PUSH_ACCESS :: u32 where "NV_PFIFO_CACHE1_DMA_PUSH_ACCESS \<equiv> 1"
abbreviation (input) NV_PFIFO_CACHE1_DMA_PUSH_STATUS :: u32 where "NV_PFIFO_CACHE1_DMA_PUSH_STATUS \<equiv> 0x1000"
abbreviation (input) NV_PFIFO_CACHE1_DMA_STATE :: nat where "NV_PFIFO_CACHE1_DMA_STATE \<equiv> 0x1228"
abbreviation (input) NV_PFIFO_CACHE1_DMA_STATE_METHOD_TYPE :: u32 where "NV_PFIFO_CACHE1_DMA_STATE_METHOD_TYPE \<equiv> 1"
abbreviation (input) NV_PFIFO_CACHE1_DMA_STATE_METHOD :: u32 where "NV_PFIFO_CACHE1_DMA_STATE_METHOD \<equiv> 0x1FFC"
abbreviation (input) NV_PFIFO_CACHE1_DMA_STATE_SUBCHANNEL :: u32 where "NV_PFIFO_CACHE1_DMA_STATE_SUBCHANNEL \<equiv> 0xE000"
abbreviation (input) NV_PFIFO_CACHE1_DMA_STATE_METHOD_COUNT :: u32 where
  "NV_PFIFO_CACHE1_DMA_STATE_METHOD_COUNT \<equiv> 0x1FFC0000"
abbreviation (input) NV_PFIFO_CACHE1_DMA_STATE_ERROR :: u32 where "NV_PFIFO_CACHE1_DMA_STATE_ERROR \<equiv> 0xE0000000"
abbreviation (input) NV_PFIFO_CACHE1_DMA_STATE_ERROR_CALL :: u32 where "NV_PFIFO_CACHE1_DMA_STATE_ERROR_CALL \<equiv> 1"
abbreviation (input) NV_PFIFO_CACHE1_DMA_STATE_ERROR_RETURN :: u32 where "NV_PFIFO_CACHE1_DMA_STATE_ERROR_RETURN \<equiv> 3"
abbreviation (input) NV_PFIFO_CACHE1_DMA_INSTANCE :: nat where "NV_PFIFO_CACHE1_DMA_INSTANCE \<equiv> 0x122C"
abbreviation (input) NV_PFIFO_CACHE1_DMA_INSTANCE_ADDRESS :: u32 where "NV_PFIFO_CACHE1_DMA_INSTANCE_ADDRESS \<equiv> 0xFFFF"
abbreviation (input) NV_PFIFO_CACHE1_DMA_PUT :: nat where "NV_PFIFO_CACHE1_DMA_PUT \<equiv> 0x1240"
abbreviation (input) NV_PFIFO_CACHE1_DMA_GET :: nat where "NV_PFIFO_CACHE1_DMA_GET \<equiv> 0x1244"
abbreviation (input) NV_PFIFO_CACHE1_REF :: nat where "NV_PFIFO_CACHE1_REF \<equiv> 0x1248"
abbreviation (input) NV_PFIFO_CACHE1_DMA_SUBROUTINE :: nat where "NV_PFIFO_CACHE1_DMA_SUBROUTINE \<equiv> 0x124C"
abbreviation (input) NV_PFIFO_CACHE1_DMA_SUBROUTINE_STATE :: u32 where "NV_PFIFO_CACHE1_DMA_SUBROUTINE_STATE \<equiv> 1"
abbreviation (input) NV_PFIFO_CACHE1_PULL0 :: nat where "NV_PFIFO_CACHE1_PULL0 \<equiv> 0x1250"
abbreviation (input) NV_PFIFO_CACHE1_PULL0_ACCESS :: u32 where "NV_PFIFO_CACHE1_PULL0_ACCESS \<equiv> 1"
abbreviation (input) NV_PFIFO_CACHE1_PULL1 :: nat where "NV_PFIFO_CACHE1_PULL1 \<equiv> 0x1254"
abbreviation (input) NV_PFIFO_CACHE1_PULL1_ENGINE :: u32 where "NV_PFIFO_CACHE1_PULL1_ENGINE \<equiv> 3"
abbreviation (input) NV_PFIFO_CACHE1_ENGINE :: nat where "NV_PFIFO_CACHE1_ENGINE \<equiv> 0x1280"
abbreviation (input) NV_PFIFO_CACHE1_DMA_DCOUNT :: nat where "NV_PFIFO_CACHE1_DMA_DCOUNT \<equiv> 0x12A0"
abbreviation (input) NV_PFIFO_CACHE1_DMA_GET_JMP_SHADOW :: nat where "NV_PFIFO_CACHE1_DMA_GET_JMP_SHADOW \<equiv> 0x12A4"
abbreviation (input) NV_PFIFO_CACHE1_DMA_RSVD_SHADOW :: nat where "NV_PFIFO_CACHE1_DMA_RSVD_SHADOW \<equiv> 0x12A8"
abbreviation (input) NV_PFIFO_CACHE1_DMA_DATA_SHADOW :: nat where "NV_PFIFO_CACHE1_DMA_DATA_SHADOW \<equiv> 0x12AC"
abbreviation (input) NV_PFIFO_CACHE1_METHOD_TYPE :: u32 where "NV_PFIFO_CACHE1_METHOD_TYPE \<equiv> 1"
abbreviation (input) NV_PFIFO_CACHE1_METHOD_ADDRESS :: u32 where "NV_PFIFO_CACHE1_METHOD_ADDRESS \<equiv> 0x1FFC"
abbreviation (input) NV_PFIFO_CACHE1_METHOD_SUBCHANNEL :: u32 where "NV_PFIFO_CACHE1_METHOD_SUBCHANNEL \<equiv> 0xE000"
abbreviation (input) NV_USER_DMA_PUT :: nat where "NV_USER_DMA_PUT \<equiv> 0x40"
abbreviation (input) NV_USER_DMA_GET :: nat where "NV_USER_DMA_GET \<equiv> 0x44"
abbreviation (input) NV_USER_REF :: nat where "NV_USER_REF \<equiv> 0x48"
abbreviation (input) NV2A_NUM_CHANNELS :: nat where "NV2A_NUM_CHANNELS \<equiv> 32"
abbreviation (input) NV_RAMHT_INSTANCE :: u32 where "NV_RAMHT_INSTANCE \<equiv> 0xFFFF"
abbreviation (input) NV_RAMHT_ENGINE :: u32 where "NV_RAMHT_ENGINE \<equiv> 0x30000"
abbreviation (input) NV_RAMHT_CHID :: u32 where "NV_RAMHT_CHID \<equiv> 0x1F000000"
abbreviation (input) NV_RAMHT_STATUS :: u32 where "NV_RAMHT_STATUS \<equiv> 0x80000000"
abbreviation (input) ENGINE_GRAPHICS :: u32 where "ENGINE_GRAPHICS \<equiv> 1"

abbreviation pf_set :: "nv2a \<Rightarrow> nat \<Rightarrow> u32 \<Rightarrow> nv2a" where
  "pf_set d r v \<equiv> d\<lparr>pfifo_regs := (pfifo_regs d)(r := v)\<rparr>"

abbreviation pf_set_mask :: "nv2a \<Rightarrow> nat \<Rightarrow> u32 \<Rightarrow> u32 \<Rightarrow> nv2a" where
  "pf_set_mask d r m v \<equiv> pf_set d r (set_mask (pfifo_regs d r) m v)"

section \<open>Guest accesses\<close>

definition pfifo_read :: "nv2a \<Rightarrow> nat \<Rightarrow> u64 option" where
  "pfifo_read d addr =
     (if addr = NV_PFIFO_INTR_0 then Some (ucast (pfifo_pending d))
      else if addr = NV_PFIFO_INTR_EN_0 then Some (ucast (pfifo_enabled d))
      else if addr = NV_PFIFO_RUNOUT_STATUS then Some (ucast NV_PFIFO_RUNOUT_STATUS_LOW_MARK)
      else do { assert_that (addr < 0x2000); Some (ucast (pfifo_regs d addr)) })"

definition pfifo_write :: "nv2a \<Rightarrow> nat \<Rightarrow> u64 \<Rightarrow> nv2a option" where
  "pfifo_write d addr val = do {
     d \<leftarrow>
       (if addr = NV_PFIFO_INTR_0
        then Some (nv2a_update_irq (d\<lparr>pfifo_pending := pfifo_pending d AND NOT (ucast val)\<rparr>))
        else if addr = NV_PFIFO_INTR_EN_0 then Some (nv2a_update_irq (d\<lparr>pfifo_enabled := ucast val\<rparr>))
        else do { assert_that (addr < 0x2000); Some (pf_set d addr (ucast val)) });
     Some (pfifo_kick d)
   }"

text \<open>The channel of a \<open>USER\<close> access must be in DMA mode and must be the current one.\<close>

definition user_channel :: "nv2a \<Rightarrow> nat \<Rightarrow> unit option" where
  "user_channel d addr = do {
     let channel_id = addr div 0x10000;
     assert_that (channel_id < NV2A_NUM_CHANNELS);
     assert_that (bit (pfifo_regs d NV_PFIFO_MODE) channel_id);
     assert_that (channel_id = unat (get_mask (pfifo_regs d NV_PFIFO_CACHE1_PUSH1) NV_PFIFO_CACHE1_PUSH1_CHID))
   }"

definition user_reg :: "nat \<Rightarrow> nat option" where
  "user_reg addr =
     (if addr mod 0x10000 = NV_USER_DMA_PUT then Some NV_PFIFO_CACHE1_DMA_PUT
      else if addr mod 0x10000 = NV_USER_DMA_GET then Some NV_PFIFO_CACHE1_DMA_GET
      else if addr mod 0x10000 = NV_USER_REF then Some NV_PFIFO_CACHE1_REF
      else None)"

definition user_read :: "nv2a \<Rightarrow> nat \<Rightarrow> u64 option" where
  "user_read d addr = do {
     user_channel d addr;
     Some (case user_reg addr of None \<Rightarrow> 0 | Some r \<Rightarrow> ucast (pfifo_regs d r))
   }"

definition user_write :: "nv2a \<Rightarrow> nat \<Rightarrow> u64 \<Rightarrow> nv2a option" where
  "user_write d addr val = do {
     user_channel d addr;
     r \<leftarrow> user_reg addr;
     Some (pfifo_kick (pf_set d r (ucast val)))
   }"

section \<open>Waiting\<close>

definition can_fifo_access :: "nv2a \<Rightarrow> bool" where
  "can_fifo_access d = (pgraph_regs d NV_PGRAPH_FIFO AND NV_PGRAPH_FIFO_ACCESS \<noteq> 0)"

definition is_flip_stall_complete :: "nv2a \<Rightarrow> bool" where
  "is_flip_stall_complete d =
     (let s = pgraph_regs d NV_PGRAPH_SURFACE
      in get_mask s NV_PGRAPH_SURFACE_READ_3D \<noteq> get_mask s NV_PGRAPH_SURFACE_WRITE_3D)"

definition pfifo_stall_for_flip :: "nv2a \<Rightarrow> bool \<times> nv2a" where
  "pfifo_stall_for_flip d =
     (if waiting_for_flip d then
        if \<not> is_flip_stall_complete d then (True, d) else (False, d\<lparr>waiting_for_flip := False\<rparr>)
      else (False, d))"

definition pfifo_puller_should_stall :: "nv2a \<Rightarrow> bool \<times> nv2a" where
  "pfifo_puller_should_stall d =
     (let (stall, d) = pfifo_stall_for_flip d
      in (stall \<or> waiting_for_nop d \<or> waiting_for_context_switch d \<or> \<not> can_fifo_access d, d))"

definition pfifo_pusher_should_stall :: "nv2a \<Rightarrow> bool" where
  "pfifo_pusher_should_stall d = (\<not> can_fifo_access d \<or> waiting_for_nop d)"

section \<open>The object hash table\<close>

text \<open>One round folds \<open>bits = Suc b\<close> bits of the handle into the hash.\<close>

function ramht_fold :: "nat \<Rightarrow> u32 \<Rightarrow> u32 \<Rightarrow> u32" where
  "ramht_fold b handle hash =
     (if handle = 0 then hash
      else ramht_fold b (drop_bit (Suc b) handle) (hash XOR (handle AND mask (Suc b))))"
  by auto

lemma drop_bit_smaller: "w \<noteq> 0 \<Longrightarrow> unat (drop_bit (Suc b) (w :: u32)) < unat w"
proof -
  assume "w \<noteq> 0"
  then have "0 < unat w" by (simp add: unat_gt_0)
  moreover have "unat (drop_bit (Suc b) w) = unat w div 2 ^ Suc b"
    unfolding unat_drop_bit_eq by (rule drop_bit_eq_div)
  moreover have "1 < (2 :: nat) ^ Suc b" by (rule one_less_power) simp_all
  ultimately show ?thesis using div_less_dividend [of "2 ^ Suc b" "unat w"] by simp
qed

termination ramht_fold
  by (relation "measure (\<lambda>(b, handle, hash). unat handle)") (simp_all add: drop_bit_smaller del: power_Suc)

declare ramht_fold.simps [simp del]

definition ramht_size_bits :: "nv2a \<Rightarrow> nat" where
  "ramht_size_bits d = unat (get_mask (pfifo_regs d NV_PFIFO_RAMHT) NV_PFIFO_RAMHT_SIZE) + 12"

definition ramht_hash :: "nv2a \<Rightarrow> u32 \<Rightarrow> u32" where
  "ramht_hash d handle =
     (let bits = ramht_size_bits d - 1;
          hash = ramht_fold (bits - 1) handle 0;
          channel_id = get_mask (pfifo_regs d NV_PFIFO_CACHE1_PUSH1) NV_PFIFO_CACHE1_PUSH1_CHID
      in hash XOR push_bit (bits - 4) channel_id)"

record ramht_entry =
  re_handle :: u32
  re_instance :: u32
  re_engine :: u32
  re_channel_id :: u32
  re_valid :: bool

definition ramht_lookup :: "nv2a \<Rightarrow> u32 \<Rightarrow> ramht_entry option" where
  "ramht_lookup d handle = do {
     let hash = ramht_hash d handle;
     assert_that (unat (hash * 8) < 2 ^ ramht_size_bits d);
     let ramht_address = unat (push_bit 12 (get_mask (pfifo_regs d NV_PFIFO_RAMHT) NV_PFIFO_RAMHT_BASE_ADDRESS));
     let entry_ptr = ramht_address + unat (hash * 8);
     assert_that (entry_ptr < ramin_size d);
     assert_that (entry_ptr + 8 \<le> ramin_size d);
     let entry_handle = ldl_le_p (ramin d) entry_ptr;
     let entry_context = ldl_le_p (ramin d) (entry_ptr + 4);
     Some \<lparr>re_handle = entry_handle, re_instance = push_bit 4 (entry_context AND NV_RAMHT_INSTANCE),
           re_engine = drop_bit 16 (entry_context AND NV_RAMHT_ENGINE),
           re_channel_id = drop_bit 24 (entry_context AND NV_RAMHT_CHID),
           re_valid = (entry_context AND NV_RAMHT_STATUS \<noteq> 0)\<rparr>
   }"

section \<open>The puller\<close>

text \<open>State, subchannel, method, parameter, offset of the parameter words, their number, the number of words that may be
  looked at, and the increment flag.\<close>

type_synonym method_engine = "nv2a \<Rightarrow> u32 \<Rightarrow> u32 \<Rightarrow> u32 \<Rightarrow> nat \<Rightarrow> nat \<Rightarrow> nat \<Rightarrow> bool \<Rightarrow> (int \<times> nv2a) option"

text \<open>Method 0 binds an object to the subchannel.\<close>

definition puller_bind :: "method_engine \<Rightarrow> nv2a \<Rightarrow> u32 \<Rightarrow> u32 \<Rightarrow> nat \<Rightarrow> nat \<Rightarrow> nat \<Rightarrow> bool \<Rightarrow> (int \<times> nv2a) option" where
  "puller_bind pm d subchannel parameter parameters navail lookahead inc = do {
     entry \<leftarrow> ramht_lookup d parameter;
     assert_that (re_valid entry);
     assert_that (re_engine entry = ENGINE_GRAPHICS);
     assert_that (subchannel < 8);
     let d = pf_set_mask d NV_PFIFO_CACHE1_ENGINE (push_bit (4 * unat subchannel) 3) (re_engine entry);
     let d = pf_set_mask d NV_PFIFO_CACHE1_PULL1 NV_PFIFO_CACHE1_PULL1_ENGINE (re_engine entry);
     if can_fifo_access d then do {
       d \<leftarrow> pgraph_context_switch d (re_channel_id entry);
       if \<not> waiting_for_context_switch d
       then pm d subchannel 0 (re_instance entry) parameters navail lookahead inc
       else Some (-1, d)
     }
     else Some (-1, d)
   }"

definition puller_method :: "method_engine \<Rightarrow> nv2a \<Rightarrow> u32 \<Rightarrow> u32 \<Rightarrow> u32 \<Rightarrow> nat \<Rightarrow> nat \<Rightarrow> nat \<Rightarrow> bool \<Rightarrow> (int \<times> nv2a) option" where
  "puller_method pm d subchannel meth parameter parameters navail lookahead inc = do {
     parameter \<leftarrow>
       (if 0x180 \<le> meth \<and> meth < 0x200 then do {
          entry \<leftarrow> ramht_lookup d parameter;
          assert_that (re_valid entry);
          Some (re_instance entry)
        }
        else Some parameter);
     let engine = get_mask (pfifo_regs d NV_PFIFO_CACHE1_ENGINE) (push_bit (4 * unat subchannel) 3);
     assert_that (engine = ENGINE_GRAPHICS);
     let d = pf_set_mask d NV_PFIFO_CACHE1_PULL1 NV_PFIFO_CACHE1_PULL1_ENGINE engine;
     if can_fifo_access d then pm d subchannel meth parameter parameters navail lookahead inc
     else Some (-1, d)
   }"

definition pfifo_run_puller :: "method_engine \<Rightarrow> nv2a \<Rightarrow> u32 \<Rightarrow> u32 \<Rightarrow> nat \<Rightarrow> nat \<Rightarrow> nat \<Rightarrow> (int \<times> nv2a) option" where
  "pfifo_run_puller pm d method_entry parameter parameters navail lookahead =
     (let (stall, d) = pfifo_puller_should_stall d in
      if stall then Some (-1, d)
      else if get_mask (pfifo_regs d NV_PFIFO_CACHE1_PULL0) NV_PFIFO_CACHE1_PULL0_ACCESS = 0
          \<or> pfifo_regs d NV_PFIFO_CACHE1_STATUS AND NV_PFIFO_CACHE1_STATUS_LOW_MARK \<noteq> 0
      then Some (-1, d)
      else do {
        let meth = method_entry AND 0x1FFC;
        let subchannel = get_mask method_entry NV_PFIFO_CACHE1_METHOD_SUBCHANNEL;
        let inc = (get_mask method_entry NV_PFIFO_CACHE1_METHOD_TYPE = 0);
        (num_proc, d) \<leftarrow>
          (if meth = 0 then puller_bind pm d subchannel parameter parameters navail lookahead inc
           else if meth \<ge> 0x100
           then puller_method pm d subchannel meth parameter parameters navail lookahead inc
           else None);
        Some (num_proc,
              if num_proc > 0
              then pf_set d NV_PFIFO_CACHE1_STATUS
                     (pfifo_regs d NV_PFIFO_CACHE1_STATUS OR NV_PFIFO_CACHE1_STATUS_LOW_MARK)
              else d)
      })"

section \<open>The pusher\<close>

text \<open>A data word of the current command. The result is \<open>None\<close> inside when the puller would not take
  it; then the loop ends and the word is read again later.\<close>

definition pusher_data :: "method_engine \<Rightarrow> nv2a \<Rightarrow> u32 \<Rightarrow> u32 \<Rightarrow> nat \<Rightarrow> nat \<Rightarrow> (u32 option \<times> nv2a) option" where
  "pusher_data pm d dma_get_v word word_ptr navail = do {
     let dma_state = pfifo_regs d NV_PFIFO_CACHE1_DMA_STATE;
     let method_type = get_mask dma_state NV_PFIFO_CACHE1_DMA_STATE_METHOD_TYPE;
     let method_subchannel = get_mask dma_state NV_PFIFO_CACHE1_DMA_STATE_SUBCHANNEL;
     let meth = push_bit 2 (get_mask dma_state NV_PFIFO_CACHE1_DMA_STATE_METHOD);
     let method_count = unat (get_mask dma_state NV_PFIFO_CACHE1_DMA_STATE_METHOD_COUNT);
     let d = pf_set d NV_PFIFO_CACHE1_DMA_DATA_SHADOW word;
     assert_that (meth AND 3 = 0);
     let method_entry = set_mask 0 NV_PFIFO_CACHE1_METHOD_ADDRESS (drop_bit 2 meth);
     let method_entry = set_mask method_entry NV_PFIFO_CACHE1_METHOD_TYPE method_type;
     let method_entry = set_mask method_entry NV_PFIFO_CACHE1_METHOD_SUBCHANNEL method_subchannel;
     let d = pf_set d NV_PFIFO_CACHE1_STATUS
               (pfifo_regs d NV_PFIFO_CACHE1_STATUS AND NOT NV_PFIFO_CACHE1_STATUS_LOW_MARK);
     (num, d) \<leftarrow> pfifo_run_puller pm d method_entry word word_ptr (min method_count navail) navail;
     if num < 0 then Some (None, d)
     else do {
       let dma_get_v = dma_get_v + word_of_int ((num - 1) * 4);
       let d = (if method_type = 0
                then pf_set_mask d NV_PFIFO_CACHE1_DMA_STATE NV_PFIFO_CACHE1_DMA_STATE_METHOD
                       (word_of_int ((uint meth + 4 * num) div 4))
                else d);
       let d = pf_set_mask d NV_PFIFO_CACHE1_DMA_STATE NV_PFIFO_CACHE1_DMA_STATE_METHOD_COUNT
                 (of_nat (method_count - min method_count (nat num)));
       let d = pf_set d NV_PFIFO_CACHE1_DMA_DCOUNT
                 (pfifo_regs d NV_PFIFO_CACHE1_DMA_DCOUNT + word_of_int num);
       Some (Some dma_get_v, d)
     }
   }"

definition start_method :: "nv2a \<Rightarrow> u32 \<Rightarrow> u32 \<Rightarrow> nv2a" where
  "start_method d word type =
     (let d = pf_set_mask d NV_PFIFO_CACHE1_DMA_STATE NV_PFIFO_CACHE1_DMA_STATE_METHOD (drop_bit 2 (word AND 0x1fff));
          d = pf_set_mask d NV_PFIFO_CACHE1_DMA_STATE NV_PFIFO_CACHE1_DMA_STATE_SUBCHANNEL (drop_bit 13 word AND 7);
          d = pf_set_mask d NV_PFIFO_CACHE1_DMA_STATE NV_PFIFO_CACHE1_DMA_STATE_METHOD_COUNT (drop_bit 18 word AND 0x7ff);
          d = pf_set_mask d NV_PFIFO_CACHE1_DMA_STATE NV_PFIFO_CACHE1_DMA_STATE_METHOD_TYPE type
      in pf_set d NV_PFIFO_CACHE1_DMA_DCOUNT 0)"

text \<open>
  The first word of a command. A call inside a subroutine ends the loop with the error field set
  and the word unread; a return outside one sets the error field; a reserved command fails an
  assertion.
\<close>

definition pusher_command :: "nv2a \<Rightarrow> u32 \<Rightarrow> u32 \<Rightarrow> (u32 option \<times> nv2a) option" where
  "pusher_command d dma_get_v word =
     (let d = pf_set d NV_PFIFO_CACHE1_DMA_RSVD_SHADOW word;
          subroutine_state = get_mask (pfifo_regs d NV_PFIFO_CACHE1_DMA_SUBROUTINE) NV_PFIFO_CACHE1_DMA_SUBROUTINE_STATE in
      if word AND 0xe0000003 = 0x20000000
      then Some (Some (word AND 0x1fffffff), pf_set d NV_PFIFO_CACHE1_DMA_GET_JMP_SHADOW dma_get_v)
      else if word AND 3 = 1
      then Some (Some (word AND 0xfffffffc), pf_set d NV_PFIFO_CACHE1_DMA_GET_JMP_SHADOW dma_get_v)
      else if word AND 3 = 2 then
        (if subroutine_state \<noteq> 0
         then Some (None, pf_set_mask d NV_PFIFO_CACHE1_DMA_STATE NV_PFIFO_CACHE1_DMA_STATE_ERROR
                            NV_PFIFO_CACHE1_DMA_STATE_ERROR_CALL)
         else
           (let d = pf_set d NV_PFIFO_CACHE1_DMA_SUBROUTINE dma_get_v;
                d = pf_set_mask d NV_PFIFO_CACHE1_DMA_SUBROUTINE NV_PFIFO_CACHE1_DMA_SUBROUTINE_STATE 1
            in Some (Some (word AND 0xfffffffc), d)))
      else if word = 0x00020000 then
        (if subroutine_state = 0
         then Some (Some dma_get_v, pf_set_mask d NV_PFIFO_CACHE1_DMA_STATE NV_PFIFO_CACHE1_DMA_STATE_ERROR
                                      NV_PFIFO_CACHE1_DMA_STATE_ERROR_RETURN)
         else
           (let dma_get_v = pfifo_regs d NV_PFIFO_CACHE1_DMA_SUBROUTINE AND 0xfffffffc;
                d = pf_set_mask d NV_PFIFO_CACHE1_DMA_SUBROUTINE NV_PFIFO_CACHE1_DMA_SUBROUTINE_STATE 0
            in Some (Some dma_get_v, d)))
      else if word AND 0xe0030003 = 0 then Some (Some dma_get_v, start_method d word 0)
      else if word AND 0xe0030003 = 0x40000000 then Some (Some dma_get_v, start_method d word 1)
      else None)"

text \<open>One round of the loop; the boolean says whether the loop goes on.\<close>

definition pusher_round :: "method_engine \<Rightarrow> nat \<Rightarrow> u64 \<Rightarrow> nv2a \<Rightarrow> (bool \<times> nv2a) option" where
  "pusher_round pm dma dma_len d =
     (let dma_get_v = pfifo_regs d NV_PFIFO_CACHE1_DMA_GET; dma_put_v = pfifo_regs d NV_PFIFO_CACHE1_DMA_PUT in
      if dma_get_v = dma_put_v then Some (False, d)
      else do {
        assert_that (ucast dma_get_v < dma_len);
        let num_words_available = unat (dma_put_v - dma_get_v);
        assert_that (num_words_available mod 4 = 0);
        let navail = num_words_available div 4;
        let word_ptr = dma + unat dma_get_v;
        assert_that (word_ptr + 4 \<le> vram_size d);  \<comment> \<open>the word is inside guest memory\<close>
        let word = ldl_le_p (vram d) word_ptr;
        let dma_get_v = dma_get_v + 4;
        (g, d) \<leftarrow>
          (if get_mask (pfifo_regs d NV_PFIFO_CACHE1_DMA_STATE) NV_PFIFO_CACHE1_DMA_STATE_METHOD_COUNT \<noteq> 0
           then pusher_data pm d dma_get_v word word_ptr navail
           else pusher_command d dma_get_v word);
        case g of None \<Rightarrow> Some (False, d)
        | Some g \<Rightarrow>
            Some (get_mask (pfifo_regs d NV_PFIFO_CACHE1_DMA_STATE) NV_PFIFO_CACHE1_DMA_STATE_ERROR = 0,
                  pf_set d NV_PFIFO_CACHE1_DMA_GET g)
      })"

fun pusher_loop :: "method_engine \<Rightarrow> nat \<Rightarrow> nat \<Rightarrow> u64 \<Rightarrow> nv2a \<Rightarrow> (bool \<times> nv2a) option" where
  "pusher_loop pm 0 dma dma_len d = Some (pfifo_pusher_should_stall d, d)"
| "pusher_loop pm (Suc fuel) dma dma_len d =
     (if pfifo_pusher_should_stall d then Some (True, d)
      else do {
        (more, d) \<leftarrow> pusher_round pm dma dma_len d;
        if more then pusher_loop pm fuel dma dma_len d else Some (True, d)
      })"

text \<open>An error after the loop fails an assertion.\<close>

definition pfifo_run_pusher :: "method_engine \<Rightarrow> nat \<Rightarrow> nv2a \<Rightarrow> (bool \<times> nv2a) option" where
  "pfifo_run_pusher pm fuel d =
     (let push0 = pfifo_regs d NV_PFIFO_CACHE1_PUSH0; push1 = pfifo_regs d NV_PFIFO_CACHE1_PUSH1;
          dma_push = pfifo_regs d NV_PFIFO_CACHE1_DMA_PUSH in
      if get_mask push0 NV_PFIFO_CACHE1_PUSH0_ACCESS = 0
         \<or> get_mask dma_push NV_PFIFO_CACHE1_DMA_PUSH_ACCESS = 0
         \<or> get_mask dma_push NV_PFIFO_CACHE1_DMA_PUSH_STATUS \<noteq> 0
      then Some (True, d)
      else do {
        assert_that (bit (pfifo_regs d NV_PFIFO_MODE) (unat (get_mask push1 NV_PFIFO_CACHE1_PUSH1_CHID)));
        assert_that (get_mask push1 NV_PFIFO_CACHE1_PUSH1_MODE = NV_PFIFO_CACHE1_PUSH1_MODE_DMA);
        assert_that (get_mask (pfifo_regs d NV_PFIFO_CACHE1_DMA_STATE) NV_PFIFO_CACHE1_DMA_STATE_ERROR = 0);
        let dma_instance = unat (push_bit 4 (get_mask (pfifo_regs d NV_PFIFO_CACHE1_DMA_INSTANCE)
                                               NV_PFIFO_CACHE1_DMA_INSTANCE_ADDRESS));
        (dma, dma_len) \<leftarrow> nv_dma_map d dma_instance;
        (fin, d) \<leftarrow> pusher_loop pm fuel dma dma_len d;
        assert_that (get_mask (pfifo_regs d NV_PFIFO_CACHE1_DMA_STATE) NV_PFIFO_CACHE1_DMA_STATE_ERROR = 0);
        Some (fin, d)
      })"

end
