(* ===== verification/Nv2a_Mmio.thy ===== *)
theory Nv2a_Mmio
  imports Pfifo
begin

text \<open>
  The graphics chip as the guest sees it: the table of register blocks and the dispatch of an access
  to the block that covers it, the chip's reset, and the properties of the whole: the interrupt
  line, the timer, the clock, the palette and the blits.
\<close>

section \<open>Register blocks\<close>

datatype nv_block = PMC | PBUS | PFIFO | PRMA | PVIDEO | PTIMER | PCOUNTER | PVPE | PTV | PRMFB | PRMVIO
  | PFB | PSTRAPS | PGRAPH | PCRTC | PRMCIO | PRAMDAC | PRMDIO | USER

definition blocktable :: "(nv_block \<times> nat \<times> nat) list" where
  "blocktable =
     [(PMC,      0x000000, 0x001000),
      (PBUS,     0x001000, 0x001000),
      (PFIFO,    0x002000, 0x002000),
      (PRMA,     0x007000, 0x001000),
      (PVIDEO,   0x008000, 0x001000),
      (PTIMER,   0x009000, 0x001000),
      (PCOUNTER, 0x00a000, 0x001000),
      (PVPE,     0x00b000, 0x001000),
      (PTV,      0x00d000, 0x001000),
      (PRMFB,    0x0a0000, 0x020000),
      (PRMVIO,   0x0c0000, 0x001000),
      (PFB,      0x100000, 0x001000),
      (PSTRAPS,  0x101000, 0x001000),
      (PGRAPH,   0x400000, 0x002000),
      (PCRTC,    0x600000, 0x001000),
      (PRMCIO,   0x601000, 0x001000),
      (PRAMDAC,  0x680000, 0x001000),
      (PRMDIO,   0x681000, 0x001000),
      (USER,     0x800000, 0x800000)]"

definition nv_block_at :: "nat \<Rightarrow> (nv_block \<times> nat) option" where
  "nv_block_at addr =
     map_option (\<lambda>(b, off, sz). (b, addr - off))
       (find (\<lambda>(b, off, sz). off \<le> addr \<and> addr < off + sz) blocktable)"

text \<open>
  The VGA core behind \<open>PRMVIO\<close> and \<open>PRMCIO\<close> is not modelled: its port functions are arguments. An
  attribute write through \<open>PRMCIO\<close> that is an index sets the display enable bit.
\<close>

type_synonym vga_ports = "(nv2a \<Rightarrow> nat \<Rightarrow> u64 \<times> nv2a) \<times> (nv2a \<Rightarrow> nat \<Rightarrow> u64 \<Rightarrow> nv2a)"

definition prmcio_write :: "vga_ports \<Rightarrow> nv2a \<Rightarrow> nat \<Rightarrow> u64 \<Rightarrow> nv2a" where
  "prmcio_write vga d addr val =
     (let val = (if addr = 0x3C0 \<and> \<not> vga_ar_flip_flop d then val OR 0x20 else val) in snd vga d addr val)"

definition stub_read :: "nat \<Rightarrow> u64" where "stub_read addr = 0"

definition stub_write :: "nv2a \<Rightarrow> nat \<Rightarrow> u64 \<Rightarrow> nv2a" where "stub_write d addr val = d"

fun block_read :: "vga_ports \<Rightarrow> u64 \<Rightarrow> nv2a \<Rightarrow> nv_block \<Rightarrow> nat \<Rightarrow> nat \<Rightarrow> (u64 \<times> nv2a) option" where
  "block_read vga now d PMC addr sz = Some (pmc_read d addr, d)"
| "block_read vga now d PBUS addr sz = Some (pbus_read d addr, d)"
| "block_read vga now d PFIFO addr sz = map_option (\<lambda>r. (r, d)) (pfifo_read d addr)"
| "block_read vga now d PVIDEO addr sz = map_option (\<lambda>r. (r, d)) (pvideo_read d addr)"
| "block_read vga now d PTIMER addr sz = map_option (\<lambda>r. (r, d)) (ptimer_read d now addr)"
| "block_read vga now d PRMVIO addr sz = Some (fst vga d addr)"
| "block_read vga now d PFB addr sz = map_option (\<lambda>r. (r, d)) (pfb_read d addr)"
| "block_read vga now d PGRAPH addr sz = pgraph_read d addr"
| "block_read vga now d PCRTC addr sz = Some (pcrtc_read d addr)"
| "block_read vga now d PRMCIO addr sz = Some (fst vga d addr)"
| "block_read vga now d PRAMDAC addr sz = map_option (\<lambda>r. (r, d)) (pramdac_read d addr sz)"
| "block_read vga now d PRMDIO addr sz = Some (prmdio_read d addr, d)"
| "block_read vga now d USER addr sz = map_option (\<lambda>r. (r, d)) (user_read d addr)"
| "block_read vga now d _ addr sz = Some (stub_read addr, d)"

fun block_write :: "vga_ports \<Rightarrow> nv2a \<Rightarrow> nv_block \<Rightarrow> nat \<Rightarrow> u64 \<Rightarrow> nv2a option" where
  "block_write vga d PMC addr val = Some (pmc_write d addr val)"
| "block_write vga d PBUS addr val = Some (pbus_write d addr val)"
| "block_write vga d PFIFO addr val = pfifo_write d addr val"
| "block_write vga d PVIDEO addr val = pvideo_write d addr val"
| "block_write vga d PTIMER addr val = Some (ptimer_write d addr val)"
| "block_write vga d PRMVIO addr val = Some (snd vga d addr val)"
| "block_write vga d PFB addr val = pfb_write d addr val"
| "block_write vga d PGRAPH addr val = pgraph_write d addr val"
| "block_write vga d PCRTC addr val = Some (pcrtc_write d addr val)"
| "block_write vga d PRMCIO addr val = Some (prmcio_write vga d addr val)"
| "block_write vga d PRAMDAC addr val = Some (pramdac_write d addr val)"
| "block_write vga d PRMDIO addr val = Some (prmdio_write d addr val)"
| "block_write vga d USER addr val = user_write d addr val"
| "block_write vga d _ addr val = Some (stub_write d addr val)"

text \<open>An access that no block covers reads as zero and is ignored as a write.\<close>

definition nv2a_mmio_read :: "vga_ports \<Rightarrow> u64 \<Rightarrow> nv2a \<Rightarrow> nat \<Rightarrow> nat \<Rightarrow> (u64 \<times> nv2a) option" where
  "nv2a_mmio_read vga now d addr sz =
     (case nv_block_at addr of None \<Rightarrow> Some (0, d) | Some (b, off) \<Rightarrow> block_read vga now d b off sz)"

definition nv2a_mmio_write :: "vga_ports \<Rightarrow> nv2a \<Rightarrow> nat \<Rightarrow> u64 \<Rightarrow> nv2a option" where
  "nv2a_mmio_write vga d addr val =
     (case nv_block_at addr of None \<Rightarrow> Some d | Some (b, off) \<Rightarrow> block_write vga d b off val)"

section \<open>Reset\<close>

text \<open>The waiting for the FIFO thread and for the renderer to flush is left out.\<close>

definition nv2a_reset :: "nv2a \<Rightarrow> nv2a" where
  "nv2a_reset d = d\<lparr>
     pfifo_regs := (\<lambda>_. 0)(NV_PFIFO_CACHE1_STATUS := NV_PFIFO_CACHE1_STATUS_LOW_MARK),
     pgraph_regs := (\<lambda>_. 0),
     pvideo_regs := (\<lambda>_. 0),
     pcrtc_start := 0,
     core_clock_coeff := 0x00011C01,
     core_clock_freq := 233333324,
     memory_clock_coeff := 0,
     video_clock_coeff := 0x0003C20D,
     vga_cr := (\<lambda>_. 0),
     vga_ar_flip_flop := False,
     vga_invalidated := (\<lambda>_. False),
     vga_msr := 1,
     waiting_for_nop := False,
     waiting_for_flip := False,
     waiting_for_context_switch := False,
     pmc_pending := 0,
     pfifo_pending := 0,
     ptimer_pending := 0,
     pcrtc_pending := 0,
     dac_palette := concat (map (\<lambda>i. [of_nat i, of_nat i, of_nat i]) [0..<256]),
     fifo_kick := True\<rparr>"

section \<open>Interrupts\<close>

definition unit_mask :: u32 where
  "unit_mask = NV_PMC_INTR_0_PFIFO OR NV_PMC_INTR_0_PCRTC OR NV_PMC_INTR_0_PGRAPH"

text \<open>The master interrupt bits the three aggregated units ask for.\<close>

definition unit_bits :: "nv2a \<Rightarrow> u32" where
  "unit_bits d =
     (if pfifo_pending d AND pfifo_enabled d \<noteq> 0 then NV_PMC_INTR_0_PFIFO else 0)
     OR (if pcrtc_pending d AND pcrtc_enabled d \<noteq> 0 then NV_PMC_INTR_0_PCRTC else 0)
     OR (if pgraph_pending d AND pgraph_enabled d \<noteq> 0 then NV_PMC_INTR_0_PGRAPH else 0)"

definition aggregated :: "nv2a \<Rightarrow> u32" where
  "aggregated d = (pmc_pending d AND NOT unit_mask) OR unit_bits d"

lemma three_units:
  fixes v a b c :: u32
  assumes "a AND b = 0" "a AND c = 0" "b AND c = 0"
  shows "(let p = (if P then v OR a else v AND NOT a); p = (if Q then p OR b else p AND NOT b)
      in if R then p OR c else p AND NOT c) =
    (v AND NOT (a OR b OR c)) OR (if P then a else 0) OR (if Q then b else 0) OR (if R then c else 0)"
proof -
  have "\<not> (bit x n \<and> bit y n)" if "x AND y = 0" for x y :: u32 and n
    using arg_cong [OF that, of "\<lambda>w. bit w n"] by (simp add: bit_and_iff)
  then have "\<not> (bit a n \<and> bit b n)" "\<not> (bit a n \<and> bit c n)" "\<not> (bit b n \<and> bit c n)" for n
    using assms by blast+
  then show ?thesis
    by (intro bit_word_eqI) (auto simp: Let_def bit_simps)
qed

lemma nv2a_update_irq_eq:
  "nv2a_update_irq d =
     d\<lparr>pmc_pending := aggregated d, nv_irq := (aggregated d \<noteq> 0 \<and> pmc_enabled d \<noteq> 0)\<rparr>"
proof -
  have agg: "aggregated d =
      (let p = (if pfifo_pending d AND pfifo_enabled d \<noteq> 0 then pmc_pending d OR 0x100 else pmc_pending d AND NOT 0x100);
           p = (if pcrtc_pending d AND pcrtc_enabled d \<noteq> 0 then p OR 0x1000000 else p AND NOT 0x1000000)
       in if pgraph_pending d AND pgraph_enabled d \<noteq> 0 then p OR 0x1000 else p AND NOT 0x1000)"
    by (subst three_units) (simp_all add: aggregated_def unit_bits_def unit_mask_def or.assoc)
  show ?thesis
    unfolding agg
    by (cases "pfifo_pending d AND pfifo_enabled d = 0"; cases "pcrtc_pending d AND pcrtc_enabled d = 0";
        cases "pgraph_pending d AND pgraph_enabled d = 0"; simp add: nv2a_update_irq_def; simp add: Let_def)
qed

text \<open>
  The interrupt line and the master register in order: the line is up when some bit is pending and
  some bit is enabled, and the bits of PFIFO and PCRTC are set exactly when these units have an
  enabled interrupt pending.
\<close>

definition master_ok :: "nv2a \<Rightarrow> bool" where
  "master_ok d = ((nv_irq d \<longleftrightarrow> pmc_pending d \<noteq> 0 \<and> pmc_enabled d \<noteq> 0)
     \<and> (pmc_pending d AND NV_PMC_INTR_0_PFIFO \<noteq> 0 \<longleftrightarrow> pfifo_pending d AND pfifo_enabled d \<noteq> 0)
     \<and> (pmc_pending d AND NV_PMC_INTR_0_PCRTC \<noteq> 0 \<longleftrightarrow> pcrtc_pending d AND pcrtc_enabled d \<noteq> 0))"

definition same_irq :: "nv2a \<Rightarrow> nv2a \<Rightarrow> bool" where
  "same_irq d d' = (nv_irq d' = nv_irq d \<and> pmc_pending d' = pmc_pending d \<and> pmc_enabled d' = pmc_enabled d
     \<and> pfifo_pending d' = pfifo_pending d \<and> pfifo_enabled d' = pfifo_enabled d
     \<and> pcrtc_pending d' = pcrtc_pending d \<and> pcrtc_enabled d' = pcrtc_enabled d)"

lemma master_ok_same: "same_irq d d' \<Longrightarrow> master_ok d' = master_ok d"
  by (simp add: same_irq_def master_ok_def)

lemma master_ok_keep: "same_irq d d' \<Longrightarrow> master_ok d \<Longrightarrow> master_ok d'"
  by (simp add: master_ok_same)

lemma and_units:
  "((v AND NOT unit_mask) OR u) AND 0x100 = u AND 0x100" "((v AND NOT unit_mask) OR u) AND 0x1000000 = u AND 0x1000000"
  "((v AND NOT unit_mask) OR u) AND 0x1000 = u AND 0x1000"
proof -
  have gen: "((v AND NOT unit_mask) OR u) AND m = u AND m" if "unit_mask AND m = m" for m
  proof (rule bit_word_eqI)
    fix n
    have "bit m n \<Longrightarrow> bit unit_mask n" using arg_cong [OF that, of "\<lambda>w. bit w n"] by (simp add: bit_and_iff)
    then show "bit (((v AND NOT unit_mask) OR u) AND m) n = bit (u AND m) n" by (auto simp: bit_simps)
  qed
  show "((v AND NOT unit_mask) OR u) AND 0x100 = u AND 0x100" "((v AND NOT unit_mask) OR u) AND 0x1000000 = u AND 0x1000000"
    "((v AND NOT unit_mask) OR u) AND 0x1000 = u AND 0x1000"
    by (rule gen, simp add: unit_mask_def)+
qed

lemma unit_bits_and:
  "unit_bits d AND 0x100 \<noteq> 0 \<longleftrightarrow> pfifo_pending d AND pfifo_enabled d \<noteq> 0"
  "unit_bits d AND 0x1000000 \<noteq> 0 \<longleftrightarrow> pcrtc_pending d AND pcrtc_enabled d \<noteq> 0"
  "unit_bits d AND 0x1000 \<noteq> 0 \<longleftrightarrow> pgraph_pending d AND pgraph_enabled d \<noteq> 0"
  by (simp_all add: unit_bits_def)

lemma update_irq_ok: "master_ok (nv2a_update_irq d)"
  unfolding nv2a_update_irq_eq master_ok_def
  by (simp add: aggregated_def and_units unit_bits_and)

lemma same_irq_refl [simp]: "same_irq d d"
  by (simp add: same_irq_def)

lemma same_irq_trans: "same_irq a b \<Longrightarrow> same_irq b c \<Longrightarrow> same_irq a c"
  by (simp add: same_irq_def)

lemma pgraph_reg_w_same: "pgraph_reg_w d r v = Some d' \<Longrightarrow> same_irq d d'"
  by (auto simp: pgraph_reg_w_def assert_that_def same_irq_def Let_def bind_eq_Some_conv split: if_splits)

lemma pg_set_mask_same: "pg_set_mask d r m v = Some d' \<Longrightarrow> same_irq d d'"
  by (auto simp: pg_set_mask_def bind_eq_Some_conv dest: pgraph_reg_w_same)

lemma flip_increment_same: "flip_increment d c = Some d' \<Longrightarrow> same_irq d d'"
  by (auto simp: flip_increment_def bind_eq_Some_conv dest: pg_set_mask_same)

lemma rdi_advance_same: "rdi_advance d a = Some d' \<Longrightarrow> same_irq d d'"
  by (auto simp: rdi_advance_def bind_eq_Some_conv dest: pg_set_mask_same)

lemma pgraph_read_same: "pgraph_read d a = Some (r, d') \<Longrightarrow> same_irq d d'"
  by (auto simp: pgraph_read_def bind_eq_Some_conv same_irq_def split: if_splits
      dest!: rdi_advance_same [unfolded same_irq_def])

lemma pfifo_kick_same: "same_irq d (pfifo_kick d)"
  by (simp add: same_irq_def pfifo_kick_def)

lemma pgraph_ack_same:
  "same_irq d (let d = d\<lparr>pgraph_pending := x\<rparr>;
               d = (if pgraph_pending d AND NV_PGRAPH_INTR_ERROR = 0 then d\<lparr>waiting_for_nop := False\<rparr> else d);
               d = (if pgraph_pending d AND NV_PGRAPH_INTR_CONTEXT_SWITCH = 0
                    then d\<lparr>waiting_for_context_switch := False\<rparr> else d)
           in pfifo_kick d)"
  by (simp add: Let_def same_irq_def pfifo_kick_def)

lemma pgraph_write_same:
  assumes "pgraph_write d a v = Some d'"
  shows "same_irq d d'"
proof -
  consider (intr) "a = NV_PGRAPH_INTR" | (en) "a = NV_PGRAPH_INTR_EN" | (incr) "a = NV_PGRAPH_INCREMENT"
    | (rdi) "a = NV_PGRAPH_RDI_DATA" | (ctx) "a = NV_PGRAPH_CHANNEL_CTX_TRIGGER"
    | (other) "a \<notin> {NV_PGRAPH_INTR, NV_PGRAPH_INTR_EN, NV_PGRAPH_INCREMENT, NV_PGRAPH_RDI_DATA,
        NV_PGRAPH_CHANNEL_CTX_TRIGGER}"
    by blast
  then show ?thesis
  proof cases
    case intr
    then show ?thesis
      using assms pgraph_ack_same [of d "pgraph_pending d AND NOT (ucast v)"] by (simp add: pgraph_write_def Let_def)
  next
    case en
    then show ?thesis using assms by (auto simp: pgraph_write_def same_irq_def)
  next
    case incr
    then show ?thesis
      using assms
      by (auto simp: pgraph_write_def bind_eq_Some_conv split: if_splits
          intro: same_irq_trans [OF flip_increment_same pfifo_kick_same])
  next
    case rdi
    then show ?thesis
      using assms rdi_advance_same by (auto simp: pgraph_write_def pgraph_rdi_write_def bind_eq_Some_conv split: if_splits)
  next
    case ctx
    then show ?thesis
      using assms pgraph_reg_w_same
      by (auto simp: pgraph_write_def bind_eq_Some_conv Let_def split: if_splits)
  next
    case other
    then have "\<exists>e. pgraph_reg_w d a (ucast v) = Some e \<and> (d' = e \<or> d' = pfifo_kick e)"
      using assms by (auto simp: pgraph_write_def bind_eq_Some_conv split: if_splits)
    then show ?thesis using pgraph_reg_w_same pfifo_kick_same same_irq_trans by blast
  qed
qed

lemma pvideo_invalidate_same: "same_irq d e \<Longrightarrow> same_irq d (pvideo_vga_invalidate e)"
  by (simp add: pvideo_vga_invalidate_def vga_invalidate_scanlines_def same_irq_def Let_def)

lemma pvideo_write_same: "pvideo_write d a v = Some d' \<Longrightarrow> same_irq d d'"
  by (auto simp: pvideo_write_def bind_eq_Some_conv intro!: pvideo_invalidate_same split: if_splits)
     (simp_all add: same_irq_def)

text \<open>What is asked of the VGA core's port functions: they leave the interrupt registers alone.\<close>

definition vga_quiet :: "vga_ports \<Rightarrow> bool" where
  "vga_quiet vga = (\<forall>d addr val. same_irq d (snd (fst vga d addr)) \<and> same_irq d (snd vga d addr val))"

lemma block_write_ok:
  assumes vga: "vga_quiet vga" and ok: "master_ok d" and eq: "block_write vga d b addr val = Some d'"
  shows "master_ok d'"
proof (cases b)
  case PMC
  then show ?thesis using eq ok by (auto simp: pmc_write_def update_irq_ok split: if_splits)
next
  case PTIMER
  then show ?thesis
    using eq ok by (auto simp: ptimer_write_def update_irq_ok split: if_splits) (auto simp: master_ok_def)
next
  case PCRTC
  then show ?thesis
    using eq ok by (auto simp: pcrtc_write_def update_irq_ok split: if_splits) (auto simp: master_ok_def)
next
  case PFIFO
  have kick: "master_ok (pfifo_kick e) = master_ok e" for e
    by (simp add: master_ok_same [OF pfifo_kick_same])
  then show ?thesis
    using PFIFO eq ok
    by (auto simp: pfifo_write_def update_irq_ok kick bind_eq_Some_conv assert_that_def split: if_splits)
       (auto simp: master_ok_def)
next
  case PGRAPH
  then show ?thesis using eq ok by (auto intro: master_ok_keep dest: pgraph_write_same)
next
  case PRMVIO
  then show ?thesis using eq ok vga by (auto simp: vga_quiet_def intro: master_ok_keep [rotated])
next
  case PRMCIO
  then show ?thesis using eq ok vga by (auto simp: vga_quiet_def prmcio_write_def Let_def intro: master_ok_keep [rotated])
next
  case PVIDEO
  then show ?thesis using eq ok by (auto intro: master_ok_keep dest: pvideo_write_same)
next
  case USER
  then show ?thesis
    using eq ok by (auto simp: user_write_def bind_eq_Some_conv pfifo_kick_def same_irq_def intro: master_ok_keep [rotated])
next
  case PRAMDAC
  then have "same_irq d d'" using eq by (auto simp: pramdac_write_def same_irq_def split: if_splits)
  then show ?thesis using ok master_ok_same by blast
qed (use eq ok in \<open>auto simp: pbus_write_def pfb_write_def prmdio_write_def stub_write_def bind_eq_Some_conv same_irq_def
    intro: master_ok_keep [rotated] split: if_splits\<close>)

lemma block_read_ok:
  assumes "vga_quiet vga" and "master_ok d" and "block_read vga now d b addr sz = Some (r, d')"
  shows "master_ok d'"
proof -
  have "same_irq d d'"
  proof (cases b)
    case PCRTC
    then show ?thesis using assms(3) by (auto simp: pcrtc_read_def same_irq_def split: if_splits)
  next
    case PRMVIO
    then show ?thesis using assms(1,3) by (auto simp: vga_quiet_def) (metis snd_conv)
  next
    case PRMCIO
    then show ?thesis using assms(1,3) by (auto simp: vga_quiet_def) (metis snd_conv)
  qed (use assms(3) pgraph_read_same in auto)
  then show ?thesis using assms(2) master_ok_same by blast
qed

text \<open>The chip driven from outside: guest accesses, the display refresh, and from the FIFO thread the
  context switch and the no-operation method.\<close>

datatype nv_event = GuestWrite nat u64 | GuestRead nat nat u64 | VBlank | ContextSwitch u32 | Nop u32 u32 u32

fun nv_step :: "vga_ports \<Rightarrow> nv2a \<Rightarrow> nv_event \<Rightarrow> nv2a option" where
  "nv_step vga d (GuestWrite addr val) = nv2a_mmio_write vga d addr val"
| "nv_step vga d (GuestRead addr sz now) = map_option snd (nv2a_mmio_read vga now d addr sz)"
| "nv_step vga d VBlank = Some (nv2a_vga_gfx_update d)"
| "nv_step vga d (ContextSwitch ch) = pgraph_context_switch d ch"
| "nv_step vga d (Nop subchannel meth parameter) = NV097_NO_OPERATION_handler d subchannel meth parameter"

fun nv_run :: "vga_ports \<Rightarrow> nv2a \<Rightarrow> nv_event list \<Rightarrow> nv2a option" where
  "nv_run vga d [] = Some d"
| "nv_run vga d (e # es) = do { d \<leftarrow> nv_step vga d e; nv_run vga d es }"

lemma nv_step_ok:
  assumes vga: "vga_quiet vga" and ok: "master_ok d" and eq: "nv_step vga d e = Some d'"
  shows "master_ok d'"
proof (cases e)
  case (GuestWrite addr val)
  then show ?thesis
    using eq ok block_write_ok [OF vga ok] by (auto simp: nv2a_mmio_write_def split: option.splits)
next
  case (GuestRead addr sz now)
  then show ?thesis
    using eq ok block_read_ok [OF vga ok] by (auto simp: nv2a_mmio_read_def split: option.splits)
next
  case VBlank
  then show ?thesis using eq by (auto simp: nv2a_vga_gfx_update_def update_irq_ok)
next
  case (ContextSwitch ch)
  then show ?thesis
    using eq ok by (auto simp: pgraph_context_switch_def bind_eq_Some_conv update_irq_ok split: if_splits)
next
  case (Nop subchannel meth parameter)
  then show ?thesis
    using eq ok by (auto simp: NV097_NO_OPERATION_handler_def bind_eq_Some_conv update_irq_ok split: if_splits)
qed

lemma nv_run_ok: "vga_quiet vga \<Longrightarrow> master_ok d \<Longrightarrow> nv_run vga d es = Some d' \<Longrightarrow> master_ok d'"
  by (induction es arbitrary: d) (auto simp: bind_eq_Some_conv dest: nv_step_ok)

definition vga_none :: vga_ports where
  "vga_none = ((\<lambda>d addr. (0, d)), (\<lambda>d addr val. d))"

text \<open>C26: Through every sequence of guest register accesses, display refreshes, context switches and
  no-operation methods, the graphics chip's interrupt line is raised exactly while the master
  register has a pending and an enabled bit, and the master's PFIFO and PCRTC bits are set exactly
  while that unit has an enabled interrupt pending.\<close>

theorem nv2a_irq_line_follows:
  assumes "vga_quiet vga" and "master_ok d" and "nv_run vga d es = Some d'"
  shows "(nv_irq d' \<longleftrightarrow> pmc_pending d' \<noteq> 0 \<and> pmc_enabled d' \<noteq> 0)
    \<and> (pmc_pending d' AND NV_PMC_INTR_0_PFIFO \<noteq> 0 \<longleftrightarrow> pfifo_pending d' AND pfifo_enabled d' \<noteq> 0)
    \<and> (pmc_pending d' AND NV_PMC_INTR_0_PCRTC \<noteq> 0 \<longleftrightarrow> pcrtc_pending d' AND pcrtc_enabled d' \<noteq> 0)"
  using nv_run_ok [OF assms] by (simp add: master_ok_def)

theorem nv2a_irq_line_follows_witness:
  "\<exists>d'. nv_run vga_none nv2a_blank [GuestWrite 0x140 1, GuestWrite 0x600140 1, VBlank] = Some d'
    \<and> (nv_irq d' \<longleftrightarrow> pmc_pending d' \<noteq> 0 \<and> pmc_enabled d' \<noteq> 0)
    \<and> (pmc_pending d' AND NV_PMC_INTR_0_PFIFO \<noteq> 0 \<longleftrightarrow> pfifo_pending d' AND pfifo_enabled d' \<noteq> 0)
    \<and> (pmc_pending d' AND NV_PMC_INTR_0_PCRTC \<noteq> 0 \<longleftrightarrow> pcrtc_pending d' AND pcrtc_enabled d' \<noteq> 0)"
proof -
  have b: "nv_block_at 0x140 = Some (PMC, 0x140)" "nv_block_at 0x600140 = Some (PCRTC, 0x140)"
    by (simp_all add: nv_block_at_def blocktable_def)
  obtain d' where d': "nv_run vga_none nv2a_blank [GuestWrite 0x140 1, GuestWrite 0x600140 1, VBlank] = Some d'"
    by (simp add: nv2a_mmio_write_def b)
  have "vga_quiet vga_none" by (simp add: vga_quiet_def vga_none_def)
  moreover have "master_ok nv2a_blank" by (simp add: master_ok_def nv2a_blank_def)
  ultimately show ?thesis using nv2a_irq_line_follows [OF _ _ d'] d' by blast
qed

text \<open>Acknowledging in the master register does not silence a unit that still has an enabled interrupt
  pending: after all ones are written to it, exactly the bits of the units that still ask for the
  CPU are pending, and the line stays up while there is one and the master is enabled.\<close>

theorem nv2a_master_ack:
  "pmc_pending (pmc_write d NV_PMC_INTR_0 (-1)) = unit_bits d
   \<and> nv_irq (pmc_write d NV_PMC_INTR_0 (-1)) = (unit_bits d \<noteq> 0 \<and> pmc_enabled d \<noteq> 0)"
proof -
  have "ucast (-1 :: u64) = (-1 :: u32)" by (rule bit_word_eqI) (simp add: bit_simps)
  then have "pmc_write d NV_PMC_INTR_0 (-1) = nv2a_update_irq (d\<lparr>pmc_pending := 0\<rparr>)"
    by (simp add: pmc_write_def)
  moreover have "aggregated (d\<lparr>pmc_pending := 0\<rparr>) = unit_bits d" by (simp add: aggregated_def unit_bits_def)
  ultimately show ?thesis by (simp add: nv2a_update_irq_eq)
qed

text \<open>C27: PGRAPH interrupts are not withdrawn by their acknowledgement: after the guest has cleared every
  pending PGRAPH interrupt in PGRAPH's own register, the master register still reports PGRAPH and the
  line stays raised, until some other access aggregates the interrupts again.\<close>

theorem pgraph_ack_keeps_line:
  assumes "master_ok d" and "pmc_pending d AND NV_PMC_INTR_0_PGRAPH \<noteq> 0" and "pmc_enabled d \<noteq> 0"
  shows "\<exists>d'. pgraph_write d NV_PGRAPH_INTR (-1) = Some d' \<and> pgraph_pending d' = 0
    \<and> pmc_pending d' AND NV_PMC_INTR_0_PGRAPH \<noteq> 0 \<and> nv_irq d'"
proof -
  have one: "ucast (-1 :: u64) = (-1 :: u32)" by (rule bit_word_eqI) (simp add: bit_simps)
  obtain d' where d': "pgraph_write d NV_PGRAPH_INTR (-1) = Some d'" "pgraph_pending d' = 0"
    by (simp add: pgraph_write_def one Let_def pfifo_kick_def)
  have "pmc_pending d \<noteq> 0" using assms(2) by auto
  then have "nv_irq d" using assms(1,3) by (simp add: master_ok_def)
  then show ?thesis using d' pgraph_write_same [OF d'(1)] assms(2) by (auto simp: same_irq_def)
qed

theorem pgraph_ack_keeps_line_witness:
  "\<exists>d'. pgraph_write (nv2a_blank\<lparr>nv_irq := True, pmc_pending := 0x1000, pmc_enabled := 1, pgraph_pending := 1,
      pgraph_enabled := 1\<rparr>) NV_PGRAPH_INTR (-1) = Some d' \<and> pgraph_pending d' = 0
    \<and> pmc_pending d' AND NV_PMC_INTR_0_PGRAPH \<noteq> 0 \<and> nv_irq d'"
  by (rule pgraph_ack_keeps_line) (simp_all add: master_ok_def nv2a_blank_def)

end
