(* ===== verification/Nv2a_Props.thy ===== *)
theory Nv2a_Props
  imports Nv2a_Mmio
begin

text \<open>
  Properties of the graphics chip's small blocks: the table of blocks and the totality of register
  accesses, the timer, the clock, the palette, the clipping of blits at tile ends, and the waiting of
  the command stream for the CPU.
\<close>

section \<open>Accesses\<close>

definition block_in :: "nv_block \<times> nat \<times> nat \<Rightarrow> nat \<Rightarrow> bool" where
  "block_in t addr = (fst (snd t) \<le> addr \<and> addr < fst (snd t) + snd (snd t))"

fun ordered_blocks :: "(nv_block \<times> nat \<times> nat) list \<Rightarrow> bool" where
  "ordered_blocks (s # t # ts) = (fst (snd s) + snd (snd s) \<le> fst (snd t) \<and> ordered_blocks (t # ts))"
| "ordered_blocks ts = True"

lemma ordered_later: "ordered_blocks (s # ts) \<Longrightarrow> t \<in> set ts \<Longrightarrow> fst (snd s) + snd (snd s) \<le> fst (snd t)"
proof (induction ts arbitrary: s)
  case (Cons u ts)
  show ?case
  proof (cases "t = u")
    case False
    then have "fst (snd u) + snd (snd u) \<le> fst (snd t)" using Cons by auto
    then show ?thesis using Cons.prems(1) by simp
  qed (use Cons.prems in simp)
qed simp

lemma ordered_tail: "ordered_blocks (s # ts) \<Longrightarrow> ordered_blocks ts"
  by (cases ts) simp_all

lemma find_block: "ordered_blocks ts \<Longrightarrow> t \<in> set ts \<Longrightarrow> block_in t addr \<Longrightarrow> find (\<lambda>t. block_in t addr) ts = Some t"
proof (induction ts)
  case (Cons s ts)
  show ?case
  proof (cases "t = s")
    case False
    then have t: "t \<in> set ts" using Cons.prems(2) by simp
    have "\<not> block_in s addr" using ordered_later [OF Cons.prems(1) t] Cons.prems(3) by (auto simp: block_in_def)
    then show ?thesis using Cons.IH [OF ordered_tail [OF Cons.prems(1)] t Cons.prems(3)] by simp
  qed (use Cons.prems in simp)
qed simp

lemma blocktable_ordered: "ordered_blocks blocktable"
  by (simp add: blocktable_def)

lemma nv_block_at_find: "nv_block_at addr = map_option (\<lambda>(b, off, sz). (b, addr - off)) (find (\<lambda>t. block_in t addr) blocktable)"
  unfolding nv_block_at_def block_in_def by (simp add: case_prod_unfold)

text \<open>The register blocks of the graphics chip do not overlap: an access inside the window of a block
  of the table reaches that block, at the offset from the block's base.\<close>

theorem nv_blocks_disjoint:
  assumes "(b, off, sz) \<in> set blocktable" and "off \<le> addr" and "addr < off + sz"
  shows "nv_block_at addr = Some (b, addr - off)"
  unfolding nv_block_at_find
  by (subst find_block [OF blocktable_ordered assms(1)]) (use assms in \<open>simp_all add: block_in_def\<close>)

theorem nv_blocks_disjoint_witness: "nv_block_at 0x601000 = Some (PRMCIO, 0)"
  using nv_blocks_disjoint [of PRMCIO "0x601000" "0x1000" "0x601000"] by (simp add: blocktable_def)

lemma nv_block_at_sound:
  assumes "nv_block_at addr = Some (b, a)"
  shows "\<exists>off sz. (b, off, sz) \<in> set blocktable \<and> off \<le> addr \<and> a = addr - off \<and> a < sz"
proof -
  obtain off sz where f: "find (\<lambda>t. block_in t addr) blocktable = Some (b, off, sz)" and a: "a = addr - off"
    using assms unfolding nv_block_at_find by auto
  have "(b, off, sz) \<in> set blocktable" "off \<le> addr" "addr < off + sz"
    using find_sound [OF f] by (simp_all add: block_in_def)
  then show ?thesis using a by (intro exI [of _ off] exI [of _ sz]) auto
qed

lemma block_offset:
  assumes "nv_block_at addr = Some (b, a)" and "addr mod 4 = 0"
  shows "a mod 4 = 0" and "b \<noteq> PFIFO \<Longrightarrow> b \<noteq> PGRAPH \<Longrightarrow> b \<noteq> USER \<Longrightarrow> b \<noteq> PRMFB \<Longrightarrow> a < 0x1000"
    and "b = PFIFO \<or> b = PGRAPH \<Longrightarrow> a < 0x2000"
proof -
  obtain off sz where t: "(b, off, sz) \<in> set blocktable" "off \<le> addr" "a = addr - off" "a < sz"
    using nv_block_at_sound [OF assms(1)] by blast
  have "off mod 4 = 0" using t(1) by (auto simp: blocktable_def)
  then show "a mod 4 = 0" using t(2,3) assms(2) by (metis dvd_diff_nat mod_eq_0_iff_dvd)
  show "b \<noteq> PFIFO \<Longrightarrow> b \<noteq> PGRAPH \<Longrightarrow> b \<noteq> USER \<Longrightarrow> b \<noteq> PRMFB \<Longrightarrow> a < 0x1000"
    using t(1,4) by (auto simp: blocktable_def)
  show "b = PFIFO \<or> b = PGRAPH \<Longrightarrow> a < 0x2000" using t(1,4) by (auto simp: blocktable_def)
qed

text \<open>The registers whose access depends on more than the address: the \<open>USER\<close> window checks the channel,
  the time registers divide by the numerator, and three PGRAPH registers act on other state.\<close>

definition plain_read :: "nv2a \<Rightarrow> nv_block \<Rightarrow> nat \<Rightarrow> bool" where
  "plain_read d b a = (b \<noteq> USER \<and> (b = PTIMER \<longrightarrow> ptimer_numerator d \<noteq> 0) \<and> (b = PGRAPH \<longrightarrow> a \<noteq> NV_PGRAPH_RDI_DATA))"

definition plain_write :: "nv_block \<Rightarrow> nat \<Rightarrow> bool" where
  "plain_write b a = (b \<noteq> USER \<and>
     (b = PGRAPH \<longrightarrow> a \<noteq> NV_PGRAPH_RDI_DATA \<and> a \<noteq> NV_PGRAPH_INCREMENT \<and> a \<noteq> NV_PGRAPH_CHANNEL_CTX_TRIGGER))"

lemma ptimer_clock: "ptimer_numerator d \<noteq> 0 \<Longrightarrow> \<exists>c. ptimer_get_clock d now = Some c"
  by (simp add: ptimer_get_clock_def muldiv64_def)



section \<open>Timer and clock\<close>

lemma unat_and_mask64: "unat (w AND mask n :: u64) = unat w mod 2 ^ n"
  unfolding take_bit_eq_mask [symmetric] unsigned_take_bit_eq by (rule take_bit_eq_mod)

lemma time_halves:
  fixes c :: u64
  shows "unat (drop_bit 27 c AND 0x1fffffff) * 2 ^ 27 + unat (push_bit 5 (c AND 0x7ffffff)) div 2 ^ 5
    = unat c mod 2 ^ 56"
proof -
  have m: "(0x1fffffff :: u64) = mask 29" "(0x7ffffff :: u64) = mask 27" by (simp_all add: mask_eq_exp_minus_1)
  have lo: "unat (c AND 0x7ffffff) = unat c mod 2 ^ 27" unfolding m by (rule unat_and_mask64)
  have "unat (push_bit 5 (c AND 0x7ffffff)) = unat (c AND 0x7ffffff) * 2 ^ 5 mod 2 ^ 64"
    by (simp add: push_bit_eq_mult unat_word_ariths)
  also have "\<dots> = unat c mod 2 ^ 27 * 2 ^ 5" unfolding lo by (rule mod_less) simp
  finally have "unat (push_bit 5 (c AND 0x7ffffff)) div 2 ^ 5 = unat c mod 2 ^ 27" by simp
  moreover have "unat (drop_bit 27 c AND 0x1fffffff) = unat c div 2 ^ 27 mod 2 ^ 29"
    unfolding m unat_and_mask64 unat_drop_bit_eq by (simp add: drop_bit_eq_div)
  moreover have "unat c mod 2 ^ 56 = 2 ^ 27 * (unat c div 2 ^ 27 mod 2 ^ 29) + unat c mod 2 ^ 27"
    using mod_mult2_eq [of "unat c" "2 ^ 27" "2 ^ 29"] by simp
  ultimately show ?thesis by simp
qed

text \<open>C31: The two halves of the timer put together are the low 56 bits of the virtual time converted
  by the core clock and the guest's ratio; with a zero numerator a read of either half is a
  division by zero, and nothing else about the timer is.\<close>

theorem ptimer_halves:
  "(ptimer_numerator d = 0 \<longrightarrow>
      ptimer_read d now NV_PTIMER_TIME_0 = None \<and> ptimer_read d now NV_PTIMER_TIME_1 = None)
   \<and> (ptimer_numerator d \<noteq> 0 \<longrightarrow>
      (\<exists>lo hi. ptimer_read d now NV_PTIMER_TIME_0 = Some lo \<and> ptimer_read d now NV_PTIMER_TIME_1 = Some hi
        \<and> unat hi * 2 ^ 27 + unat lo div 2 ^ 5 =
          (unat now * unat (ucast (core_clock_freq d) :: u32) div 1000000000) mod 2 ^ 64
            * unat (ptimer_denominator d) div unat (ptimer_numerator d) mod 2 ^ 56))"
proof (intro conjI impI)
  assume "ptimer_numerator d \<noteq> 0"
  let ?t = "of_nat (unat now * unat (ucast (core_clock_freq d) :: u32) div 1000000000) :: u64"
  let ?c = "of_nat (unat ?t * unat (ptimer_denominator d) div unat (ptimer_numerator d)) :: u64"
  have "ptimer_get_clock d now = Some ?c"
    using \<open>ptimer_numerator d \<noteq> 0\<close> by (simp add: ptimer_get_clock_def muldiv64_def)
  then have r: "ptimer_read d now NV_PTIMER_TIME_0 = Some (push_bit 5 (?c AND 0x7ffffff))"
    "ptimer_read d now NV_PTIMER_TIME_1 = Some (drop_bit 27 ?c AND 0x1fffffff)"
    by (simp_all add: ptimer_read_def)
  have "unat ?c mod 2 ^ 56 = unat ?t * unat (ptimer_denominator d) div unat (ptimer_numerator d) mod 2 ^ 56"
    unfolding unat_of_nat by (rule mod_mod_cancel) simp
  moreover have "unat ?t = unat now * unat (ucast (core_clock_freq d) :: u32) div 1000000000 mod 2 ^ 64"
    unfolding unat_of_nat by simp
  ultimately show "\<exists>lo hi. ptimer_read d now NV_PTIMER_TIME_0 = Some lo \<and> ptimer_read d now NV_PTIMER_TIME_1 = Some hi
      \<and> unat hi * 2 ^ 27 + unat lo div 2 ^ 5 =
        (unat now * unat (ucast (core_clock_freq d) :: u32) div 1000000000) mod 2 ^ 64
          * unat (ptimer_denominator d) div unat (ptimer_numerator d) mod 2 ^ 56"
    using r time_halves [of ?c] by metis
qed (simp_all add: ptimer_read_def ptimer_get_clock_def muldiv64_def)

text \<open>The theorem at a clock of 1 GHz and the ratio 2 to 1.\<close>

theorem ptimer_halves_witness:
  "\<exists>lo hi. ptimer_read (nv2a_blank\<lparr>core_clock_freq := 1000000000, ptimer_numerator := 1, ptimer_denominator := 2\<rparr>)
        12345 NV_PTIMER_TIME_0 = Some lo
    \<and> ptimer_read (nv2a_blank\<lparr>core_clock_freq := 1000000000, ptimer_numerator := 1, ptimer_denominator := 2\<rparr>)
        12345 NV_PTIMER_TIME_1 = Some hi
    \<and> unat hi * 2 ^ 27 + unat lo div 2 ^ 5 = 24690"
  using ptimer_halves [of "nv2a_blank\<lparr>core_clock_freq := 1000000000, ptimer_numerator := 1, ptimer_denominator := 2\<rparr>" 12345]
  by simp

lemma unat_and_mask32: "unat (w AND mask n :: u32) = unat w mod 2 ^ n"
  unfolding take_bit_eq_mask [symmetric] unsigned_take_bit_eq by (rule take_bit_eq_mod)

lemma coeff_fields:
  fixes v :: u32
  shows "unat (v AND 0xFF) = unat v mod 256" "unat (drop_bit 8 (v AND 0xFF00)) = unat v div 256 mod 256"
    "unat (drop_bit 16 (v AND 0x70000)) = unat v div 65536 mod 8"
proof -
  have m: "(0xFF :: u32) = mask 8" "(0xFF00 :: u32) = push_bit 8 (mask 8)" "(0x70000 :: u32) = push_bit 16 (mask 3)"
    by (simp_all add: mask_eq_exp_minus_1 push_bit_eq_mult)
  have d: "drop_bit k (v AND push_bit k (mask n)) = drop_bit k v AND mask n" if "k + n \<le> 32" for k n
    using that by (intro bit_word_eqI) (auto simp: bit_simps)
  show "unat (v AND 0xFF) = unat v mod 256" unfolding m unat_and_mask32 by simp
  show "unat (drop_bit 8 (v AND 0xFF00)) = unat v div 256 mod 256"
    unfolding m by (subst d) (simp_all add: unat_and_mask32 unat_drop_bit_eq drop_bit_eq_div unat_div_distrib)
  show "unat (drop_bit 16 (v AND 0x70000)) = unat v div 65536 mod 8"
    unfolding m by (subst d) (simp_all add: unat_and_mask32 unat_drop_bit_eq drop_bit_eq_div unat_div_distrib)
qed

lemma nvpll_divide:
  fixes m n :: u32
  assumes "unat n < 256" and "p < 8"
  shows "unat ((16666666 * n) div push_bit p 1 div m) = 16666666 * unat n div 2 ^ p div unat m"
proof -
  have "unat (16666666 * n) = 16666666 * unat n mod 2 ^ 32" by (simp add: unat_word_ariths)
  also have "\<dots> = 16666666 * unat n" using assms(1) by (intro mod_less) simp
  finally have prod: "unat (16666666 * n) = 16666666 * unat n" .
  have "(2 :: nat) ^ p < 2 ^ 32" using assms(2) by (intro power_strict_increasing) simp_all
  then have "(2 :: nat) ^ p mod 2 ^ 32 = 2 ^ p" by (rule mod_less)
  then have pow: "unat (push_bit p 1 :: u32) = 2 ^ p"
    unfolding unsigned_push_bit_eq by (simp add: take_bit_eq_mod push_bit_eq_mult)
  show ?thesis unfolding unat_div_distrib prod pow ..
qed

text \<open>The core clock frequency is computed without overflow and without a division by zero: for every
  coefficient the 32-bit arithmetic gives the crystal frequency times the multiplier, divided by the
  power of two and by the divider, and zero for a zero divider.\<close>

theorem nvpll_freq_exact:
  "unat (nvpll_freq v) =
     (let m = unat v mod 256; n = unat v div 256 mod 256; p = unat v div 65536 mod 8
      in if m = 0 then 0 else 16666666 * n div 2 ^ p div m)"
proof -
  have n: "unat (drop_bit 8 (v AND 0xFF00)) < 256" unfolding coeff_fields by simp
  have p: "unat (drop_bit 16 (v AND 0x70000)) < 8" unfolding coeff_fields by simp
  have z: "v AND 0xFF = 0 \<longleftrightarrow> unat v mod 256 = 0" unfolding coeff_fields(1) [symmetric] by (rule unat_eq_0 [symmetric])
  have up: "unat (ucast w :: u64) = unat w" for w :: u32 by (rule unat_ucast_up) simp
  show ?thesis
    unfolding nvpll_freq_def Let_def z if_distrib [of unat] up nvpll_divide [OF n p] unfolding coeff_fields by simp
qed

section \<open>Palette\<close>

abbreviation dac_load :: "u8 list \<Rightarrow> nv2a \<Rightarrow> nv2a" where
  "dac_load ws d \<equiv> fold (\<lambda>w d. prmdio_write d NV_USER_DAC_PALETTE_DATA (ucast w)) ws d"

lemma dac_load_ring:
  "length (dac_palette d) = 768 \<Longrightarrow> unat (dac_address d) + length ws < 65536 \<Longrightarrow>
   dac_palette (dac_load ws d) = ring_put (dac_palette d) (unat (dac_address d) mod 768) ws"
proof (induction ws arbitrary: d)
  case (Cons w ws)
  let ?d = "prmdio_write d NV_USER_DAC_PALETTE_DATA (ucast w)"
  have "unat (dac_address d + 1) = Suc (unat (dac_address d))"
    using Cons.prems(2) by (simp add: unat_word_ariths)
  moreover have "ucast (ucast w :: u64) = w" by (rule bit_word_eqI) (auto simp: bit_simps dest: bit_imp_le_length)
  ultimately have "dac_palette ?d = (dac_palette d)[unat (dac_address d) mod 768 := w]"
    "unat (dac_address ?d) = Suc (unat (dac_address d))" by (simp_all add: prmdio_write_def)
  then show ?case using Cons.prems Cons.IH [of ?d] by (simp add: mod_Suc_eq)
qed simp

text \<open>Loading the palette: after the guest has set an index and written up to 768 colour bytes, the
  palette holds them from that index on, wrapping at its end; every other entry is as it was,
  and the palette keeps its 768 bytes.\<close>

theorem palette_load:
  fixes i :: u8
  assumes "length (dac_palette d) = 768" and "length ws \<le> 768"
  defines "d' \<equiv> dac_load ws (prmdio_write d NV_USER_DAC_WRITE_MODE_ADDRESS (ucast i))"
  shows "ring_get (dac_palette d') (3 * unat i) (length ws) = ws
    \<and> (\<forall>k < 768. length ws \<le> ring_dist 768 (3 * unat i) k \<longrightarrow> dac_palette d' ! k = dac_palette d ! k)
    \<and> length (dac_palette d') = 768"
proof -
  let ?d = "prmdio_write d NV_USER_DAC_WRITE_MODE_ADDRESS (ucast i)"
  have "(ucast i :: u64) AND 0xff = ucast i" by (rule bit_word_eqI) (auto simp: mask_words bit_simps dest: bit_imp_le_length)
  then have "dac_address ?d = ucast (ucast i :: u64) * 3" by (simp add: prmdio_write_def)
  moreover have "(ucast (ucast i :: u64) :: u16) = ucast i"
    by (rule bit_word_eqI) (auto simp: bit_simps dest: bit_imp_le_length)
  moreover have "unat (ucast i :: u16) = unat i" by (rule unat_ucast_up) simp
  moreover have "3 * unat i mod 65536 = 3 * unat i" using unat_u8_bound [of i] by (intro mod_less) linarith
  ultimately have "unat (dac_address ?d) = 3 * unat i" by (simp add: unat_word_ariths mult.commute)
  moreover have "3 * unat i < 768" using unat_u8_bound [of i] by linarith
  moreover have "dac_palette ?d = dac_palette d" by (simp add: prmdio_write_def)
  moreover have "3 * unat i + length ws < 65536" using \<open>3 * unat i < 768\<close> assms(2) by linarith
  ultimately have "dac_palette d' = ring_put (dac_palette d) (3 * unat i) ws"
    unfolding d'_def using dac_load_ring [of ?d ws] assms(1,2) by simp
  then show ?thesis using assms(1,2) \<open>3 * unat i < 768\<close> by (simp add: ring_get_put nth_ring_put)
qed

theorem palette_load_witness:
  "ring_get (dac_palette (dac_load [10, 20, 30, 40, 50, 60]
      (prmdio_write nv2a_blank NV_USER_DAC_WRITE_MODE_ADDRESS (ucast (255 :: u8))))) (3 * unat (255 :: u8))
        (length [10, 20, 30, 40, 50, 60 :: u8]) = [10, 20, 30, 40, 50, 60]"
  by (rule palette_load [THEN conjunct1]) (simp_all add: nv2a_blank_def)

section \<open>Blits\<close>

definition tile_valid :: "(nat \<Rightarrow> u32) \<Rightarrow> nat \<Rightarrow> bool" where
  "tile_valid regs i = (regs (NV_PFB_TILE_BASE_ADDRESS_AND_FLAGS i) AND NV_PFB_TILE_FLAGS_VALID \<noteq> 0)"

abbreviation tile_end :: "(nat \<Rightarrow> u32) \<Rightarrow> nat \<Rightarrow> nat" where
  "tile_end regs i \<equiv> unat (regs (NV_PFB_TILE_LIMIT i))"

lemma clip_tiles_bounds:
  assumes "unat base + unat len < 2 ^ 64"
    and "\<forall>i \<in> set is. tile_valid regs i \<longrightarrow> tile_end regs i < 2 ^ 32 - 1"
  defines "r \<equiv> unat (clip_tiles regs is base len)"
  shows "r = unat len \<and> (\<forall>i \<in> set is. tile_valid regs i \<longrightarrow> tile_end regs i \<le> unat base \<or> unat base + unat len \<le> tile_end regs i)
    \<or> r \<le> unat len \<and> (\<exists>i \<in> set is. tile_valid regs i \<and> unat base < tile_end regs i \<and> unat base + r = tile_end regs i + 1)"
  using assms(2) unfolding r_def
proof (induction "is")
  case (Cons i "is")
  let ?l = "regs (NV_PFB_TILE_LIMIT i)"
  have up: "unat (ucast w :: u64) = unat w" for w :: u32 by (rule unat_ucast_up) simp
  have sum: "unat (base + len) = unat base + unat len" using assms(1) by (simp add: unat_word_ariths)
  show ?case
  proof (cases "tile_valid regs i \<and> base < ucast ?l \<and> base + len > ucast ?l")
    case True
    then have v: "tile_valid regs i" and lo: "unat base < unat ?l" and hi: "unat ?l < unat base + unat len"
      by (auto simp: word_less_nat_alt up sum)
    have "unat (?l + 1) = unat ?l + 1" using Cons.prems v by (simp add: unat_word_ariths)
    then have "unat (ucast (?l + 1) - base) = unat ?l + 1 - unat base"
      using lo by (subst unat_sub) (simp_all add: word_le_nat_alt up)
    then have "unat (clip_tiles regs (i # is) base len) = unat ?l + 1 - unat base"
      using True by (simp add: tile_valid_def)
    then show ?thesis using v lo hi by auto
  next
    case False
    then have "clip_tiles regs (i # is) base len = clip_tiles regs is base len" by (auto simp: tile_valid_def Let_def)
    moreover have "tile_valid regs i \<longrightarrow> tile_end regs i \<le> unat base \<or> unat base + unat len \<le> tile_end regs i"
      using False by (auto simp: word_less_nat_alt up sum not_less)
    ultimately show ?thesis using Cons by auto
  qed
qed simp



section \<open>Waiting\<close>

lemma surface_fields:
  "NV_PGRAPH_SURFACE_READ_3D = reg_field 24 3" "NV_PGRAPH_SURFACE_WRITE_3D = reg_field 20 3"
  "NV_PGRAPH_SURFACE_MODULO_3D = reg_field 28 3"
  by (simp_all add: reg_field_def mask_eq_exp_minus_1 push_bit_eq_mult)

lemma get_field_less: "0 < w \<Longrightarrow> k < 32 \<Longrightarrow> w < 32 \<Longrightarrow> unat (get_mask v (reg_field k w)) < 2 ^ w"
  by (simp add: get_mask_field unsigned_take_bit_eq)

lemma field_fits: "unat (x :: u32) < 2 ^ w \<Longrightarrow> take_bit w x = x"
  by (simp add: word_unat_eq_iff unsigned_take_bit_eq take_bit_nat_eq_self)

lemma next_flip_differs: "1 < unat m \<Longrightarrow> unat c < 8 \<Longrightarrow> (c + 1) mod m \<noteq> (c :: u32)"
proof -
  assume m: "1 < unat m" and c: "unat c < 8"
  have "unat (c + 1) = unat c + 1" using c by (simp add: unat_word_ariths)
  then have u: "unat ((c + 1) mod m) = (unat c + 1) mod unat m" by (simp add: unat_mod_distrib)
  have "(unat c + 1) mod unat m \<noteq> unat c"
  proof (cases "unat c + 1 < unat m")
    case False
    then have "unat c + 1 = unat m \<or> unat m \<le> unat c" by linarith
    then show ?thesis
    proof
      assume "unat m \<le> unat c"
      then show ?thesis using mod_less_divisor [of "unat m" "unat c + 1"] m by linarith
    qed (use m in auto)
  qed simp
  then show ?thesis using u by metis
qed

lemma flip_increment_field:
  assumes "1 < unat (get_mask (pgraph_regs d NV_PGRAPH_SURFACE) NV_PGRAPH_SURFACE_MODULO_3D)"
    and m: "m = NV_PGRAPH_SURFACE_READ_3D \<or> m = NV_PGRAPH_SURFACE_WRITE_3D"
  shows "\<exists>d'. flip_increment d m = Some d' \<and> same_irq d d' \<and> waiting_for_flip d' = waiting_for_flip d
    \<and> pgraph_regs d' = (pgraph_regs d)(NV_PGRAPH_SURFACE := set_mask (pgraph_regs d NV_PGRAPH_SURFACE) m
        ((get_mask (pgraph_regs d NV_PGRAPH_SURFACE) m + 1)
           mod get_mask (pgraph_regs d NV_PGRAPH_SURFACE) NV_PGRAPH_SURFACE_MODULO_3D))"
proof -
  have "get_mask (pgraph_regs d NV_PGRAPH_SURFACE) NV_PGRAPH_SURFACE_MODULO_3D \<noteq> 0" using assms(1) by auto
  then show ?thesis
    by (simp add: flip_increment_def pg_get_mask_def pg_set_mask_def pgraph_reg_r_def pgraph_reg_w_def same_irq_def)
qed

text \<open>C33: A flip stall ends: while the command stream waits for the display to reach the frame it wrote, the
  guest's increment of the read counter (with a modulus above one) makes the two counters differ,
  wakes the FIFO thread, and at its next look the puller no longer waits and the flag is cleared.\<close>

theorem flip_stall_released:
  assumes "waiting_for_flip d" and "fst (pfifo_stall_for_flip d)"
    and "1 < unat (get_mask (pgraph_regs d NV_PGRAPH_SURFACE) NV_PGRAPH_SURFACE_MODULO_3D)"
  shows "\<exists>d'. pgraph_write d NV_PGRAPH_INCREMENT NV_PGRAPH_INCREMENT_READ_3D = Some d' \<and> fifo_kick d'
    \<and> \<not> fst (pfifo_stall_for_flip d') \<and> \<not> waiting_for_flip (snd (pfifo_stall_for_flip d'))"
proof -
  let ?s = "pgraph_regs d NV_PGRAPH_SURFACE" and ?R = "NV_PGRAPH_SURFACE_READ_3D"
  let ?c = "get_mask ?s ?R" and ?m = "get_mask ?s NV_PGRAPH_SURFACE_MODULO_3D"
  have eq: "?c = get_mask ?s NV_PGRAPH_SURFACE_WRITE_3D"
    using assms(1,2) by (simp add: pfifo_stall_for_flip_def is_flip_stall_complete_def Let_def split: if_splits)
  obtain d1 where d1: "flip_increment d ?R = Some d1" "waiting_for_flip d1 = waiting_for_flip d"
    "pgraph_regs d1 = (pgraph_regs d)(NV_PGRAPH_SURFACE := set_mask ?s ?R ((?c + 1) mod ?m))"
    using flip_increment_field [OF assms(3), of ?R] by blast
  have c8: "unat ?c < 8" and m8: "unat ?m < 8"
    using get_field_less [of 3 24 ?s] get_field_less [of 3 28 ?s] by (simp_all add: surface_fields)
  have "unat ((?c + 1) mod ?m) < 8"
    using mod_less_divisor [of "unat ?m" "unat (?c + 1)"] assms(3) m8 unfolding unat_mod_distrib by linarith
  then have "take_bit 3 ((?c + 1) mod ?m) = (?c + 1) mod ?m" by (intro field_fits) simp
  moreover have "get_mask (set_mask ?s ?R ((?c + 1) mod ?m)) ?R = take_bit 3 ((?c + 1) mod ?m)"
    unfolding surface_fields by (rule get_set_mask_field) simp_all
  moreover have "get_mask (set_mask ?s ?R ((?c + 1) mod ?m)) NV_PGRAPH_SURFACE_WRITE_3D = ?c"
    unfolding eq by (rule get_set_mask_other) simp
  ultimately have "is_flip_stall_complete (pfifo_kick d1)"
    using next_flip_differs [OF assms(3) c8] d1(3) by (simp add: is_flip_stall_complete_def Let_def pfifo_kick_def)
  then show ?thesis
    using d1(1,2) assms(1) by (simp add: pgraph_write_def pfifo_kick_def pfifo_stall_for_flip_def)
qed

lemma flip_fields_example:
  "get_mask 0x20000000 NV_PGRAPH_SURFACE_MODULO_3D = 2" "get_mask 0x20000000 NV_PGRAPH_SURFACE_READ_3D = 0"
  "get_mask 0x20000000 NV_PGRAPH_SURFACE_WRITE_3D = 0"
  unfolding surface_fields by (subst get_mask_field; simp add: take_bit_eq_mod drop_bit_eq_div)+

theorem flip_stall_released_witness:
  "\<exists>d'. pgraph_write (nv2a_blank\<lparr>waiting_for_flip := True, pgraph_regs := (\<lambda>_. 0)(NV_PGRAPH_SURFACE := 0x20000000)\<rparr>)
      NV_PGRAPH_INCREMENT NV_PGRAPH_INCREMENT_READ_3D = Some d' \<and> fifo_kick d'
    \<and> \<not> fst (pfifo_stall_for_flip d') \<and> \<not> waiting_for_flip (snd (pfifo_stall_for_flip d'))"
  by (rule flip_stall_released)
     (simp_all add: pfifo_stall_for_flip_def is_flip_stall_complete_def flip_fields_example)

lemma set_clear_bits: "x AND c = 0 \<Longrightarrow> (x OR c) AND NOT c = (x :: u32)"
proof (rule bit_word_eqI)
  fix n assume "x AND c = 0"
  then have "\<not> (bit x n \<and> bit c n)" by (metis bit_and_iff bit_0_eq bot_apply bot_bool_def)
  then show "n < LENGTH(32) \<Longrightarrow> bit ((x OR c) AND NOT c) n = bit x n" by (auto simp: bit_simps)
qed

lemma stall_for_flip_keeps [simp]:
  "waiting_for_nop (snd (pfifo_stall_for_flip d)) = waiting_for_nop d"
  by (simp add: pfifo_stall_for_flip_def)

text \<open>C34: The no-operation handshake ends: after a no-operation method with a parameter, the command stream
  stands still and the trapped method, subchannel and parameter can be read from PGRAPH; the
  guest's acknowledgement of the error interrupt lets the pusher run again and wakes its thread.\<close>

theorem nop_handshake:
  assumes "parameter \<noteq> 0" and "pgraph_pending d AND NV_PGRAPH_INTR_ERROR = 0" and "can_fifo_access d"
  shows "\<exists>d' d''. NV097_NO_OPERATION_handler d subchannel meth parameter = Some d'
    \<and> pfifo_pusher_should_stall d' \<and> fst (pfifo_puller_should_stall d')
    \<and> pgraph_regs d' NV_PGRAPH_TRAPPED_DATA_LOW = parameter
    \<and> get_mask (pgraph_regs d' NV_PGRAPH_TRAPPED_ADDR) NV_PGRAPH_TRAPPED_ADDR_MTHD = take_bit 13 meth
    \<and> get_mask (pgraph_regs d' NV_PGRAPH_TRAPPED_ADDR) NV_PGRAPH_TRAPPED_ADDR_SUBCH = take_bit 3 subchannel
    \<and> pgraph_write d' NV_PGRAPH_INTR (ucast NV_PGRAPH_INTR_ERROR) = Some d''
    \<and> \<not> pfifo_pusher_should_stall d'' \<and> fifo_kick d''"
proof -
  let ?A = NV_PGRAPH_TRAPPED_ADDR
  let ?a = "set_mask (pgraph_regs d ?A) NV_PGRAPH_TRAPPED_ADDR_CHID (get_mask (pgraph_regs d NV_PGRAPH_CTX_USER) NV_PGRAPH_CTX_USER_CHID)"
  let ?v = "set_mask (set_mask ?a NV_PGRAPH_TRAPPED_ADDR_SUBCH subchannel) NV_PGRAPH_TRAPPED_ADDR_MTHD meth"
  obtain d' where d': "NV097_NO_OPERATION_handler d subchannel meth parameter = Some d'"
    "pgraph_regs d' = (pgraph_regs d)(?A := ?v, NV_PGRAPH_TRAPPED_DATA_LOW := parameter,
       NV_PGRAPH_NSOURCE := NV_PGRAPH_NSOURCE_NOTIFICATION)"
    "pgraph_pending d' = pgraph_pending d OR NV_PGRAPH_INTR_ERROR" "waiting_for_nop d'"
    using assms(1,2)
    by (simp add: NV097_NO_OPERATION_handler_def pgraph_regs_eq nv2a_update_irq_eq fun_upd_twist)
  have f: "NV_PGRAPH_TRAPPED_ADDR_MTHD = reg_field 0 13" "NV_PGRAPH_TRAPPED_ADDR_SUBCH = reg_field 16 3"
    by (simp_all add: reg_field_def mask_eq_exp_minus_1 push_bit_eq_mult)
  have "get_mask ?v NV_PGRAPH_TRAPPED_ADDR_MTHD = take_bit 13 meth"
    unfolding f by (rule get_set_mask_field) simp_all
  moreover have "get_mask ?v NV_PGRAPH_TRAPPED_ADDR_SUBCH = take_bit 3 subchannel"
    by (subst get_set_mask_other, simp) (unfold f, rule get_set_mask_field, simp_all)
  moreover have "(pgraph_pending d OR NV_PGRAPH_INTR_ERROR) AND NOT NV_PGRAPH_INTR_ERROR = pgraph_pending d"
    by (rule set_clear_bits [OF assms(2)])
  moreover have "(ucast (ucast NV_PGRAPH_INTR_ERROR :: u64) :: u32) = NV_PGRAPH_INTR_ERROR" by simp
  moreover have "can_fifo_access d'" using assms(3) d'(2) by (simp add: can_fifo_access_def)
  ultimately show ?thesis
    using d' assms(2)
    by (simp add: pfifo_pusher_should_stall_def pfifo_puller_should_stall_def pgraph_write_def Let_def pfifo_kick_def
        can_fifo_access_def case_prod_beta)
qed


theorem nop_handshake_witness:
  "\<exists>d' d''. NV097_NO_OPERATION_handler (nv2a_blank\<lparr>pgraph_regs := (\<lambda>_. 0)(NV_PGRAPH_FIFO := 1)\<rparr>) 0 0x100 7 = Some d'
    \<and> pfifo_pusher_should_stall d' \<and> fst (pfifo_puller_should_stall d')
    \<and> pgraph_regs d' NV_PGRAPH_TRAPPED_DATA_LOW = 7
    \<and> get_mask (pgraph_regs d' NV_PGRAPH_TRAPPED_ADDR) NV_PGRAPH_TRAPPED_ADDR_MTHD = take_bit 13 0x100
    \<and> get_mask (pgraph_regs d' NV_PGRAPH_TRAPPED_ADDR) NV_PGRAPH_TRAPPED_ADDR_SUBCH = take_bit 3 0
    \<and> pgraph_write d' NV_PGRAPH_INTR (ucast NV_PGRAPH_INTR_ERROR) = Some d''
    \<and> \<not> pfifo_pusher_should_stall d'' \<and> fifo_kick d''"
  by (rule nop_handshake) (simp_all add: nv2a_blank_def can_fifo_access_def)

section \<open>Object handles\<close>

lemma ramht_fold_small: "unat h < 2 ^ Suc b \<Longrightarrow> Suc b < 32 \<Longrightarrow> ramht_fold b h 0 = h"
proof -
  assume h: "unat h < 2 ^ Suc b" "Suc b < 32"
  have m: "h AND mask (Suc b) = h" using h by (simp add: take_bit_eq_mask [symmetric] field_fits del: power_Suc)
  have "unat (drop_bit (Suc b) h) = unat h div 2 ^ Suc b" unfolding unat_drop_bit_eq by (rule drop_bit_eq_div)
  then have "drop_bit (Suc b) h = 0" using h(1) unat_eq_0 by (metis div_less)
  then have "ramht_fold b h 0 = ramht_fold b 0 (0 XOR (h AND mask (Suc b)))" if "h \<noteq> 0"
    using that by (subst ramht_fold.simps) simp
  then show ?thesis using m by (cases "h = 0") (simp_all add: ramht_fold.simps [of _ 0])
qed

lemma ramht_size_bits_range: "12 \<le> ramht_size_bits d \<and> ramht_size_bits d \<le> 15"
proof -
  have "NV_PFIFO_RAMHT_SIZE = reg_field 16 2" by (simp add: reg_field_def mask_eq_exp_minus_1 push_bit_eq_mult)
  then have "unat (get_mask (pfifo_regs d NV_PFIFO_RAMHT) NV_PFIFO_RAMHT_SIZE) < 4"
    using get_field_less [of 2 16] by simp
  then show ?thesis by (simp add: ramht_size_bits_def)
qed

text \<open>C36: The object hash table is addressed too far: on channel 0 a handle below half the table size is its own
  hash, an entry takes eight bytes, and so every handle from an eighth of the table size up to half of it
  stops the emulator at the assertion of the lookup.\<close>

theorem ramht_large_handles:
  assumes "get_mask (pfifo_regs d NV_PFIFO_CACHE1_PUSH1) NV_PFIFO_CACHE1_PUSH1_CHID = 0"
    and "unat h < 2 ^ (ramht_size_bits d - 1)"
  shows "ramht_hash d h = h \<and> (2 ^ (ramht_size_bits d - 3) \<le> unat h \<longrightarrow> ramht_lookup d h = None)"
proof -
  obtain b where b: "ramht_size_bits d = b + 3" "b \<le> 12" "0 < b"
  proof
    show "ramht_size_bits d = (ramht_size_bits d - 3) + 3" "ramht_size_bits d - 3 \<le> 12" "0 < ramht_size_bits d - 3"
      using ramht_size_bits_range [of d] by linarith+
  qed
  have h: "unat h < 2 ^ Suc (Suc b)" using assms(2) b by simp
  have "ramht_fold (Suc b) h 0 = h" by (rule ramht_fold_small [OF h]) (use b(2) in simp)
  then have hash: "ramht_hash d h = h" using assms(1) b by (simp add: ramht_hash_def Let_def)
  have "(2 :: nat) ^ Suc (Suc b) \<le> 2 ^ 14" using b(2) by (intro power_increasing) simp_all
  then have "unat h * 8 < 2 ^ 32" using h by simp
  then have "unat (h * 8) = unat h * 8" by (simp add: unat_word_ariths)
  moreover have "(2 :: nat) ^ (b + 3) = 2 ^ b * 8" by (simp add: power_add)
  ultimately have "ramht_lookup d h = None" if "2 ^ b \<le> unat h"
    using that hash b(1) by (simp add: ramht_lookup_def Let_def)
  then show ?thesis using hash b(1) by simp
qed

lemma ramht_blank: "get_mask 0 m = 0" "ramht_size_bits nv2a_blank = 12"
  by (simp_all add: get_mask_def ramht_size_bits_def nv2a_blank_def)

theorem ramht_large_handles_witness:
  "ramht_hash nv2a_blank 0x200 = 0x200 \<and> ramht_lookup nv2a_blank 0x200 = None"
  using ramht_large_handles [of nv2a_blank "0x200"] ramht_blank by (simp add: nv2a_blank_def)

end
