(* ===== verification/Swizzle.thy ===== *)
theory Swizzle
  imports Prelude
begin

text \<open>
  Conversion between linear and swizzled (Z-ordered) textures, \<^verbatim>\<open>hw/xbox/nv2a/pgraph/swizzle.c\<close>. The two
  buffers are byte memories of their own; offsets are computed with 32-bit words as in the code. The loop that
  generates the masks is a partial function: it does not end for a dimension above \<open>2 ^ 31\<close>.
\<close>

section \<open>Masks\<close>

partial_function (option) swizzle_mask_loop ::
  "u32 \<Rightarrow> u32 \<Rightarrow> u32 \<Rightarrow> u32 \<Rightarrow> u32 \<Rightarrow> u32 \<Rightarrow> u32 \<Rightarrow> u32 \<Rightarrow> (u32 \<times> u32 \<times> u32 \<times> u32) option" where
  "swizzle_mask_loop width height depth x y z b mask_bit =
     (let cx = b < width; cy = b < height; cz = b < depth;
          x = (if cx then x OR mask_bit else x); mask_bit = (if cx then push_bit 1 mask_bit else mask_bit);
          y = (if cy then y OR mask_bit else y); mask_bit = (if cy then push_bit 1 mask_bit else mask_bit);
          z = (if cz then z OR mask_bit else z); mask_bit = (if cz then push_bit 1 mask_bit else mask_bit);
          b = push_bit 1 b
      in if cx \<or> cy \<or> cz then swizzle_mask_loop width height depth x y z b mask_bit
         else Some (x, y, z, mask_bit))"

definition generate_swizzle_masks :: "u32 \<Rightarrow> u32 \<Rightarrow> u32 \<Rightarrow> (u32 \<times> u32 \<times> u32) option" where
  "generate_swizzle_masks width height depth = do {
     (x, y, z, mask_bit) \<leftarrow> swizzle_mask_loop width height depth 0 0 0 1 1;
     assert_that (x XOR y XOR z = mask_bit - 1);
     Some (x, y, z)
   }"

section \<open>Copying\<close>

definition copy_pixel :: "memory \<Rightarrow> nat \<Rightarrow> memory \<Rightarrow> nat \<Rightarrow> u32 \<Rightarrow> memory" where
  "copy_pixel src from dst at bpp = dma_write dst at (dma_read src from (unat bpp))"

definition next_offset :: "u32 \<Rightarrow> u32 \<Rightarrow> u32" where
  "next_offset m off = (off - m) AND m"

definition swizzle_box_internal ::
  "memory \<Rightarrow> u32 \<Rightarrow> u32 \<Rightarrow> u32 \<Rightarrow> memory \<Rightarrow> u32 \<Rightarrow> u32 \<Rightarrow> u32 \<Rightarrow> memory option" where
  "swizzle_box_internal src width height depth dst row_pitch slice_pitch bpp = do {
     (mask_x, mask_y, mask_z) \<leftarrow> generate_swizzle_masks width height depth;
     Some (fst (fold (\<lambda>z (dst, off_z).
       (fst (fold (\<lambda>y (dst, off_y).
          (fst (fold (\<lambda>x (dst, off_x).
             (copy_pixel src (z * unat slice_pitch + unat (of_nat y * row_pitch) + unat (of_nat x * bpp))
                dst (unat ((off_y + off_z) * bpp) + unat (off_x * bpp)) bpp,
              next_offset mask_x off_x)) [0..<unat width] (dst, 0)),
           next_offset mask_y off_y)) [0..<unat height] (dst, 0)),
        next_offset mask_z off_z)) [0..<unat depth] (dst, 0)))
   }"

definition unswizzle_box_internal ::
  "memory \<Rightarrow> u32 \<Rightarrow> u32 \<Rightarrow> u32 \<Rightarrow> memory \<Rightarrow> u32 \<Rightarrow> u32 \<Rightarrow> u32 \<Rightarrow> memory option" where
  "unswizzle_box_internal src width height depth dst row_pitch slice_pitch bpp = do {
     (mask_x, mask_y, mask_z) \<leftarrow> generate_swizzle_masks width height depth;
     Some (fst (fold (\<lambda>z (dst, off_z).
       (fst (fold (\<lambda>y (dst, off_y).
          (fst (fold (\<lambda>x (dst, off_x).
             (copy_pixel src (unat ((off_y + off_z) * bpp) + unat (off_x * bpp))
                dst (z * unat slice_pitch + unat (of_nat y * row_pitch) + unat (of_nat x * bpp)) bpp,
              next_offset mask_x off_x)) [0..<unat width] (dst, 0)),
           next_offset mask_y off_y)) [0..<unat height] (dst, 0)),
        next_offset mask_z off_z)) [0..<unat depth] (dst, 0)))
   }"

text \<open>The code has a copy of each routine for the common pixel sizes.\<close>

definition swizzle_box :: "memory \<Rightarrow> u32 \<Rightarrow> u32 \<Rightarrow> u32 \<Rightarrow> memory \<Rightarrow> u32 \<Rightarrow> u32 \<Rightarrow> u32 \<Rightarrow> memory option" where
  "swizzle_box src width height depth dst row_pitch slice_pitch bytes_per_pixel =
     (if bytes_per_pixel = 1 then swizzle_box_internal src width height depth dst row_pitch slice_pitch 1
      else if bytes_per_pixel = 2 then swizzle_box_internal src width height depth dst row_pitch slice_pitch 2
      else if bytes_per_pixel = 3 then swizzle_box_internal src width height depth dst row_pitch slice_pitch 3
      else if bytes_per_pixel = 4 then swizzle_box_internal src width height depth dst row_pitch slice_pitch 4
      else swizzle_box_internal src width height depth dst row_pitch slice_pitch bytes_per_pixel)"

definition unswizzle_box :: "memory \<Rightarrow> u32 \<Rightarrow> u32 \<Rightarrow> u32 \<Rightarrow> memory \<Rightarrow> u32 \<Rightarrow> u32 \<Rightarrow> u32 \<Rightarrow> memory option" where
  "unswizzle_box src width height depth dst row_pitch slice_pitch bytes_per_pixel =
     (if bytes_per_pixel = 1 then unswizzle_box_internal src width height depth dst row_pitch slice_pitch 1
      else if bytes_per_pixel = 2 then unswizzle_box_internal src width height depth dst row_pitch slice_pitch 2
      else if bytes_per_pixel = 3 then unswizzle_box_internal src width height depth dst row_pitch slice_pitch 3
      else if bytes_per_pixel = 4 then unswizzle_box_internal src width height depth dst row_pitch slice_pitch 4
      else unswizzle_box_internal src width height depth dst row_pitch slice_pitch bytes_per_pixel)"

text \<open>A flat texture is a box of depth one.\<close>

definition unswizzle_rect :: "memory \<Rightarrow> u32 \<Rightarrow> u32 \<Rightarrow> memory \<Rightarrow> u32 \<Rightarrow> u32 \<Rightarrow> memory option" where
  "unswizzle_rect src width height dst pitch bytes_per_pixel =
     unswizzle_box src width height 1 dst pitch 0 bytes_per_pixel"

definition swizzle_rect :: "memory \<Rightarrow> u32 \<Rightarrow> u32 \<Rightarrow> memory \<Rightarrow> u32 \<Rightarrow> u32 \<Rightarrow> memory option" where
  "swizzle_rect src width height dst pitch bytes_per_pixel =
     swizzle_box src width height 1 dst pitch 0 bytes_per_pixel"

lemma versions_agree:
  "swizzle_box = swizzle_box_internal" "unswizzle_box = unswizzle_box_internal"
  by (intro ext; simp add: swizzle_box_def unswizzle_box_def)+

section \<open>Depositing bits in a mask\<close>

text \<open>The bits of \<open>k\<close>, lowest first, put into the places of \<open>m\<close>; and the number of places.\<close>

fun pdep :: "nat \<Rightarrow> nat \<Rightarrow> nat" where
  "pdep m k = (if m = 0 then 0 else if even m then 2 * pdep (m div 2) k else k mod 2 + 2 * pdep (m div 2) (k div 2))"

fun places :: "nat \<Rightarrow> nat" where
  "places m = (if m = 0 then 0 else m mod 2 + places (m div 2))"

declare pdep.simps [simp del] places.simps [simp del]

lemma pdep_0 [simp]: "pdep 0 k = 0" by (simp add: pdep.simps)

lemma pdep_zero [simp]: "pdep m 0 = 0"
  by (induction m "0 :: nat" rule: pdep.induct) (simp add: pdep.simps)

lemma places_0 [simp]: "places 0 = 0" by (simp add: places.simps)

lemma pdep_even: "pdep (2 * m) k = 2 * pdep m k"
  by (cases "m = 0") (simp_all add: pdep.simps [of "2 * m"])

lemma pdep_odd: "pdep (Suc (2 * m)) k = k mod 2 + 2 * pdep m (k div 2)"
  by (simp add: pdep.simps [of "Suc (2 * m)"])

lemma places_even: "places (2 * m) = places m"
  by (cases "m = 0") (simp_all add: places.simps [of "2 * m"])

lemma places_odd: "places (Suc (2 * m)) = Suc (places m)"
  by (simp add: places.simps [of "Suc (2 * m)"])

lemma binary_induct [case_names zero even odd]:
  fixes P :: "nat \<Rightarrow> bool"
  assumes "P 0" and "\<And>m. P m \<Longrightarrow> P (2 * m)" and "\<And>m. P m \<Longrightarrow> P (Suc (2 * m))"
  shows "P m"
proof (induction m rule: less_induct)
  case (less m)
  show ?case
  proof (cases "m = 0")
    case False
    then have "P (m div 2)" using less by simp
    then show ?thesis using assms(2,3) [of "m div 2"] by (cases "even m") auto
  qed (use assms(1) in simp)
qed

lemma pdep_le: "pdep m k \<le> m"
proof (induction m arbitrary: k rule: binary_induct)
  case (odd m)
  have "k mod 2 \<le> 1" by simp
  then show ?case using odd [of "k div 2"] unfolding pdep_odd by linarith
qed (simp_all add: pdep_even)

lemma pdep_inj: "k < 2 ^ places m \<Longrightarrow> k' < 2 ^ places m \<Longrightarrow> pdep m k = pdep m k' \<Longrightarrow> k = k'"
proof (induction m arbitrary: k k' rule: binary_induct)
  case (odd m)
  then have e: "k mod 2 + 2 * pdep m (k div 2) = k' mod 2 + 2 * pdep m (k' div 2)" by (simp add: pdep_odd)
  then have "k mod 2 = k' mod 2" "pdep m (k div 2) = pdep m (k' div 2)" by presburger+
  moreover have "k div 2 < 2 ^ places m" "k' div 2 < 2 ^ places m" using odd(2,3) by (auto simp: places_odd)
  ultimately have "k div 2 = k' div 2" using odd(1) by blast
  then show ?case using \<open>k mod 2 = k' mod 2\<close> by (metis div_mult_mod_eq)
qed (simp_all add: pdep_even places_even)

lemma and_double_int:
  fixes x y :: int
  shows "2 * x AND 2 * y = 2 * (x AND y)" "2 * x AND (1 + 2 * y) = 2 * (x AND y)" "(1 + 2 * x) AND (1 + 2 * y) = 1 + 2 * (x AND y)"
  by (simp_all add: and_rec [of "2 * x"] and_rec [of "1 + 2 * x"])

lemma pdep_submask: "int (pdep m k) AND int m = int (pdep m k)"
proof (induction m arbitrary: k rule: binary_induct)
  case (even m)
  show ?case using even [of k] by (simp add: pdep_even and_double_int)
next
  case (odd m)
  have "k mod 2 = 0 \<or> k mod 2 = 1" by auto
  then show ?case using odd [of "k div 2"] by (auto simp: pdep_odd and_double_int)
qed simp

text \<open>Subtracting one more than the complement inside the mask gives the same bits.\<close>

lemma submask_minus: "x AND m = x \<Longrightarrow> (x - m - 1) AND m = (x :: int)"
proof -
  assume x: "x AND m = x"
  have "m = x OR (m AND NOT x)" by (rule bit_eqI) (metis x bit_and_iff bit_or_iff bit_not_iff possible_bit_int)
  also have "\<dots> = x + (m AND NOT x)" by (rule disjunctive_add [symmetric]) (simp add: bit_simps)
  finally have "x - m - 1 = NOT (m AND NOT x)" by (simp add: not_eq_complement)
  then show ?thesis by (simp add: x) (metis (no_types, lifting) x and.commute and.assoc bit.conj_disj_distrib bit.conj_cancel_right or.right_neutral or.left_neutral)
qed

lemma pdep_step: "(int (pdep m k) - int m) AND int m = int (pdep m (Suc k))"
proof (induction m arbitrary: k rule: binary_induct)
  case (even m)
  show ?case
    by (simp only: pdep_even of_nat_mult of_nat_numeral right_diff_distrib [symmetric] and_double_int(1) even)
next
  case (odd m)
  let ?d = "int (pdep (Suc (2 * m)) k) - int (Suc (2 * m))"
  have m: "int (Suc (2 * m)) = 1 + 2 * int m" by simp
  show ?case
  proof (cases "even k")
    case True
    then have d: "?d = 1 + 2 * (int (pdep m (k div 2)) - int m - 1)" by (simp add: pdep_odd)
    have "(int (pdep m (k div 2)) - int m - 1) AND int m = int (pdep m (k div 2))"
      by (rule submask_minus) (rule pdep_submask)
    then have "?d AND int (Suc (2 * m)) = 1 + 2 * int (pdep m (k div 2))" unfolding d unfolding m and_double_int by simp
    moreover have "Suc k mod 2 = 1" "Suc k div 2 = k div 2" using True by presburger+
    ultimately show ?thesis by (simp add: pdep_odd)
  next
    case False
    then have d: "?d = 2 * (int (pdep m (k div 2)) - int m)" by (simp add: pdep_odd odd_iff_mod_2_eq_one)
    have "?d AND int (Suc (2 * m)) = 2 * int (pdep m (Suc (k div 2)))" unfolding d unfolding m and_double_int odd ..
    moreover have "Suc k mod 2 = 0" "Suc k div 2 = Suc (k div 2)" using False by presburger+
    ultimately show ?thesis by (simp add: pdep_odd)
  qed
qed simp

definition wpdep :: "u32 \<Rightarrow> nat \<Rightarrow> u32" where
  "wpdep m k = of_nat (pdep (unat m) k)"

lemma unat_wpdep: "unat (wpdep m k) = pdep (unat m) k"
proof -
  have "pdep (unat m) k < 2 ^ 32" using pdep_le [of "unat m" k] unat_u32_bound [of m] by simp
  then show ?thesis unfolding wpdep_def unat_of_nat by (subst mod_less) simp_all
qed

lemma wpdep_0 [simp]: "wpdep m 0 = 0"
  by (simp add: wpdep_def)

lemma next_offset_wpdep: "next_offset m (wpdep m k) = wpdep m (Suc k)"
proof -
  have m: "m = word_of_int (int (unat m))" by simp
  have "next_offset m (wpdep m k) = word_of_int ((int (pdep (unat m) k) - int (unat m)) AND int (unat m))"
    unfolding next_offset_def wpdep_def by (simp add: of_int_and_eq)
  then show ?thesis by (simp only: pdep_step) (simp add: wpdep_def)
qed

lemma wpdep_submask: "wpdep m k AND m = wpdep m k"
proof -
  have "wpdep m k AND m = word_of_int (int (pdep (unat m) k) AND int (unat m))"
    by (simp add: wpdep_def of_int_and_eq)
  then show ?thesis by (simp only: pdep_submask) (simp add: wpdep_def)
qed

lemma wpdep_inj: "k < 2 ^ places (unat m) \<Longrightarrow> k' < 2 ^ places (unat m) \<Longrightarrow> wpdep m k = wpdep m k' \<Longrightarrow> k = k'"
  using pdep_inj unat_wpdep by metis

section \<open>The masks interleave the dimensions\<close>

text \<open>The masks share no bit and fill the lowest \<open>n\<close> places.\<close>

definition masks_inv :: "nat \<Rightarrow> u32 \<Rightarrow> u32 \<Rightarrow> u32 \<Rightarrow> bool" where
  "masks_inv n x y z = (\<forall>i. (bit x i \<or> bit y i \<or> bit z i \<longleftrightarrow> i < n)
     \<and> \<not> (bit x i \<and> bit y i) \<and> \<not> (bit x i \<and> bit z i) \<and> \<not> (bit y i \<and> bit z i))"

lemma masks_inv_rotate: "masks_inv n x y z \<longleftrightarrow> masks_inv n y z x"
  by (auto simp: masks_inv_def)

lemma unat_exp_word: "n < 32 \<Longrightarrow> unat (2 ^ n :: u32) = 2 ^ n"
proof -
  assume n: "n < 32"
  have "(2 :: nat) ^ n < 2 ^ 32" using n by (intro power_strict_increasing) simp_all
  then have "(2 :: nat) ^ n mod 2 ^ 32 = 2 ^ n" by (rule mod_less)
  moreover have "(2 ^ n :: u32) = push_bit n 1" by (simp add: push_bit_eq_mult)
  ultimately show ?thesis unfolding \<open>2 ^ n = push_bit n 1\<close> unsigned_push_bit_eq by (simp add: take_bit_eq_mod push_bit_eq_mult)
qed

lemma places_add: "v < 2 ^ n \<Longrightarrow> places (v + 2 ^ n) = Suc (places v)"
proof (induction n arbitrary: v)
  case 0
  then show ?case using places_odd [of 0] by simp
next
  case (Suc n)
  have IH: "places (v div 2 + 2 ^ n) = Suc (places (v div 2))" using Suc by (simp add: less_mult_imp_div_less)
  show ?case
  proof (cases "even v")
    case True
    then obtain u where u: "v = 2 * u" ..
    have "v + 2 ^ Suc n = 2 * (u + 2 ^ n)" using u by simp
    then show ?thesis using IH u by (simp only: places_even) simp
  next
    case False
    then obtain u where u: "v = Suc (2 * u)" by (auto elim: oddE)
    have "v + 2 ^ Suc n = Suc (2 * (u + 2 ^ n))" using u by simp
    then show ?thesis using IH u by (simp only: places_odd) simp
  qed
qed

lemma unat_less_exp:
  assumes "\<And>i. bit (x :: u32) i \<Longrightarrow> i < n"
  shows "unat x < 2 ^ n"
proof -
  have "take_bit n x = x" by (rule bit_word_eqI) (use assms in \<open>auto simp: bit_simps\<close>)
  then have "unat x = take_bit n (unat x)" by (metis unsigned_take_bit_eq)
  then show ?thesis by (metis take_bit_nat_less_exp)
qed

lemma add_place:
  assumes inv: "masks_inv n x y z" and n: "n < 32"
  shows "masks_inv (Suc n) (x OR 2 ^ n) y z" and "places (unat (x OR 2 ^ n)) = Suc (places (unat x))"
proof -
  show "masks_inv (Suc n) (x OR 2 ^ n) y z"
    using inv n by (auto simp: masks_inv_def bit_or_iff bit_exp_word less_Suc_eq)
  have x: "unat x < 2 ^ n" by (rule unat_less_exp) (use inv in \<open>auto simp: masks_inv_def\<close>)
  have "\<not> bit x n" using inv by (auto simp: masks_inv_def)
  then have "x OR 2 ^ n = x + 2 ^ n" using n by (intro disjunctive_add [symmetric]) (auto simp: bit_exp_word)
  moreover have "unat (2 ^ n :: u32) = 2 ^ n" by (rule unat_exp_word [OF n])
  moreover have "unat x + 2 ^ n < 2 ^ 32"
  proof -
    have "(2 :: nat) ^ Suc n \<le> 2 ^ 32" using n by (intro power_increasing) simp_all
    then show ?thesis using x by simp
  qed
  ultimately have "unat (x OR 2 ^ n) = unat x + 2 ^ n" by (simp add: unat_word_ariths)
  then show "places (unat (x OR 2 ^ n)) = Suc (places (unat x))" using places_add [OF x] by simp
qed

lemma exp_less_word: "i < 32 \<Longrightarrow> a < 32 \<Longrightarrow> (2 ^ i :: u32) < 2 ^ a \<longleftrightarrow> i < a"
  by (simp add: word_less_nat_alt unat_exp_word)

lemma double_exp_word: "push_bit 1 (2 ^ n :: u32) = 2 ^ Suc n"
  by (simp add: push_bit_eq_mult)

text \<open>One dimension of one round.\<close>

lemma dim_round:
  fixes c :: bool
  assumes inv: "masks_inv n x y z" and n: "n < 32"
  defines "x' \<equiv> if c then x OR 2 ^ n else x" and "n' \<equiv> n + (if c then 1 else 0)"
  shows "masks_inv n' x' y z" and "places (unat x') = places (unat x) + (if c then 1 else 0)"
    and "(if c then push_bit 1 (2 ^ n) else 2 ^ n) = (2 ^ n' :: u32)"
  using add_place [OF inv n] inv double_exp_word by (simp_all add: x'_def n'_def)

lemma swizzle_mask_loop_result:
  assumes abc: "a + b + c \<le> 31"
  shows "i \<le> max a (max b c) \<Longrightarrow> n = min i a + min i b + min i c \<Longrightarrow> masks_inv n x y z \<Longrightarrow>
    places (unat x) = min i a \<Longrightarrow> places (unat y) = min i b \<Longrightarrow> places (unat z) = min i c \<Longrightarrow>
    \<exists>x' y' z'. swizzle_mask_loop (2 ^ a) (2 ^ b) (2 ^ c) x y z (2 ^ i) (2 ^ n) = Some (x', y', z', 2 ^ (a + b + c))
      \<and> masks_inv (a + b + c) x' y' z' \<and> places (unat x') = a \<and> places (unat y') = b \<and> places (unat z') = c"
proof (induction "max a (max b c) - i" arbitrary: i n x y z rule: less_induct)
  case less
  let ?cx = "i < a" and ?cy = "i < b" and ?cz = "i < c"
  have lt: "(2 ^ i :: u32) < 2 ^ a \<longleftrightarrow> ?cx" "(2 ^ i :: u32) < 2 ^ b \<longleftrightarrow> ?cy" "(2 ^ i :: u32) < 2 ^ c \<longleftrightarrow> ?cz"
    using less(2) abc by (intro exp_less_word; linarith)+
  show ?case
  proof (cases "?cx \<or> ?cy \<or> ?cz")
    case False
    then have "min i a = a" "min i b = b" "min i c = c" by auto
    then show ?thesis using False less(3-7) by (subst swizzle_mask_loop.simps) (simp add: lt Let_def)
  next
    case True
    define nx ny nz where "nx = n + (if ?cx then 1 else 0)" and "ny = nx + (if ?cy then 1 else 0)"
      and "nz = ny + (if ?cz then 1 else 0)"
    define x1 y1 z1 where "x1 = (if ?cx then x OR 2 ^ n else x)" and "y1 = (if ?cy then y OR 2 ^ nx else y)"
      and "z1 = (if ?cz then z OR 2 ^ ny else z)"
    note defs = nx_def ny_def nz_def x1_def y1_def z1_def
    have mins: "min (Suc i) j = min i j + (if i < j then 1 else 0)" for j by auto
    have nz: "nz = min (Suc i) a + min (Suc i) b + min (Suc i) c" using less(3) by (simp add: mins defs)
    have bounds: "n < 32" "nx < 32" "ny < 32"
      using nz abc min.cobounded2 [of "Suc i" a] min.cobounded2 [of "Suc i" b] min.cobounded2 [of "Suc i" c]
      by (simp_all add: nz_def ny_def nx_def)
    note rx = dim_round [OF less(4) bounds(1), of ?cx, folded x1_def nx_def]
    note ry = dim_round [OF rx(1) [THEN masks_inv_rotate [THEN iffD1]] bounds(2), of ?cy, folded y1_def ny_def]
    note rz = dim_round [OF ry(1) [THEN masks_inv_rotate [THEN iffD1]] bounds(3), of ?cz, folded z1_def nz_def]
    have step: "swizzle_mask_loop (2 ^ a) (2 ^ b) (2 ^ c) x y z (2 ^ i) (2 ^ n)
      = swizzle_mask_loop (2 ^ a) (2 ^ b) (2 ^ c) x1 y1 z1 (2 ^ Suc i) (2 ^ nz)"
      using True by (subst swizzle_mask_loop.simps)
        (simp only: Let_def lt rx(3) ry(3) rz(3) x1_def [symmetric] y1_def [symmetric] z1_def [symmetric] double_exp_word [of i] if_True)
    show ?thesis unfolding step
    proof (rule less(1))
      show "max a (max b c) - Suc i < max a (max b c) - i" "Suc i \<le> max a (max b c)" using True by auto
      show "masks_inv nz x1 y1 z1" using rz(1) masks_inv_rotate by blast
      show "places (unat x1) = min (Suc i) a" unfolding mins rx(2) less(5) ..
      show "places (unat y1) = min (Suc i) b" unfolding mins ry(2) less(6) ..
      show "places (unat z1) = min (Suc i) c" unfolding mins rz(2) less(7) ..
    qed (rule nz)
  qed
qed

lemma masks_xor: "masks_inv n x y z \<Longrightarrow> n < 32 \<Longrightarrow> x XOR y XOR z = 2 ^ n - 1"
  unfolding mask_eq_exp_minus_1 [symmetric] by (rule bit_word_eqI) (auto simp: masks_inv_def bit_simps)

lemma generate_masks_result:
  assumes "a + b + c \<le> 31"
  shows "\<exists>x y z. generate_swizzle_masks (2 ^ a) (2 ^ b) (2 ^ c) = Some (x, y, z) \<and> masks_inv (a + b + c) x y z
    \<and> places (unat x) = a \<and> places (unat y) = b \<and> places (unat z) = c"
proof -
  have "masks_inv 0 0 0 0" by (simp add: masks_inv_def)
  then obtain x y z where "swizzle_mask_loop (2 ^ a) (2 ^ b) (2 ^ c) 0 0 0 1 1 = Some (x, y, z, 2 ^ (a + b + c))"
    "masks_inv (a + b + c) x y z" "places (unat x) = a" "places (unat y) = b" "places (unat z) = c"
    using swizzle_mask_loop_result [OF assms, of 0 0 0 0 0] by auto
  then show ?thesis using masks_xor [of "a + b + c" x y z] assms by (simp add: generate_swizzle_masks_def)
qed

section \<open>The loops copy every pixel\<close>

lemma fold_offsets:
  "fold (\<lambda>x (s, off). (f x off s, next_offset m off)) [i..<i + n] (s, wpdep m i)
   = (fold (\<lambda>x. f x (wpdep m x)) [i..<i + n] s, wpdep m (i + n))"
  by (induction n) (simp_all add: next_offset_wpdep)

lemma fold_offsets_0:
  "fold (\<lambda>x (s, off). (f x off s, next_offset m off)) [0..<n] (s, 0)
   = (fold (\<lambda>x. f x (wpdep m x)) [0..<n] s, wpdep m n)"
  using fold_offsets [of f m 0 n s] by simp

definition box :: "nat \<Rightarrow> nat \<Rightarrow> nat \<Rightarrow> (nat \<times> nat \<times> nat) list" where
  "box w h d = List.product [0..<d] (List.product [0..<h] [0..<w])"

lemma fold_concat_map: "fold f (concat (map g xs)) = fold (\<lambda>x. fold f (g x)) xs"
  by (induction xs) simp_all

lemma fold_box:
  "fold (\<lambda>z. fold (\<lambda>y. fold (\<lambda>x. g z y x) [0..<w]) [0..<h]) [0..<d] s = fold (\<lambda>(z, y, x). g z y x) (box w h d) s"
  by (simp add: box_def product_concat_map fold_concat_map fold_map comp_def)

lemma set_box [simp]: "(z, y, x) \<in> set (box w h d) \<longleftrightarrow> z < d \<and> y < h \<and> x < w"
  by (simp add: box_def)

lemma distinct_box: "distinct (box w h d)"
  by (simp add: box_def distinct_product)

section \<open>Where a pixel goes\<close>

lemma wpdep_bit: "bit (wpdep m k) i \<Longrightarrow> bit m i"
  using wpdep_submask [of m k] by (metis bit_and_iff)

lemma or_is_add:
  fixes u v :: u32
  assumes "\<And>i. \<not> (bit u i \<and> bit v i)"
  shows "u + v = u OR v" and "unat u + unat v = unat (u OR v)"
proof -
  show "u + v = u OR v" by (rule disjunctive_add) (use assms in blast)
  show "unat u + unat v = unat (u OR v)"
    unfolding unsigned_or_eq by (rule disjunctive_add) (use assms in \<open>auto simp: bit_simps\<close>)
qed

definition spos :: "u32 \<Rightarrow> u32 \<Rightarrow> u32 \<Rightarrow> nat \<times> nat \<times> nat \<Rightarrow> u32" where
  "spos mx my mz = (\<lambda>(z, y, x). wpdep mx x OR (wpdep my y OR wpdep mz z))"

lemma spos_sum:
  assumes "masks_inv n mx my mz"
  shows "unat (wpdep my y + wpdep mz z) + unat (wpdep mx x) = unat (spos mx my mz (z, y, x))"
proof -
  have d: "\<not> (bit (wpdep my y) i \<and> bit (wpdep mz z) i)" "\<not> (bit (wpdep mx x) i \<and> bit (wpdep my y OR wpdep mz z) i)" for i
    using assms wpdep_bit by (auto simp: masks_inv_def bit_or_iff; blast)+
  show ?thesis using or_is_add(1) [OF d(1)] or_is_add(2) [OF d(2)] by (simp add: spos_def)
qed

lemma spos_less: "masks_inv n mx my mz \<Longrightarrow> unat (spos mx my mz p) < 2 ^ n"
  by (rule unat_less_exp) (auto simp: spos_def masks_inv_def bit_or_iff dest: wpdep_bit split: prod.splits)

lemma spos_and:
  assumes inv: "masks_inv n mx my mz"
  shows "spos mx my mz (z, y, x) AND mx = wpdep mx x" "spos mx my mz (z, y, x) AND my = wpdep my y"
    "spos mx my mz (z, y, x) AND mz = wpdep mz z"
  using inv wpdep_bit [of mx x] wpdep_bit [of my y] wpdep_bit [of mz z]
  by (intro bit_word_eqI; simp add: spos_def masks_inv_def bit_and_iff bit_or_iff; blast)+

lemma spos_inj:
  assumes inv: "masks_inv n mx my mz" and "spos mx my mz (z, y, x) = spos mx my mz (z', y', x')"
    and "x < 2 ^ places (unat mx)" "x' < 2 ^ places (unat mx)" "y < 2 ^ places (unat my)" "y' < 2 ^ places (unat my)"
      "z < 2 ^ places (unat mz)" "z' < 2 ^ places (unat mz)"
  shows "(z, y, x) = (z', y', x')"
  using assms(2-) spos_and [OF inv] wpdep_inj by (metis (no_types, lifting))

definition lin :: "nat \<Rightarrow> nat \<Rightarrow> nat \<Rightarrow> nat \<times> nat \<times> nat \<Rightarrow> nat" where
  "lin rw sl n = (\<lambda>(z, y, x). z * sl + y * rw + x * n)"

lemma lin_rows:
  fixes x :: nat
  assumes "x < w" and "w * n \<le> rw" and "y < h" and "h * rw \<le> sl"
  shows "y * rw + x * n + n \<le> sl"
  using digit_le [OF assms(1,2)] digit_le [OF assms(3,4)] by linarith

lemma lin_less:
  assumes "x < w" and "y < h" and "w * n \<le> rw" and "z < z' \<Longrightarrow> h * rw \<le> sl"
    and "z < z' \<or> z = z' \<and> (y < y' \<or> y = y' \<and> x < x')"
  shows "lin rw sl n (z, y, x) + n \<le> lin rw sl n (z', y', x')"
proof -
  have q: "x * n + n \<le> rw" using assms(1,3) by (rule digit_le)
  consider "z < z'" | "z = z'" "y < y'" | "z = z'" "y = y'" "x < x'" using assms(5) by blast
  then show ?thesis
  proof cases
    case 1
    then have "y * rw + x * n + n \<le> sl" using assms(1-4) by (intro lin_rows)
    with 1 show ?thesis using digit_le [of z z' sl "z' * sl"] by (simp add: lin_def)
  next
    case 2
    then show ?thesis using digit_le [of y y' rw "y' * rw"] q by (simp add: lin_def)
  next
    case 3
    then show ?thesis using digit_le [of x x' n "x' * n"] by (simp add: lin_def)
  qed
qed

lemma lin_apart:
  assumes "w * n \<le> rw" and "d \<le> 1 \<or> h * rw \<le> sl"
  shows "blocks_apart (lin rw sl n) n (set (box w h d))"
  unfolding blocks_apart_def
proof (intro ballI impI)
  fix p q assume p: "p \<in> set (box w h d)" and q: "q \<in> set (box w h d)" and ne: "p \<noteq> q"
  obtain z y x z' y' x' where e: "p = (z, y, x)" "q = (z', y', x')" by (metis prod_cases3)
  have "(z < z' \<or> z = z' \<and> (y < y' \<or> y = y' \<and> x < x')) \<or> (z' < z \<or> z' = z \<and> (y' < y \<or> y' = y \<and> x' < x))"
    using ne e by auto
  moreover have "z < z' \<Longrightarrow> h * rw \<le> sl" "z' < z \<Longrightarrow> h * rw \<le> sl" using assms(2) p q unfolding e set_box by auto
  ultimately show "lin rw sl n p + n \<le> lin rw sl n q \<or> lin rw sl n q + n \<le> lin rw sl n p"
    using lin_less [OF _ _ assms(1), of x y h z z' sl y' x'] lin_less [OF _ _ assms(1), of x' y' h z' z sl y x] p q
    unfolding e set_box by blast
qed

lemma spos_apart:
  assumes inv: "masks_inv k mx my mz"
  shows "blocks_apart (\<lambda>p. unat (spos mx my mz p) * n) n
    (set (box (2 ^ places (unat mx)) (2 ^ places (unat my)) (2 ^ places (unat mz))))"
  unfolding blocks_apart_def
proof (intro ballI impI)
  let ?B = "box (2 ^ places (unat mx)) (2 ^ places (unat my)) (2 ^ places (unat mz))"
  fix p q assume p: "p \<in> set ?B" and q: "q \<in> set ?B" and ne: "p \<noteq> q"
  obtain z y x z' y' x' where e: "p = (z, y, x)" "q = (z', y', x')" by (metis prod_cases3)
  have "spos mx my mz p \<noteq> spos mx my mz q"
    using spos_inj [OF inv, of z y x z' y' x'] p q ne unfolding e set_box by blast
  then have "unat (spos mx my mz p) < unat (spos mx my mz q) \<or> unat (spos mx my mz q) < unat (spos mx my mz p)"
    using nat_neq_iff word_unat_eq_iff by blast
  then show "unat (spos mx my mz p) * n + n \<le> unat (spos mx my mz q) * n \<or>
      unat (spos mx my mz q) * n + n \<le> unat (spos mx my mz p) * n"
    using digit_le by blast
qed

text \<open>No product of the address arithmetic wraps.\<close>

lemma unat_mult_less: "unat (u :: u32) * unat v < 2 ^ 32 \<Longrightarrow> unat (u * v) = unat u * unat v"
  by (simp add: unat_word_ariths)

lemma unat_scale_less:
  assumes "unat (u :: u32) < k" and "k * unat v \<le> 2 ^ 32"
  shows "unat (u * v) = unat u * unat v"
proof (cases "unat v = 0")
  case True
  then show ?thesis by (simp add: unat_eq_0)
next
  case False
  then show ?thesis using digit_le [OF assms] by (intro unat_mult_less) linarith
qed

lemma unat_of_nat_scale_less:
  assumes "i < k" and "k * unat (v :: u32) \<le> 2 ^ 32" and "k \<le> 2 ^ 32"
  shows "unat (of_nat i * v) = i * unat v"
proof -
  have i: "unat (of_nat i :: u32) = i" using assms(1,3) by (simp add: unat_of_nat)
  then show ?thesis using unat_scale_less [of "of_nat i" k v] assms by simp
qed

lemma box_loops:
  "fst (fold (\<lambda>z (s, oz). (fst (fold (\<lambda>y (s, oy). (fst (fold (\<lambda>x (s, ox). (g z y x oz oy ox s, next_offset mx ox))
       [0..<w] (s, 0)), next_offset my oy)) [0..<h] (s, 0)), next_offset mz oz)) [0..<d] (s, 0))
   = fold (\<lambda>(z, y, x). g z y x (wpdep mz z) (wpdep my y) (wpdep mx x)) (box w h d) s"
  unfolding fold_offsets_0 fst_conv by (rule fold_box)

lemma swizzled_address:
  assumes inv: "masks_inv k mx my mz" and "2 ^ k * unat bpp \<le> 2 ^ 32"
  shows "unat ((wpdep my y + wpdep mz z) * bpp) + unat (wpdep mx x * bpp) = unat (spos mx my mz (z, y, x)) * unat bpp"
proof -
  have s: "unat (wpdep my y + wpdep mz z) + unat (wpdep mx x) < 2 ^ k"
    unfolding spos_sum [OF inv] by (rule spos_less [OF inv])
  have "unat (wpdep my y + wpdep mz z) < 2 ^ k" "unat (wpdep mx x) < 2 ^ k" using s by linarith+
  then show ?thesis using assms(2)
    by (simp add: unat_scale_less [of _ "2 ^ k"] spos_sum [OF inv, symmetric] add_mult_distrib)
qed

lemma linear_address:
  fixes bpp rp sp :: u32
  assumes "x < w" and "y < h" and "w \<le> 2 ^ 32" and "h \<le> 2 ^ 32" and "w * unat bpp \<le> 2 ^ 32" and "h * unat rp \<le> 2 ^ 32"
  shows "z * unat sp + unat (of_nat y * rp) + unat (of_nat x * bpp) = lin (unat rp) (unat sp) (unat bpp) (z, y, x)"
  unfolding unat_of_nat_scale_less [OF assms(1,5,3)] unat_of_nat_scale_less [OF assms(2,6,4)] by (simp add: lin_def)

text \<open>Both routines copy the pixels of the box one by one, the first from the linear to the swizzled place of
  each, the second back.\<close>

lemma box_copies:
  fixes W H D bpp rp sp :: u32
  assumes gen: "generate_swizzle_masks W H D = Some (mx, my, mz)" and inv: "masks_inv k mx my mz"
    and k: "2 ^ k * unat bpp \<le> 2 ^ 32" "unat W * unat bpp \<le> 2 ^ 32" "unat H * unat rp \<le> 2 ^ 32"
  defines "L \<equiv> lin (unat rp) (unat sp) (unat bpp)" and "S \<equiv> \<lambda>p. unat (spos mx my mz p) * unat bpp"
    and "ps \<equiv> box (unat W) (unat H) (unat D)"
  shows "swizzle_box src W H D dst rp sp bpp =
      Some (fold (\<lambda>p s. dma_write s (S p) (dma_read src (L p) (unat bpp))) ps dst)"
    and "unswizzle_box src W H D dst rp sp bpp =
      Some (fold (\<lambda>p s. dma_write s (L p) (dma_read src (S p) (unat bpp))) ps dst)"
proof -
  have b: "unat W \<le> 2 ^ 32" "unat H \<le> 2 ^ 32" using unat_u32_bound [of W] unat_u32_bound [of H] by simp_all
  have e: "z * unat sp + unat (of_nat y * rp) + unat (of_nat x * bpp) = L (z, y, x)"
    "unat ((wpdep my y + wpdep mz z) * bpp) + unat (wpdep mx x * bpp) = S (z, y, x)"
    if "(z, y, x) \<in> set ps" for z y x
    using that linear_address [OF _ _ b k(2,3)] swizzled_address [OF inv k(1)] unfolding L_def S_def ps_def set_box by blast+
  show "swizzle_box src W H D dst rp sp bpp =
      Some (fold (\<lambda>p s. dma_write s (S p) (dma_read src (L p) (unat bpp))) ps dst)"
    unfolding versions_agree swizzle_box_internal_def gen bind_simps prod.case box_loops ps_def [symmetric]
    by (simp, rule fold_cong) (auto simp: copy_pixel_def e)
  show "unswizzle_box src W H D dst rp sp bpp =
      Some (fold (\<lambda>p s. dma_write s (L p) (dma_read src (S p) (unat bpp))) ps dst)"
    unfolding versions_agree unswizzle_box_internal_def gen bind_simps prod.case box_loops ps_def [symmetric]
    by (simp, rule fold_cong) (auto simp: copy_pixel_def e)
qed

lemma box_round_trip:
  fixes bpp rp sp :: u32
  assumes "a + b + c \<le> 30" and "2 ^ (a + b + c) * unat bpp \<le> 2 ^ 32" and "2 ^ a * unat bpp \<le> unat rp"
    and "2 ^ b * unat rp \<le> 2 ^ 32" and "c = 0 \<or> 2 ^ b * unat rp \<le> unat sp"
  shows "\<exists>t r. swizzle_box src (2 ^ a) (2 ^ b) (2 ^ c) dst rp sp bpp = Some t \<and>
    unswizzle_box t (2 ^ a) (2 ^ b) (2 ^ c) dst' rp sp bpp = Some r \<and>
    (\<forall>z y x j. z < 2 ^ c \<and> y < 2 ^ b \<and> x < 2 ^ a \<and> j < unat bpp \<longrightarrow>
      r (z * unat sp + y * unat rp + x * unat bpp + j) = src (z * unat sp + y * unat rp + x * unat bpp + j))"
proof -
  obtain mx my mz where g: "generate_swizzle_masks (2 ^ a) (2 ^ b) (2 ^ c) = Some (mx, my, mz)"
    and p: "places (unat mx) = a" "places (unat my) = b" "places (unat mz) = c" and i: "masks_inv (a + b + c) mx my mz"
    using generate_masks_result [of a b c] assms(1) by auto
  have u: "unat (2 ^ a :: u32) = 2 ^ a" "unat (2 ^ b :: u32) = 2 ^ b" "unat (2 ^ c :: u32) = 2 ^ c"
    using assms(1) by (simp_all add: unat_exp_word)
  have k: "unat (2 ^ a :: u32) * unat bpp \<le> 2 ^ 32" "unat (2 ^ b :: u32) * unat rp \<le> 2 ^ 32"
    unfolding u using assms(3,4) unat_u32_bound [of rp] by simp_all
  let ?L = "lin (unat rp) (unat sp) (unat bpp)" and ?S = "\<lambda>p. unat (spos mx my mz p) * unat bpp"
  let ?ps = "box (2 ^ a) (2 ^ b) (2 ^ c)"
  note copies = box_copies [OF g i assms(2) k, unfolded u]
  define t where "t = fold (\<lambda>p s. dma_write s (?S p) (dma_read src (?L p) (unat bpp))) ?ps dst"
  define r where "r = fold (\<lambda>p s. dma_write s (?L p) (dma_read t (?S p) (unat bpp))) ?ps dst'"
  have dep: "(2 :: nat) ^ c \<le> 1 \<or> 2 ^ b * unat rp \<le> unat sp" using assms(5) by auto
  have "r (?L q + j) = src (?L q + j)" if "q \<in> set ?ps" "j < unat bpp" for q j
    using copies_inside [OF distinct_box lin_apart [OF assms(3) dep] that, of t ?S dst']
      copies_inside [OF distinct_box spos_apart [OF i, unfolded p] that, of src ?L dst]
    unfolding r_def t_def by simp
  then have "r (z * unat sp + y * unat rp + x * unat bpp + j) = src (z * unat sp + y * unat rp + x * unat bpp + j)"
    if "z < 2 ^ c \<and> y < 2 ^ b \<and> x < 2 ^ a \<and> j < unat bpp" for z y x j
    using that set_box [of z y x] unfolding lin_def by fastforce
  then show ?thesis using copies(1) [of src dst sp] copies(2) [of t dst' sp] unfolding t_def [symmetric] r_def [symmetric] by blast
qed

lemma rect_round_trip:
  fixes bpp rp :: u32
  assumes "a + b \<le> 30" and "2 ^ (a + b) * unat bpp \<le> 2 ^ 32" and "2 ^ a * unat bpp \<le> unat rp"
    and "2 ^ b * unat rp \<le> 2 ^ 32"
  shows "\<exists>t r. swizzle_rect src (2 ^ a) (2 ^ b) dst rp bpp = Some t \<and>
    unswizzle_rect t (2 ^ a) (2 ^ b) dst' rp bpp = Some r \<and>
    (\<forall>y x j. y < 2 ^ b \<and> x < 2 ^ a \<and> j < unat bpp \<longrightarrow>
      r (y * unat rp + x * unat bpp + j) = src (y * unat rp + x * unat bpp + j))"
  using box_round_trip [of a b 0 bpp rp 0 src dst dst'] assms by (simp add: swizzle_rect_def unswizzle_rect_def)

text \<open>C40: The masks of a texture whose dimensions are powers of two, 2^a by 2^b by 2^c with a + b + c at most 31,
  are found after finitely many rounds of the loop and pass its assertion: they have a, b and c bits, are pairwise
  disjoint, and together are exactly the lowest a + b + c bits.\<close>

theorem swizzle_masks_terminate:
  assumes "a + b + c \<le> 31"
  shows "\<exists>x y z. generate_swizzle_masks (2 ^ a) (2 ^ b) (2 ^ c) = Some (x, y, z) \<and>
    x AND y = 0 \<and> x AND z = 0 \<and> y AND z = 0 \<and> x OR y OR z = 2 ^ (a + b + c) - 1 \<and>
    places (unat x) = a \<and> places (unat y) = b \<and> places (unat z) = c"
proof -
  obtain x y z where g: "generate_swizzle_masks (2 ^ a) (2 ^ b) (2 ^ c) = Some (x, y, z)"
    "places (unat x) = a" "places (unat y) = b" "places (unat z) = c" and i: "masks_inv (a + b + c) x y z"
    using generate_masks_result [OF assms] by blast
  have "x AND y = 0" "x AND z = 0" "y AND z = 0" 
    using i by (intro bit_word_eqI; simp add: masks_inv_def bit_and_iff)+
  moreover have "x OR y OR z = 2 ^ (a + b + c) - 1"
    unfolding mask_eq_exp_minus_1 [symmetric] using i
    by (intro bit_word_eqI) (simp add: masks_inv_def bit_or_iff bit_mask_iff)
  ultimately show ?thesis using g by blast
qed

theorem swizzle_masks_terminate_witness:
  "\<exists>x y z. generate_swizzle_masks (2 ^ 3) (2 ^ 5) (2 ^ 0) = Some (x, y, z) \<and>
    x AND y = 0 \<and> x AND z = 0 \<and> y AND z = 0 \<and> x OR y OR z = 2 ^ (3 + 5 + 0) - 1 \<and>
    places (unat x) = 3 \<and> places (unat y) = 5 \<and> places (unat z) = 0"
  by (rule swizzle_masks_terminate) simp

text \<open>C14: Unswizzling gives back the texture that was swizzled. For dimensions 2^a, 2^b and 2^c, pixels whose swizzled
  image fits a 32 bit offset, a row pitch at least as long as a row, and slices that do not overlap (a flat texture
  has only one), both routines finish, and every byte of every pixel of the box is in the result what it was in the
  source, whatever the two destination buffers held.\<close>

theorem swizzle_round_trip:
  fixes bpp rp sp :: u32
  assumes "a + b + c \<le> 30" and "2 ^ (a + b + c) * unat bpp \<le> 2 ^ 32" and "2 ^ a * unat bpp \<le> unat rp"
    and "2 ^ b * unat rp \<le> 2 ^ 32" and "c = 0 \<or> 2 ^ b * unat rp \<le> unat sp"
  shows "\<exists>t r. swizzle_box src (2 ^ a) (2 ^ b) (2 ^ c) dst rp sp bpp = Some t \<and>
    unswizzle_box t (2 ^ a) (2 ^ b) (2 ^ c) dst' rp sp bpp = Some r \<and>
    (\<forall>z y x j. z < 2 ^ c \<and> y < 2 ^ b \<and> x < 2 ^ a \<and> j < unat bpp \<longrightarrow>
      r (z * unat sp + y * unat rp + x * unat bpp + j) = src (z * unat sp + y * unat rp + x * unat bpp + j))"
  using assms by (rule box_round_trip)

theorem swizzle_round_trip_witness:
  "\<exists>t r. swizzle_box (\<lambda>n. of_nat n) (2 ^ 3) (2 ^ 2) (2 ^ 1) (\<lambda>_. 0) 40 160 4 = Some t \<and>
    unswizzle_box t (2 ^ 3) (2 ^ 2) (2 ^ 1) (\<lambda>_. 7) 40 160 4 = Some r \<and>
    (\<forall>z y x j. z < 2 ^ 1 \<and> y < 2 ^ 2 \<and> x < 2 ^ 3 \<and> j < unat (4 :: u32) \<longrightarrow>
      r (z * unat (160 :: u32) + y * unat (40 :: u32) + x * unat (4 :: u32) + j)
      = of_nat (z * unat (160 :: u32) + y * unat (40 :: u32) + x * unat (4 :: u32) + j))"
  by (rule swizzle_round_trip) simp_all

end
