(* ===== verification/Pgraph_Blit.thy ===== *)
theory Pgraph_Blit
  imports Pgraph
begin

text \<open>
  The two-dimensional blitter, \<open>pgraph_gl_image_blit\<close> of \<^verbatim>\<open>hw/xbox/nv2a/pgraph/gl/blit.c\<close> (the Vulkan
  renderer's \<^verbatim>\<open>vk/blit.c\<close> has the same code): rows of pixels are copied or blended inside guest
  memory, cut off at the end of the GPU tile they start in.

  A pointer into guest memory is its offset; a row that leaves the memory is \<open>None\<close>. The surfaces that the
  host's graphics library holds are a list of bindings in the state; what the library itself does, bringing the
  surfaces up to date and reading one back, is an argument.
\<close>

section \<open>Registers and surfaces\<close>

abbreviation (input) NV062_SET_COLOR_FORMAT_LE_Y8 :: u32 where "NV062_SET_COLOR_FORMAT_LE_Y8 \<equiv> 0x01"
abbreviation (input) NV062_SET_COLOR_FORMAT_LE_R5G6B5 :: u32 where "NV062_SET_COLOR_FORMAT_LE_R5G6B5 \<equiv> 0x04"
abbreviation (input) NV062_SET_COLOR_FORMAT_LE_X8R8G8B8_Z8R8G8B8 :: u32 where
  "NV062_SET_COLOR_FORMAT_LE_X8R8G8B8_Z8R8G8B8 \<equiv> 0x06"
abbreviation (input) NV062_SET_COLOR_FORMAT_LE_X8R8G8B8 :: u32 where "NV062_SET_COLOR_FORMAT_LE_X8R8G8B8 \<equiv> 0x07"
abbreviation (input) NV062_SET_COLOR_FORMAT_LE_A8R8G8B8 :: u32 where "NV062_SET_COLOR_FORMAT_LE_A8R8G8B8 \<equiv> 0x0A"
abbreviation (input) NV062_SET_COLOR_FORMAT_LE_Y32 :: u32 where "NV062_SET_COLOR_FORMAT_LE_Y32 \<equiv> 0x0B"
abbreviation (input) NV09F_SET_OPERATION_BLEND_AND :: u32 where "NV09F_SET_OPERATION_BLEND_AND \<equiv> 2"
abbreviation (input) NV09F_SET_OPERATION_SRCCOPY :: u32 where "NV09F_SET_OPERATION_SRCCOPY \<equiv> 3"

record gpu_ops =
  gpu_surface_update :: "nv2a \<Rightarrow> nv2a"
  gpu_surface_download :: "nv2a \<Rightarrow> surface_binding \<Rightarrow> nv2a"

definition pgraph_gl_surface_get :: "nv2a \<Rightarrow> u64 \<Rightarrow> surface_binding option" where
  "pgraph_gl_surface_get d addr = find (\<lambda>s. sb_vram_addr s = addr) (gl_surfaces d)"

definition pgraph_gl_surface_download_if_dirty :: "gpu_ops \<Rightarrow> nv2a \<Rightarrow> surface_binding \<Rightarrow> nv2a" where
  "pgraph_gl_surface_download_if_dirty g d surface = (if sb_draw_dirty surface then gpu_surface_download g d surface else d)"

text \<open>An assignment through the pointer that the lookup returned.\<close>

fun set_binding :: "u64 \<Rightarrow> (surface_binding \<Rightarrow> surface_binding) \<Rightarrow> surface_binding list \<Rightarrow> surface_binding list" where
  "set_binding addr f [] = []"
| "set_binding addr f (s # ss) = (if sb_vram_addr s = addr then f s # ss else s # set_binding addr f ss)"

section \<open>Rows\<close>

definition inside_vram :: "nv2a \<Rightarrow> nat \<Rightarrow> nat \<Rightarrow> bool" where
  "inside_vram d a n = (a + n \<le> vram_size d)"

definition blend_byte :: "u32 \<Rightarrow> u8 \<Rightarrow> u8 \<Rightarrow> u8" where
  "blend_byte beta_mult s t =
     (let max_beta_mult = 0x7f80; inv_beta_mult = max_beta_mult - beta_mult;
          a = ucast s * beta_mult; b = ucast t * inv_beta_mult
      in ucast ((a + b) div max_beta_mult))"

definition blend_row :: "u32 \<Rightarrow> nat \<Rightarrow> nat \<Rightarrow> nat \<Rightarrow> memory \<Rightarrow> memory" where
  "blend_row beta_mult source dest width =
     fold (\<lambda>x. fold (\<lambda>ch m. m(dest + x * 4 + ch := blend_byte beta_mult (m (source + x * 4 + ch)) (m (dest + x * 4 + ch))))
       [0..<3]) [0..<width]"

fun copy_rows :: "nat \<Rightarrow> nv2a \<Rightarrow> nat \<Rightarrow> nat \<Rightarrow> nat \<Rightarrow> nat \<Rightarrow> nat \<Rightarrow> nv2a option" where
  "copy_rows 0 d source dest width_bytes source_pitch dest_pitch = Some d"
| "copy_rows (Suc height) d source dest width_bytes source_pitch dest_pitch = do {
     assert_that (inside_vram d source width_bytes);
     assert_that (inside_vram d dest width_bytes);
     let d = d\<lparr>vram := dma_write (vram d) dest (dma_read (vram d) source width_bytes)\<rparr>;
     copy_rows height d (source + source_pitch) (dest + dest_pitch) width_bytes source_pitch dest_pitch
   }"

text \<open>The last byte that a blended row of \<open>width\<close> pixels touches is the third of its last pixel.\<close>

fun blend_rows :: "nat \<Rightarrow> nv2a \<Rightarrow> u32 \<Rightarrow> nat \<Rightarrow> nat \<Rightarrow> nat \<Rightarrow> nat \<Rightarrow> nat \<Rightarrow> nv2a option" where
  "blend_rows 0 d beta_mult source dest width source_pitch dest_pitch = Some d"
| "blend_rows (Suc height) d beta_mult source dest width source_pitch dest_pitch = do {
     assert_that (inside_vram d source (width * 4 - 1));
     assert_that (inside_vram d dest (width * 4 - 1));
     let d = d\<lparr>vram := blend_row beta_mult source dest width (vram d)\<rparr>;
     blend_rows height d beta_mult (source + source_pitch) (dest + dest_pitch) width source_pitch dest_pitch
   }"

definition perform_blit :: "nv2a \<Rightarrow> u32 \<Rightarrow> nat \<Rightarrow> nat \<Rightarrow> nat \<Rightarrow> nat \<Rightarrow> nat \<Rightarrow> nat \<Rightarrow> nat \<Rightarrow> nv2a option" where
  "perform_blit d operation source dest width height width_bytes source_pitch dest_pitch =
     (if operation = NV09F_SET_OPERATION_SRCCOPY
      then copy_rows height d source dest width_bytes source_pitch dest_pitch
      else if operation = NV09F_SET_OPERATION_BLEND_AND
      then blend_rows height d (drop_bit 16 (bs_beta (beta d))) source dest width source_pitch dest_pitch
      else None)"

definition alpha_row :: "nat \<Rightarrow> nat \<Rightarrow> u8 \<Rightarrow> memory \<Rightarrow> memory" where
  "alpha_row dest width_pixels alpha_val = fold (\<lambda>x m. m(dest + x * 4 + 3 := alpha_val)) [0..<width_pixels]"

fun patch_alpha :: "nat \<Rightarrow> nv2a \<Rightarrow> nat \<Rightarrow> nat \<Rightarrow> nat \<Rightarrow> u8 \<Rightarrow> nv2a option" where
  "patch_alpha 0 d dest width_pixels dest_pitch alpha_val = Some d"
| "patch_alpha (Suc height) d dest width_pixels dest_pitch alpha_val = do {
     assert_that (inside_vram d dest (width_pixels * 4));
     let d = d\<lparr>vram := alpha_row dest width_pixels alpha_val (vram d)\<rparr>;
     patch_alpha height d (dest + dest_pitch) width_pixels dest_pitch alpha_val
   }"

section \<open>The blit\<close>

definition blit_bytes_per_pixel :: "u32 \<Rightarrow> u32 option" where
  "blit_bytes_per_pixel color_format =
     (if color_format = NV062_SET_COLOR_FORMAT_LE_Y8 then Some 1
      else if color_format = NV062_SET_COLOR_FORMAT_LE_R5G6B5 then Some 2
      else if color_format = NV062_SET_COLOR_FORMAT_LE_A8R8G8B8 \<or> color_format = NV062_SET_COLOR_FORMAT_LE_X8R8G8B8
        \<or> color_format = NV062_SET_COLOR_FORMAT_LE_X8R8G8B8_Z8R8G8B8 \<or> color_format = NV062_SET_COLOR_FORMAT_LE_Y32
      then Some 4
      else None)"

definition blit_alpha_override :: "u32 \<Rightarrow> u8 option" where
  "blit_alpha_override color_format =
     (if color_format = NV062_SET_COLOR_FORMAT_LE_X8R8G8B8 then Some 0xff
      else if color_format = NV062_SET_COLOR_FORMAT_LE_X8R8G8B8_Z8R8G8B8 then Some 0
      else None)"

text \<open>The surface at the destination: read back first unless the blit covers it, and uploaded again later.\<close>

definition blit_surface_dest :: "gpu_ops \<Rightarrow> nv2a \<Rightarrow> u64 \<Rightarrow> nat \<Rightarrow> nat \<Rightarrow> nv2a" where
  "blit_surface_dest g d dest_addr adjusted_height row_pixels =
     (case pgraph_gl_surface_get d dest_addr of None \<Rightarrow> d
      | Some surf_dest \<Rightarrow>
          (let d = (if adjusted_height < unat (sb_height surf_dest) \<or> row_pixels < unat (sb_width surf_dest)
                    then pgraph_gl_surface_download_if_dirty g d surf_dest
                    else d\<lparr>gl_surfaces := set_binding dest_addr
                           (\<lambda>s. s\<lparr>sb_download_pending := False, sb_draw_dirty := False\<rparr>) (gl_surfaces d)\<rparr>)
           in d\<lparr>gl_surfaces := set_binding dest_addr (\<lambda>s. s\<lparr>sb_upload_pending := True\<rparr>) (gl_surfaces d),
                draw_time := draw_time d + 1\<rparr>))"

text \<open>Whole rows, and what the clipping leaves of one more row.\<close>

definition blit_rows :: "nv2a \<Rightarrow> u32 \<Rightarrow> nat \<Rightarrow> nat \<Rightarrow> nat \<Rightarrow> nat \<Rightarrow> nat \<Rightarrow> nat \<Rightarrow> nat \<Rightarrow> nat \<Rightarrow> nv2a option" where
  "blit_rows d operation source_row dest_row row_pixels adjusted_height leftover_bytes bytes_per_pixel
     source_pitch dest_pitch = do {
     d \<leftarrow> (if adjusted_height > 0
          then perform_blit d operation source_row dest_row row_pixels adjusted_height (row_pixels * bytes_per_pixel)
                 source_pitch dest_pitch
          else Some d);
     if leftover_bytes > 0
     then perform_blit d operation (source_row + adjusted_height * source_pitch) (dest_row + adjusted_height * dest_pitch)
            (leftover_bytes div bytes_per_pixel) 1 leftover_bytes source_pitch dest_pitch
     else Some d
   }"

definition blit_alpha :: "nv2a \<Rightarrow> u8 option \<Rightarrow> nat \<Rightarrow> nat \<Rightarrow> nat \<Rightarrow> nat \<Rightarrow> nat \<Rightarrow> nv2a option" where
  "blit_alpha d alpha dest_row row_pixels adjusted_height leftover_bytes dest_pitch =
     (case alpha of None \<Rightarrow> Some d
      | Some alpha_override \<Rightarrow> do {
          d \<leftarrow> (if adjusted_height > 0 then patch_alpha adjusted_height d dest_row row_pixels dest_pitch alpha_override
               else Some d);
          if leftover_bytes > 0
          then patch_alpha 1 d (dest_row + adjusted_height * dest_pitch) (leftover_bytes div 4) 0 alpha_override
          else Some d
        })"

definition blit_write ::
  "gpu_ops \<Rightarrow> nv2a \<Rightarrow> context_surfaces_2d_state \<Rightarrow> image_blit_state \<Rightarrow> u32 \<Rightarrow> nat \<Rightarrow> nat \<Rightarrow> nv2a option" where
  "blit_write g d context_surfaces ib bytes_per_pixel source dest = do {
     let dest_addr = (of_nat dest :: u64);
     let source_offset = ib_in_y ib * cs_source_pitch context_surfaces + ib_in_x ib * bytes_per_pixel;
     let dest_offset = ib_out_y ib * cs_dest_pitch context_surfaces + ib_out_x ib * bytes_per_pixel;
     let max_row_pixels = min (cs_source_pitch context_surfaces) (cs_dest_pitch context_surfaces) div bytes_per_pixel;
     let row_pixels = unat (min max_row_pixels (ib_width ib));
     let dest_size = (ucast ((ib_height ib - 1) * cs_dest_pitch context_surfaces + ib_width ib * bytes_per_pixel) :: u64);
     let source_row = source + unat source_offset; let dest_row = dest + unat dest_offset;
     let clipped_dest_size = nv_clip_gpu_tile_blit d (dest_addr + ucast dest_offset) dest_size;
     let source_pitch = unat (cs_source_pitch context_surfaces); let dest_pitch = unat (cs_dest_pitch context_surfaces);
     (adjusted_height, leftover_bytes) \<leftarrow>
       (if clipped_dest_size < dest_size then do {
          assert_that (dest_pitch \<noteq> 0);  \<comment> \<open>a division\<close>
          Some (unat clipped_dest_size div dest_pitch,
                unat clipped_dest_size - unat clipped_dest_size div dest_pitch * dest_pitch)
        }
        else Some (unat (ib_height ib), 0));
     let d = blit_surface_dest g d dest_addr adjusted_height row_pixels;
     d \<leftarrow> blit_rows d (ib_operation ib) source_row dest_row row_pixels adjusted_height leftover_bytes
            (unat bytes_per_pixel) source_pitch dest_pitch;
     d \<leftarrow> blit_alpha d (blit_alpha_override (cs_color_format context_surfaces)) dest_row row_pixels adjusted_height
            leftover_bytes dest_pitch;
     let dest_addr = dest_addr + ucast dest_offset;
     Some (d\<lparr>vram_dirty := vram_dirty d @ [(DIRTY_MEMORY_VGA, dest_addr, clipped_dest_size),
                                          (DIRTY_MEMORY_NV2A_TEX, dest_addr, clipped_dest_size)]\<rparr>)
   }"

definition pgraph_gl_image_blit :: "gpu_ops \<Rightarrow> nv2a \<Rightarrow> nv2a option" where
  "pgraph_gl_image_blit g d = do {
     let d = gpu_surface_update g d;
     let context_surfaces = context_surfaces_2d d; let ib = image_blit d;
     assert_that (cs_object_instance context_surfaces = ib_context_surfaces ib);
     bytes_per_pixel \<leftarrow> blit_bytes_per_pixel (cs_color_format context_surfaces);
     (source, source_dma_len) \<leftarrow> nv_dma_map d (unat (cs_dma_image_source context_surfaces));
     assert_that (cs_source_offset context_surfaces < source_dma_len);
     let source = source + unat (cs_source_offset context_surfaces);
     (dest, dest_dma_len) \<leftarrow> nv_dma_map d (unat (cs_dma_image_dest context_surfaces));
     assert_that (cs_dest_offset context_surfaces < dest_dma_len);
     let dest = dest + unat (cs_dest_offset context_surfaces);
     let d = (case pgraph_gl_surface_get d (of_nat source) of None \<Rightarrow> d
              | Some surf_src \<Rightarrow> pgraph_gl_surface_download_if_dirty g d surf_src);
     blit_write g d context_surfaces ib bytes_per_pixel source dest
   }"

section \<open>What the rows become\<close>

text \<open>Positions in rows of a given pitch are unique.\<close>

lemma row_position:
  fixes p :: nat
  assumes "y * p + a = i * p + b" and "a < p" and "b < p"
  shows "y = i" and "a = b"
proof -
  have "(a + y * p) div p = (b + i * p) div p" using assms(1) by (simp add: add.commute)
  then show y: "y = i" using assms(2,3) by (simp add: div_mult_self1)
  show "a = b" using assms(1) unfolding y by simp
qed

lemma fold_upt_Suc: "fold f [0..<Suc n] s = fold (\<lambda>i. f (Suc i)) [0..<n] (f 0 s)"
  by (simp only: upt_conv_Cons [OF zero_less_Suc] map_Suc_upt [symmetric] fold_map fold_simps comp_def)

definition rows_inside :: "nv2a \<Rightarrow> nat \<Rightarrow> nat \<Rightarrow> nat \<Rightarrow> nat \<Rightarrow> bool" where
  "rows_inside d a n pitch h = (\<forall>i < h. inside_vram d (a + i * pitch) n)"

definition rows_apart :: "nat \<Rightarrow> nat \<Rightarrow> nat \<Rightarrow> nat \<Rightarrow> nat \<Rightarrow> nat \<Rightarrow> bool" where
  "rows_apart s sp t tp n h = (\<forall>i < h. \<forall>j < h. s + i * sp + n \<le> t + j * tp \<or> t + j * tp + n \<le> s + i * sp)"

lemma rows_inside_Suc:
  "rows_inside d a n pitch (Suc h) \<longleftrightarrow> inside_vram d a n \<and> rows_inside d (a + pitch) n pitch h"
  by (auto simp: rows_inside_def All_less_Suc2 add.assoc)

lemma rows_apart_Suc: "rows_apart s sp t tp n (Suc h) \<Longrightarrow> rows_apart (s + sp) sp (t + tp) tp n h"
  unfolding rows_apart_def by (auto simp: All_less_Suc2 add.assoc)

lemma rows_inside_vram [simp]: "rows_inside (d\<lparr>vram := m\<rparr>) a n pitch h = rows_inside d a n pitch h"
  by (simp add: rows_inside_def inside_vram_def)

text \<open>Copying rows between areas that do not overlap is a sequence of block copies from the old memory.\<close>

lemma copy_rows_eq:
  assumes "rows_inside d s n sp h" and "rows_inside d t n tp h" and "rows_apart s sp t tp n h"
    and "\<forall>i < h. dma_read (vram d) (s + i * sp) n = dma_read src (s + i * sp) n"
  shows "copy_rows h d s t n sp tp =
    Some (d\<lparr>vram := fold (\<lambda>i m. dma_write m (t + i * tp) (dma_read src (s + i * sp) n)) [0..<h] (vram d)\<rparr>)"
  using assms
proof (induction h arbitrary: d s t)
  case (Suc h)
  let ?d = "d\<lparr>vram := dma_write (vram d) t (dma_read src s n)\<rparr>"
  have here: "dma_read (vram d) s n = dma_read src s n" using Suc.prems(4) by force
  have ap: "t + n \<le> s + sp + i * sp \<or> s + sp + i * sp + n \<le> t" if "i < h" for i
    using Suc.prems(3) that unfolding rows_apart_def by (metis Suc_less_eq add.assoc add_0_right mult_0 mult_Suc zero_less_Suc)
  have "dma_read (vram ?d) (s + sp + i * sp) n = dma_read src (s + sp + i * sp) n" if "i < h" for i
    using ap [OF that] Suc.prems(4) that by (simp add: dma_read_write_disjoint All_less_Suc2 add.assoc)
  then have "copy_rows h ?d (s + sp) (t + tp) n sp tp =
    Some (?d\<lparr>vram := fold (\<lambda>i m. dma_write m (t + tp + i * tp) (dma_read src (s + sp + i * sp) n)) [0..<h] (vram ?d)\<rparr>)"
    using Suc.prems rows_apart_Suc [OF Suc.prems(3)] by (intro Suc.IH) (simp_all add: rows_inside_Suc)
  then show ?case
    using Suc.prems(1,2) here by (simp add: rows_inside_Suc fold_upt_Suc add.assoc del: upt_Suc)
qed simp

lemma alpha_row_at: "alpha_row t w a m k = (if \<exists>x < w. k = t + x * 4 + 3 then a else m k)"
  unfolding alpha_row_def by (induction w) (auto simp: less_Suc_eq)

lemma patch_alpha_eq:
  assumes "rows_inside d t (w * 4) tp h"
  shows "\<exists>m. patch_alpha h d t w tp a = Some (d\<lparr>vram := m\<rparr>) \<and>
    (\<forall>k. m k = (if \<exists>i < h. \<exists>x < w. k = t + i * tp + x * 4 + 3 then a else vram d k))"
  using assms
proof (induction h arbitrary: d t)
  case (Suc h)
  let ?d = "d\<lparr>vram := alpha_row t w a (vram d)\<rparr>"
  obtain m where m: "patch_alpha h ?d (t + tp) w tp a = Some (?d\<lparr>vram := m\<rparr>)"
    "\<And>k. m k = (if \<exists>i < h. \<exists>x < w. k = t + tp + i * tp + x * 4 + 3 then a else vram ?d k)"
    using Suc.IH [of ?d "t + tp"] Suc.prems by (auto simp: rows_inside_Suc)
  have "m k = (if \<exists>i < Suc h. \<exists>x < w. k = t + i * tp + x * 4 + 3 then a else vram d k)" for k
    unfolding m(2) by (auto simp: alpha_row_at Ex_less_Suc2 add.assoc)
  moreover have "patch_alpha (Suc h) d t w tp a = Some (d\<lparr>vram := m\<rparr>)"
    using m(1) Suc.prems by (simp add: rows_inside_Suc)
  ultimately show ?case by blast
next
  case 0
  show ?case by (intro exI [of _ "vram d"]) simp
qed

section \<open>A blit that is not clipped\<close>

text \<open>Where the first row is read and written, as offsets in guest memory.\<close>

definition blit_source :: "nv2a \<Rightarrow> u32 \<Rightarrow> nat option" where
  "blit_source d bpp = do {
     let cs = context_surfaces_2d d; let ib = image_blit d;
     (base, len) \<leftarrow> nv_dma_map d (unat (cs_dma_image_source cs));
     assert_that (cs_source_offset cs < len);
     Some (base + unat (cs_source_offset cs) + unat (ib_in_y ib * cs_source_pitch cs + ib_in_x ib * bpp))
   }"

definition blit_dest :: "nv2a \<Rightarrow> u32 \<Rightarrow> nat option" where
  "blit_dest d bpp = do {
     let cs = context_surfaces_2d d; let ib = image_blit d;
     (base, len) \<leftarrow> nv_dma_map d (unat (cs_dma_image_dest cs));
     assert_that (cs_dest_offset cs < len);
     Some (base + unat (cs_dest_offset cs) + unat (ib_out_y ib * cs_dest_pitch cs + ib_out_x ib * bpp))
   }"

definition blit_dest_size :: "nv2a \<Rightarrow> u32 \<Rightarrow> u64" where
  "blit_dest_size d bpp = (let cs = context_surfaces_2d d; ib = image_blit d in
     ucast ((ib_height ib - 1) * cs_dest_pitch cs + ib_width ib * bpp))"

lemma surface_get_clean:
  "\<forall>s \<in> set (gl_surfaces d). \<not> sb_draw_dirty s \<Longrightarrow> pgraph_gl_surface_get d a = Some s \<Longrightarrow>
   pgraph_gl_surface_download_if_dirty g d s = d"
  by (auto simp: pgraph_gl_surface_get_def pgraph_gl_surface_download_if_dirty_def find_Some_iff dest: nth_mem)

lemma blit_surface_dest_clean:
  assumes "\<forall>s \<in> set (gl_surfaces d). \<not> sb_draw_dirty s"
  shows "\<exists>ss n. blit_surface_dest g d a h w = d\<lparr>gl_surfaces := ss, draw_time := n\<rparr>"
proof (cases "pgraph_gl_surface_get d a")
  case None
  then have "blit_surface_dest g d a h w = d\<lparr>gl_surfaces := gl_surfaces d, draw_time := draw_time d\<rparr>"
    by (simp add: blit_surface_dest_def)
  then show ?thesis by blast
next
  case (Some s)
  then show ?thesis using surface_get_clean [OF assms Some, of g]
    by (cases "h < unat (sb_height s) \<or> w < unat (sb_width s)") (auto simp: blit_surface_dest_def Let_def)
qed

lemma row_pixels_fit:
  assumes "unat w * unat (bpp :: u32) \<le> unat p" and "unat w * unat bpp \<le> unat q" and "0 < bpp"
  shows "min (min p q div bpp) w = (w :: u32)"
proof -
  have "unat w * unat bpp \<le> unat (min p q)" using assms(1,2) by (simp add: min_def)
  then have "unat w \<le> unat (min p q) div unat bpp"
    using assms(3) by (simp add: less_eq_div_iff_mult_less_eq unat_gt_0 word_gt_0)
  then have "w \<le> min p q div bpp" by (simp add: word_le_nat_alt unat_div_distrib)
  then show ?thesis by (rule min.absorb2)
qed

lemma bytes_per_pixel_pos: "blit_bytes_per_pixel f = Some bpp \<Longrightarrow> 0 < bpp"
  by (auto simp: blit_bytes_per_pixel_def split: if_splits)

lemma alpha_bytes_per_pixel: "blit_bytes_per_pixel f = Some bpp \<Longrightarrow> blit_alpha_override f = Some a \<Longrightarrow> bpp = 4"
  by (auto simp: blit_bytes_per_pixel_def blit_alpha_override_def split: if_splits)

text \<open>The whole rows that are left after clipping, and the bytes of the next.\<close>

definition blit_extent :: "nv2a \<Rightarrow> u32 \<Rightarrow> nat \<Rightarrow> nat \<times> nat" where
  "blit_extent d bpp t = (let size = blit_dest_size d bpp; c = nv_clip_gpu_tile_blit d (of_nat t) size;
     pitch = unat (cs_dest_pitch (context_surfaces_2d d)) in
     if c < size then (unat c div pitch, unat c - unat c div pitch * pitch) else (unat (ib_height (image_blit d)), 0))"

lemma blit_extent_unclipped:
  "blit_dest_size d bpp \<le> nv_clip_gpu_tile_blit d (of_nat t) (blit_dest_size d bpp) \<Longrightarrow>
   blit_extent d bpp t = (unat (ib_height (image_blit d)), 0)"
  by (auto simp: blit_extent_def Let_def dest: leD)

lemma image_blit_runs:
  fixes d :: nv2a
  assumes "gpu_surface_update g d = d" and clean: "\<forall>s \<in> set (gl_surfaces d). \<not> sb_draw_dirty s"
    and "cs_object_instance (context_surfaces_2d d) = ib_context_surfaces (image_blit d)"
    and bpp: "blit_bytes_per_pixel (cs_color_format (context_surfaces_2d d)) = Some bpp"
    and s: "blit_source d bpp = Some s" and t: "blit_dest d bpp = Some t"
    and fit: "unat (ib_width (image_blit d)) * unat bpp \<le> unat (cs_source_pitch (context_surfaces_2d d))"
      "unat (ib_width (image_blit d)) * unat bpp \<le> unat (cs_dest_pitch (context_surfaces_2d d))"
    and clip: "blit_dest_size d bpp \<le> nv_clip_gpu_tile_blit d (of_nat t) (blit_dest_size d bpp)
      \<or> cs_dest_pitch (context_surfaces_2d d) \<noteq> 0" and hl: "blit_extent d bpp t = (h, l)"
  defines "w \<equiv> unat (ib_width (image_blit d))"
    and "sp \<equiv> unat (cs_source_pitch (context_surfaces_2d d))" and "tp \<equiv> unat (cs_dest_pitch (context_surfaces_2d d))"
  shows "\<exists>ss n dirty. pgraph_gl_image_blit g d = do {
      e \<leftarrow> blit_rows (d\<lparr>gl_surfaces := ss, draw_time := n\<rparr>) (ib_operation (image_blit d)) s t w h l (unat bpp) sp tp;
      e \<leftarrow> blit_alpha e (blit_alpha_override (cs_color_format (context_surfaces_2d d))) t w h l tp;
      Some (e\<lparr>vram_dirty := vram_dirty e @ dirty\<rparr>) }"
proof -
  obtain sb sl where sm: "nv_dma_map d (unat (cs_dma_image_source (context_surfaces_2d d))) = Some (sb, sl)"
    "cs_source_offset (context_surfaces_2d d) < sl"
    and s': "s = sb + unat (cs_source_offset (context_surfaces_2d d)) + unat (ib_in_y (image_blit d) *
      cs_source_pitch (context_surfaces_2d d) + ib_in_x (image_blit d) * bpp)"
    using s by (auto simp: blit_source_def Let_def bind_eq_Some_conv)
  obtain tb tl where tm: "nv_dma_map d (unat (cs_dma_image_dest (context_surfaces_2d d))) = Some (tb, tl)"
    "cs_dest_offset (context_surfaces_2d d) < tl"
    and t': "t = tb + unat (cs_dest_offset (context_surfaces_2d d)) + unat (ib_out_y (image_blit d) *
      cs_dest_pitch (context_surfaces_2d d) + ib_out_x (image_blit d) * bpp)"
    using t by (auto simp: blit_dest_def Let_def bind_eq_Some_conv)
  let ?ta = "of_nat (tb + unat (cs_dest_offset (context_surfaces_2d d))) :: u64"
  have ta: "?ta + ucast (ib_out_y (image_blit d) * cs_dest_pitch (context_surfaces_2d d) + ib_out_x (image_blit d) * bpp)
    = of_nat t"
    unfolding t' by simp
  have row: "unat (min (min (cs_source_pitch (context_surfaces_2d d)) (cs_dest_pitch (context_surfaces_2d d)) div bpp)
    (ib_width (image_blit d))) = w"
    using row_pixels_fit [OF fit bytes_per_pixel_pos [OF bpp]] by (simp add: w_def)
  have src: "(case pgraph_gl_surface_get d a of None \<Rightarrow> d | Some x \<Rightarrow> pgraph_gl_surface_download_if_dirty g d x) = d" for a
    using surface_get_clean [OF clean] by (simp split: option.splits)
  obtain ss n where dst: "blit_surface_dest g d ?ta h w = d\<lparr>gl_surfaces := ss, draw_time := n\<rparr>"
    using blit_surface_dest_clean [OF clean] by blast
  have ds: "ucast ((ib_height (image_blit d) - 1) * cs_dest_pitch (context_surfaces_2d d) + ib_width (image_blit d) * bpp)
    = blit_dest_size d bpp" by (simp add: blit_dest_size_def Let_def)
  let ?dirty = "map (\<lambda>c. (c, of_nat t, nv_clip_gpu_tile_blit d (of_nat t) (blit_dest_size d bpp)))
    [DIRTY_MEMORY_VGA, DIRTY_MEMORY_NV2A_TEX]"
  show ?thesis
    using assms(1,3) bpp sm tm dst clip hl unfolding sp_def tp_def
    by (intro exI [of _ ss] exI [of _ n] exI [of _ ?dirty])
      (auto simp: pgraph_gl_image_blit_def blit_write_def Let_def src row ta ds s' [symmetric] t' [symmetric] blit_extent_def unat_eq_0
        simp del: of_nat_add of_nat_unat split: if_splits)
qed

lemma pixel_offset: "x < w \<Longrightarrow> j < n \<Longrightarrow> x * n + j < w * (n :: nat)"
  using digit_le [of x w n "w * n"] by linarith

lemma blit_rows_copy:
  assumes "rows_inside d s (w * n) sp h" and "rows_inside d t (w * n) tp h" and "rows_apart s sp t tp (w * n) h"
    and "w * n \<le> tp"
  shows "\<exists>m. blit_rows d NV09F_SET_OPERATION_SRCCOPY s t w h 0 n sp tp = Some (d\<lparr>vram := m\<rparr>) \<and>
    (\<forall>y < h. \<forall>x < w. \<forall>j < n. m (t + y * tp + x * n + j) = vram d (s + y * sp + x * n + j)) \<and>
    (\<forall>k. (\<forall>y < h. k < t + y * tp \<or> t + y * tp + w * n \<le> k) \<longrightarrow> m k = vram d k)"
proof -
  let ?m = "fold (\<lambda>i m. dma_write m (t + i * tp) (dma_read (vram d) (s + i * sp) (w * n))) [0..<h] (vram d)"
  have "copy_rows h d s t (w * n) sp tp = Some (d\<lparr>vram := ?m\<rparr>)" using assms(1-3) by (intro copy_rows_eq) simp_all
  then have "blit_rows d NV09F_SET_OPERATION_SRCCOPY s t w h 0 n sp tp = Some (d\<lparr>vram := ?m\<rparr>)"
    by (cases h) (simp_all add: blit_rows_def perform_blit_def del: copy_rows.simps(2) upt_Suc)
  moreover have "?m (t + y * tp + (x * n + j)) = vram d (s + y * sp + (x * n + j))" if "y < h" "x < w" "j < n" for y x j
    using that rows_blocks_apart [OF assms(4)] by (intro copies_inside) (simp_all add: pixel_offset)
  moreover have "?m k = vram d k" if "\<forall>y < h. k < t + y * tp \<or> t + y * tp + w * n \<le> k" for k
    using that by (intro copies_outside) simp
  ultimately show ?thesis by (intro exI [of _ ?m]) (simp add: add.assoc)
qed

lemma vram_updated: "vram (d\<lparr>vram := m\<rparr>) = m"
  by simp

lemma blit_alpha_at:
  assumes "rows_inside d t (w * n) tp h" and "w * n \<le> tp" and four: "\<And>a. ov = Some a \<Longrightarrow> n = 4"
  shows "\<exists>m. blit_alpha d ov t w h 0 tp = Some (d\<lparr>vram := m\<rparr>) \<and>
    (\<forall>y < h. \<forall>x < w. \<forall>j < n. m (t + y * tp + x * n + j) =
       (case ov of Some a \<Rightarrow> if j = 3 then a else vram d (t + y * tp + x * n + j) | None \<Rightarrow> vram d (t + y * tp + x * n + j))) \<and>
    (\<forall>k. (\<forall>y < h. k < t + y * tp \<or> t + y * tp + w * n \<le> k) \<longrightarrow> m k = vram d k)"
proof (cases ov)
  case None
  then show ?thesis by (intro exI [of _ "vram d"]) (simp add: blit_alpha_def)
next
  case (Some a)
  then have n: "n = 4" by (rule four)
  obtain m where m: "patch_alpha h d t w tp a = Some (d\<lparr>vram := m\<rparr>)"
    "\<And>k. m k = (if \<exists>i < h. \<exists>x < w. k = t + i * tp + x * 4 + 3 then a else vram d k)"
    using patch_alpha_eq [of d t w tp h a] assms(1) n by auto
  have "blit_alpha d ov t w h 0 tp = Some (d\<lparr>vram := m\<rparr>)"
    using m(1) Some by (cases h) (simp_all add: blit_alpha_def del: patch_alpha.simps(2))
  moreover have "m (t + y * tp + x * 4 + j) = (if j = 3 then a else vram d (t + y * tp + x * 4 + j))"
    if "y < h" "x < w" "j < 4" for y x j
  proof -
    have "j = 3" if e: "t + y * tp + x * 4 + j = t + i * tp + x' * 4 + 3" and "x' < w" for i x'
    proof -
      have b: "x * 4 + j < tp" "x' * 4 + 3 < tp"
        using pixel_offset [OF \<open>x < w\<close> \<open>j < 4\<close>] pixel_offset [OF \<open>x' < w\<close>, of 3 4] assms(2) unfolding n by simp_all
      have "y * tp + (x * 4 + j) = i * tp + (x' * 4 + 3)" using e by linarith
      then have "x * 4 + j = x' * 4 + 3" using b by (rule row_position(2))
      then show ?thesis using \<open>j < 4\<close> by presburger
    qed
    then show ?thesis unfolding m(2) using that by auto
  qed
  moreover have "m k = vram d k" if k: "\<forall>y < h. k < t + y * tp \<or> t + y * tp + w * 4 \<le> k" for k
  proof -
    have "k \<noteq> t + i * tp + x * 4 + 3" if "i < h" "x < w" for i x
      using k that(1) pixel_offset [OF that(2), of 3 4] by fastforce
    then show ?thesis unfolding m(2) by auto
  qed
  ultimately show ?thesis unfolding n Some by (intro exI [of _ m]) simp
qed

lemma image_blit_result:
  fixes d :: nv2a and g :: gpu_ops and bpp :: u32
  defines "cs \<equiv> context_surfaces_2d d" and "ib \<equiv> image_blit d"
  defines "w \<equiv> unat (ib_width ib)" and "h \<equiv> unat (ib_height ib)" and "n \<equiv> unat bpp"
    and "sp \<equiv> unat (cs_source_pitch cs)" and "tp \<equiv> unat (cs_dest_pitch cs)"
  assumes "gpu_surface_update g d = d" and "\<forall>b \<in> set (gl_surfaces d). \<not> sb_draw_dirty b"
    and "cs_object_instance cs = ib_context_surfaces ib" and "ib_operation ib = NV09F_SET_OPERATION_SRCCOPY"
    and "blit_bytes_per_pixel (cs_color_format cs) = Some bpp"
    and "blit_source d bpp = Some s" and "blit_dest d bpp = Some t" and "w * n \<le> sp" and "w * n \<le> tp"
    and "blit_dest_size d bpp \<le> nv_clip_gpu_tile_blit d (of_nat t) (blit_dest_size d bpp)"
    and "rows_inside d s (w * n) sp h" and "rows_inside d t (w * n) tp h" and "rows_apart s sp t tp (w * n) h"
  shows "\<exists>ss i m l. pgraph_gl_image_blit g d = Some (d\<lparr>gl_surfaces := ss, draw_time := i, vram := m, vram_dirty := l\<rparr>) \<and>
    (\<forall>y < h. \<forall>x < w. \<forall>j < n. m (t + y * tp + x * n + j) =
       (case blit_alpha_override (cs_color_format cs) of
          Some a \<Rightarrow> if j = 3 then a else vram d (s + y * sp + x * n + j)
        | None \<Rightarrow> vram d (s + y * sp + x * n + j))) \<and>
    (\<forall>k. (\<forall>y < h. k < t + y * tp \<or> t + y * tp + w * n \<le> k) \<longrightarrow> m k = vram d k)"
proof -
  note defs = cs_def ib_def w_def h_def n_def sp_def tp_def
  let ?ov = "blit_alpha_override (cs_color_format cs)"
  obtain ss i dirty where run: "pgraph_gl_image_blit g d = do {
      e \<leftarrow> blit_rows (d\<lparr>gl_surfaces := ss, draw_time := i\<rparr>) (ib_operation ib) s t w h 0 n sp tp;
      e \<leftarrow> blit_alpha e ?ov t w h 0 tp;
      Some (e\<lparr>vram_dirty := vram_dirty e @ dirty\<rparr>) }"
    using image_blit_runs [of g d bpp s t h 0] blit_extent_unclipped [of d bpp t] assms(8-17) unfolding defs by blast
  let ?d = "d\<lparr>gl_surfaces := ss, draw_time := i\<rparr>"
  have ins: "rows_inside ?d s (w * n) sp h" "rows_inside ?d t (w * n) tp h"
    using assms(18,19) by (simp_all add: rows_inside_def inside_vram_def)
  obtain m where m: "blit_rows ?d NV09F_SET_OPERATION_SRCCOPY s t w h 0 n sp tp = Some (?d\<lparr>vram := m\<rparr>)"
    "\<forall>y < h. \<forall>x < w. \<forall>j < n. m (t + y * tp + x * n + j) = vram d (s + y * sp + x * n + j)"
    "\<forall>k. (\<forall>y < h. k < t + y * tp \<or> t + y * tp + w * n \<le> k) \<longrightarrow> m k = vram d k"
    using blit_rows_copy [OF ins assms(20,16)] by auto
  have four: "\<And>a. ?ov = Some a \<Longrightarrow> n = 4" using alpha_bytes_per_pixel [OF assms(12)] unfolding n_def by simp
  obtain m' where m': "blit_alpha (?d\<lparr>vram := m\<rparr>) ?ov t w h 0 tp = Some (?d\<lparr>vram := m\<rparr>\<lparr>vram := m'\<rparr>) \<and>
    (\<forall>y < h. \<forall>x < w. \<forall>j < n. m' (t + y * tp + x * n + j) =
       (case ?ov of Some a \<Rightarrow> if j = 3 then a else m (t + y * tp + x * n + j) | None \<Rightarrow> m (t + y * tp + x * n + j))) \<and>
    (\<forall>k. (\<forall>y < h. k < t + y * tp \<or> t + y * tp + w * n \<le> k) \<longrightarrow> m' k = m k)"
    using blit_alpha_at [of "?d\<lparr>vram := m\<rparr>", unfolded rows_inside_vram, OF ins(2) assms(16) four]
    unfolding vram_updated by (rule exE)
  have "pgraph_gl_image_blit g d = Some (?d\<lparr>vram := m'\<rparr>\<lparr>vram_dirty := vram_dirty d @ dirty\<rparr>)"
    using run m(1) m' assms(11) by simp
  then show ?thesis using m(2,3) m'
    by (intro exI [of _ ss] exI [of _ i] exI [of _ m'] exI [of _ "vram_dirty d @ dirty"]) (auto split: option.splits)
qed

text \<open>A copying blit moves a rectangle of pixels in guest memory. When no surface on the host holds newer
  content, the rectangle is no wider than a row of either surface, lies inside guest memory, is not cut by a tile
  limit, and no row of the source overlaps one of the destination, the blit finishes; then every byte of every
  pixel of the destination is the source's, but for the fourth byte in the formats without alpha, which is 0xff or
  0 as the format says; and no byte outside the rectangle is changed.\<close>

theorem image_blit_copies:
  fixes d :: nv2a and g :: gpu_ops and bpp :: u32
  defines "cs \<equiv> context_surfaces_2d d" and "ib \<equiv> image_blit d"
  defines "w \<equiv> unat (ib_width ib)" and "h \<equiv> unat (ib_height ib)" and "n \<equiv> unat bpp"
    and "sp \<equiv> unat (cs_source_pitch cs)" and "tp \<equiv> unat (cs_dest_pitch cs)"
  assumes "gpu_surface_update g d = d" and "\<forall>b \<in> set (gl_surfaces d). \<not> sb_draw_dirty b"
    and "cs_object_instance cs = ib_context_surfaces ib" and "ib_operation ib = NV09F_SET_OPERATION_SRCCOPY"
    and "blit_bytes_per_pixel (cs_color_format cs) = Some bpp"
    and "blit_source d bpp = Some s" and "blit_dest d bpp = Some t" and "w * n \<le> sp" and "w * n \<le> tp"
    and "blit_dest_size d bpp \<le> nv_clip_gpu_tile_blit d (of_nat t) (blit_dest_size d bpp)"
    and "rows_inside d s (w * n) sp h" and "rows_inside d t (w * n) tp h" and "rows_apart s sp t tp (w * n) h"
  shows "\<exists>d'. pgraph_gl_image_blit g d = Some d' \<and>
    (\<forall>y < h. \<forall>x < w. \<forall>j < n. vram d' (t + y * tp + x * n + j) =
       (case blit_alpha_override (cs_color_format cs) of
          Some a \<Rightarrow> if j = 3 then a else vram d (s + y * sp + x * n + j)
        | None \<Rightarrow> vram d (s + y * sp + x * n + j))) \<and>
    (\<forall>k. (\<forall>y < h. k < t + y * tp \<or> t + y * tp + w * n \<le> k) \<longrightarrow> vram d' k = vram d k)"
proof -
  obtain ss i m l where "pgraph_gl_image_blit g d = Some (d\<lparr>gl_surfaces := ss, draw_time := i, vram := m, vram_dirty := l\<rparr>)"
    "\<forall>y < h. \<forall>x < w. \<forall>j < n. m (t + y * tp + x * n + j) =
       (case blit_alpha_override (cs_color_format cs) of
          Some a \<Rightarrow> if j = 3 then a else vram d (s + y * sp + x * n + j)
        | None \<Rightarrow> vram d (s + y * sp + x * n + j))"
    "\<forall>k. (\<forall>y < h. k < t + y * tp \<or> t + y * tp + w * n \<le> k) \<longrightarrow> m k = vram d k"
    using image_blit_result [OF assms(8-20) [unfolded assms(1-7)]] unfolding assms(1-7) by blast
  then show ?thesis by simp
qed

section \<open>Examples\<close>

text \<open>A host that holds no surfaces.\<close>

definition null_gpu :: gpu_ops where
  "null_gpu = \<lparr>gpu_surface_update = (\<lambda>d. d), gpu_surface_download = (\<lambda>d b. d)\<rparr>"

lemma null_gpu_update: "gpu_surface_update null_gpu d = d"
  by (simp add: null_gpu_def)

text \<open>One DMA object of 16 megabytes at the start of memory; a blit of two by two pixels, one pixel to the right.\<close>

definition blit_example :: nv2a where
  "blit_example = nv2a_blank\<lparr>vram := (\<lambda>k. of_nat k), ramin := (\<lambda>k. if 4 \<le> k \<and> k < 7 then 0xFF else 0),
     context_surfaces_2d := \<lparr>cs_object_instance = 7, cs_dma_image_source = 0, cs_dma_image_dest = 0, cs_color_format = 7,
       cs_source_pitch = 64, cs_dest_pitch = 64, cs_source_offset = 0, cs_dest_offset = 0x1000\<rparr>,
     image_blit := \<lparr>ib_object_instance = 0, ib_context_surfaces = 7, ib_operation = 3, ib_in_x = 0, ib_in_y = 0,
       ib_out_x = 1, ib_out_y = 0, ib_width = 2, ib_height = 2\<rparr>\<rparr>"

text \<open>The same in the format with alpha, and a tile that ends 40 bytes into the first row.\<close>

definition blit_clipped :: nv2a where
  "blit_clipped = blit_example\<lparr>pfb_regs := (\<lambda>r. if r = NV_PFB_TILE_BASE_ADDRESS_AND_FLAGS 0 then 1
       else if r = NV_PFB_TILE_LIMIT 0 then 0x102B else 0),
     context_surfaces_2d := (context_surfaces_2d blit_example)\<lparr>cs_color_format := 0x0A\<rparr>\<rparr>"

lemma clip_tiles_none: "\<forall>i \<in> set is. regs (NV_PFB_TILE_BASE_ADDRESS_AND_FLAGS i) AND NV_PFB_TILE_FLAGS_VALID = 0 \<Longrightarrow>
    clip_tiles regs is a len = len"
  by (induction "is") simp_all

lemma blit_example_dma: "nv_dma_map blit_example 0 = Some (0, 0xFFFFFF)" "nv_dma_map blit_clipped 0 = Some (0, 0xFFFFFF)"
  by (simp_all add: nv_dma_map_def nv_dma_load_def blit_clipped_def blit_example_def nv2a_blank_def ldl_le_p_def le32_def get_mask_def)

lemma blit_example_places:
  "blit_source blit_example 4 = Some 0" "blit_dest blit_example 4 = Some 0x1004"
  "blit_source blit_clipped 4 = Some 0" "blit_dest blit_clipped 4 = Some 0x1004"
  using blit_example_dma
  by (simp_all add: blit_source_def blit_dest_def Let_def)
    (simp_all add: blit_clipped_def blit_example_def)

lemma blit_example_fields:
  "vram blit_example = (\<lambda>k. of_nat k)" "gl_surfaces blit_example = []" "vram_size blit_example = 0x4000000"
  "context_surfaces_2d blit_example = \<lparr>cs_object_instance = 7, cs_dma_image_source = 0, cs_dma_image_dest = 0,
     cs_color_format = 7, cs_source_pitch = 64, cs_dest_pitch = 64, cs_source_offset = 0, cs_dest_offset = 0x1000\<rparr>"
  "image_blit blit_example = \<lparr>ib_object_instance = 0, ib_context_surfaces = 7, ib_operation = 3, ib_in_x = 0, ib_in_y = 0,
     ib_out_x = 1, ib_out_y = 0, ib_width = 2, ib_height = 2\<rparr>"
  by (simp_all add: blit_example_def nv2a_blank_def)

lemma blit_clipped_fields:
  "vram blit_clipped = (\<lambda>k. of_nat k)" "gl_surfaces blit_clipped = []" "vram_size blit_clipped = 0x4000000"
  "context_surfaces_2d blit_clipped = (context_surfaces_2d blit_example)\<lparr>cs_color_format := 0x0A\<rparr>"
  "image_blit blit_clipped = image_blit blit_example"
  by (simp_all add: blit_clipped_def blit_example_fields)

theorem image_blit_copies_witness:
  "\<exists>d'. pgraph_gl_image_blit null_gpu blit_example = Some d' \<and>
    (\<forall>y < 2. \<forall>x < 2. \<forall>j < 4. vram d' (0x1004 + y * 64 + x * 4 + j) =
      (if j = 3 then 0xff else of_nat (0 + y * 64 + x * 4 + j))) \<and>
    (\<forall>k. (\<forall>y < 2. k < 0x1004 + y * 64 \<or> 0x1004 + y * 64 + 2 * 4 \<le> k) \<longrightarrow> vram d' k = of_nat k)"
proof -
  have c: "nv_clip_gpu_tile_blit blit_example a len = len" for a len
    by (simp add: nv_clip_gpu_tile_blit_def clip_tiles_none blit_example_def nv2a_blank_def)
  have r: "rows_apart 0 64 0x1004 64 8 2" "rows_inside blit_example 0 8 64 2" "rows_inside blit_example 0x1004 8 64 2"
    by (auto simp: rows_apart_def rows_inside_def inside_vram_def blit_example_fields)
  show ?thesis
    using image_blit_copies [of null_gpu blit_example 4 0 "0x1004"] blit_example_places c r
    by (simp add: null_gpu_update blit_bytes_per_pixel_def blit_alpha_override_def blit_example_fields cong: if_cong)
qed

text \<open>C24: A tile limit in the padding to the right of the rectangle makes the blit write outside it. When a copying
  blit is cut to a size that ends inside the first row but behind the rectangle's right edge, the code copies every
  byte up to the limit, also those to the right of the rectangle.\<close>

theorem blit_clip_overruns_row:
  fixes d :: nv2a and g :: gpu_ops and bpp :: u32 and s t :: nat
  defines "cs \<equiv> context_surfaces_2d d" and "ib \<equiv> image_blit d"
  defines "w \<equiv> unat (ib_width ib)" and "n \<equiv> unat bpp"
    and "sp \<equiv> unat (cs_source_pitch cs)" and "tp \<equiv> unat (cs_dest_pitch cs)"
    and "c \<equiv> nv_clip_gpu_tile_blit d (of_nat t) (blit_dest_size d bpp)"
  assumes "gpu_surface_update g d = d" and "\<forall>b \<in> set (gl_surfaces d). \<not> sb_draw_dirty b"
    and "cs_object_instance cs = ib_context_surfaces ib" and "ib_operation ib = NV09F_SET_OPERATION_SRCCOPY"
    and "blit_bytes_per_pixel (cs_color_format cs) = Some bpp" and "blit_alpha_override (cs_color_format cs) = None"
    and "blit_source d bpp = Some s" and "blit_dest d bpp = Some t" and "w * n \<le> sp" and "w * n \<le> tp"
    and "c < blit_dest_size d bpp" and "w * n < unat c" and "unat c < tp"
    and "s + unat c \<le> vram_size d" and "t + unat c \<le> vram_size d"
  shows "\<exists>d'. pgraph_gl_image_blit g d = Some d' \<and>
    (\<forall>j < unat c. vram d' (t + j) = vram d (s + j)) \<and> (\<exists>j < unat c. w * n \<le> j)"
proof -
  have e: "blit_extent d bpp t = (0, unat c)"
    using assms(18,20) by (simp add: blit_extent_def Let_def c_def tp_def cs_def)
  have "cs_dest_pitch cs \<noteq> 0" using assms(20) by (auto simp: tp_def)
  then obtain ss i dirty where run: "pgraph_gl_image_blit g d = do {
      e \<leftarrow> blit_rows (d\<lparr>gl_surfaces := ss, draw_time := i\<rparr>) (ib_operation ib) s t w 0 (unat c) n sp tp;
      e \<leftarrow> blit_alpha e (blit_alpha_override (cs_color_format cs)) t w 0 (unat c) tp;
      Some (e\<lparr>vram_dirty := vram_dirty e @ dirty\<rparr>) }"
    using image_blit_runs [of g d bpp s t 0 "unat c"] e assms(8-17) unfolding cs_def ib_def w_def n_def sp_def tp_def by blast
  have "0 < unat c" using assms(19) by linarith
  then have "pgraph_gl_image_blit g d = Some (d\<lparr>gl_surfaces := ss, draw_time := i,
      vram := dma_write (vram d) t (dma_read (vram d) s (unat c)), vram_dirty := vram_dirty d @ dirty\<rparr>)"
    using run assms(11,13,21,22) by (simp add: blit_rows_def perform_blit_def blit_alpha_def inside_vram_def)
  then show ?thesis using assms(19) by (auto simp: dma_write_def)
qed

theorem blit_clip_overruns_row_witness:
  "\<exists>d'. pgraph_gl_image_blit null_gpu blit_clipped = Some d' \<and>
    (\<forall>j < 40. vram d' (0x1004 + j) = of_nat (0 + j)) \<and> (\<exists>j < (40 :: nat). 8 \<le> j)"
proof -
  have c: "nv_clip_gpu_tile_blit blit_clipped 0x1004 len = 40" if "len = 72" for len
    using that by (simp add: nv_clip_gpu_tile_blit_def blit_clipped_def upt_rec)
  have size: "blit_dest_size blit_clipped 4 = 72" by (simp add: blit_dest_size_def blit_clipped_def blit_example_def)
  note f = blit_clip_overruns_row [of null_gpu blit_clipped 4 0 "0x1004"]
  show ?thesis
    using f blit_example_places c [OF refl] size
    by (simp add: null_gpu_update blit_bytes_per_pixel_def blit_alpha_override_def blit_clipped_fields blit_example_fields)
qed

end
