(* ===== verification/Pgraph_Method.thy ===== *)
theory Pgraph_Method
  imports Pfifo Pgraph_Blit
begin

text \<open>
  \<open>pgraph_method\<close> of \<^verbatim>\<open>hw/xbox/nv2a/pgraph/pgraph.c\<close>: binding of objects to subchannels, the methods of the
  two-dimensional classes, and the dispatch of the methods of the three-dimensional class with the loops that
  take several parameter words at once.

  The table of the three-dimensional class is an argument, an entry for each word of the method space. The renderer's
  blit is an argument as well; the properties use the one of \<^verbatim>\<open>gl/blit.c\<close>. The words of the command stream are
  read from guest memory at the offset the pusher hands on.
\<close>

section \<open>Registers and classes\<close>

abbreviation (input) NV_PGRAPH_CTX_SWITCH1 :: nat where "NV_PGRAPH_CTX_SWITCH1 \<equiv> 0x14C"
abbreviation (input) NV_PGRAPH_CTX_SWITCH1_GRCLASS :: u32 where "NV_PGRAPH_CTX_SWITCH1_GRCLASS \<equiv> 0xFF"
abbreviation (input) NV_PGRAPH_CTX_SWITCH2 :: nat where "NV_PGRAPH_CTX_SWITCH2 \<equiv> 0x150"
abbreviation (input) NV_PGRAPH_CTX_SWITCH3 :: nat where "NV_PGRAPH_CTX_SWITCH3 \<equiv> 0x154"
abbreviation (input) NV_PGRAPH_CTX_SWITCH4 :: nat where "NV_PGRAPH_CTX_SWITCH4 \<equiv> 0x158"
abbreviation (input) NV_PGRAPH_CTX_SWITCH5 :: nat where "NV_PGRAPH_CTX_SWITCH5 \<equiv> 0x15C"
abbreviation (input) NV_PGRAPH_CTX_CACHE1 :: nat where "NV_PGRAPH_CTX_CACHE1 \<equiv> 0x160"
abbreviation (input) NV_PGRAPH_CTX_CACHE2 :: nat where "NV_PGRAPH_CTX_CACHE2 \<equiv> 0x180"
abbreviation (input) NV_PGRAPH_CTX_CACHE3 :: nat where "NV_PGRAPH_CTX_CACHE3 \<equiv> 0x1A0"
abbreviation (input) NV_PGRAPH_CTX_CACHE4 :: nat where "NV_PGRAPH_CTX_CACHE4 \<equiv> 0x1C0"
abbreviation (input) NV_PGRAPH_CTX_CACHE5 :: nat where "NV_PGRAPH_CTX_CACHE5 \<equiv> 0x1E0"
abbreviation (input) NV_PGRAPH_PATT_COLOR0 :: nat where "NV_PGRAPH_PATT_COLOR0 \<equiv> 0xB10"
abbreviation (input) NV_SET_OBJECT :: u32 where "NV_SET_OBJECT \<equiv> 0"
abbreviation (input) NV_BETA :: u32 where "NV_BETA \<equiv> 0x12"
abbreviation (input) NV012_SET_OBJECT :: u32 where "NV012_SET_OBJECT \<equiv> 0"
abbreviation (input) NV012_SET_BETA :: u32 where "NV012_SET_BETA \<equiv> 0x300"
abbreviation (input) NV_CONTEXT_PATTERN :: u32 where "NV_CONTEXT_PATTERN \<equiv> 0x44"
abbreviation (input) NV044_SET_MONOCHROME_COLOR0 :: u32 where "NV044_SET_MONOCHROME_COLOR0 \<equiv> 0x310"
abbreviation (input) NV_CONTEXT_SURFACES_2D :: u32 where "NV_CONTEXT_SURFACES_2D \<equiv> 0x62"
abbreviation (input) NV062_SET_OBJECT :: u32 where "NV062_SET_OBJECT \<equiv> 0"
abbreviation (input) NV062_SET_CONTEXT_DMA_IMAGE_SOURCE :: u32 where "NV062_SET_CONTEXT_DMA_IMAGE_SOURCE \<equiv> 0x184"
abbreviation (input) NV062_SET_CONTEXT_DMA_IMAGE_DESTIN :: u32 where "NV062_SET_CONTEXT_DMA_IMAGE_DESTIN \<equiv> 0x188"
abbreviation (input) NV062_SET_COLOR_FORMAT :: u32 where "NV062_SET_COLOR_FORMAT \<equiv> 0x300"
abbreviation (input) NV062_SET_PITCH :: u32 where "NV062_SET_PITCH \<equiv> 0x304"
abbreviation (input) NV062_SET_OFFSET_SOURCE :: u32 where "NV062_SET_OFFSET_SOURCE \<equiv> 0x308"
abbreviation (input) NV062_SET_OFFSET_DESTIN :: u32 where "NV062_SET_OFFSET_DESTIN \<equiv> 0x30C"
abbreviation (input) NV_IMAGE_BLIT :: u32 where "NV_IMAGE_BLIT \<equiv> 0x9F"
abbreviation (input) NV09F_SET_OBJECT :: u32 where "NV09F_SET_OBJECT \<equiv> 0"
abbreviation (input) NV09F_SET_CONTEXT_SURFACES :: u32 where "NV09F_SET_CONTEXT_SURFACES \<equiv> 0x19C"
abbreviation (input) NV09F_SET_OPERATION :: u32 where "NV09F_SET_OPERATION \<equiv> 0x2FC"
abbreviation (input) NV09F_CONTROL_POINT_IN :: u32 where "NV09F_CONTROL_POINT_IN \<equiv> 0x300"
abbreviation (input) NV09F_CONTROL_POINT_OUT :: u32 where "NV09F_CONTROL_POINT_OUT \<equiv> 0x304"
abbreviation (input) NV09F_SIZE :: u32 where "NV09F_SIZE \<equiv> 0x308"
abbreviation (input) NV_KELVIN_PRIMITIVE :: u32 where "NV_KELVIN_PRIMITIVE \<equiv> 0x97"
abbreviation (input) NV097_SET_BEGIN_END :: u32 where "NV097_SET_BEGIN_END \<equiv> 0x17FC"
abbreviation (input) NV097_DRAW_ARRAYS :: u32 where "NV097_DRAW_ARRAYS \<equiv> 0x1810"

section \<open>The two-dimensional classes\<close>

definition beta_method :: "nv2a \<Rightarrow> u32 \<Rightarrow> u32 \<Rightarrow> nv2a" where
  "beta_method d meth parameter =
     (if meth = NV012_SET_OBJECT then d\<lparr>beta := (beta d)\<lparr>bs_object_instance := ucast parameter\<rparr>\<rparr>
      else if meth = NV012_SET_BETA
      then d\<lparr>beta := (beta d)\<lparr>bs_beta := (if parameter AND 0x80000000 \<noteq> 0 then 0 else parameter AND 0x7f800000)\<rparr>\<rparr>
      else d)"

definition pattern_method :: "nv2a \<Rightarrow> u32 \<Rightarrow> u32 \<Rightarrow> nv2a option" where
  "pattern_method d meth parameter =
     (if meth = NV044_SET_MONOCHROME_COLOR0 then pgraph_reg_w d NV_PGRAPH_PATT_COLOR0 parameter else Some d)"

definition surfaces_2d_method :: "nv2a \<Rightarrow> u32 \<Rightarrow> u32 \<Rightarrow> nv2a" where
  "surfaces_2d_method d meth parameter =
     (let cs = context_surfaces_2d d;
          cs' = (if meth = NV062_SET_OBJECT then cs\<lparr>cs_object_instance := ucast parameter\<rparr>
                 else if meth = NV062_SET_CONTEXT_DMA_IMAGE_SOURCE then cs\<lparr>cs_dma_image_source := ucast parameter\<rparr>
                 else if meth = NV062_SET_CONTEXT_DMA_IMAGE_DESTIN then cs\<lparr>cs_dma_image_dest := ucast parameter\<rparr>
                 else if meth = NV062_SET_COLOR_FORMAT then cs\<lparr>cs_color_format := parameter\<rparr>
                 else if meth = NV062_SET_PITCH
                 then cs\<lparr>cs_source_pitch := parameter AND 0xFFFF, cs_dest_pitch := drop_bit 16 parameter\<rparr>
                 else if meth = NV062_SET_OFFSET_SOURCE then cs\<lparr>cs_source_offset := ucast (parameter AND 0x07FFFFFF)\<rparr>
                 else if meth = NV062_SET_OFFSET_DESTIN then cs\<lparr>cs_dest_offset := ucast (parameter AND 0x07FFFFFF)\<rparr>
                 else cs)
      in d\<lparr>context_surfaces_2d := cs'\<rparr>)"

text \<open>Setting the size starts the blit.\<close>

definition image_blit_method :: "(nv2a \<Rightarrow> nv2a option) \<Rightarrow> nv2a \<Rightarrow> u32 \<Rightarrow> u32 \<Rightarrow> nv2a option" where
  "image_blit_method blit_op d meth parameter =
     (let ib = image_blit d in
      if meth = NV09F_SET_OBJECT then Some (d\<lparr>image_blit := ib\<lparr>ib_object_instance := ucast parameter\<rparr>\<rparr>)
      else if meth = NV09F_SET_CONTEXT_SURFACES then Some (d\<lparr>image_blit := ib\<lparr>ib_context_surfaces := ucast parameter\<rparr>\<rparr>)
      else if meth = NV09F_SET_OPERATION then Some (d\<lparr>image_blit := ib\<lparr>ib_operation := parameter\<rparr>\<rparr>)
      else if meth = NV09F_CONTROL_POINT_IN
      then Some (d\<lparr>image_blit := ib\<lparr>ib_in_x := parameter AND 0xFFFF, ib_in_y := drop_bit 16 parameter\<rparr>\<rparr>)
      else if meth = NV09F_CONTROL_POINT_OUT
      then Some (d\<lparr>image_blit := ib\<lparr>ib_out_x := parameter AND 0xFFFF, ib_out_y := drop_bit 16 parameter\<rparr>\<rparr>)
      else if meth = NV09F_SIZE then
        (let ib = ib\<lparr>ib_width := parameter AND 0xFFFF, ib_height := drop_bit 16 parameter\<rparr>; d = d\<lparr>image_blit := ib\<rparr>
         in if ib_width ib \<noteq> 0 \<and> ib_height ib \<noteq> 0 then blit_op d else Some d)
      else Some d)"

section \<open>The three-dimensional class\<close>

text \<open>A handler gets subchannel, method, parameter, the offset of the parameter words, their number and the increment
  flag, and returns how many words it consumed.\<close>

type_synonym words_handler = "nv2a \<Rightarrow> u32 \<Rightarrow> u32 \<Rightarrow> u32 \<Rightarrow> nat \<Rightarrow> nat \<Rightarrow> bool \<Rightarrow> (nat \<times> nv2a) option"

type_synonym word_handler = "nv2a \<Rightarrow> u32 \<Rightarrow> u32 \<Rightarrow> u32 \<Rightarrow> nv2a option"

definition parameter_word :: "nv2a \<Rightarrow> nat \<Rightarrow> nat \<Rightarrow> u32 option" where
  "parameter_word d parameters i = do {
     assert_that (parameters + 4 * i + 4 \<le> vram_size d);
     Some (ldl_le_p (vram d) (parameters + 4 * i))
   }"

fun method_words :: "word_handler \<Rightarrow> nv2a \<Rightarrow> u32 \<Rightarrow> u32 \<Rightarrow> u32 \<Rightarrow> nat \<Rightarrow> nat list \<Rightarrow> nv2a option" where
  "method_words handler d subchannel meth step parameters [] = Some d"
| "method_words handler d subchannel meth step parameters (i # is) = do {
     parameter \<leftarrow> parameter_word d parameters i;
     d \<leftarrow> handler d subchannel meth parameter;
     method_words handler d subchannel (meth + step) step parameters is
   }"

definition pgraph_method_inc :: "word_handler \<Rightarrow> u32 \<Rightarrow> words_handler" where
  "pgraph_method_inc handler end_addr d subchannel meth parameter parameters num_words_available inc =
     (if \<not> inc then do { d \<leftarrow> handler d subchannel meth parameter; Some (1, d) }
      else do {
        let count = min num_words_available (unat ((end_addr - meth) div 4));
        d \<leftarrow> method_words handler d subchannel meth 4 parameters [0..<count];
        Some (count, d)
      })"

definition pgraph_method_non_inc :: "word_handler \<Rightarrow> words_handler" where
  "pgraph_method_non_inc handler d subchannel meth parameter parameters num_words_available inc =
     (if inc then do { d \<leftarrow> handler d subchannel meth parameter; Some (1, d) }
      else do {
        d \<leftarrow> method_words handler d subchannel meth 0 parameters [0..<num_words_available];
        Some (num_words_available, d)
      })"

text \<open>An entry of the table: a handler for one word, or one that is wrapped in one of the two loops.\<close>

datatype kelvin_entry = Plain word_handler | Inc word_handler u32 | NonInc word_handler

fun kelvin_handler :: "kelvin_entry \<Rightarrow> words_handler" where
  "kelvin_handler (Plain handler) d subchannel meth parameter parameters num_words_available inc =
     do { d \<leftarrow> handler d subchannel meth parameter; Some (1, d) }"
| "kelvin_handler (Inc handler end_addr) d subchannel meth parameter parameters num_words_available inc =
     pgraph_method_inc handler end_addr d subchannel meth parameter parameters num_words_available inc"
| "kelvin_handler (NonInc handler) d subchannel meth parameter parameters num_words_available inc =
     pgraph_method_non_inc handler d subchannel meth parameter parameters num_words_available inc"

definition LAM :: "nv2a \<Rightarrow> nat \<Rightarrow> nat \<Rightarrow> u32 \<Rightarrow> bool option" where
  "LAM d parameters i mthd = do { w \<leftarrow> parameter_word d parameters (i * 2 + 1); Some (w AND 0x31fff = mthd) }"

definition LAMP :: "nv2a \<Rightarrow> nat \<Rightarrow> nat \<Rightarrow> u32 \<Rightarrow> u32 \<Rightarrow> bool option" where
  "LAMP d parameters i mthd prm = do {
     b \<leftarrow> LAM d parameters i mthd;
     if b then do { w \<leftarrow> parameter_word d parameters (i * 2 + 2); Some (w = prm) } else Some False
   }"

text \<open>An end, a begin of the same primitive and another range that follow a range are skipped over.\<close>

definition squash_begin_end :: "nv2a \<Rightarrow> u32 \<Rightarrow> nat \<Rightarrow> nat \<Rightarrow> bool option" where
  "squash_begin_end d meth parameters max_lookahead_words =
     (if meth = NV097_DRAW_ARRAYS \<and> max_lookahead_words \<ge> 7 \<and> inline_elements_length (pg_draw d) = 0
        \<and> draw_arrays_length (pg_draw d) < DRAW_ARRAYS_MAX - 1
      then do {
        a \<leftarrow> LAMP d parameters 0 NV097_SET_BEGIN_END NV097_SET_BEGIN_END_OP_END;
        if \<not> a then Some False
        else do {
          b \<leftarrow> LAMP d parameters 1 NV097_SET_BEGIN_END (primitive_mode (pg_draw d));
          if \<not> b then Some False else LAM d parameters 2 NV097_DRAW_ARRAYS
        }
      }
      else Some False)"

definition kelvin_method ::
  "(nat \<Rightarrow> kelvin_entry option) \<Rightarrow> nv2a \<Rightarrow> u32 \<Rightarrow> u32 \<Rightarrow> u32 \<Rightarrow> nat \<Rightarrow> nat \<Rightarrow> nat \<Rightarrow> bool \<Rightarrow> (nat \<times> nv2a) option" where
  "kelvin_method kelvin d subchannel meth parameter parameters num_words_available max_lookahead_words inc =
     (case kelvin (unat meth div 4) of None \<Rightarrow> Some (1, d)
      | Some entry \<Rightarrow> do {
          (num_words_consumed, d) \<leftarrow> kelvin_handler entry d subchannel meth parameter parameters num_words_available inc;
          squash \<leftarrow> squash_begin_end d meth parameters max_lookahead_words;
          Some (if squash
                then (num_words_consumed + 4, d\<lparr>pg_draw := (pg_draw d)\<lparr>draw_arrays_prevent_connect := True\<rparr>\<rparr>)
                else (num_words_consumed, d))
        })"

section \<open>Binding and dispatch\<close>

definition cache_object :: "nv2a \<Rightarrow> nat \<Rightarrow> u32 \<Rightarrow> nv2a option" where
  "cache_object d subchannel parameter = do {
     assert_that (unat parameter < ramin_size d);
     let obj_ptr = unat parameter;
     assert_that (obj_ptr + 16 \<le> ramin_size d);  \<comment> \<open>the four words are inside the memory\<close>
     d' \<leftarrow> pgraph_reg_w d (NV_PGRAPH_CTX_CACHE1 + subchannel * 4) (ldl_le_p (ramin d) obj_ptr);
     d' \<leftarrow> pgraph_reg_w d' (NV_PGRAPH_CTX_CACHE2 + subchannel * 4) (ldl_le_p (ramin d) (obj_ptr + 4));
     d' \<leftarrow> pgraph_reg_w d' (NV_PGRAPH_CTX_CACHE3 + subchannel * 4) (ldl_le_p (ramin d) (obj_ptr + 8));
     d' \<leftarrow> pgraph_reg_w d' (NV_PGRAPH_CTX_CACHE4 + subchannel * 4) (ldl_le_p (ramin d) (obj_ptr + 12));
     pgraph_reg_w d' (NV_PGRAPH_CTX_CACHE5 + subchannel * 4) parameter
   }"

definition copy_reg :: "nv2a \<Rightarrow> nat \<Rightarrow> nat \<Rightarrow> nv2a option" where
  "copy_reg d to from = do { v \<leftarrow> pgraph_reg_r d from; pgraph_reg_w d to v }"

definition switch_object :: "nv2a \<Rightarrow> nat \<Rightarrow> nv2a option" where
  "switch_object d subchannel = do {
     d \<leftarrow> copy_reg d NV_PGRAPH_CTX_SWITCH1 (NV_PGRAPH_CTX_CACHE1 + subchannel * 4);
     d \<leftarrow> copy_reg d NV_PGRAPH_CTX_SWITCH2 (NV_PGRAPH_CTX_CACHE2 + subchannel * 4);
     d \<leftarrow> copy_reg d NV_PGRAPH_CTX_SWITCH3 (NV_PGRAPH_CTX_CACHE3 + subchannel * 4);
     d \<leftarrow> copy_reg d NV_PGRAPH_CTX_SWITCH4 (NV_PGRAPH_CTX_CACHE4 + subchannel * 4);
     copy_reg d NV_PGRAPH_CTX_SWITCH5 (NV_PGRAPH_CTX_CACHE5 + subchannel * 4)
   }"

text \<open>The class decides what the method means; a method that a class does not have is skipped.\<close>

definition class_method ::
  "(nv2a \<Rightarrow> nv2a option) \<Rightarrow> (nat \<Rightarrow> kelvin_entry option) \<Rightarrow> u32 \<Rightarrow> nv2a \<Rightarrow> u32 \<Rightarrow> u32 \<Rightarrow> u32 \<Rightarrow> nat \<Rightarrow> nat \<Rightarrow> nat \<Rightarrow> bool
   \<Rightarrow> (nat \<times> nv2a) option" where
  "class_method blit_op kelvin graphics_class d subchannel meth parameter parameters num_words_available max_lookahead_words inc =
     (if graphics_class = NV_BETA then Some (1, beta_method d meth parameter)
      else if graphics_class = NV_CONTEXT_PATTERN then do { d \<leftarrow> pattern_method d meth parameter; Some (1, d) }
      else if graphics_class = NV_CONTEXT_SURFACES_2D then Some (1, surfaces_2d_method d meth parameter)
      else if graphics_class = NV_IMAGE_BLIT then do { d \<leftarrow> image_blit_method blit_op d meth parameter; Some (1, d) }
      else if graphics_class = NV_KELVIN_PRIMITIVE
      then kelvin_method kelvin d subchannel meth parameter parameters num_words_available max_lookahead_words inc
      else Some (1, d))"

definition pgraph_method :: "(nv2a \<Rightarrow> nv2a option) \<Rightarrow> (nat \<Rightarrow> kelvin_entry option) \<Rightarrow> method_engine" where
  "pgraph_method blit_op kelvin d subchannel meth parameter parameters num_words_available max_lookahead_words inc = do {
     channel_valid \<leftarrow> pg_get_mask d NV_PGRAPH_CTX_CONTROL NV_PGRAPH_CTX_CONTROL_CHID;
     assert_that (channel_valid \<noteq> 0);
     assert_that (subchannel < 8);
     d \<leftarrow> (if meth = NV_SET_OBJECT then cache_object d (unat subchannel) parameter else Some d);
     d \<leftarrow> switch_object d (unat subchannel);
     graphics_class \<leftarrow> pg_get_mask d NV_PGRAPH_CTX_SWITCH1 NV_PGRAPH_CTX_SWITCH1_GRCLASS;
     assert_that (subchannel \<noteq> 0 \<longrightarrow> graphics_class \<noteq> 0x97);
     (num_processed, d) \<leftarrow> class_method blit_op kelvin graphics_class d subchannel meth parameter parameters
                             num_words_available max_lookahead_words inc;
     Some (int num_processed, d)
   }"

end
