(* ===== verification/Kelvin_Regs.thy ===== *)
theory Kelvin_Regs
  imports Pgraph_Method
begin

text \<open>
  Methods of the three-dimensional class, registers of PGRAPH and the fields of both, as far as \<^verbatim>\<open>Kelvin\<close> uses them;
  the constants of \<^verbatim>\<open>hw/xbox/nv2a/nv2a_regs.h\<close>.
\<close>

abbreviation (input) NV_PGRAPH_CSV0_D :: nat where "NV_PGRAPH_CSV0_D \<equiv> 0xFB4"
abbreviation (input) NV_PGRAPH_CSV0_D_LIGHTS :: u32 where "NV_PGRAPH_CSV0_D_LIGHTS \<equiv> 0xFFFF"
abbreviation (input) NV_PGRAPH_CSV0_D_RANGE_MODE :: u32 where "NV_PGRAPH_CSV0_D_RANGE_MODE \<equiv> 0x40000"
abbreviation (input) NV_PGRAPH_CSV0_D_TEXGEN_REF :: u32 where "NV_PGRAPH_CSV0_D_TEXGEN_REF \<equiv> 0x100000"
abbreviation (input) NV_PGRAPH_CSV0_D_FOGGENMODE :: u32 where "NV_PGRAPH_CSV0_D_FOGGENMODE \<equiv> 0x1C00000"
abbreviation (input) NV_PGRAPH_CSV0_D_FOGGENMODE_SPEC_ALPHA :: u32 where "NV_PGRAPH_CSV0_D_FOGGENMODE_SPEC_ALPHA \<equiv> 0"
abbreviation (input) NV_PGRAPH_CSV0_D_FOGGENMODE_RADIAL :: u32 where "NV_PGRAPH_CSV0_D_FOGGENMODE_RADIAL \<equiv> 1"
abbreviation (input) NV_PGRAPH_CSV0_D_FOGGENMODE_PLANAR :: u32 where "NV_PGRAPH_CSV0_D_FOGGENMODE_PLANAR \<equiv> 2"
abbreviation (input) NV_PGRAPH_CSV0_D_FOGGENMODE_ABS_PLANAR :: u32 where "NV_PGRAPH_CSV0_D_FOGGENMODE_ABS_PLANAR \<equiv> 3"
abbreviation (input) NV_PGRAPH_CSV0_D_FOGGENMODE_FOG_X :: u32 where "NV_PGRAPH_CSV0_D_FOGGENMODE_FOG_X \<equiv> 4"
abbreviation (input) NV_PGRAPH_CSV0_D_MODE :: u32 where "NV_PGRAPH_CSV0_D_MODE \<equiv> 0xC0000000"
abbreviation (input) NV_PGRAPH_CSV0_D_POINTPARAMSENABLE :: u32 where "NV_PGRAPH_CSV0_D_POINTPARAMSENABLE \<equiv> 0x2000000"
abbreviation (input) NV_PGRAPH_CSV0_D_SKIN :: u32 where "NV_PGRAPH_CSV0_D_SKIN \<equiv> 0x1C000000"
abbreviation (input) NV_PGRAPH_CSV0_C :: nat where "NV_PGRAPH_CSV0_C \<equiv> 0xFB8"
abbreviation (input) NV_PGRAPH_CSV0_C_CHEOPS_PROGRAM_START :: u32 where "NV_PGRAPH_CSV0_C_CHEOPS_PROGRAM_START \<equiv> 0xFF00"
abbreviation (input) NV_PGRAPH_CSV0_C_SPECULAR_ENABLE :: u32 where "NV_PGRAPH_CSV0_C_SPECULAR_ENABLE \<equiv> 0x10000"
abbreviation (input) NV_PGRAPH_CSV0_C_ALPHA_FROM_MATERIAL_SPECULAR :: u32 where "NV_PGRAPH_CSV0_C_ALPHA_FROM_MATERIAL_SPECULAR \<equiv> 0x20000"
abbreviation (input) NV_PGRAPH_CSV0_C_SEPARATE_SPECULAR :: u32 where "NV_PGRAPH_CSV0_C_SEPARATE_SPECULAR \<equiv> 0x40000"
abbreviation (input) NV_PGRAPH_CSV0_C_SPECULAR :: u32 where "NV_PGRAPH_CSV0_C_SPECULAR \<equiv> 0x180000"
abbreviation (input) NV_PGRAPH_CSV0_C_DIFFUSE :: u32 where "NV_PGRAPH_CSV0_C_DIFFUSE \<equiv> 0x600000"
abbreviation (input) NV_PGRAPH_CSV0_C_AMBIENT :: u32 where "NV_PGRAPH_CSV0_C_AMBIENT \<equiv> 0x1800000"
abbreviation (input) NV_PGRAPH_CSV0_C_EMISSION :: u32 where "NV_PGRAPH_CSV0_C_EMISSION \<equiv> 0x6000000"
abbreviation (input) NV_PGRAPH_CSV0_C_NORMALIZATION_ENABLE :: u32 where "NV_PGRAPH_CSV0_C_NORMALIZATION_ENABLE \<equiv> 0x8000000"
abbreviation (input) NV_PGRAPH_CSV0_C_LOCALEYE :: u32 where "NV_PGRAPH_CSV0_C_LOCALEYE \<equiv> 0x40000000"
abbreviation (input) NV_PGRAPH_CSV0_C_LIGHTING :: u32 where "NV_PGRAPH_CSV0_C_LIGHTING \<equiv> 0x80000000"
abbreviation (input) NV_PGRAPH_CSV1_B :: nat where "NV_PGRAPH_CSV1_B \<equiv> 0xFBC"
abbreviation (input) NV_PGRAPH_CSV1_A :: nat where "NV_PGRAPH_CSV1_A \<equiv> 0xFC0"
abbreviation (input) NV_PGRAPH_CSV1_A_T0_S :: u32 where "NV_PGRAPH_CSV1_A_T0_S \<equiv> 0x70"
abbreviation (input) NV_PGRAPH_CSV1_A_T0_S_DISABLE :: u32 where "NV_PGRAPH_CSV1_A_T0_S_DISABLE \<equiv> 0"
abbreviation (input) NV_PGRAPH_CSV1_A_T0_S_NORMAL_MAP :: u32 where "NV_PGRAPH_CSV1_A_T0_S_NORMAL_MAP \<equiv> 4"
abbreviation (input) NV_PGRAPH_CSV1_A_T0_S_REFLECTION_MAP :: u32 where "NV_PGRAPH_CSV1_A_T0_S_REFLECTION_MAP \<equiv> 5"
abbreviation (input) NV_PGRAPH_CSV1_A_T0_S_EYE_LINEAR :: u32 where "NV_PGRAPH_CSV1_A_T0_S_EYE_LINEAR \<equiv> 1"
abbreviation (input) NV_PGRAPH_CSV1_A_T0_S_OBJECT_LINEAR :: u32 where "NV_PGRAPH_CSV1_A_T0_S_OBJECT_LINEAR \<equiv> 2"
abbreviation (input) NV_PGRAPH_CSV1_A_T0_S_SPHERE_MAP :: u32 where "NV_PGRAPH_CSV1_A_T0_S_SPHERE_MAP \<equiv> 3"
abbreviation (input) NV_PGRAPH_CSV1_A_T0_T :: u32 where "NV_PGRAPH_CSV1_A_T0_T \<equiv> 0x380"
abbreviation (input) NV_PGRAPH_CSV1_A_T0_R :: u32 where "NV_PGRAPH_CSV1_A_T0_R \<equiv> 0x1C00"
abbreviation (input) NV_PGRAPH_CSV1_A_T0_Q :: u32 where "NV_PGRAPH_CSV1_A_T0_Q \<equiv> 0xE000"
abbreviation (input) NV_PGRAPH_CSV1_A_T1_S :: u32 where "NV_PGRAPH_CSV1_A_T1_S \<equiv> 0x700000"
abbreviation (input) NV_PGRAPH_CSV1_A_T1_T :: u32 where "NV_PGRAPH_CSV1_A_T1_T \<equiv> 0x3800000"
abbreviation (input) NV_PGRAPH_CSV1_A_T1_R :: u32 where "NV_PGRAPH_CSV1_A_T1_R \<equiv> 0x1C000000"
abbreviation (input) NV_PGRAPH_CSV1_A_T1_Q :: u32 where "NV_PGRAPH_CSV1_A_T1_Q \<equiv> 0xE0000000"
abbreviation (input) NV_PGRAPH_CHEOPS_OFFSET :: nat where "NV_PGRAPH_CHEOPS_OFFSET \<equiv> 0xFC4"
abbreviation (input) NV_PGRAPH_CHEOPS_OFFSET_PROG_LD_PTR :: u32 where "NV_PGRAPH_CHEOPS_OFFSET_PROG_LD_PTR \<equiv> 0xFF"
abbreviation (input) NV_PGRAPH_CHEOPS_OFFSET_CONST_LD_PTR :: u32 where "NV_PGRAPH_CHEOPS_OFFSET_CONST_LD_PTR \<equiv> 0xFF00"
abbreviation (input) NV_PGRAPH_ANTIALIASING :: nat where "NV_PGRAPH_ANTIALIASING \<equiv> 0x1800"
abbreviation (input) NV_PGRAPH_ANTIALIASING_ENABLE :: u32 where "NV_PGRAPH_ANTIALIASING_ENABLE \<equiv> 1"
abbreviation (input) NV_PGRAPH_BLEND :: nat where "NV_PGRAPH_BLEND \<equiv> 0x1804"
abbreviation (input) NV_PGRAPH_BLEND_EQN :: u32 where "NV_PGRAPH_BLEND_EQN \<equiv> 7"
abbreviation (input) NV_PGRAPH_BLEND_EN :: u32 where "NV_PGRAPH_BLEND_EN \<equiv> 8"
abbreviation (input) NV_PGRAPH_BLEND_SFACTOR :: u32 where "NV_PGRAPH_BLEND_SFACTOR \<equiv> 0xF0"
abbreviation (input) NV_PGRAPH_BLEND_SFACTOR_ZERO :: u32 where "NV_PGRAPH_BLEND_SFACTOR_ZERO \<equiv> 0"
abbreviation (input) NV_PGRAPH_BLEND_SFACTOR_ONE :: u32 where "NV_PGRAPH_BLEND_SFACTOR_ONE \<equiv> 1"
abbreviation (input) NV_PGRAPH_BLEND_SFACTOR_SRC_COLOR :: u32 where "NV_PGRAPH_BLEND_SFACTOR_SRC_COLOR \<equiv> 2"
abbreviation (input) NV_PGRAPH_BLEND_SFACTOR_ONE_MINUS_SRC_COLOR :: u32 where "NV_PGRAPH_BLEND_SFACTOR_ONE_MINUS_SRC_COLOR \<equiv> 3"
abbreviation (input) NV_PGRAPH_BLEND_SFACTOR_SRC_ALPHA :: u32 where "NV_PGRAPH_BLEND_SFACTOR_SRC_ALPHA \<equiv> 4"
abbreviation (input) NV_PGRAPH_BLEND_SFACTOR_ONE_MINUS_SRC_ALPHA :: u32 where "NV_PGRAPH_BLEND_SFACTOR_ONE_MINUS_SRC_ALPHA \<equiv> 5"
abbreviation (input) NV_PGRAPH_BLEND_SFACTOR_DST_ALPHA :: u32 where "NV_PGRAPH_BLEND_SFACTOR_DST_ALPHA \<equiv> 6"
abbreviation (input) NV_PGRAPH_BLEND_SFACTOR_ONE_MINUS_DST_ALPHA :: u32 where "NV_PGRAPH_BLEND_SFACTOR_ONE_MINUS_DST_ALPHA \<equiv> 7"
abbreviation (input) NV_PGRAPH_BLEND_SFACTOR_DST_COLOR :: u32 where "NV_PGRAPH_BLEND_SFACTOR_DST_COLOR \<equiv> 8"
abbreviation (input) NV_PGRAPH_BLEND_SFACTOR_ONE_MINUS_DST_COLOR :: u32 where "NV_PGRAPH_BLEND_SFACTOR_ONE_MINUS_DST_COLOR \<equiv> 9"
abbreviation (input) NV_PGRAPH_BLEND_SFACTOR_SRC_ALPHA_SATURATE :: u32 where "NV_PGRAPH_BLEND_SFACTOR_SRC_ALPHA_SATURATE \<equiv> 0xA"
abbreviation (input) NV_PGRAPH_BLEND_SFACTOR_CONSTANT_COLOR :: u32 where "NV_PGRAPH_BLEND_SFACTOR_CONSTANT_COLOR \<equiv> 0xC"
abbreviation (input) NV_PGRAPH_BLEND_SFACTOR_ONE_MINUS_CONSTANT_COLOR :: u32 where "NV_PGRAPH_BLEND_SFACTOR_ONE_MINUS_CONSTANT_COLOR \<equiv> 0xD"
abbreviation (input) NV_PGRAPH_BLEND_SFACTOR_CONSTANT_ALPHA :: u32 where "NV_PGRAPH_BLEND_SFACTOR_CONSTANT_ALPHA \<equiv> 0xE"
abbreviation (input) NV_PGRAPH_BLEND_SFACTOR_ONE_MINUS_CONSTANT_ALPHA :: u32 where "NV_PGRAPH_BLEND_SFACTOR_ONE_MINUS_CONSTANT_ALPHA \<equiv> 0xF"
abbreviation (input) NV_PGRAPH_BLEND_DFACTOR :: u32 where "NV_PGRAPH_BLEND_DFACTOR \<equiv> 0xF00"
abbreviation (input) NV_PGRAPH_BLEND_DFACTOR_ZERO :: u32 where "NV_PGRAPH_BLEND_DFACTOR_ZERO \<equiv> 0"
abbreviation (input) NV_PGRAPH_BLEND_DFACTOR_ONE :: u32 where "NV_PGRAPH_BLEND_DFACTOR_ONE \<equiv> 1"
abbreviation (input) NV_PGRAPH_BLEND_DFACTOR_SRC_COLOR :: u32 where "NV_PGRAPH_BLEND_DFACTOR_SRC_COLOR \<equiv> 2"
abbreviation (input) NV_PGRAPH_BLEND_DFACTOR_ONE_MINUS_SRC_COLOR :: u32 where "NV_PGRAPH_BLEND_DFACTOR_ONE_MINUS_SRC_COLOR \<equiv> 3"
abbreviation (input) NV_PGRAPH_BLEND_DFACTOR_SRC_ALPHA :: u32 where "NV_PGRAPH_BLEND_DFACTOR_SRC_ALPHA \<equiv> 4"
abbreviation (input) NV_PGRAPH_BLEND_DFACTOR_ONE_MINUS_SRC_ALPHA :: u32 where "NV_PGRAPH_BLEND_DFACTOR_ONE_MINUS_SRC_ALPHA \<equiv> 5"
abbreviation (input) NV_PGRAPH_BLEND_DFACTOR_DST_ALPHA :: u32 where "NV_PGRAPH_BLEND_DFACTOR_DST_ALPHA \<equiv> 6"
abbreviation (input) NV_PGRAPH_BLEND_DFACTOR_ONE_MINUS_DST_ALPHA :: u32 where "NV_PGRAPH_BLEND_DFACTOR_ONE_MINUS_DST_ALPHA \<equiv> 7"
abbreviation (input) NV_PGRAPH_BLEND_DFACTOR_DST_COLOR :: u32 where "NV_PGRAPH_BLEND_DFACTOR_DST_COLOR \<equiv> 8"
abbreviation (input) NV_PGRAPH_BLEND_DFACTOR_ONE_MINUS_DST_COLOR :: u32 where "NV_PGRAPH_BLEND_DFACTOR_ONE_MINUS_DST_COLOR \<equiv> 9"
abbreviation (input) NV_PGRAPH_BLEND_DFACTOR_SRC_ALPHA_SATURATE :: u32 where "NV_PGRAPH_BLEND_DFACTOR_SRC_ALPHA_SATURATE \<equiv> 0xA"
abbreviation (input) NV_PGRAPH_BLEND_DFACTOR_CONSTANT_COLOR :: u32 where "NV_PGRAPH_BLEND_DFACTOR_CONSTANT_COLOR \<equiv> 0xC"
abbreviation (input) NV_PGRAPH_BLEND_DFACTOR_ONE_MINUS_CONSTANT_COLOR :: u32 where "NV_PGRAPH_BLEND_DFACTOR_ONE_MINUS_CONSTANT_COLOR \<equiv> 0xD"
abbreviation (input) NV_PGRAPH_BLEND_DFACTOR_CONSTANT_ALPHA :: u32 where "NV_PGRAPH_BLEND_DFACTOR_CONSTANT_ALPHA \<equiv> 0xE"
abbreviation (input) NV_PGRAPH_BLEND_DFACTOR_ONE_MINUS_CONSTANT_ALPHA :: u32 where "NV_PGRAPH_BLEND_DFACTOR_ONE_MINUS_CONSTANT_ALPHA \<equiv> 0xF"
abbreviation (input) NV_PGRAPH_BLEND_LOGICOP_ENABLE :: u32 where "NV_PGRAPH_BLEND_LOGICOP_ENABLE \<equiv> 0x10000"
abbreviation (input) NV_PGRAPH_BLEND_LOGICOP :: u32 where "NV_PGRAPH_BLEND_LOGICOP \<equiv> 0xF000"
abbreviation (input) NV_PGRAPH_BLENDCOLOR :: nat where "NV_PGRAPH_BLENDCOLOR \<equiv> 0x1808"
abbreviation (input) NV_PGRAPH_BORDERCOLOR0 :: nat where "NV_PGRAPH_BORDERCOLOR0 \<equiv> 0x180C"
abbreviation (input) NV_PGRAPH_BUMPMAT00 :: nat where "NV_PGRAPH_BUMPMAT00 \<equiv> 0x181C"
abbreviation (input) NV_PGRAPH_BUMPMAT01 :: nat where "NV_PGRAPH_BUMPMAT01 \<equiv> 0x1828"
abbreviation (input) NV_PGRAPH_BUMPMAT10 :: nat where "NV_PGRAPH_BUMPMAT10 \<equiv> 0x1834"
abbreviation (input) NV_PGRAPH_BUMPMAT11 :: nat where "NV_PGRAPH_BUMPMAT11 \<equiv> 0x1840"
abbreviation (input) NV_PGRAPH_BUMPOFFSET1 :: nat where "NV_PGRAPH_BUMPOFFSET1 \<equiv> 0x184C"
abbreviation (input) NV_PGRAPH_BUMPSCALE1 :: nat where "NV_PGRAPH_BUMPSCALE1 \<equiv> 0x1858"
abbreviation (input) NV_PGRAPH_CLEARRECTX :: nat where "NV_PGRAPH_CLEARRECTX \<equiv> 0x1864"
abbreviation (input) NV_PGRAPH_CLEARRECTY :: nat where "NV_PGRAPH_CLEARRECTY \<equiv> 0x1868"
abbreviation (input) NV_PGRAPH_COLORCLEARVALUE :: nat where "NV_PGRAPH_COLORCLEARVALUE \<equiv> 0x186C"
abbreviation (input) NV_PGRAPH_COLORKEYCOLOR0 :: nat where "NV_PGRAPH_COLORKEYCOLOR0 \<equiv> 0x1870"
abbreviation (input) NV_PGRAPH_COMBINEFACTOR0 :: nat where "NV_PGRAPH_COMBINEFACTOR0 \<equiv> 0x1880"
abbreviation (input) NV_PGRAPH_COMBINEFACTOR1 :: nat where "NV_PGRAPH_COMBINEFACTOR1 \<equiv> 0x18A0"
abbreviation (input) NV_PGRAPH_COMBINEALPHAI0 :: nat where "NV_PGRAPH_COMBINEALPHAI0 \<equiv> 0x18C0"
abbreviation (input) NV_PGRAPH_COMBINEALPHAO0 :: nat where "NV_PGRAPH_COMBINEALPHAO0 \<equiv> 0x18E0"
abbreviation (input) NV_PGRAPH_COMBINECOLORI0 :: nat where "NV_PGRAPH_COMBINECOLORI0 \<equiv> 0x1900"
abbreviation (input) NV_PGRAPH_COMBINECOLORO0 :: nat where "NV_PGRAPH_COMBINECOLORO0 \<equiv> 0x1920"
abbreviation (input) NV_PGRAPH_COMBINECTL :: nat where "NV_PGRAPH_COMBINECTL \<equiv> 0x1940"
abbreviation (input) NV_PGRAPH_COMBINESPECFOG0 :: nat where "NV_PGRAPH_COMBINESPECFOG0 \<equiv> 0x1944"
abbreviation (input) NV_PGRAPH_COMBINESPECFOG1 :: nat where "NV_PGRAPH_COMBINESPECFOG1 \<equiv> 0x1948"
abbreviation (input) NV_PGRAPH_CONTROL_0 :: nat where "NV_PGRAPH_CONTROL_0 \<equiv> 0x194C"
abbreviation (input) NV_PGRAPH_CONTROL_0_ALPHAREF :: u32 where "NV_PGRAPH_CONTROL_0_ALPHAREF \<equiv> 0xFF"
abbreviation (input) NV_PGRAPH_CONTROL_0_ALPHAFUNC :: u32 where "NV_PGRAPH_CONTROL_0_ALPHAFUNC \<equiv> 0xF00"
abbreviation (input) NV_PGRAPH_CONTROL_0_ALPHATESTENABLE :: u32 where "NV_PGRAPH_CONTROL_0_ALPHATESTENABLE \<equiv> 0x1000"
abbreviation (input) NV_PGRAPH_CONTROL_0_ZENABLE :: u32 where "NV_PGRAPH_CONTROL_0_ZENABLE \<equiv> 0x4000"
abbreviation (input) NV_PGRAPH_CONTROL_0_ZFUNC :: u32 where "NV_PGRAPH_CONTROL_0_ZFUNC \<equiv> 0xF0000"
abbreviation (input) NV_PGRAPH_CONTROL_0_DITHERENABLE :: u32 where "NV_PGRAPH_CONTROL_0_DITHERENABLE \<equiv> 0x400000"
abbreviation (input) NV_PGRAPH_CONTROL_0_Z_PERSPECTIVE_ENABLE :: u32 where "NV_PGRAPH_CONTROL_0_Z_PERSPECTIVE_ENABLE \<equiv> 0x800000"
abbreviation (input) NV_PGRAPH_CONTROL_0_ZWRITEENABLE :: u32 where "NV_PGRAPH_CONTROL_0_ZWRITEENABLE \<equiv> 0x1000000"
abbreviation (input) NV_PGRAPH_CONTROL_0_STENCIL_WRITE_ENABLE :: u32 where "NV_PGRAPH_CONTROL_0_STENCIL_WRITE_ENABLE \<equiv> 0x2000000"
abbreviation (input) NV_PGRAPH_CONTROL_0_ALPHA_WRITE_ENABLE :: u32 where "NV_PGRAPH_CONTROL_0_ALPHA_WRITE_ENABLE \<equiv> 0x4000000"
abbreviation (input) NV_PGRAPH_CONTROL_0_RED_WRITE_ENABLE :: u32 where "NV_PGRAPH_CONTROL_0_RED_WRITE_ENABLE \<equiv> 0x8000000"
abbreviation (input) NV_PGRAPH_CONTROL_0_GREEN_WRITE_ENABLE :: u32 where "NV_PGRAPH_CONTROL_0_GREEN_WRITE_ENABLE \<equiv> 0x10000000"
abbreviation (input) NV_PGRAPH_CONTROL_0_BLUE_WRITE_ENABLE :: u32 where "NV_PGRAPH_CONTROL_0_BLUE_WRITE_ENABLE \<equiv> 0x20000000"
abbreviation (input) NV_PGRAPH_CONTROL_1 :: nat where "NV_PGRAPH_CONTROL_1 \<equiv> 0x1950"
abbreviation (input) NV_PGRAPH_CONTROL_1_STENCIL_TEST_ENABLE :: u32 where "NV_PGRAPH_CONTROL_1_STENCIL_TEST_ENABLE \<equiv> 1"
abbreviation (input) NV_PGRAPH_CONTROL_1_STENCIL_FUNC :: u32 where "NV_PGRAPH_CONTROL_1_STENCIL_FUNC \<equiv> 0xF0"
abbreviation (input) NV_PGRAPH_CONTROL_1_STENCIL_REF :: u32 where "NV_PGRAPH_CONTROL_1_STENCIL_REF \<equiv> 0xFF00"
abbreviation (input) NV_PGRAPH_CONTROL_1_STENCIL_MASK_READ :: u32 where "NV_PGRAPH_CONTROL_1_STENCIL_MASK_READ \<equiv> 0xFF0000"
abbreviation (input) NV_PGRAPH_CONTROL_1_STENCIL_MASK_WRITE :: u32 where "NV_PGRAPH_CONTROL_1_STENCIL_MASK_WRITE \<equiv> 0xFF000000"
abbreviation (input) NV_PGRAPH_CONTROL_2 :: nat where "NV_PGRAPH_CONTROL_2 \<equiv> 0x1954"
abbreviation (input) NV_PGRAPH_CONTROL_2_STENCIL_OP_FAIL :: u32 where "NV_PGRAPH_CONTROL_2_STENCIL_OP_FAIL \<equiv> 0xF"
abbreviation (input) NV_PGRAPH_CONTROL_2_STENCIL_OP_ZFAIL :: u32 where "NV_PGRAPH_CONTROL_2_STENCIL_OP_ZFAIL \<equiv> 0xF0"
abbreviation (input) NV_PGRAPH_CONTROL_2_STENCIL_OP_ZPASS :: u32 where "NV_PGRAPH_CONTROL_2_STENCIL_OP_ZPASS \<equiv> 0xF00"
abbreviation (input) NV_PGRAPH_CONTROL_2_STENCIL_OP_V_KEEP :: u32 where "NV_PGRAPH_CONTROL_2_STENCIL_OP_V_KEEP \<equiv> 1"
abbreviation (input) NV_PGRAPH_CONTROL_2_STENCIL_OP_V_ZERO :: u32 where "NV_PGRAPH_CONTROL_2_STENCIL_OP_V_ZERO \<equiv> 2"
abbreviation (input) NV_PGRAPH_CONTROL_2_STENCIL_OP_V_REPLACE :: u32 where "NV_PGRAPH_CONTROL_2_STENCIL_OP_V_REPLACE \<equiv> 3"
abbreviation (input) NV_PGRAPH_CONTROL_2_STENCIL_OP_V_INCRSAT :: u32 where "NV_PGRAPH_CONTROL_2_STENCIL_OP_V_INCRSAT \<equiv> 4"
abbreviation (input) NV_PGRAPH_CONTROL_2_STENCIL_OP_V_DECRSAT :: u32 where "NV_PGRAPH_CONTROL_2_STENCIL_OP_V_DECRSAT \<equiv> 5"
abbreviation (input) NV_PGRAPH_CONTROL_2_STENCIL_OP_V_INVERT :: u32 where "NV_PGRAPH_CONTROL_2_STENCIL_OP_V_INVERT \<equiv> 6"
abbreviation (input) NV_PGRAPH_CONTROL_2_STENCIL_OP_V_INCR :: u32 where "NV_PGRAPH_CONTROL_2_STENCIL_OP_V_INCR \<equiv> 7"
abbreviation (input) NV_PGRAPH_CONTROL_2_STENCIL_OP_V_DECR :: u32 where "NV_PGRAPH_CONTROL_2_STENCIL_OP_V_DECR \<equiv> 8"
abbreviation (input) NV_PGRAPH_CONTROL_3 :: nat where "NV_PGRAPH_CONTROL_3 \<equiv> 0x1958"
abbreviation (input) NV_PGRAPH_CONTROL_3_PROVOKING_VERTEX :: u32 where "NV_PGRAPH_CONTROL_3_PROVOKING_VERTEX \<equiv> 1"
abbreviation (input) NV_PGRAPH_CONTROL_3_SHADEMODE :: u32 where "NV_PGRAPH_CONTROL_3_SHADEMODE \<equiv> 0x80"
abbreviation (input) NV_PGRAPH_CONTROL_3_SHADEMODE_FLAT :: u32 where "NV_PGRAPH_CONTROL_3_SHADEMODE_FLAT \<equiv> 0"
abbreviation (input) NV_PGRAPH_CONTROL_3_SHADEMODE_SMOOTH :: u32 where "NV_PGRAPH_CONTROL_3_SHADEMODE_SMOOTH \<equiv> 1"
abbreviation (input) NV_PGRAPH_CONTROL_3_FOGENABLE :: u32 where "NV_PGRAPH_CONTROL_3_FOGENABLE \<equiv> 0x100"
abbreviation (input) NV_PGRAPH_CONTROL_3_FOG_MODE :: u32 where "NV_PGRAPH_CONTROL_3_FOG_MODE \<equiv> 0x70000"
abbreviation (input) NV_PGRAPH_CONTROL_3_FOG_MODE_LINEAR :: u32 where "NV_PGRAPH_CONTROL_3_FOG_MODE_LINEAR \<equiv> 0"
abbreviation (input) NV_PGRAPH_CONTROL_3_FOG_MODE_EXP :: u32 where "NV_PGRAPH_CONTROL_3_FOG_MODE_EXP \<equiv> 1"
abbreviation (input) NV_PGRAPH_CONTROL_3_FOG_MODE_EXP2 :: u32 where "NV_PGRAPH_CONTROL_3_FOG_MODE_EXP2 \<equiv> 3"
abbreviation (input) NV_PGRAPH_CONTROL_3_FOG_MODE_EXP_ABS :: u32 where "NV_PGRAPH_CONTROL_3_FOG_MODE_EXP_ABS \<equiv> 5"
abbreviation (input) NV_PGRAPH_CONTROL_3_FOG_MODE_EXP2_ABS :: u32 where "NV_PGRAPH_CONTROL_3_FOG_MODE_EXP2_ABS \<equiv> 7"
abbreviation (input) NV_PGRAPH_CONTROL_3_FOG_MODE_LINEAR_ABS :: u32 where "NV_PGRAPH_CONTROL_3_FOG_MODE_LINEAR_ABS \<equiv> 4"
abbreviation (input) NV_PGRAPH_CONTROL_3_POINTPARAMSENABLE :: u32 where "NV_PGRAPH_CONTROL_3_POINTPARAMSENABLE \<equiv> 0x200"
abbreviation (input) NV_PGRAPH_FOGCOLOR :: nat where "NV_PGRAPH_FOGCOLOR \<equiv> 0x1980"
abbreviation (input) NV_PGRAPH_FOGCOLOR_RED :: u32 where "NV_PGRAPH_FOGCOLOR_RED \<equiv> 0xFF0000"
abbreviation (input) NV_PGRAPH_FOGCOLOR_GREEN :: u32 where "NV_PGRAPH_FOGCOLOR_GREEN \<equiv> 0xFF00"
abbreviation (input) NV_PGRAPH_FOGCOLOR_BLUE :: u32 where "NV_PGRAPH_FOGCOLOR_BLUE \<equiv> 0xFF"
abbreviation (input) NV_PGRAPH_FOGCOLOR_ALPHA :: u32 where "NV_PGRAPH_FOGCOLOR_ALPHA \<equiv> 0xFF000000"
abbreviation (input) NV_PGRAPH_FOGPARAM0 :: nat where "NV_PGRAPH_FOGPARAM0 \<equiv> 0x1984"
abbreviation (input) NV_PGRAPH_POINTSIZE :: nat where "NV_PGRAPH_POINTSIZE \<equiv> 0x198C"
abbreviation (input) NV_PGRAPH_SETUPRASTER :: nat where "NV_PGRAPH_SETUPRASTER \<equiv> 0x1990"
abbreviation (input) NV_PGRAPH_SETUPRASTER_FRONTFACEMODE :: u32 where "NV_PGRAPH_SETUPRASTER_FRONTFACEMODE \<equiv> 3"
abbreviation (input) NV_PGRAPH_SETUPRASTER_FRONTFACEMODE_FILL :: u32 where "NV_PGRAPH_SETUPRASTER_FRONTFACEMODE_FILL \<equiv> 0"
abbreviation (input) NV_PGRAPH_SETUPRASTER_FRONTFACEMODE_POINT :: u32 where "NV_PGRAPH_SETUPRASTER_FRONTFACEMODE_POINT \<equiv> 1"
abbreviation (input) NV_PGRAPH_SETUPRASTER_FRONTFACEMODE_LINE :: u32 where "NV_PGRAPH_SETUPRASTER_FRONTFACEMODE_LINE \<equiv> 2"
abbreviation (input) NV_PGRAPH_SETUPRASTER_BACKFACEMODE :: u32 where "NV_PGRAPH_SETUPRASTER_BACKFACEMODE \<equiv> 0xC"
abbreviation (input) NV_PGRAPH_SETUPRASTER_POFFSETPOINTENABLE :: u32 where "NV_PGRAPH_SETUPRASTER_POFFSETPOINTENABLE \<equiv> 0x40"
abbreviation (input) NV_PGRAPH_SETUPRASTER_POFFSETLINEENABLE :: u32 where "NV_PGRAPH_SETUPRASTER_POFFSETLINEENABLE \<equiv> 0x80"
abbreviation (input) NV_PGRAPH_SETUPRASTER_POFFSETFILLENABLE :: u32 where "NV_PGRAPH_SETUPRASTER_POFFSETFILLENABLE \<equiv> 0x100"
abbreviation (input) NV_PGRAPH_SETUPRASTER_POINTSMOOTHENABLE :: u32 where "NV_PGRAPH_SETUPRASTER_POINTSMOOTHENABLE \<equiv> 0x200"
abbreviation (input) NV_PGRAPH_SETUPRASTER_LINESMOOTHENABLE :: u32 where "NV_PGRAPH_SETUPRASTER_LINESMOOTHENABLE \<equiv> 0x400"
abbreviation (input) NV_PGRAPH_SETUPRASTER_POLYSMOOTHENABLE :: u32 where "NV_PGRAPH_SETUPRASTER_POLYSMOOTHENABLE \<equiv> 0x800"
abbreviation (input) NV_PGRAPH_SETUPRASTER_CULLCTRL :: u32 where "NV_PGRAPH_SETUPRASTER_CULLCTRL \<equiv> 0x600000"
abbreviation (input) NV_PGRAPH_SETUPRASTER_CULLCTRL_FRONT :: u32 where "NV_PGRAPH_SETUPRASTER_CULLCTRL_FRONT \<equiv> 1"
abbreviation (input) NV_PGRAPH_SETUPRASTER_CULLCTRL_BACK :: u32 where "NV_PGRAPH_SETUPRASTER_CULLCTRL_BACK \<equiv> 2"
abbreviation (input) NV_PGRAPH_SETUPRASTER_CULLCTRL_FRONT_AND_BACK :: u32 where "NV_PGRAPH_SETUPRASTER_CULLCTRL_FRONT_AND_BACK \<equiv> 3"
abbreviation (input) NV_PGRAPH_SETUPRASTER_FRONTFACE :: u32 where "NV_PGRAPH_SETUPRASTER_FRONTFACE \<equiv> 0x800000"
abbreviation (input) NV_PGRAPH_SETUPRASTER_CULLENABLE :: u32 where "NV_PGRAPH_SETUPRASTER_CULLENABLE \<equiv> 0x10000000"
abbreviation (input) NV_PGRAPH_SETUPRASTER_Z_FORMAT :: u32 where "NV_PGRAPH_SETUPRASTER_Z_FORMAT \<equiv> 0x20000000"
abbreviation (input) NV_PGRAPH_SETUPRASTER_WINDOWCLIPTYPE :: u32 where "NV_PGRAPH_SETUPRASTER_WINDOWCLIPTYPE \<equiv> 0x80000000"
abbreviation (input) NV_PGRAPH_SHADERCLIPMODE :: nat where "NV_PGRAPH_SHADERCLIPMODE \<equiv> 0x1994"
abbreviation (input) NV_PGRAPH_SHADERCTL :: nat where "NV_PGRAPH_SHADERCTL \<equiv> 0x1998"
abbreviation (input) NV_PGRAPH_SHADERPROG :: nat where "NV_PGRAPH_SHADERPROG \<equiv> 0x199C"
abbreviation (input) NV_PGRAPH_SEMAPHOREOFFSET :: nat where "NV_PGRAPH_SEMAPHOREOFFSET \<equiv> 0x19A0"
abbreviation (input) NV_PGRAPH_SHADOWCTL :: nat where "NV_PGRAPH_SHADOWCTL \<equiv> 0x19A4"
abbreviation (input) NV_PGRAPH_SHADOWCTL_SHADOW_ZFUNC :: u32 where "NV_PGRAPH_SHADOWCTL_SHADOW_ZFUNC \<equiv> 7"
abbreviation (input) NV_PGRAPH_SHADOWZSLOPETHRESHOLD :: nat where "NV_PGRAPH_SHADOWZSLOPETHRESHOLD \<equiv> 0x19A8"
abbreviation (input) NV_PGRAPH_SPECFOGFACTOR0 :: nat where "NV_PGRAPH_SPECFOGFACTOR0 \<equiv> 0x19AC"
abbreviation (input) NV_PGRAPH_TEXADDRESS0 :: nat where "NV_PGRAPH_TEXADDRESS0 \<equiv> 0x19BC"
abbreviation (input) NV_PGRAPH_TEXCTL0_0 :: nat where "NV_PGRAPH_TEXCTL0_0 \<equiv> 0x19CC"
abbreviation (input) NV_PGRAPH_TEXCTL1_0 :: nat where "NV_PGRAPH_TEXCTL1_0 \<equiv> 0x19DC"
abbreviation (input) NV_PGRAPH_TEXFILTER0 :: nat where "NV_PGRAPH_TEXFILTER0 \<equiv> 0x19F4"
abbreviation (input) NV_PGRAPH_TEXFMT0 :: nat where "NV_PGRAPH_TEXFMT0 \<equiv> 0x1A04"
abbreviation (input) NV_PGRAPH_TEXFMT0_CONTEXT_DMA :: u32 where "NV_PGRAPH_TEXFMT0_CONTEXT_DMA \<equiv> 2"
abbreviation (input) NV_PGRAPH_TEXFMT0_CUBEMAPENABLE :: u32 where "NV_PGRAPH_TEXFMT0_CUBEMAPENABLE \<equiv> 4"
abbreviation (input) NV_PGRAPH_TEXFMT0_BORDER_SOURCE :: u32 where "NV_PGRAPH_TEXFMT0_BORDER_SOURCE \<equiv> 8"
abbreviation (input) NV_PGRAPH_TEXFMT0_DIMENSIONALITY :: u32 where "NV_PGRAPH_TEXFMT0_DIMENSIONALITY \<equiv> 0xC0"
abbreviation (input) NV_PGRAPH_TEXFMT0_COLOR :: u32 where "NV_PGRAPH_TEXFMT0_COLOR \<equiv> 0x7F00"
abbreviation (input) NV_PGRAPH_TEXFMT0_MIPMAP_LEVELS :: u32 where "NV_PGRAPH_TEXFMT0_MIPMAP_LEVELS \<equiv> 0xF0000"
abbreviation (input) NV_PGRAPH_TEXFMT0_BASE_SIZE_U :: u32 where "NV_PGRAPH_TEXFMT0_BASE_SIZE_U \<equiv> 0xF00000"
abbreviation (input) NV_PGRAPH_TEXFMT0_BASE_SIZE_V :: u32 where "NV_PGRAPH_TEXFMT0_BASE_SIZE_V \<equiv> 0xF000000"
abbreviation (input) NV_PGRAPH_TEXFMT0_BASE_SIZE_P :: u32 where "NV_PGRAPH_TEXFMT0_BASE_SIZE_P \<equiv> 0xF0000000"
abbreviation (input) NV_PGRAPH_TEXIMAGERECT0 :: nat where "NV_PGRAPH_TEXIMAGERECT0 \<equiv> 0x1A14"
abbreviation (input) NV_PGRAPH_TEXOFFSET0 :: nat where "NV_PGRAPH_TEXOFFSET0 \<equiv> 0x1A24"
abbreviation (input) NV_PGRAPH_TEXPALETTE0 :: nat where "NV_PGRAPH_TEXPALETTE0 \<equiv> 0x1A34"
abbreviation (input) NV_PGRAPH_TEXPALETTE0_CONTEXT_DMA :: u32 where "NV_PGRAPH_TEXPALETTE0_CONTEXT_DMA \<equiv> 1"
abbreviation (input) NV_PGRAPH_TEXPALETTE0_LENGTH :: u32 where "NV_PGRAPH_TEXPALETTE0_LENGTH \<equiv> 0xC"
abbreviation (input) NV_PGRAPH_TEXPALETTE0_OFFSET :: u32 where "NV_PGRAPH_TEXPALETTE0_OFFSET \<equiv> 0xFFFFFFC0"
abbreviation (input) NV_PGRAPH_WINDOWCLIPX0 :: nat where "NV_PGRAPH_WINDOWCLIPX0 \<equiv> 0x1A44"
abbreviation (input) NV_PGRAPH_WINDOWCLIPY0 :: nat where "NV_PGRAPH_WINDOWCLIPY0 \<equiv> 0x1A64"
abbreviation (input) NV_PGRAPH_ZCOMPRESSOCCLUDE :: nat where "NV_PGRAPH_ZCOMPRESSOCCLUDE \<equiv> 0x1A84"
abbreviation (input) NV_PGRAPH_ZCOMPRESSOCCLUDE_ZCLAMP_EN :: u32 where "NV_PGRAPH_ZCOMPRESSOCCLUDE_ZCLAMP_EN \<equiv> 0x10"
abbreviation (input) NV_PGRAPH_ZCOMPRESSOCCLUDE_ZCLAMP_EN_CULL :: u32 where "NV_PGRAPH_ZCOMPRESSOCCLUDE_ZCLAMP_EN_CULL \<equiv> 0"
abbreviation (input) NV_PGRAPH_ZCOMPRESSOCCLUDE_ZCLAMP_EN_CLAMP :: u32 where "NV_PGRAPH_ZCOMPRESSOCCLUDE_ZCLAMP_EN_CLAMP \<equiv> 1"
abbreviation (input) NV_PGRAPH_ZSTENCILCLEARVALUE :: nat where "NV_PGRAPH_ZSTENCILCLEARVALUE \<equiv> 0x1A88"
abbreviation (input) NV_PGRAPH_ZCLIPMIN :: nat where "NV_PGRAPH_ZCLIPMIN \<equiv> 0x1A90"
abbreviation (input) NV_PGRAPH_ZOFFSETBIAS :: nat where "NV_PGRAPH_ZOFFSETBIAS \<equiv> 0x1AA4"
abbreviation (input) NV_PGRAPH_ZOFFSETFACTOR :: nat where "NV_PGRAPH_ZOFFSETFACTOR \<equiv> 0x1AA8"
abbreviation (input) NV_PGRAPH_EYEVEC0 :: nat where "NV_PGRAPH_EYEVEC0 \<equiv> 0x1AAC"
abbreviation (input) NV_PGRAPH_ZCLIPMAX :: nat where "NV_PGRAPH_ZCLIPMAX \<equiv> 0x1ABC"
abbreviation (input) NV097_SET_OBJECT :: u32 where "NV097_SET_OBJECT \<equiv> 0"
abbreviation (input) NV097_NO_OPERATION :: u32 where "NV097_NO_OPERATION \<equiv> 0x100"
abbreviation (input) NV097_WAIT_FOR_IDLE :: u32 where "NV097_WAIT_FOR_IDLE \<equiv> 0x110"
abbreviation (input) NV097_SET_FLIP_READ :: u32 where "NV097_SET_FLIP_READ \<equiv> 0x120"
abbreviation (input) NV097_SET_FLIP_WRITE :: u32 where "NV097_SET_FLIP_WRITE \<equiv> 0x124"
abbreviation (input) NV097_SET_FLIP_MODULO :: u32 where "NV097_SET_FLIP_MODULO \<equiv> 0x128"
abbreviation (input) NV097_FLIP_INCREMENT_WRITE :: u32 where "NV097_FLIP_INCREMENT_WRITE \<equiv> 0x12C"
abbreviation (input) NV097_FLIP_STALL :: u32 where "NV097_FLIP_STALL \<equiv> 0x130"
abbreviation (input) NV097_SET_CONTEXT_DMA_NOTIFIES :: u32 where "NV097_SET_CONTEXT_DMA_NOTIFIES \<equiv> 0x180"
abbreviation (input) NV097_SET_CONTEXT_DMA_A :: u32 where "NV097_SET_CONTEXT_DMA_A \<equiv> 0x184"
abbreviation (input) NV097_SET_CONTEXT_DMA_B :: u32 where "NV097_SET_CONTEXT_DMA_B \<equiv> 0x188"
abbreviation (input) NV097_SET_CONTEXT_DMA_STATE :: u32 where "NV097_SET_CONTEXT_DMA_STATE \<equiv> 0x190"
abbreviation (input) NV097_SET_CONTEXT_DMA_COLOR :: u32 where "NV097_SET_CONTEXT_DMA_COLOR \<equiv> 0x194"
abbreviation (input) NV097_SET_CONTEXT_DMA_ZETA :: u32 where "NV097_SET_CONTEXT_DMA_ZETA \<equiv> 0x198"
abbreviation (input) NV097_SET_CONTEXT_DMA_VERTEX_A :: u32 where "NV097_SET_CONTEXT_DMA_VERTEX_A \<equiv> 0x19C"
abbreviation (input) NV097_SET_CONTEXT_DMA_VERTEX_B :: u32 where "NV097_SET_CONTEXT_DMA_VERTEX_B \<equiv> 0x1A0"
abbreviation (input) NV097_SET_CONTEXT_DMA_SEMAPHORE :: u32 where "NV097_SET_CONTEXT_DMA_SEMAPHORE \<equiv> 0x1A4"
abbreviation (input) NV097_SET_CONTEXT_DMA_REPORT :: u32 where "NV097_SET_CONTEXT_DMA_REPORT \<equiv> 0x1A8"
abbreviation (input) NV097_SET_SURFACE_CLIP_HORIZONTAL :: u32 where "NV097_SET_SURFACE_CLIP_HORIZONTAL \<equiv> 0x200"
abbreviation (input) NV097_SET_SURFACE_CLIP_HORIZONTAL_X :: u32 where "NV097_SET_SURFACE_CLIP_HORIZONTAL_X \<equiv> 0xFFFF"
abbreviation (input) NV097_SET_SURFACE_CLIP_HORIZONTAL_WIDTH :: u32 where "NV097_SET_SURFACE_CLIP_HORIZONTAL_WIDTH \<equiv> 0xFFFF0000"
abbreviation (input) NV097_SET_SURFACE_CLIP_VERTICAL :: u32 where "NV097_SET_SURFACE_CLIP_VERTICAL \<equiv> 0x204"
abbreviation (input) NV097_SET_SURFACE_CLIP_VERTICAL_Y :: u32 where "NV097_SET_SURFACE_CLIP_VERTICAL_Y \<equiv> 0xFFFF"
abbreviation (input) NV097_SET_SURFACE_CLIP_VERTICAL_HEIGHT :: u32 where "NV097_SET_SURFACE_CLIP_VERTICAL_HEIGHT \<equiv> 0xFFFF0000"
abbreviation (input) NV097_SET_SURFACE_FORMAT :: u32 where "NV097_SET_SURFACE_FORMAT \<equiv> 0x208"
abbreviation (input) NV097_SET_SURFACE_FORMAT_COLOR :: u32 where "NV097_SET_SURFACE_FORMAT_COLOR \<equiv> 0xF"
abbreviation (input) NV097_SET_SURFACE_FORMAT_ZETA :: u32 where "NV097_SET_SURFACE_FORMAT_ZETA \<equiv> 0xF0"
abbreviation (input) NV097_SET_SURFACE_FORMAT_TYPE :: u32 where "NV097_SET_SURFACE_FORMAT_TYPE \<equiv> 0xF00"
abbreviation (input) NV097_SET_SURFACE_FORMAT_ANTI_ALIASING :: u32 where "NV097_SET_SURFACE_FORMAT_ANTI_ALIASING \<equiv> 0xF000"
abbreviation (input) NV097_SET_SURFACE_FORMAT_WIDTH :: u32 where "NV097_SET_SURFACE_FORMAT_WIDTH \<equiv> 0xFF0000"
abbreviation (input) NV097_SET_SURFACE_FORMAT_HEIGHT :: u32 where "NV097_SET_SURFACE_FORMAT_HEIGHT \<equiv> 0xFF000000"
abbreviation (input) NV097_SET_SURFACE_PITCH :: u32 where "NV097_SET_SURFACE_PITCH \<equiv> 0x20C"
abbreviation (input) NV097_SET_SURFACE_PITCH_COLOR :: u32 where "NV097_SET_SURFACE_PITCH_COLOR \<equiv> 0xFFFF"
abbreviation (input) NV097_SET_SURFACE_PITCH_ZETA :: u32 where "NV097_SET_SURFACE_PITCH_ZETA \<equiv> 0xFFFF0000"
abbreviation (input) NV097_SET_SURFACE_COLOR_OFFSET :: u32 where "NV097_SET_SURFACE_COLOR_OFFSET \<equiv> 0x210"
abbreviation (input) NV097_SET_SURFACE_ZETA_OFFSET :: u32 where "NV097_SET_SURFACE_ZETA_OFFSET \<equiv> 0x214"
abbreviation (input) NV097_SET_COMBINER_ALPHA_ICW :: u32 where "NV097_SET_COMBINER_ALPHA_ICW \<equiv> 0x260"
abbreviation (input) NV097_SET_COMBINER_SPECULAR_FOG_CW0 :: u32 where "NV097_SET_COMBINER_SPECULAR_FOG_CW0 \<equiv> 0x288"
abbreviation (input) NV097_SET_COMBINER_SPECULAR_FOG_CW1 :: u32 where "NV097_SET_COMBINER_SPECULAR_FOG_CW1 \<equiv> 0x28C"
abbreviation (input) NV097_SET_CONTROL0 :: u32 where "NV097_SET_CONTROL0 \<equiv> 0x290"
abbreviation (input) NV097_SET_CONTROL0_STENCIL_WRITE_ENABLE :: u32 where "NV097_SET_CONTROL0_STENCIL_WRITE_ENABLE \<equiv> 1"
abbreviation (input) NV097_SET_CONTROL0_Z_FORMAT :: u32 where "NV097_SET_CONTROL0_Z_FORMAT \<equiv> 0x1000"
abbreviation (input) NV097_SET_CONTROL0_Z_PERSPECTIVE_ENABLE :: u32 where "NV097_SET_CONTROL0_Z_PERSPECTIVE_ENABLE \<equiv> 0x10000"
abbreviation (input) NV097_SET_LIGHT_CONTROL :: u32 where "NV097_SET_LIGHT_CONTROL \<equiv> 0x294"
abbreviation (input) NV097_SET_LIGHT_CONTROL_SEPARATE_SPECULAR :: u32 where "NV097_SET_LIGHT_CONTROL_SEPARATE_SPECULAR \<equiv> 1"
abbreviation (input) NV097_SET_LIGHT_CONTROL_LOCALEYE :: u32 where "NV097_SET_LIGHT_CONTROL_LOCALEYE \<equiv> 0x10000"
abbreviation (input) NV097_SET_LIGHT_CONTROL_ALPHA_FROM_MATERIAL_SPECULAR :: u32 where "NV097_SET_LIGHT_CONTROL_ALPHA_FROM_MATERIAL_SPECULAR \<equiv> 0x20000"
abbreviation (input) NV097_SET_COLOR_MATERIAL :: u32 where "NV097_SET_COLOR_MATERIAL \<equiv> 0x298"
abbreviation (input) NV097_SET_FOG_MODE :: u32 where "NV097_SET_FOG_MODE \<equiv> 0x29C"
abbreviation (input) NV097_SET_FOG_MODE_V_LINEAR :: u32 where "NV097_SET_FOG_MODE_V_LINEAR \<equiv> 0x2601"
abbreviation (input) NV097_SET_FOG_MODE_V_EXP :: u32 where "NV097_SET_FOG_MODE_V_EXP \<equiv> 0x800"
abbreviation (input) NV097_SET_FOG_MODE_V_EXP2 :: u32 where "NV097_SET_FOG_MODE_V_EXP2 \<equiv> 0x801"
abbreviation (input) NV097_SET_FOG_MODE_V_EXP_ABS :: u32 where "NV097_SET_FOG_MODE_V_EXP_ABS \<equiv> 0x802"
abbreviation (input) NV097_SET_FOG_MODE_V_EXP2_ABS :: u32 where "NV097_SET_FOG_MODE_V_EXP2_ABS \<equiv> 0x803"
abbreviation (input) NV097_SET_FOG_MODE_V_LINEAR_ABS :: u32 where "NV097_SET_FOG_MODE_V_LINEAR_ABS \<equiv> 0x804"
abbreviation (input) NV097_SET_FOG_GEN_MODE :: u32 where "NV097_SET_FOG_GEN_MODE \<equiv> 0x2A0"
abbreviation (input) NV097_SET_FOG_GEN_MODE_V_SPEC_ALPHA :: u32 where "NV097_SET_FOG_GEN_MODE_V_SPEC_ALPHA \<equiv> 0"
abbreviation (input) NV097_SET_FOG_GEN_MODE_V_RADIAL :: u32 where "NV097_SET_FOG_GEN_MODE_V_RADIAL \<equiv> 1"
abbreviation (input) NV097_SET_FOG_GEN_MODE_V_PLANAR :: u32 where "NV097_SET_FOG_GEN_MODE_V_PLANAR \<equiv> 2"
abbreviation (input) NV097_SET_FOG_GEN_MODE_V_ABS_PLANAR :: u32 where "NV097_SET_FOG_GEN_MODE_V_ABS_PLANAR \<equiv> 3"
abbreviation (input) NV097_SET_FOG_GEN_MODE_V_FOG_X :: u32 where "NV097_SET_FOG_GEN_MODE_V_FOG_X \<equiv> 6"
abbreviation (input) NV097_SET_FOG_ENABLE :: u32 where "NV097_SET_FOG_ENABLE \<equiv> 0x2A4"
abbreviation (input) NV097_SET_FOG_COLOR :: u32 where "NV097_SET_FOG_COLOR \<equiv> 0x2A8"
abbreviation (input) NV097_SET_FOG_COLOR_RED :: u32 where "NV097_SET_FOG_COLOR_RED \<equiv> 0xFF"
abbreviation (input) NV097_SET_FOG_COLOR_GREEN :: u32 where "NV097_SET_FOG_COLOR_GREEN \<equiv> 0xFF00"
abbreviation (input) NV097_SET_FOG_COLOR_BLUE :: u32 where "NV097_SET_FOG_COLOR_BLUE \<equiv> 0xFF0000"
abbreviation (input) NV097_SET_FOG_COLOR_ALPHA :: u32 where "NV097_SET_FOG_COLOR_ALPHA \<equiv> 0xFF000000"
abbreviation (input) NV097_SET_WINDOW_CLIP_TYPE :: u32 where "NV097_SET_WINDOW_CLIP_TYPE \<equiv> 0x2B4"
abbreviation (input) NV097_SET_WINDOW_CLIP_HORIZONTAL :: u32 where "NV097_SET_WINDOW_CLIP_HORIZONTAL \<equiv> 0x2C0"
abbreviation (input) NV097_SET_WINDOW_CLIP_VERTICAL :: u32 where "NV097_SET_WINDOW_CLIP_VERTICAL \<equiv> 0x2E0"
abbreviation (input) NV097_SET_ALPHA_TEST_ENABLE :: u32 where "NV097_SET_ALPHA_TEST_ENABLE \<equiv> 0x300"
abbreviation (input) NV097_SET_BLEND_ENABLE :: u32 where "NV097_SET_BLEND_ENABLE \<equiv> 0x304"
abbreviation (input) NV097_SET_CULL_FACE_ENABLE :: u32 where "NV097_SET_CULL_FACE_ENABLE \<equiv> 0x308"
abbreviation (input) NV097_SET_DEPTH_TEST_ENABLE :: u32 where "NV097_SET_DEPTH_TEST_ENABLE \<equiv> 0x30C"
abbreviation (input) NV097_SET_DITHER_ENABLE :: u32 where "NV097_SET_DITHER_ENABLE \<equiv> 0x310"
abbreviation (input) NV097_SET_LIGHTING_ENABLE :: u32 where "NV097_SET_LIGHTING_ENABLE \<equiv> 0x314"
abbreviation (input) NV097_SET_POINT_PARAMS_ENABLE :: u32 where "NV097_SET_POINT_PARAMS_ENABLE \<equiv> 0x318"
abbreviation (input) NV097_SET_POINT_SMOOTH_ENABLE :: u32 where "NV097_SET_POINT_SMOOTH_ENABLE \<equiv> 0x31C"
abbreviation (input) NV097_SET_LINE_SMOOTH_ENABLE :: u32 where "NV097_SET_LINE_SMOOTH_ENABLE \<equiv> 0x320"
abbreviation (input) NV097_SET_POLY_SMOOTH_ENABLE :: u32 where "NV097_SET_POLY_SMOOTH_ENABLE \<equiv> 0x324"
abbreviation (input) NV097_SET_SKIN_MODE :: u32 where "NV097_SET_SKIN_MODE \<equiv> 0x328"
abbreviation (input) NV097_SET_STENCIL_TEST_ENABLE :: u32 where "NV097_SET_STENCIL_TEST_ENABLE \<equiv> 0x32C"
abbreviation (input) NV097_SET_POLY_OFFSET_POINT_ENABLE :: u32 where "NV097_SET_POLY_OFFSET_POINT_ENABLE \<equiv> 0x330"
abbreviation (input) NV097_SET_POLY_OFFSET_LINE_ENABLE :: u32 where "NV097_SET_POLY_OFFSET_LINE_ENABLE \<equiv> 0x334"
abbreviation (input) NV097_SET_POLY_OFFSET_FILL_ENABLE :: u32 where "NV097_SET_POLY_OFFSET_FILL_ENABLE \<equiv> 0x338"
abbreviation (input) NV097_SET_ALPHA_FUNC :: u32 where "NV097_SET_ALPHA_FUNC \<equiv> 0x33C"
abbreviation (input) NV097_SET_ALPHA_REF :: u32 where "NV097_SET_ALPHA_REF \<equiv> 0x340"
abbreviation (input) NV097_SET_BLEND_FUNC_SFACTOR :: u32 where "NV097_SET_BLEND_FUNC_SFACTOR \<equiv> 0x344"
abbreviation (input) NV097_SET_BLEND_FUNC_SFACTOR_V_ZERO :: u32 where "NV097_SET_BLEND_FUNC_SFACTOR_V_ZERO \<equiv> 0"
abbreviation (input) NV097_SET_BLEND_FUNC_SFACTOR_V_ONE :: u32 where "NV097_SET_BLEND_FUNC_SFACTOR_V_ONE \<equiv> 1"
abbreviation (input) NV097_SET_BLEND_FUNC_SFACTOR_V_SRC_COLOR :: u32 where "NV097_SET_BLEND_FUNC_SFACTOR_V_SRC_COLOR \<equiv> 0x300"
abbreviation (input) NV097_SET_BLEND_FUNC_SFACTOR_V_ONE_MINUS_SRC_COLOR :: u32 where "NV097_SET_BLEND_FUNC_SFACTOR_V_ONE_MINUS_SRC_COLOR \<equiv> 0x301"
abbreviation (input) NV097_SET_BLEND_FUNC_SFACTOR_V_SRC_ALPHA :: u32 where "NV097_SET_BLEND_FUNC_SFACTOR_V_SRC_ALPHA \<equiv> 0x302"
abbreviation (input) NV097_SET_BLEND_FUNC_SFACTOR_V_ONE_MINUS_SRC_ALPHA :: u32 where "NV097_SET_BLEND_FUNC_SFACTOR_V_ONE_MINUS_SRC_ALPHA \<equiv> 0x303"
abbreviation (input) NV097_SET_BLEND_FUNC_SFACTOR_V_DST_ALPHA :: u32 where "NV097_SET_BLEND_FUNC_SFACTOR_V_DST_ALPHA \<equiv> 0x304"
abbreviation (input) NV097_SET_BLEND_FUNC_SFACTOR_V_ONE_MINUS_DST_ALPHA :: u32 where "NV097_SET_BLEND_FUNC_SFACTOR_V_ONE_MINUS_DST_ALPHA \<equiv> 0x305"
abbreviation (input) NV097_SET_BLEND_FUNC_SFACTOR_V_DST_COLOR :: u32 where "NV097_SET_BLEND_FUNC_SFACTOR_V_DST_COLOR \<equiv> 0x306"
abbreviation (input) NV097_SET_BLEND_FUNC_SFACTOR_V_ONE_MINUS_DST_COLOR :: u32 where "NV097_SET_BLEND_FUNC_SFACTOR_V_ONE_MINUS_DST_COLOR \<equiv> 0x307"
abbreviation (input) NV097_SET_BLEND_FUNC_SFACTOR_V_SRC_ALPHA_SATURATE :: u32 where "NV097_SET_BLEND_FUNC_SFACTOR_V_SRC_ALPHA_SATURATE \<equiv> 0x308"
abbreviation (input) NV097_SET_BLEND_FUNC_SFACTOR_V_CONSTANT_COLOR :: u32 where "NV097_SET_BLEND_FUNC_SFACTOR_V_CONSTANT_COLOR \<equiv> 0x8001"
abbreviation (input) NV097_SET_BLEND_FUNC_SFACTOR_V_ONE_MINUS_CONSTANT_COLOR :: u32 where "NV097_SET_BLEND_FUNC_SFACTOR_V_ONE_MINUS_CONSTANT_COLOR \<equiv> 0x8002"
abbreviation (input) NV097_SET_BLEND_FUNC_SFACTOR_V_CONSTANT_ALPHA :: u32 where "NV097_SET_BLEND_FUNC_SFACTOR_V_CONSTANT_ALPHA \<equiv> 0x8003"
abbreviation (input) NV097_SET_BLEND_FUNC_SFACTOR_V_ONE_MINUS_CONSTANT_ALPHA :: u32 where "NV097_SET_BLEND_FUNC_SFACTOR_V_ONE_MINUS_CONSTANT_ALPHA \<equiv> 0x8004"
abbreviation (input) NV097_SET_BLEND_FUNC_DFACTOR :: u32 where "NV097_SET_BLEND_FUNC_DFACTOR \<equiv> 0x348"
abbreviation (input) NV097_SET_BLEND_FUNC_DFACTOR_V_ZERO :: u32 where "NV097_SET_BLEND_FUNC_DFACTOR_V_ZERO \<equiv> 0"
abbreviation (input) NV097_SET_BLEND_FUNC_DFACTOR_V_ONE :: u32 where "NV097_SET_BLEND_FUNC_DFACTOR_V_ONE \<equiv> 1"
abbreviation (input) NV097_SET_BLEND_FUNC_DFACTOR_V_SRC_COLOR :: u32 where "NV097_SET_BLEND_FUNC_DFACTOR_V_SRC_COLOR \<equiv> 0x300"
abbreviation (input) NV097_SET_BLEND_FUNC_DFACTOR_V_ONE_MINUS_SRC_COLOR :: u32 where "NV097_SET_BLEND_FUNC_DFACTOR_V_ONE_MINUS_SRC_COLOR \<equiv> 0x301"
abbreviation (input) NV097_SET_BLEND_FUNC_DFACTOR_V_SRC_ALPHA :: u32 where "NV097_SET_BLEND_FUNC_DFACTOR_V_SRC_ALPHA \<equiv> 0x302"
abbreviation (input) NV097_SET_BLEND_FUNC_DFACTOR_V_ONE_MINUS_SRC_ALPHA :: u32 where "NV097_SET_BLEND_FUNC_DFACTOR_V_ONE_MINUS_SRC_ALPHA \<equiv> 0x303"
abbreviation (input) NV097_SET_BLEND_FUNC_DFACTOR_V_DST_ALPHA :: u32 where "NV097_SET_BLEND_FUNC_DFACTOR_V_DST_ALPHA \<equiv> 0x304"
abbreviation (input) NV097_SET_BLEND_FUNC_DFACTOR_V_ONE_MINUS_DST_ALPHA :: u32 where "NV097_SET_BLEND_FUNC_DFACTOR_V_ONE_MINUS_DST_ALPHA \<equiv> 0x305"
abbreviation (input) NV097_SET_BLEND_FUNC_DFACTOR_V_DST_COLOR :: u32 where "NV097_SET_BLEND_FUNC_DFACTOR_V_DST_COLOR \<equiv> 0x306"
abbreviation (input) NV097_SET_BLEND_FUNC_DFACTOR_V_ONE_MINUS_DST_COLOR :: u32 where "NV097_SET_BLEND_FUNC_DFACTOR_V_ONE_MINUS_DST_COLOR \<equiv> 0x307"
abbreviation (input) NV097_SET_BLEND_FUNC_DFACTOR_V_SRC_ALPHA_SATURATE :: u32 where "NV097_SET_BLEND_FUNC_DFACTOR_V_SRC_ALPHA_SATURATE \<equiv> 0x308"
abbreviation (input) NV097_SET_BLEND_FUNC_DFACTOR_V_CONSTANT_COLOR :: u32 where "NV097_SET_BLEND_FUNC_DFACTOR_V_CONSTANT_COLOR \<equiv> 0x8001"
abbreviation (input) NV097_SET_BLEND_FUNC_DFACTOR_V_ONE_MINUS_CONSTANT_COLOR :: u32 where "NV097_SET_BLEND_FUNC_DFACTOR_V_ONE_MINUS_CONSTANT_COLOR \<equiv> 0x8002"
abbreviation (input) NV097_SET_BLEND_FUNC_DFACTOR_V_CONSTANT_ALPHA :: u32 where "NV097_SET_BLEND_FUNC_DFACTOR_V_CONSTANT_ALPHA \<equiv> 0x8003"
abbreviation (input) NV097_SET_BLEND_FUNC_DFACTOR_V_ONE_MINUS_CONSTANT_ALPHA :: u32 where "NV097_SET_BLEND_FUNC_DFACTOR_V_ONE_MINUS_CONSTANT_ALPHA \<equiv> 0x8004"
abbreviation (input) NV097_SET_BLEND_COLOR :: u32 where "NV097_SET_BLEND_COLOR \<equiv> 0x34C"
abbreviation (input) NV097_SET_BLEND_EQUATION :: u32 where "NV097_SET_BLEND_EQUATION \<equiv> 0x350"
abbreviation (input) NV097_SET_BLEND_EQUATION_V_FUNC_SUBTRACT :: u32 where "NV097_SET_BLEND_EQUATION_V_FUNC_SUBTRACT \<equiv> 0x800A"
abbreviation (input) NV097_SET_BLEND_EQUATION_V_FUNC_REVERSE_SUBTRACT :: u32 where "NV097_SET_BLEND_EQUATION_V_FUNC_REVERSE_SUBTRACT \<equiv> 0x800B"
abbreviation (input) NV097_SET_BLEND_EQUATION_V_FUNC_ADD :: u32 where "NV097_SET_BLEND_EQUATION_V_FUNC_ADD \<equiv> 0x8006"
abbreviation (input) NV097_SET_BLEND_EQUATION_V_MIN :: u32 where "NV097_SET_BLEND_EQUATION_V_MIN \<equiv> 0x8007"
abbreviation (input) NV097_SET_BLEND_EQUATION_V_MAX :: u32 where "NV097_SET_BLEND_EQUATION_V_MAX \<equiv> 0x8008"
abbreviation (input) NV097_SET_BLEND_EQUATION_V_FUNC_REVERSE_SUBTRACT_SIGNED :: u32 where "NV097_SET_BLEND_EQUATION_V_FUNC_REVERSE_SUBTRACT_SIGNED \<equiv> 0xF005"
abbreviation (input) NV097_SET_BLEND_EQUATION_V_FUNC_ADD_SIGNED :: u32 where "NV097_SET_BLEND_EQUATION_V_FUNC_ADD_SIGNED \<equiv> 0xF006"
abbreviation (input) NV097_SET_DEPTH_FUNC :: u32 where "NV097_SET_DEPTH_FUNC \<equiv> 0x354"
abbreviation (input) NV097_SET_COLOR_MASK :: u32 where "NV097_SET_COLOR_MASK \<equiv> 0x358"
abbreviation (input) NV097_SET_COLOR_MASK_BLUE_WRITE_ENABLE :: u32 where "NV097_SET_COLOR_MASK_BLUE_WRITE_ENABLE \<equiv> 1"
abbreviation (input) NV097_SET_COLOR_MASK_GREEN_WRITE_ENABLE :: u32 where "NV097_SET_COLOR_MASK_GREEN_WRITE_ENABLE \<equiv> 0x100"
abbreviation (input) NV097_SET_COLOR_MASK_RED_WRITE_ENABLE :: u32 where "NV097_SET_COLOR_MASK_RED_WRITE_ENABLE \<equiv> 0x10000"
abbreviation (input) NV097_SET_COLOR_MASK_ALPHA_WRITE_ENABLE :: u32 where "NV097_SET_COLOR_MASK_ALPHA_WRITE_ENABLE \<equiv> 0x1000000"
abbreviation (input) NV097_SET_DEPTH_MASK :: u32 where "NV097_SET_DEPTH_MASK \<equiv> 0x35C"
abbreviation (input) NV097_SET_STENCIL_MASK :: u32 where "NV097_SET_STENCIL_MASK \<equiv> 0x360"
abbreviation (input) NV097_SET_STENCIL_FUNC :: u32 where "NV097_SET_STENCIL_FUNC \<equiv> 0x364"
abbreviation (input) NV097_SET_STENCIL_FUNC_REF :: u32 where "NV097_SET_STENCIL_FUNC_REF \<equiv> 0x368"
abbreviation (input) NV097_SET_STENCIL_FUNC_MASK :: u32 where "NV097_SET_STENCIL_FUNC_MASK \<equiv> 0x36C"
abbreviation (input) NV097_SET_STENCIL_OP_FAIL :: u32 where "NV097_SET_STENCIL_OP_FAIL \<equiv> 0x370"
abbreviation (input) NV097_SET_STENCIL_OP_ZFAIL :: u32 where "NV097_SET_STENCIL_OP_ZFAIL \<equiv> 0x374"
abbreviation (input) NV097_SET_STENCIL_OP_ZPASS :: u32 where "NV097_SET_STENCIL_OP_ZPASS \<equiv> 0x378"
abbreviation (input) NV097_SET_STENCIL_OP_V_KEEP :: u32 where "NV097_SET_STENCIL_OP_V_KEEP \<equiv> 0x1E00"
abbreviation (input) NV097_SET_STENCIL_OP_V_ZERO :: u32 where "NV097_SET_STENCIL_OP_V_ZERO \<equiv> 0"
abbreviation (input) NV097_SET_STENCIL_OP_V_REPLACE :: u32 where "NV097_SET_STENCIL_OP_V_REPLACE \<equiv> 0x1E01"
abbreviation (input) NV097_SET_STENCIL_OP_V_INCRSAT :: u32 where "NV097_SET_STENCIL_OP_V_INCRSAT \<equiv> 0x1E02"
abbreviation (input) NV097_SET_STENCIL_OP_V_DECRSAT :: u32 where "NV097_SET_STENCIL_OP_V_DECRSAT \<equiv> 0x1E03"
abbreviation (input) NV097_SET_STENCIL_OP_V_INVERT :: u32 where "NV097_SET_STENCIL_OP_V_INVERT \<equiv> 0x150A"
abbreviation (input) NV097_SET_STENCIL_OP_V_INCR :: u32 where "NV097_SET_STENCIL_OP_V_INCR \<equiv> 0x8507"
abbreviation (input) NV097_SET_STENCIL_OP_V_DECR :: u32 where "NV097_SET_STENCIL_OP_V_DECR \<equiv> 0x8508"
abbreviation (input) NV097_SET_SHADE_MODE :: u32 where "NV097_SET_SHADE_MODE \<equiv> 0x37C"
abbreviation (input) NV097_SET_SHADE_MODE_V_FLAT :: u32 where "NV097_SET_SHADE_MODE_V_FLAT \<equiv> 0x1D00"
abbreviation (input) NV097_SET_SHADE_MODE_V_SMOOTH :: u32 where "NV097_SET_SHADE_MODE_V_SMOOTH \<equiv> 0x1D01"
abbreviation (input) NV097_SET_POLYGON_OFFSET_SCALE_FACTOR :: u32 where "NV097_SET_POLYGON_OFFSET_SCALE_FACTOR \<equiv> 0x384"
abbreviation (input) NV097_SET_POLYGON_OFFSET_BIAS :: u32 where "NV097_SET_POLYGON_OFFSET_BIAS \<equiv> 0x388"
abbreviation (input) NV097_SET_FRONT_POLYGON_MODE :: u32 where "NV097_SET_FRONT_POLYGON_MODE \<equiv> 0x38C"
abbreviation (input) NV097_SET_FRONT_POLYGON_MODE_V_POINT :: u32 where "NV097_SET_FRONT_POLYGON_MODE_V_POINT \<equiv> 0x1B00"
abbreviation (input) NV097_SET_FRONT_POLYGON_MODE_V_LINE :: u32 where "NV097_SET_FRONT_POLYGON_MODE_V_LINE \<equiv> 0x1B01"
abbreviation (input) NV097_SET_FRONT_POLYGON_MODE_V_FILL :: u32 where "NV097_SET_FRONT_POLYGON_MODE_V_FILL \<equiv> 0x1B02"
abbreviation (input) NV097_SET_BACK_POLYGON_MODE :: u32 where "NV097_SET_BACK_POLYGON_MODE \<equiv> 0x390"
abbreviation (input) NV097_SET_CLIP_MIN :: u32 where "NV097_SET_CLIP_MIN \<equiv> 0x394"
abbreviation (input) NV097_SET_CLIP_MAX :: u32 where "NV097_SET_CLIP_MAX \<equiv> 0x398"
abbreviation (input) NV097_SET_CULL_FACE :: u32 where "NV097_SET_CULL_FACE \<equiv> 0x39C"
abbreviation (input) NV097_SET_CULL_FACE_V_FRONT :: u32 where "NV097_SET_CULL_FACE_V_FRONT \<equiv> 0x404"
abbreviation (input) NV097_SET_CULL_FACE_V_BACK :: u32 where "NV097_SET_CULL_FACE_V_BACK \<equiv> 0x405"
abbreviation (input) NV097_SET_CULL_FACE_V_FRONT_AND_BACK :: u32 where "NV097_SET_CULL_FACE_V_FRONT_AND_BACK \<equiv> 0x408"
abbreviation (input) NV097_SET_FRONT_FACE :: u32 where "NV097_SET_FRONT_FACE \<equiv> 0x3A0"
abbreviation (input) NV097_SET_FRONT_FACE_V_CW :: u32 where "NV097_SET_FRONT_FACE_V_CW \<equiv> 0x900"
abbreviation (input) NV097_SET_FRONT_FACE_V_CCW :: u32 where "NV097_SET_FRONT_FACE_V_CCW \<equiv> 0x901"
abbreviation (input) NV097_SET_NORMALIZATION_ENABLE :: u32 where "NV097_SET_NORMALIZATION_ENABLE \<equiv> 0x3A4"
abbreviation (input) NV097_SET_MATERIAL_EMISSION :: u32 where "NV097_SET_MATERIAL_EMISSION \<equiv> 0x3A8"
abbreviation (input) NV097_SET_MATERIAL_ALPHA :: u32 where "NV097_SET_MATERIAL_ALPHA \<equiv> 0x3B4"
abbreviation (input) NV097_SET_SPECULAR_ENABLE :: u32 where "NV097_SET_SPECULAR_ENABLE \<equiv> 0x3B8"
abbreviation (input) NV097_SET_LIGHT_ENABLE_MASK :: u32 where "NV097_SET_LIGHT_ENABLE_MASK \<equiv> 0x3BC"
abbreviation (input) NV097_SET_TEXGEN_S :: u32 where "NV097_SET_TEXGEN_S \<equiv> 0x3C0"
abbreviation (input) NV097_SET_TEXGEN_S_DISABLE :: u32 where "NV097_SET_TEXGEN_S_DISABLE \<equiv> 0"
abbreviation (input) NV097_SET_TEXGEN_S_EYE_LINEAR :: u32 where "NV097_SET_TEXGEN_S_EYE_LINEAR \<equiv> 0x2400"
abbreviation (input) NV097_SET_TEXGEN_S_OBJECT_LINEAR :: u32 where "NV097_SET_TEXGEN_S_OBJECT_LINEAR \<equiv> 0x2401"
abbreviation (input) NV097_SET_TEXGEN_S_SPHERE_MAP :: u32 where "NV097_SET_TEXGEN_S_SPHERE_MAP \<equiv> 0x2402"
abbreviation (input) NV097_SET_TEXGEN_S_REFLECTION_MAP :: u32 where "NV097_SET_TEXGEN_S_REFLECTION_MAP \<equiv> 0x8512"
abbreviation (input) NV097_SET_TEXGEN_S_NORMAL_MAP :: u32 where "NV097_SET_TEXGEN_S_NORMAL_MAP \<equiv> 0x8511"
abbreviation (input) NV097_SET_TEXGEN_T :: u32 where "NV097_SET_TEXGEN_T \<equiv> 0x3C4"
abbreviation (input) NV097_SET_TEXGEN_R :: u32 where "NV097_SET_TEXGEN_R \<equiv> 0x3C8"
abbreviation (input) NV097_SET_TEXGEN_Q :: u32 where "NV097_SET_TEXGEN_Q \<equiv> 0x3CC"
abbreviation (input) NV097_SET_TEXTURE_MATRIX_ENABLE :: u32 where "NV097_SET_TEXTURE_MATRIX_ENABLE \<equiv> 0x420"
abbreviation (input) NV097_SET_POINT_SIZE :: u32 where "NV097_SET_POINT_SIZE \<equiv> 0x43C"
abbreviation (input) NV097_SET_POINT_SIZE_V_MAX :: u32 where "NV097_SET_POINT_SIZE_V_MAX \<equiv> 0x1FF"
abbreviation (input) NV097_SET_PROJECTION_MATRIX :: u32 where "NV097_SET_PROJECTION_MATRIX \<equiv> 0x440"
abbreviation (input) NV097_SET_MODEL_VIEW_MATRIX :: u32 where "NV097_SET_MODEL_VIEW_MATRIX \<equiv> 0x480"
abbreviation (input) NV097_SET_INVERSE_MODEL_VIEW_MATRIX :: u32 where "NV097_SET_INVERSE_MODEL_VIEW_MATRIX \<equiv> 0x580"
abbreviation (input) NV097_SET_COMPOSITE_MATRIX :: u32 where "NV097_SET_COMPOSITE_MATRIX \<equiv> 0x680"
abbreviation (input) NV097_SET_TEXTURE_MATRIX :: u32 where "NV097_SET_TEXTURE_MATRIX \<equiv> 0x6C0"
abbreviation (input) NV097_SET_FOG_PARAMS :: u32 where "NV097_SET_FOG_PARAMS \<equiv> 0x9C0"
abbreviation (input) NV097_SET_TEXGEN_PLANE_S :: u32 where "NV097_SET_TEXGEN_PLANE_S \<equiv> 0x840"
abbreviation (input) NV097_SET_TEXGEN_VIEW_MODEL :: u32 where "NV097_SET_TEXGEN_VIEW_MODEL \<equiv> 0x9CC"
abbreviation (input) NV097_SET_FOG_PLANE :: u32 where "NV097_SET_FOG_PLANE \<equiv> 0x9D0"
abbreviation (input) NV097_SET_SPECULAR_PARAMS :: u32 where "NV097_SET_SPECULAR_PARAMS \<equiv> 0x9E0"
abbreviation (input) NV097_SET_PROVOKING_VERTEX :: u32 where "NV097_SET_PROVOKING_VERTEX \<equiv> 0x9FC"
abbreviation (input) NV097_SET_SCENE_AMBIENT_COLOR :: u32 where "NV097_SET_SCENE_AMBIENT_COLOR \<equiv> 0xA10"
abbreviation (input) NV097_SET_VIEWPORT_OFFSET :: u32 where "NV097_SET_VIEWPORT_OFFSET \<equiv> 0xA20"
abbreviation (input) NV097_SET_POINT_PARAMS :: u32 where "NV097_SET_POINT_PARAMS \<equiv> 0xA30"
abbreviation (input) NV097_SET_EYE_POSITION :: u32 where "NV097_SET_EYE_POSITION \<equiv> 0xA50"
abbreviation (input) NV097_SET_COMBINER_FACTOR0 :: u32 where "NV097_SET_COMBINER_FACTOR0 \<equiv> 0xA60"
abbreviation (input) NV097_SET_COMBINER_FACTOR1 :: u32 where "NV097_SET_COMBINER_FACTOR1 \<equiv> 0xA80"
abbreviation (input) NV097_SET_COMBINER_ALPHA_OCW :: u32 where "NV097_SET_COMBINER_ALPHA_OCW \<equiv> 0xAA0"
abbreviation (input) NV097_SET_COMBINER_COLOR_ICW :: u32 where "NV097_SET_COMBINER_COLOR_ICW \<equiv> 0xAC0"
abbreviation (input) NV097_SET_COLOR_KEY_COLOR :: u32 where "NV097_SET_COLOR_KEY_COLOR \<equiv> 0xAE0"
abbreviation (input) NV097_SET_VIEWPORT_SCALE :: u32 where "NV097_SET_VIEWPORT_SCALE \<equiv> 0xAF0"
abbreviation (input) NV097_SET_TRANSFORM_PROGRAM :: u32 where "NV097_SET_TRANSFORM_PROGRAM \<equiv> 0xB00"
abbreviation (input) NV097_SET_TRANSFORM_CONSTANT :: u32 where "NV097_SET_TRANSFORM_CONSTANT \<equiv> 0xB80"
abbreviation (input) NV097_SET_BACK_LIGHT_AMBIENT_COLOR :: u32 where "NV097_SET_BACK_LIGHT_AMBIENT_COLOR \<equiv> 0xC00"
abbreviation (input) NV097_SET_LIGHT_AMBIENT_COLOR :: u32 where "NV097_SET_LIGHT_AMBIENT_COLOR \<equiv> 0x1000"
abbreviation (input) NV097_SET_VERTEX_DATA_ARRAY_OFFSET :: u32 where "NV097_SET_VERTEX_DATA_ARRAY_OFFSET \<equiv> 0x1720"
abbreviation (input) NV097_SET_VERTEX_DATA_ARRAY_FORMAT :: u32 where "NV097_SET_VERTEX_DATA_ARRAY_FORMAT \<equiv> 0x1760"
abbreviation (input) NV097_SET_LOGIC_OP_ENABLE :: u32 where "NV097_SET_LOGIC_OP_ENABLE \<equiv> 0x17BC"
abbreviation (input) NV097_SET_LOGIC_OP :: u32 where "NV097_SET_LOGIC_OP \<equiv> 0x17C0"
abbreviation (input) NV097_CLEAR_REPORT_VALUE :: u32 where "NV097_CLEAR_REPORT_VALUE \<equiv> 0x17C8"
abbreviation (input) NV097_SET_ZPASS_PIXEL_COUNT_ENABLE :: u32 where "NV097_SET_ZPASS_PIXEL_COUNT_ENABLE \<equiv> 0x17CC"
abbreviation (input) NV097_GET_REPORT :: u32 where "NV097_GET_REPORT \<equiv> 0x17D0"
abbreviation (input) NV097_GET_REPORT_OFFSET :: u32 where "NV097_GET_REPORT_OFFSET \<equiv> 0xFFFFFF"
abbreviation (input) NV097_GET_REPORT_TYPE :: u32 where "NV097_GET_REPORT_TYPE \<equiv> 0xFF000000"
abbreviation (input) NV097_GET_REPORT_TYPE_ZPASS_PIXEL_CNT :: u32 where "NV097_GET_REPORT_TYPE_ZPASS_PIXEL_CNT \<equiv> 1"
abbreviation (input) NV097_SET_EYE_DIRECTION :: u32 where "NV097_SET_EYE_DIRECTION \<equiv> 0x17E0"
abbreviation (input) NV097_SET_SHADER_CLIP_PLANE_MODE :: u32 where "NV097_SET_SHADER_CLIP_PLANE_MODE \<equiv> 0x17F8"
abbreviation (input) NV097_ARRAY_ELEMENT16 :: u32 where "NV097_ARRAY_ELEMENT16 \<equiv> 0x1800"
abbreviation (input) NV097_ARRAY_ELEMENT32 :: u32 where "NV097_ARRAY_ELEMENT32 \<equiv> 0x1808"
abbreviation (input) NV097_INLINE_ARRAY :: u32 where "NV097_INLINE_ARRAY \<equiv> 0x1818"
abbreviation (input) NV097_SET_EYE_VECTOR :: u32 where "NV097_SET_EYE_VECTOR \<equiv> 0x181C"
abbreviation (input) NV097_SET_TEXTURE_OFFSET :: u32 where "NV097_SET_TEXTURE_OFFSET \<equiv> 0x1B00"
abbreviation (input) NV097_SET_TEXTURE_FORMAT :: u32 where "NV097_SET_TEXTURE_FORMAT \<equiv> 0x1B04"
abbreviation (input) NV097_SET_TEXTURE_FORMAT_CONTEXT_DMA :: u32 where "NV097_SET_TEXTURE_FORMAT_CONTEXT_DMA \<equiv> 3"
abbreviation (input) NV097_SET_TEXTURE_FORMAT_CUBEMAP_ENABLE :: u32 where "NV097_SET_TEXTURE_FORMAT_CUBEMAP_ENABLE \<equiv> 4"
abbreviation (input) NV097_SET_TEXTURE_FORMAT_BORDER_SOURCE :: u32 where "NV097_SET_TEXTURE_FORMAT_BORDER_SOURCE \<equiv> 8"
abbreviation (input) NV097_SET_TEXTURE_FORMAT_DIMENSIONALITY :: u32 where "NV097_SET_TEXTURE_FORMAT_DIMENSIONALITY \<equiv> 0xF0"
abbreviation (input) NV097_SET_TEXTURE_FORMAT_COLOR :: u32 where "NV097_SET_TEXTURE_FORMAT_COLOR \<equiv> 0xFF00"
abbreviation (input) NV097_SET_TEXTURE_FORMAT_MIPMAP_LEVELS :: u32 where "NV097_SET_TEXTURE_FORMAT_MIPMAP_LEVELS \<equiv> 0xF0000"
abbreviation (input) NV097_SET_TEXTURE_FORMAT_BASE_SIZE_U :: u32 where "NV097_SET_TEXTURE_FORMAT_BASE_SIZE_U \<equiv> 0xF00000"
abbreviation (input) NV097_SET_TEXTURE_FORMAT_BASE_SIZE_V :: u32 where "NV097_SET_TEXTURE_FORMAT_BASE_SIZE_V \<equiv> 0xF000000"
abbreviation (input) NV097_SET_TEXTURE_FORMAT_BASE_SIZE_P :: u32 where "NV097_SET_TEXTURE_FORMAT_BASE_SIZE_P \<equiv> 0xF0000000"
abbreviation (input) NV097_SET_TEXTURE_ADDRESS :: u32 where "NV097_SET_TEXTURE_ADDRESS \<equiv> 0x1B08"
abbreviation (input) NV097_SET_TEXTURE_CONTROL0 :: u32 where "NV097_SET_TEXTURE_CONTROL0 \<equiv> 0x1B0C"
abbreviation (input) NV097_SET_TEXTURE_CONTROL1 :: u32 where "NV097_SET_TEXTURE_CONTROL1 \<equiv> 0x1B10"
abbreviation (input) NV097_SET_TEXTURE_FILTER :: u32 where "NV097_SET_TEXTURE_FILTER \<equiv> 0x1B14"
abbreviation (input) NV097_SET_TEXTURE_IMAGE_RECT :: u32 where "NV097_SET_TEXTURE_IMAGE_RECT \<equiv> 0x1B1C"
abbreviation (input) NV097_SET_TEXTURE_PALETTE :: u32 where "NV097_SET_TEXTURE_PALETTE \<equiv> 0x1B20"
abbreviation (input) NV097_SET_TEXTURE_PALETTE_CONTEXT_DMA :: u32 where "NV097_SET_TEXTURE_PALETTE_CONTEXT_DMA \<equiv> 1"
abbreviation (input) NV097_SET_TEXTURE_PALETTE_LENGTH :: u32 where "NV097_SET_TEXTURE_PALETTE_LENGTH \<equiv> 0xC"
abbreviation (input) NV097_SET_TEXTURE_PALETTE_OFFSET :: u32 where "NV097_SET_TEXTURE_PALETTE_OFFSET \<equiv> 0xFFFFFFC0"
abbreviation (input) NV097_SET_TEXTURE_BORDER_COLOR :: u32 where "NV097_SET_TEXTURE_BORDER_COLOR \<equiv> 0x1B24"
abbreviation (input) NV097_SET_TEXTURE_SET_BUMP_ENV_MAT :: u32 where "NV097_SET_TEXTURE_SET_BUMP_ENV_MAT \<equiv> 0x1B28"
abbreviation (input) NV097_SET_TEXTURE_SET_BUMP_ENV_SCALE :: u32 where "NV097_SET_TEXTURE_SET_BUMP_ENV_SCALE \<equiv> 0x1B38"
abbreviation (input) NV097_SET_TEXTURE_SET_BUMP_ENV_OFFSET :: u32 where "NV097_SET_TEXTURE_SET_BUMP_ENV_OFFSET \<equiv> 0x1B3C"
abbreviation (input) NV097_SET_SEMAPHORE_OFFSET :: u32 where "NV097_SET_SEMAPHORE_OFFSET \<equiv> 0x1D6C"
abbreviation (input) NV097_BACK_END_WRITE_SEMAPHORE_RELEASE :: u32 where "NV097_BACK_END_WRITE_SEMAPHORE_RELEASE \<equiv> 0x1D70"
abbreviation (input) NV097_SET_ZMIN_MAX_CONTROL :: u32 where "NV097_SET_ZMIN_MAX_CONTROL \<equiv> 0x1D78"
abbreviation (input) NV097_SET_ZMIN_MAX_CONTROL_ZCLAMP_EN :: u32 where "NV097_SET_ZMIN_MAX_CONTROL_ZCLAMP_EN \<equiv> 0xF0"
abbreviation (input) NV097_SET_ZMIN_MAX_CONTROL_ZCLAMP_EN_CULL :: u32 where "NV097_SET_ZMIN_MAX_CONTROL_ZCLAMP_EN_CULL \<equiv> 0"
abbreviation (input) NV097_SET_ZMIN_MAX_CONTROL_ZCLAMP_EN_CLAMP :: u32 where "NV097_SET_ZMIN_MAX_CONTROL_ZCLAMP_EN_CLAMP \<equiv> 1"
abbreviation (input) NV097_SET_ANTI_ALIASING_CONTROL :: u32 where "NV097_SET_ANTI_ALIASING_CONTROL \<equiv> 0x1D7C"
abbreviation (input) NV097_SET_ANTI_ALIASING_CONTROL_ENABLE :: u32 where "NV097_SET_ANTI_ALIASING_CONTROL_ENABLE \<equiv> 1"
abbreviation (input) NV097_SET_ZSTENCIL_CLEAR_VALUE :: u32 where "NV097_SET_ZSTENCIL_CLEAR_VALUE \<equiv> 0x1D8C"
abbreviation (input) NV097_SET_COLOR_CLEAR_VALUE :: u32 where "NV097_SET_COLOR_CLEAR_VALUE \<equiv> 0x1D90"
abbreviation (input) NV097_CLEAR_SURFACE :: u32 where "NV097_CLEAR_SURFACE \<equiv> 0x1D94"
abbreviation (input) NV097_SET_CLEAR_RECT_HORIZONTAL :: u32 where "NV097_SET_CLEAR_RECT_HORIZONTAL \<equiv> 0x1D98"
abbreviation (input) NV097_SET_CLEAR_RECT_VERTICAL :: u32 where "NV097_SET_CLEAR_RECT_VERTICAL \<equiv> 0x1D9C"
abbreviation (input) NV097_SET_SPECULAR_FOG_FACTOR :: u32 where "NV097_SET_SPECULAR_FOG_FACTOR \<equiv> 0x1E20"
abbreviation (input) NV097_SET_SPECULAR_PARAMS_BACK :: u32 where "NV097_SET_SPECULAR_PARAMS_BACK \<equiv> 0x1E28"
abbreviation (input) NV097_SET_COMBINER_COLOR_OCW :: u32 where "NV097_SET_COMBINER_COLOR_OCW \<equiv> 0x1E40"
abbreviation (input) NV097_SET_COMBINER_CONTROL :: u32 where "NV097_SET_COMBINER_CONTROL \<equiv> 0x1E60"
abbreviation (input) NV097_SET_SHADOW_ZSLOPE_THRESHOLD :: u32 where "NV097_SET_SHADOW_ZSLOPE_THRESHOLD \<equiv> 0x1E68"
abbreviation (input) NV097_SET_SHADOW_DEPTH_FUNC :: u32 where "NV097_SET_SHADOW_DEPTH_FUNC \<equiv> 0x1E6C"
abbreviation (input) NV097_SET_SHADER_STAGE_PROGRAM :: u32 where "NV097_SET_SHADER_STAGE_PROGRAM \<equiv> 0x1E70"
abbreviation (input) NV097_SET_DOT_RGBMAPPING :: u32 where "NV097_SET_DOT_RGBMAPPING \<equiv> 0x1E74"
abbreviation (input) NV097_SET_SHADER_OTHER_STAGE_INPUT :: u32 where "NV097_SET_SHADER_OTHER_STAGE_INPUT \<equiv> 0x1E78"
abbreviation (input) NV097_SET_TRANSFORM_DATA :: u32 where "NV097_SET_TRANSFORM_DATA \<equiv> 0x1E80"
abbreviation (input) NV097_LAUNCH_TRANSFORM_PROGRAM :: u32 where "NV097_LAUNCH_TRANSFORM_PROGRAM \<equiv> 0x1E90"
abbreviation (input) NV097_SET_TRANSFORM_EXECUTION_MODE :: u32 where "NV097_SET_TRANSFORM_EXECUTION_MODE \<equiv> 0x1E94"
abbreviation (input) NV097_SET_TRANSFORM_EXECUTION_MODE_MODE :: u32 where "NV097_SET_TRANSFORM_EXECUTION_MODE_MODE \<equiv> 3"
abbreviation (input) NV097_SET_TRANSFORM_EXECUTION_MODE_RANGE_MODE :: u32 where "NV097_SET_TRANSFORM_EXECUTION_MODE_RANGE_MODE \<equiv> 0xFFFFFFFC"
abbreviation (input) NV097_SET_TRANSFORM_PROGRAM_CXT_WRITE_EN :: u32 where "NV097_SET_TRANSFORM_PROGRAM_CXT_WRITE_EN \<equiv> 0x1E98"
abbreviation (input) NV097_SET_TRANSFORM_PROGRAM_LOAD :: u32 where "NV097_SET_TRANSFORM_PROGRAM_LOAD \<equiv> 0x1E9C"
abbreviation (input) NV097_SET_TRANSFORM_PROGRAM_START :: u32 where "NV097_SET_TRANSFORM_PROGRAM_START \<equiv> 0x1EA0"
abbreviation (input) NV097_SET_TRANSFORM_CONSTANT_LOAD :: u32 where "NV097_SET_TRANSFORM_CONSTANT_LOAD \<equiv> 0x1EA4"
abbreviation (input) NV_IGRAPH_XF_XFCTX_CMAT0 :: nat where "NV_IGRAPH_XF_XFCTX_CMAT0 \<equiv> 0"
abbreviation (input) NV_IGRAPH_XF_XFCTX_PMAT0 :: nat where "NV_IGRAPH_XF_XFCTX_PMAT0 \<equiv> 4"
abbreviation (input) NV_IGRAPH_XF_XFCTX_MMAT0 :: nat where "NV_IGRAPH_XF_XFCTX_MMAT0 \<equiv> 8"
abbreviation (input) NV_IGRAPH_XF_XFCTX_IMMAT0 :: nat where "NV_IGRAPH_XF_XFCTX_IMMAT0 \<equiv> 0xC"
abbreviation (input) NV_IGRAPH_XF_XFCTX_EYEP :: nat where "NV_IGRAPH_XF_XFCTX_EYEP \<equiv> 0x38"
abbreviation (input) NV_IGRAPH_XF_XFCTX_FOG :: nat where "NV_IGRAPH_XF_XFCTX_FOG \<equiv> 0x39"
abbreviation (input) NV_IGRAPH_XF_XFCTX_VPSCL :: nat where "NV_IGRAPH_XF_XFCTX_VPSCL \<equiv> 0x3A"
abbreviation (input) NV_IGRAPH_XF_XFCTX_VPOFF :: nat where "NV_IGRAPH_XF_XFCTX_VPOFF \<equiv> 0x3B"
abbreviation (input) NV_IGRAPH_XF_XFCTX_TG0MAT :: nat where "NV_IGRAPH_XF_XFCTX_TG0MAT \<equiv> 0x40"
abbreviation (input) NV_IGRAPH_XF_XFCTX_T0MAT :: nat where "NV_IGRAPH_XF_XFCTX_T0MAT \<equiv> 0x44"
abbreviation (input) NV_IGRAPH_XF_LTCTXA_L0_K :: nat where "NV_IGRAPH_XF_LTCTXA_L0_K \<equiv> 0"
abbreviation (input) NV_IGRAPH_XF_LTCTXA_L0_SPT :: nat where "NV_IGRAPH_XF_LTCTXA_L0_SPT \<equiv> 1"
abbreviation (input) NV_IGRAPH_XF_LTCTXA_EYED :: nat where "NV_IGRAPH_XF_LTCTXA_EYED \<equiv> 0x10"
abbreviation (input) NV_IGRAPH_XF_LTCTXA_FR_AMB :: nat where "NV_IGRAPH_XF_LTCTXA_FR_AMB \<equiv> 0x11"
abbreviation (input) NV_IGRAPH_XF_LTCTXA_CM_COL :: nat where "NV_IGRAPH_XF_LTCTXA_CM_COL \<equiv> 0x13"
abbreviation (input) NV_IGRAPH_XF_LTCTXA_FOG_K :: nat where "NV_IGRAPH_XF_LTCTXA_FOG_K \<equiv> 0x15"
abbreviation (input) NV_IGRAPH_XF_LTCTXB_L0_AMB :: nat where "NV_IGRAPH_XF_LTCTXB_L0_AMB \<equiv> 0"
abbreviation (input) NV_IGRAPH_XF_LTCTXB_L0_DIF :: nat where "NV_IGRAPH_XF_LTCTXB_L0_DIF \<equiv> 1"
abbreviation (input) NV_IGRAPH_XF_LTCTXB_L0_SPC :: nat where "NV_IGRAPH_XF_LTCTXB_L0_SPC \<equiv> 2"
abbreviation (input) NV_IGRAPH_XF_LTCTXB_L0_BAMB :: nat where "NV_IGRAPH_XF_LTCTXB_L0_BAMB \<equiv> 3"
abbreviation (input) NV_IGRAPH_XF_LTCTXB_L0_BDIF :: nat where "NV_IGRAPH_XF_LTCTXB_L0_BDIF \<equiv> 4"
abbreviation (input) NV_IGRAPH_XF_LTCTXB_L0_BSPC :: nat where "NV_IGRAPH_XF_LTCTXB_L0_BSPC \<equiv> 5"
abbreviation (input) NV_IGRAPH_XF_LTC1_r0 :: nat where "NV_IGRAPH_XF_LTC1_r0 \<equiv> 4"
abbreviation (input) NV2A_MAX_TEXTURES :: nat where "NV2A_MAX_TEXTURES \<equiv> 4"
abbreviation (input) NV2A_MAX_TRANSFORM_PROGRAM_LENGTH :: nat where "NV2A_MAX_TRANSFORM_PROGRAM_LENGTH \<equiv> 0x88"
abbreviation (input) NV2A_LTCTXA_COUNT :: nat where "NV2A_LTCTXA_COUNT \<equiv> 0x1A"
abbreviation (input) NV2A_LTCTXB_COUNT :: nat where "NV2A_LTCTXB_COUNT \<equiv> 0x34"
abbreviation (input) NV2A_LTC1_COUNT :: nat where "NV2A_LTC1_COUNT \<equiv> 0x14"

end
