(* ===== verification/Kelvin.thy ===== *)
theory Kelvin
  imports Kelvin_Regs
begin

text \<open>
  The methods of the three-dimensional class: the handlers of \<^verbatim>\<open>hw/xbox/nv2a/pgraph/pgraph.c\<close> and the table that
  \<^verbatim>\<open>pgraph.c\<close> makes of \<^verbatim>\<open>methods.h.inc\<close>. A handler takes subchannel, method and parameter. Handlers of one shape,
  such as those that set one field of a register, are instances of one definition; the rows of the table say
  which. A group of rows follows the order of the handlers in the source.
\<close>

section \<open>What the methods rest on\<close>

text \<open>The operations of the renderer, the interpreter for vertex programs that is not part of this repository, and the
  float arithmetic of \<open>reconstruct_specular_power\<close> are arguments.\<close>

record kelvin_ops =
  ko_surface_update :: "nv2a \<Rightarrow> nv2a"
  ko_flip_stall :: "nv2a \<Rightarrow> nv2a"
  ko_process_pending_reports :: "nv2a \<Rightarrow> nv2a"
  ko_clear_report_value :: "nv2a \<Rightarrow> nv2a"
  ko_get_report :: "nv2a \<Rightarrow> u32 \<Rightarrow> nv2a option"
  ko_clear_surface :: "nv2a \<Rightarrow> u32 \<Rightarrow> nv2a"
  ko_draw :: renderer_ops
  ko_specular_power :: "(nat \<Rightarrow> u32) \<Rightarrow> u32"
  ko_launch :: "(nat \<Rightarrow> nat \<Rightarrow> u32) \<Rightarrow> nat \<Rightarrow> (nat \<Rightarrow> u32) \<Rightarrow> (nat \<Rightarrow> nat \<Rightarrow> u32) \<times> (nat \<Rightarrow> bool)
    \<Rightarrow> ((nat \<Rightarrow> nat \<Rightarrow> u32) \<times> (nat \<Rightarrow> bool)) option"

definition method_slot :: "u32 \<Rightarrow> u32 \<Rightarrow> nat \<Rightarrow> nat" where
  "method_slot meth base n = unat (meth - base) div n"

definition on_kelvin :: "(pgraph_kelvin \<Rightarrow> pgraph_kelvin) \<Rightarrow> nv2a \<Rightarrow> nv2a" where
  "on_kelvin f d = d\<lparr>pg_kelvin := f (pg_kelvin d)\<rparr>"

definition on_draw :: "(pgraph_draw \<Rightarrow> pgraph_draw option) \<Rightarrow> nv2a \<Rightarrow> nv2a option" where
  "on_draw f d = do { pg \<leftarrow> f (pg_draw d); Some (d\<lparr>pg_draw := pg\<rparr>) }"

definition flag :: "bool \<Rightarrow> u32" where
  "flag b = (if b then 1 else 0)"

text \<open>The three shapes most handlers have: a register, one of a row of registers, a field of a register.\<close>

definition write_reg :: "nat \<Rightarrow> word_handler" where
  "write_reg reg d subchannel meth parameter = pgraph_reg_w d reg parameter"

definition set_reg_slot :: "nat \<Rightarrow> u32 \<Rightarrow> nat \<Rightarrow> word_handler" where
  "set_reg_slot reg base n d subchannel meth parameter = pgraph_reg_w d (reg + method_slot meth base n * 4) parameter"

definition set_field :: "nat \<Rightarrow> u32 \<Rightarrow> word_handler" where
  "set_field reg m d subchannel meth parameter = pg_set_mask d reg m parameter"

text \<open>Elements of the arrays of constants; an index outside the array stops the program.\<close>

definition set_vsh_constant :: "nat \<Rightarrow> nat \<Rightarrow> u32 \<Rightarrow> nv2a \<Rightarrow> nv2a option" where
  "set_vsh_constant row col v d = do {
     assert_that (row < NV2A_VERTEXSHADER_CONSTANTS \<and> col < 4);
     Some (d\<lparr>vsh_constants := (vsh_constants d)(row := (vsh_constants d row)(col := v)),
             vsh_constants_dirty := (vsh_constants_dirty d)(row := True)\<rparr>)
   }"

definition set_ltctxa :: "nat \<Rightarrow> nat \<Rightarrow> u32 \<Rightarrow> nv2a \<Rightarrow> nv2a option" where
  "set_ltctxa row col v d = do {
     assert_that (row < NV2A_LTCTXA_COUNT \<and> col < 4);
     Some (on_kelvin (\<lambda>pg. pg\<lparr>ltctxa := (ltctxa pg)(row := (ltctxa pg row)(col := v)),
                              ltctxa_dirty := (ltctxa_dirty pg)(row := True)\<rparr>) d)
   }"

definition set_ltctxb :: "nat \<Rightarrow> nat \<Rightarrow> u32 \<Rightarrow> nv2a \<Rightarrow> nv2a option" where
  "set_ltctxb row col v d = do {
     assert_that (row < NV2A_LTCTXB_COUNT \<and> col < 4);
     Some (on_kelvin (\<lambda>pg. pg\<lparr>ltctxb := (ltctxb pg)(row := (ltctxb pg row)(col := v)),
                              ltctxb_dirty := (ltctxb_dirty pg)(row := True)\<rparr>) d)
   }"

definition set_ltc1 :: "nat \<Rightarrow> nat \<Rightarrow> u32 \<Rightarrow> nv2a \<Rightarrow> nv2a option" where
  "set_ltc1 row col v d = do {
     assert_that (row < NV2A_LTC1_COUNT \<and> col < 4);
     Some (on_kelvin (\<lambda>pg. pg\<lparr>ltc1 := (ltc1 pg)(row := (ltc1 pg row)(col := v)),
                              ltc1_dirty := (ltc1_dirty pg)(row := True)\<rparr>) d)
   }"

text \<open>A component of a vector that is kept for each light.\<close>

definition set_component :: "nat \<Rightarrow> nat \<Rightarrow> u32 \<Rightarrow> (nat \<Rightarrow> nat \<Rightarrow> u32) \<Rightarrow> nat \<Rightarrow> nat \<Rightarrow> u32" where
  "set_component row col v f = f(row := (f row)(col := v))"

definition touch_texture :: "nat \<Rightarrow> nv2a \<Rightarrow> nv2a option" where
  "touch_texture slot d = do {
     assert_that (slot < NV2A_MAX_TEXTURES);
     Some (on_kelvin (\<lambda>pg. pg\<lparr>texture_dirty := (texture_dirty pg)(slot := True)\<rparr>) d)
   }"

section \<open>Entries of the table\<close>

text \<open>First method, number of methods, bytes from one to the next, handler.\<close>

type_synonym kelvin_row = "u32 \<times> nat \<times> nat \<times> kelvin_entry"

definition DEF_METHOD :: "u32 \<Rightarrow> word_handler \<Rightarrow> kelvin_row" where
  "DEF_METHOD addr h = (addr, 1, 4, Plain h)"

definition DEF_METHOD_INC :: "u32 \<Rightarrow> nat \<Rightarrow> word_handler \<Rightarrow> kelvin_row" where
  "DEF_METHOD_INC addr rng h = (addr, rng, 4, Inc h (addr + 4 * of_nat rng))"

definition DEF_METHOD_NON_INC :: "u32 \<Rightarrow> word_handler \<Rightarrow> kelvin_row" where
  "DEF_METHOD_NON_INC addr h = (addr, 1, 4, NonInc h)"

definition DEF_METHOD_CASE_4 :: "u32 \<Rightarrow> nat \<Rightarrow> nat \<Rightarrow> word_handler \<Rightarrow> kelvin_row" where
  "DEF_METHOD_CASE_4 addr offset stride h = (addr + of_nat offset, 4, stride, Plain h)"

section \<open>Objects, flips and DMA contexts\<close>

definition context_rows :: "kelvin_ops \<Rightarrow> kelvin_row list" where
  "context_rows k =
     [DEF_METHOD NV097_SET_OBJECT (\<lambda>d s m p. Some (d\<lparr>kelvin_object_instance := ucast p\<rparr>)),
      DEF_METHOD NV097_NO_OPERATION NV097_NO_OPERATION_handler,
      DEF_METHOD NV097_WAIT_FOR_IDLE (\<lambda>d s m p. Some (ko_surface_update k d)),
      DEF_METHOD NV097_SET_FLIP_READ (\<lambda>d s m p. NV097_SET_FLIP_READ_handler d p),
      DEF_METHOD NV097_SET_FLIP_WRITE (\<lambda>d s m p. NV097_SET_FLIP_WRITE_handler d p),
      DEF_METHOD NV097_SET_FLIP_MODULO (\<lambda>d s m p. NV097_SET_FLIP_MODULO_handler d p),
      DEF_METHOD NV097_FLIP_INCREMENT_WRITE (\<lambda>d s m p. NV097_FLIP_INCREMENT_WRITE_handler d),
      DEF_METHOD NV097_FLIP_STALL (\<lambda>d s m p. Some (NV097_FLIP_STALL_handler (ko_flip_stall k (ko_surface_update k d)))),
      DEF_METHOD NV097_SET_CONTEXT_DMA_NOTIFIES (\<lambda>d s m p. Some (on_kelvin (\<lambda>pg. pg\<lparr>dma_notifies := ucast p\<rparr>) d)),
      DEF_METHOD NV097_SET_CONTEXT_DMA_A (\<lambda>d s m p. Some (on_kelvin (\<lambda>pg. pg\<lparr>dma_a := ucast p\<rparr>) d)),
      DEF_METHOD NV097_SET_CONTEXT_DMA_B (\<lambda>d s m p. Some (on_kelvin (\<lambda>pg. pg\<lparr>dma_b := ucast p\<rparr>) d)),
      DEF_METHOD NV097_SET_CONTEXT_DMA_STATE (\<lambda>d s m p. Some (on_kelvin (\<lambda>pg. pg\<lparr>dma_state := ucast p\<rparr>) d)),
      DEF_METHOD NV097_SET_CONTEXT_DMA_COLOR (\<lambda>d s m p. Some (on_kelvin (\<lambda>pg. pg\<lparr>dma_color := ucast p,
        surface_color := (surface_color pg)\<lparr>su_buffer_dirty := True\<rparr>\<rparr>) (ko_surface_update k d))),
      DEF_METHOD NV097_SET_CONTEXT_DMA_ZETA (\<lambda>d s m p. Some (on_kelvin (\<lambda>pg. pg\<lparr>dma_zeta := ucast p,
        surface_zeta := (surface_zeta pg)\<lparr>su_buffer_dirty := True\<rparr>\<rparr>) d)),
      DEF_METHOD NV097_SET_CONTEXT_DMA_VERTEX_A (\<lambda>d s m p. Some (on_kelvin (\<lambda>pg. pg\<lparr>dma_vertex_a := ucast p\<rparr>) d)),
      DEF_METHOD NV097_SET_CONTEXT_DMA_VERTEX_B (\<lambda>d s m p. Some (on_kelvin (\<lambda>pg. pg\<lparr>dma_vertex_b := ucast p\<rparr>) d)),
      DEF_METHOD NV097_SET_CONTEXT_DMA_SEMAPHORE (\<lambda>d s m p. Some (on_kelvin (\<lambda>pg. pg\<lparr>dma_semaphore := ucast p\<rparr>) d)),
      DEF_METHOD NV097_SET_CONTEXT_DMA_REPORT (\<lambda>d s m p. Some (on_kelvin (\<lambda>pg. pg\<lparr>dma_report := ucast p\<rparr>)
        (ko_process_pending_reports k d)))]"

section \<open>Surfaces\<close>

definition SET_SURFACE_CLIP_HORIZONTAL :: "kelvin_ops \<Rightarrow> word_handler" where
  "SET_SURFACE_CLIP_HORIZONTAL k d subchannel meth parameter =
     Some (on_kelvin (\<lambda>pg. pg\<lparr>surface_shape := (surface_shape pg)
       \<lparr>ss_clip_x := get_mask parameter NV097_SET_SURFACE_CLIP_HORIZONTAL_X,
        ss_clip_width := get_mask parameter NV097_SET_SURFACE_CLIP_HORIZONTAL_WIDTH\<rparr>\<rparr>) (ko_surface_update k d))"

definition SET_SURFACE_CLIP_VERTICAL :: "kelvin_ops \<Rightarrow> word_handler" where
  "SET_SURFACE_CLIP_VERTICAL k d subchannel meth parameter =
     Some (on_kelvin (\<lambda>pg. pg\<lparr>surface_shape := (surface_shape pg)
       \<lparr>ss_clip_y := get_mask parameter NV097_SET_SURFACE_CLIP_VERTICAL_Y,
        ss_clip_height := get_mask parameter NV097_SET_SURFACE_CLIP_VERTICAL_HEIGHT\<rparr>\<rparr>) (ko_surface_update k d))"

definition SET_SURFACE_FORMAT :: "kelvin_ops \<Rightarrow> word_handler" where
  "SET_SURFACE_FORMAT k d subchannel meth parameter =
     Some (on_kelvin (\<lambda>pg.
       let pg = pg\<lparr>surface_shape := (surface_shape pg)
                  \<lparr>ss_color_format := get_mask parameter NV097_SET_SURFACE_FORMAT_COLOR,
                   ss_zeta_format := get_mask parameter NV097_SET_SURFACE_FORMAT_ZETA,
                   ss_anti_aliasing := get_mask parameter NV097_SET_SURFACE_FORMAT_ANTI_ALIASING,
                   ss_log_width := get_mask parameter NV097_SET_SURFACE_FORMAT_WIDTH,
                   ss_log_height := get_mask parameter NV097_SET_SURFACE_FORMAT_HEIGHT\<rparr>\<rparr>;
           ty = get_mask parameter NV097_SET_SURFACE_FORMAT_TYPE
       in if ty \<noteq> surface_type pg
          then pg\<lparr>surface_type := ty, surface_color := (surface_color pg)\<lparr>su_buffer_dirty := True\<rparr>,
                  surface_zeta := (surface_zeta pg)\<lparr>su_buffer_dirty := True\<rparr>\<rparr>
          else pg) (ko_surface_update k d))"

definition set_pitch :: "u32 \<Rightarrow> surface \<Rightarrow> surface" where
  "set_pitch pitch s = s\<lparr>su_buffer_dirty := (su_buffer_dirty s \<or> su_pitch s \<noteq> pitch), su_pitch := pitch\<rparr>"

definition set_offset :: "u32 \<Rightarrow> surface \<Rightarrow> surface" where
  "set_offset offset s = s\<lparr>su_buffer_dirty := (su_buffer_dirty s \<or> su_offset s \<noteq> ucast offset), su_offset := ucast offset\<rparr>"

definition SET_SURFACE_PITCH :: "kelvin_ops \<Rightarrow> word_handler" where
  "SET_SURFACE_PITCH k d subchannel meth parameter =
     Some (on_kelvin (\<lambda>pg. pg\<lparr>
       surface_color := set_pitch (get_mask parameter NV097_SET_SURFACE_PITCH_COLOR) (surface_color pg),
       surface_zeta := set_pitch (get_mask parameter NV097_SET_SURFACE_PITCH_ZETA) (surface_zeta pg)\<rparr>) (ko_surface_update k d))"

definition SET_SURFACE_COLOR_OFFSET :: "kelvin_ops \<Rightarrow> word_handler" where
  "SET_SURFACE_COLOR_OFFSET k d subchannel meth parameter =
     Some (on_kelvin (\<lambda>pg. pg\<lparr>surface_color := set_offset parameter (surface_color pg)\<rparr>) (ko_surface_update k d))"

definition SET_SURFACE_ZETA_OFFSET :: "kelvin_ops \<Rightarrow> word_handler" where
  "SET_SURFACE_ZETA_OFFSET k d subchannel meth parameter =
     Some (on_kelvin (\<lambda>pg. pg\<lparr>surface_zeta := set_offset parameter (surface_zeta pg)\<rparr>) (ko_surface_update k d))"

definition surface_rows :: "kelvin_ops \<Rightarrow> kelvin_row list" where
  "surface_rows k =
     [DEF_METHOD NV097_SET_SURFACE_CLIP_HORIZONTAL (SET_SURFACE_CLIP_HORIZONTAL k),
      DEF_METHOD NV097_SET_SURFACE_CLIP_VERTICAL (SET_SURFACE_CLIP_VERTICAL k),
      DEF_METHOD NV097_SET_SURFACE_FORMAT (SET_SURFACE_FORMAT k),
      DEF_METHOD NV097_SET_SURFACE_PITCH (SET_SURFACE_PITCH k),
      DEF_METHOD NV097_SET_SURFACE_COLOR_OFFSET (SET_SURFACE_COLOR_OFFSET k),
      DEF_METHOD NV097_SET_SURFACE_ZETA_OFFSET (SET_SURFACE_ZETA_OFFSET k),
      DEF_METHOD_INC NV097_SET_COMBINER_ALPHA_ICW 8 (set_reg_slot NV_PGRAPH_COMBINEALPHAI0 NV097_SET_COMBINER_ALPHA_ICW 4),
      DEF_METHOD NV097_SET_COMBINER_SPECULAR_FOG_CW0 (write_reg NV_PGRAPH_COMBINESPECFOG0),
      DEF_METHOD NV097_SET_COMBINER_SPECULAR_FOG_CW1 (write_reg NV_PGRAPH_COMBINESPECFOG1),
      DEF_METHOD_CASE_4 NV097_SET_TEXTURE_ADDRESS 0 64 (set_reg_slot NV_PGRAPH_TEXADDRESS0 NV097_SET_TEXTURE_ADDRESS 64)]"

section \<open>Control, lights and fog\<close>

definition SET_CONTROL0 :: "kelvin_ops \<Rightarrow> word_handler" where
  "SET_CONTROL0 k d subchannel meth parameter = do {
     let d = ko_surface_update k d;
     d \<leftarrow> pg_set_mask d NV_PGRAPH_CONTROL_0 NV_PGRAPH_CONTROL_0_STENCIL_WRITE_ENABLE
            (flag (parameter AND NV097_SET_CONTROL0_STENCIL_WRITE_ENABLE \<noteq> 0));
     d \<leftarrow> pg_set_mask d NV_PGRAPH_SETUPRASTER NV_PGRAPH_SETUPRASTER_Z_FORMAT
            (get_mask parameter NV097_SET_CONTROL0_Z_FORMAT);
     pg_set_mask d NV_PGRAPH_CONTROL_0 NV_PGRAPH_CONTROL_0_Z_PERSPECTIVE_ENABLE
       (flag (parameter AND NV097_SET_CONTROL0_Z_PERSPECTIVE_ENABLE \<noteq> 0))
   }"

definition SET_LIGHT_CONTROL :: word_handler where
  "SET_LIGHT_CONTROL d subchannel meth parameter = do {
     d \<leftarrow> pg_set_mask d NV_PGRAPH_CSV0_C NV_PGRAPH_CSV0_C_SEPARATE_SPECULAR
            (flag (parameter AND NV097_SET_LIGHT_CONTROL_SEPARATE_SPECULAR \<noteq> 0));
     d \<leftarrow> pg_set_mask d NV_PGRAPH_CSV0_C NV_PGRAPH_CSV0_C_LOCALEYE
            (flag (parameter AND NV097_SET_LIGHT_CONTROL_LOCALEYE \<noteq> 0));
     pg_set_mask d NV_PGRAPH_CSV0_C NV_PGRAPH_CSV0_C_ALPHA_FROM_MATERIAL_SPECULAR
       (flag (parameter AND NV097_SET_LIGHT_CONTROL_ALPHA_FROM_MATERIAL_SPECULAR \<noteq> 0))
   }"

definition SET_COLOR_MATERIAL :: word_handler where
  "SET_COLOR_MATERIAL d subchannel meth parameter = do {
     d \<leftarrow> pg_set_mask d NV_PGRAPH_CSV0_C NV_PGRAPH_CSV0_C_EMISSION (parameter AND 3);
     d \<leftarrow> pg_set_mask d NV_PGRAPH_CSV0_C NV_PGRAPH_CSV0_C_AMBIENT (drop_bit 2 parameter AND 3);
     d \<leftarrow> pg_set_mask d NV_PGRAPH_CSV0_C NV_PGRAPH_CSV0_C_DIFFUSE (drop_bit 4 parameter AND 3);
     pg_set_mask d NV_PGRAPH_CSV0_C NV_PGRAPH_CSV0_C_SPECULAR (drop_bit 6 parameter AND 3)
   }"

text \<open>A value that is not in the list of a switch fails an assertion in some handlers and is discarded in others.\<close>

definition set_mapped :: "nat \<Rightarrow> u32 \<Rightarrow> (u32 \<times> u32) list \<Rightarrow> word_handler" where
  "set_mapped reg m table d subchannel meth parameter = do {
     v \<leftarrow> map_of table parameter;
     pg_set_mask d reg m v
   }"

definition set_known :: "nat \<Rightarrow> u32 \<Rightarrow> (u32 \<times> u32) list \<Rightarrow> word_handler" where
  "set_known reg m table d subchannel meth parameter =
     (case map_of table parameter of None \<Rightarrow> Some d | Some v \<Rightarrow> pg_set_mask d reg m v)"

definition fog_modes :: "(u32 \<times> u32) list" where
  "fog_modes =
     [(NV097_SET_FOG_MODE_V_LINEAR, NV_PGRAPH_CONTROL_3_FOG_MODE_LINEAR),
      (NV097_SET_FOG_MODE_V_EXP, NV_PGRAPH_CONTROL_3_FOG_MODE_EXP),
      (NV097_SET_FOG_MODE_V_EXP2, NV_PGRAPH_CONTROL_3_FOG_MODE_EXP2),
      (NV097_SET_FOG_MODE_V_EXP_ABS, NV_PGRAPH_CONTROL_3_FOG_MODE_EXP_ABS),
      (NV097_SET_FOG_MODE_V_EXP2_ABS, NV_PGRAPH_CONTROL_3_FOG_MODE_EXP2_ABS),
      (NV097_SET_FOG_MODE_V_LINEAR_ABS, NV_PGRAPH_CONTROL_3_FOG_MODE_LINEAR_ABS)]"

definition fog_gen_modes :: "(u32 \<times> u32) list" where
  "fog_gen_modes =
     [(NV097_SET_FOG_GEN_MODE_V_SPEC_ALPHA, NV_PGRAPH_CSV0_D_FOGGENMODE_SPEC_ALPHA),
      (NV097_SET_FOG_GEN_MODE_V_RADIAL, NV_PGRAPH_CSV0_D_FOGGENMODE_RADIAL),
      (NV097_SET_FOG_GEN_MODE_V_PLANAR, NV_PGRAPH_CSV0_D_FOGGENMODE_PLANAR),
      (NV097_SET_FOG_GEN_MODE_V_ABS_PLANAR, NV_PGRAPH_CSV0_D_FOGGENMODE_ABS_PLANAR),
      (NV097_SET_FOG_GEN_MODE_V_FOG_X, NV_PGRAPH_CSV0_D_FOGGENMODE_FOG_X)]"

definition SET_FOG_COLOR :: word_handler where
  "SET_FOG_COLOR d subchannel meth parameter = do {
     d \<leftarrow> pg_set_mask d NV_PGRAPH_FOGCOLOR NV_PGRAPH_FOGCOLOR_RED (get_mask parameter NV097_SET_FOG_COLOR_RED);
     d \<leftarrow> pg_set_mask d NV_PGRAPH_FOGCOLOR NV_PGRAPH_FOGCOLOR_GREEN (get_mask parameter NV097_SET_FOG_COLOR_GREEN);
     d \<leftarrow> pg_set_mask d NV_PGRAPH_FOGCOLOR NV_PGRAPH_FOGCOLOR_BLUE (get_mask parameter NV097_SET_FOG_COLOR_BLUE);
     pg_set_mask d NV_PGRAPH_FOGCOLOR NV_PGRAPH_FOGCOLOR_ALPHA (get_mask parameter NV097_SET_FOG_COLOR_ALPHA)
   }"

text \<open>A window clip is set for its slot and for all after it.\<close>

fun set_reg_run :: "nat \<Rightarrow> nat list \<Rightarrow> u32 \<Rightarrow> nv2a \<Rightarrow> nv2a option" where
  "set_reg_run reg [] v d = Some d"
| "set_reg_run reg (slot # slots) v d = do { d \<leftarrow> pgraph_reg_w d (reg + slot * 4) v; set_reg_run reg slots v d }"

definition SET_WINDOW_CLIP_HORIZONTAL :: word_handler where
  "SET_WINDOW_CLIP_HORIZONTAL d subchannel meth parameter =
     set_reg_run NV_PGRAPH_WINDOWCLIPX0 [method_slot meth NV097_SET_WINDOW_CLIP_HORIZONTAL 4..<8] parameter d"

definition SET_WINDOW_CLIP_VERTICAL :: word_handler where
  "SET_WINDOW_CLIP_VERTICAL d subchannel meth parameter =
     set_reg_run NV_PGRAPH_WINDOWCLIPY0 [method_slot meth NV097_SET_WINDOW_CLIP_VERTICAL 4..<8] parameter d"

definition fog_rows :: "kelvin_ops \<Rightarrow> kelvin_row list" where
  "fog_rows k =
     [DEF_METHOD NV097_SET_CONTROL0 (SET_CONTROL0 k),
      DEF_METHOD NV097_SET_LIGHT_CONTROL SET_LIGHT_CONTROL,
      DEF_METHOD NV097_SET_COLOR_MATERIAL SET_COLOR_MATERIAL,
      DEF_METHOD NV097_SET_FOG_MODE (set_mapped NV_PGRAPH_CONTROL_3 NV_PGRAPH_CONTROL_3_FOG_MODE fog_modes),
      DEF_METHOD NV097_SET_FOG_GEN_MODE (set_mapped NV_PGRAPH_CSV0_D NV_PGRAPH_CSV0_D_FOGGENMODE fog_gen_modes),
      DEF_METHOD NV097_SET_FOG_ENABLE (set_field NV_PGRAPH_CONTROL_3 NV_PGRAPH_CONTROL_3_FOGENABLE),
      DEF_METHOD NV097_SET_FOG_COLOR SET_FOG_COLOR,
      DEF_METHOD NV097_SET_WINDOW_CLIP_TYPE (set_field NV_PGRAPH_SETUPRASTER NV_PGRAPH_SETUPRASTER_WINDOWCLIPTYPE),
      DEF_METHOD_INC NV097_SET_WINDOW_CLIP_HORIZONTAL 8 SET_WINDOW_CLIP_HORIZONTAL,
      DEF_METHOD_INC NV097_SET_WINDOW_CLIP_VERTICAL 8 SET_WINDOW_CLIP_VERTICAL]"

section \<open>Switches of the pipeline\<close>

definition SET_POINT_PARAMS_ENABLE :: word_handler where
  "SET_POINT_PARAMS_ENABLE d subchannel meth parameter = do {
     d \<leftarrow> pg_set_mask d NV_PGRAPH_CSV0_D NV_PGRAPH_CSV0_D_POINTPARAMSENABLE parameter;
     pg_set_mask d NV_PGRAPH_CONTROL_3 NV_PGRAPH_CONTROL_3_POINTPARAMSENABLE parameter
   }"

definition enable_rows :: "kelvin_row list" where
  "enable_rows =
     [DEF_METHOD NV097_SET_ALPHA_TEST_ENABLE (set_field NV_PGRAPH_CONTROL_0 NV_PGRAPH_CONTROL_0_ALPHATESTENABLE),
      DEF_METHOD NV097_SET_BLEND_ENABLE (set_field NV_PGRAPH_BLEND NV_PGRAPH_BLEND_EN),
      DEF_METHOD NV097_SET_CULL_FACE_ENABLE (set_field NV_PGRAPH_SETUPRASTER NV_PGRAPH_SETUPRASTER_CULLENABLE),
      DEF_METHOD NV097_SET_DEPTH_TEST_ENABLE (set_field NV_PGRAPH_CONTROL_0 NV_PGRAPH_CONTROL_0_ZENABLE),
      DEF_METHOD NV097_SET_DITHER_ENABLE (set_field NV_PGRAPH_CONTROL_0 NV_PGRAPH_CONTROL_0_DITHERENABLE),
      DEF_METHOD NV097_SET_LIGHTING_ENABLE (set_field NV_PGRAPH_CSV0_C NV_PGRAPH_CSV0_C_LIGHTING),
      DEF_METHOD NV097_SET_POINT_PARAMS_ENABLE SET_POINT_PARAMS_ENABLE,
      DEF_METHOD NV097_SET_POINT_SMOOTH_ENABLE (set_field NV_PGRAPH_SETUPRASTER NV_PGRAPH_SETUPRASTER_POINTSMOOTHENABLE),
      DEF_METHOD NV097_SET_LINE_SMOOTH_ENABLE (set_field NV_PGRAPH_SETUPRASTER NV_PGRAPH_SETUPRASTER_LINESMOOTHENABLE),
      DEF_METHOD NV097_SET_POLY_SMOOTH_ENABLE (set_field NV_PGRAPH_SETUPRASTER NV_PGRAPH_SETUPRASTER_POLYSMOOTHENABLE),
      DEF_METHOD NV097_SET_SKIN_MODE (set_field NV_PGRAPH_CSV0_D NV_PGRAPH_CSV0_D_SKIN),
      DEF_METHOD NV097_SET_STENCIL_TEST_ENABLE (set_field NV_PGRAPH_CONTROL_1 NV_PGRAPH_CONTROL_1_STENCIL_TEST_ENABLE),
      DEF_METHOD NV097_SET_POLY_OFFSET_POINT_ENABLE (set_field NV_PGRAPH_SETUPRASTER NV_PGRAPH_SETUPRASTER_POFFSETPOINTENABLE),
      DEF_METHOD NV097_SET_POLY_OFFSET_LINE_ENABLE (set_field NV_PGRAPH_SETUPRASTER NV_PGRAPH_SETUPRASTER_POFFSETLINEENABLE),
      DEF_METHOD NV097_SET_POLY_OFFSET_FILL_ENABLE (set_field NV_PGRAPH_SETUPRASTER NV_PGRAPH_SETUPRASTER_POFFSETFILLENABLE),
      DEF_METHOD NV097_SET_ALPHA_FUNC (\<lambda>d s m p. pg_set_mask d NV_PGRAPH_CONTROL_0 NV_PGRAPH_CONTROL_0_ALPHAFUNC (p AND 0xF)),
      DEF_METHOD NV097_SET_ALPHA_REF (set_field NV_PGRAPH_CONTROL_0 NV_PGRAPH_CONTROL_0_ALPHAREF)]"

section \<open>Blending, depth and stencil\<close>

definition blend_sfactors :: "(u32 \<times> u32) list" where
  "blend_sfactors =
     [(NV097_SET_BLEND_FUNC_SFACTOR_V_ZERO, NV_PGRAPH_BLEND_SFACTOR_ZERO),
      (NV097_SET_BLEND_FUNC_SFACTOR_V_ONE, NV_PGRAPH_BLEND_SFACTOR_ONE),
      (NV097_SET_BLEND_FUNC_SFACTOR_V_SRC_COLOR, NV_PGRAPH_BLEND_SFACTOR_SRC_COLOR),
      (NV097_SET_BLEND_FUNC_SFACTOR_V_ONE_MINUS_SRC_COLOR, NV_PGRAPH_BLEND_SFACTOR_ONE_MINUS_SRC_COLOR),
      (NV097_SET_BLEND_FUNC_SFACTOR_V_SRC_ALPHA, NV_PGRAPH_BLEND_SFACTOR_SRC_ALPHA),
      (NV097_SET_BLEND_FUNC_SFACTOR_V_ONE_MINUS_SRC_ALPHA, NV_PGRAPH_BLEND_SFACTOR_ONE_MINUS_SRC_ALPHA),
      (NV097_SET_BLEND_FUNC_SFACTOR_V_DST_ALPHA, NV_PGRAPH_BLEND_SFACTOR_DST_ALPHA),
      (NV097_SET_BLEND_FUNC_SFACTOR_V_ONE_MINUS_DST_ALPHA, NV_PGRAPH_BLEND_SFACTOR_ONE_MINUS_DST_ALPHA),
      (NV097_SET_BLEND_FUNC_SFACTOR_V_DST_COLOR, NV_PGRAPH_BLEND_SFACTOR_DST_COLOR),
      (NV097_SET_BLEND_FUNC_SFACTOR_V_ONE_MINUS_DST_COLOR, NV_PGRAPH_BLEND_SFACTOR_ONE_MINUS_DST_COLOR),
      (NV097_SET_BLEND_FUNC_SFACTOR_V_SRC_ALPHA_SATURATE, NV_PGRAPH_BLEND_SFACTOR_SRC_ALPHA_SATURATE),
      (NV097_SET_BLEND_FUNC_SFACTOR_V_CONSTANT_COLOR, NV_PGRAPH_BLEND_SFACTOR_CONSTANT_COLOR),
      (NV097_SET_BLEND_FUNC_SFACTOR_V_ONE_MINUS_CONSTANT_COLOR, NV_PGRAPH_BLEND_SFACTOR_ONE_MINUS_CONSTANT_COLOR),
      (NV097_SET_BLEND_FUNC_SFACTOR_V_CONSTANT_ALPHA, NV_PGRAPH_BLEND_SFACTOR_CONSTANT_ALPHA),
      (NV097_SET_BLEND_FUNC_SFACTOR_V_ONE_MINUS_CONSTANT_ALPHA, NV_PGRAPH_BLEND_SFACTOR_ONE_MINUS_CONSTANT_ALPHA)]"

definition blend_dfactors :: "(u32 \<times> u32) list" where
  "blend_dfactors =
     [(NV097_SET_BLEND_FUNC_DFACTOR_V_ZERO, NV_PGRAPH_BLEND_DFACTOR_ZERO),
      (NV097_SET_BLEND_FUNC_DFACTOR_V_ONE, NV_PGRAPH_BLEND_DFACTOR_ONE),
      (NV097_SET_BLEND_FUNC_DFACTOR_V_SRC_COLOR, NV_PGRAPH_BLEND_DFACTOR_SRC_COLOR),
      (NV097_SET_BLEND_FUNC_DFACTOR_V_ONE_MINUS_SRC_COLOR, NV_PGRAPH_BLEND_DFACTOR_ONE_MINUS_SRC_COLOR),
      (NV097_SET_BLEND_FUNC_DFACTOR_V_SRC_ALPHA, NV_PGRAPH_BLEND_DFACTOR_SRC_ALPHA),
      (NV097_SET_BLEND_FUNC_DFACTOR_V_ONE_MINUS_SRC_ALPHA, NV_PGRAPH_BLEND_DFACTOR_ONE_MINUS_SRC_ALPHA),
      (NV097_SET_BLEND_FUNC_DFACTOR_V_DST_ALPHA, NV_PGRAPH_BLEND_DFACTOR_DST_ALPHA),
      (NV097_SET_BLEND_FUNC_DFACTOR_V_ONE_MINUS_DST_ALPHA, NV_PGRAPH_BLEND_DFACTOR_ONE_MINUS_DST_ALPHA),
      (NV097_SET_BLEND_FUNC_DFACTOR_V_DST_COLOR, NV_PGRAPH_BLEND_DFACTOR_DST_COLOR),
      (NV097_SET_BLEND_FUNC_DFACTOR_V_ONE_MINUS_DST_COLOR, NV_PGRAPH_BLEND_DFACTOR_ONE_MINUS_DST_COLOR),
      (NV097_SET_BLEND_FUNC_DFACTOR_V_SRC_ALPHA_SATURATE, NV_PGRAPH_BLEND_DFACTOR_SRC_ALPHA_SATURATE),
      (NV097_SET_BLEND_FUNC_DFACTOR_V_CONSTANT_COLOR, NV_PGRAPH_BLEND_DFACTOR_CONSTANT_COLOR),
      (NV097_SET_BLEND_FUNC_DFACTOR_V_ONE_MINUS_CONSTANT_COLOR, NV_PGRAPH_BLEND_DFACTOR_ONE_MINUS_CONSTANT_COLOR),
      (NV097_SET_BLEND_FUNC_DFACTOR_V_CONSTANT_ALPHA, NV_PGRAPH_BLEND_DFACTOR_CONSTANT_ALPHA),
      (NV097_SET_BLEND_FUNC_DFACTOR_V_ONE_MINUS_CONSTANT_ALPHA, NV_PGRAPH_BLEND_DFACTOR_ONE_MINUS_CONSTANT_ALPHA)]"

definition blend_equations :: "(u32 \<times> u32) list" where
  "blend_equations =
     [(NV097_SET_BLEND_EQUATION_V_FUNC_SUBTRACT, 0),
      (NV097_SET_BLEND_EQUATION_V_FUNC_REVERSE_SUBTRACT, 1),
      (NV097_SET_BLEND_EQUATION_V_FUNC_ADD, 2),
      (NV097_SET_BLEND_EQUATION_V_MIN, 3),
      (NV097_SET_BLEND_EQUATION_V_MAX, 4),
      (NV097_SET_BLEND_EQUATION_V_FUNC_REVERSE_SUBTRACT_SIGNED, 5),
      (NV097_SET_BLEND_EQUATION_V_FUNC_ADD_SIGNED, 6)]"

definition SET_DEPTH_FUNC :: word_handler where
  "SET_DEPTH_FUNC d subchannel meth parameter =
     (if 0x200 \<le> parameter \<and> parameter \<le> 0x207
      then pg_set_mask d NV_PGRAPH_CONTROL_0 NV_PGRAPH_CONTROL_0_ZFUNC (parameter AND 0xF) else Some d)"

definition pgraph_color_write_enabled :: "nv2a \<Rightarrow> bool option" where
  "pgraph_color_write_enabled d = do {
     v \<leftarrow> pgraph_reg_r d NV_PGRAPH_CONTROL_0;
     Some (v AND (NV_PGRAPH_CONTROL_0_ALPHA_WRITE_ENABLE OR NV_PGRAPH_CONTROL_0_RED_WRITE_ENABLE
       OR NV_PGRAPH_CONTROL_0_GREEN_WRITE_ENABLE OR NV_PGRAPH_CONTROL_0_BLUE_WRITE_ENABLE) \<noteq> 0)
   }"

definition pgraph_zeta_write_enabled :: "nv2a \<Rightarrow> bool option" where
  "pgraph_zeta_write_enabled d = do {
     v \<leftarrow> pgraph_reg_r d NV_PGRAPH_CONTROL_0;
     Some (v AND (NV_PGRAPH_CONTROL_0_ZWRITEENABLE OR NV_PGRAPH_CONTROL_0_STENCIL_WRITE_ENABLE) \<noteq> 0)
   }"

definition SET_COLOR_MASK :: word_handler where
  "SET_COLOR_MASK d subchannel meth parameter = do {
     b \<leftarrow> pgraph_color_write_enabled d;
     let d = on_kelvin (\<lambda>pg. pg\<lparr>surface_color := (surface_color pg)
               \<lparr>su_write_enabled_cache := (su_write_enabled_cache (surface_color pg) \<or> b)\<rparr>\<rparr>) d;
     d \<leftarrow> pg_set_mask d NV_PGRAPH_CONTROL_0 NV_PGRAPH_CONTROL_0_ALPHA_WRITE_ENABLE
            (flag (parameter AND NV097_SET_COLOR_MASK_ALPHA_WRITE_ENABLE \<noteq> 0));
     d \<leftarrow> pg_set_mask d NV_PGRAPH_CONTROL_0 NV_PGRAPH_CONTROL_0_RED_WRITE_ENABLE
            (flag (parameter AND NV097_SET_COLOR_MASK_RED_WRITE_ENABLE \<noteq> 0));
     d \<leftarrow> pg_set_mask d NV_PGRAPH_CONTROL_0 NV_PGRAPH_CONTROL_0_GREEN_WRITE_ENABLE
            (flag (parameter AND NV097_SET_COLOR_MASK_GREEN_WRITE_ENABLE \<noteq> 0));
     pg_set_mask d NV_PGRAPH_CONTROL_0 NV_PGRAPH_CONTROL_0_BLUE_WRITE_ENABLE
       (flag (parameter AND NV097_SET_COLOR_MASK_BLUE_WRITE_ENABLE \<noteq> 0))
   }"

definition SET_DEPTH_MASK :: word_handler where
  "SET_DEPTH_MASK d subchannel meth parameter = do {
     b \<leftarrow> pgraph_zeta_write_enabled d;
     let d = on_kelvin (\<lambda>pg. pg\<lparr>surface_zeta := (surface_zeta pg)
               \<lparr>su_write_enabled_cache := (su_write_enabled_cache (surface_zeta pg) \<or> b)\<rparr>\<rparr>) d;
     pg_set_mask d NV_PGRAPH_CONTROL_0 NV_PGRAPH_CONTROL_0_ZWRITEENABLE parameter
   }"

definition blending_rows :: "kelvin_row list" where
  "blending_rows =
     [DEF_METHOD NV097_SET_BLEND_FUNC_SFACTOR (set_known NV_PGRAPH_BLEND NV_PGRAPH_BLEND_SFACTOR blend_sfactors),
      DEF_METHOD NV097_SET_BLEND_FUNC_DFACTOR (set_known NV_PGRAPH_BLEND NV_PGRAPH_BLEND_DFACTOR blend_dfactors),
      DEF_METHOD NV097_SET_BLEND_COLOR (write_reg NV_PGRAPH_BLENDCOLOR),
      DEF_METHOD NV097_SET_BLEND_EQUATION (set_known NV_PGRAPH_BLEND NV_PGRAPH_BLEND_EQN blend_equations),
      DEF_METHOD NV097_SET_DEPTH_FUNC SET_DEPTH_FUNC,
      DEF_METHOD NV097_SET_COLOR_MASK SET_COLOR_MASK,
      DEF_METHOD NV097_SET_DEPTH_MASK SET_DEPTH_MASK,
      DEF_METHOD NV097_SET_STENCIL_MASK (set_field NV_PGRAPH_CONTROL_1 NV_PGRAPH_CONTROL_1_STENCIL_MASK_WRITE),
      DEF_METHOD NV097_SET_STENCIL_FUNC (\<lambda>d s m p. pg_set_mask d NV_PGRAPH_CONTROL_1 NV_PGRAPH_CONTROL_1_STENCIL_FUNC (p AND 0xF)),
      DEF_METHOD NV097_SET_STENCIL_FUNC_REF (set_field NV_PGRAPH_CONTROL_1 NV_PGRAPH_CONTROL_1_STENCIL_REF),
      DEF_METHOD NV097_SET_STENCIL_FUNC_MASK (set_field NV_PGRAPH_CONTROL_1 NV_PGRAPH_CONTROL_1_STENCIL_MASK_READ)]"

definition kelvin_map_stencil_op :: "(u32 \<times> u32) list" where
  "kelvin_map_stencil_op =
     [(NV097_SET_STENCIL_OP_V_KEEP, NV_PGRAPH_CONTROL_2_STENCIL_OP_V_KEEP),
      (NV097_SET_STENCIL_OP_V_ZERO, NV_PGRAPH_CONTROL_2_STENCIL_OP_V_ZERO),
      (NV097_SET_STENCIL_OP_V_REPLACE, NV_PGRAPH_CONTROL_2_STENCIL_OP_V_REPLACE),
      (NV097_SET_STENCIL_OP_V_INCRSAT, NV_PGRAPH_CONTROL_2_STENCIL_OP_V_INCRSAT),
      (NV097_SET_STENCIL_OP_V_DECRSAT, NV_PGRAPH_CONTROL_2_STENCIL_OP_V_DECRSAT),
      (NV097_SET_STENCIL_OP_V_INVERT, NV_PGRAPH_CONTROL_2_STENCIL_OP_V_INVERT),
      (NV097_SET_STENCIL_OP_V_INCR, NV_PGRAPH_CONTROL_2_STENCIL_OP_V_INCR),
      (NV097_SET_STENCIL_OP_V_DECR, NV_PGRAPH_CONTROL_2_STENCIL_OP_V_DECR)]"

definition kelvin_map_polygon_mode :: "(u32 \<times> u32) list" where
  "kelvin_map_polygon_mode =
     [(NV097_SET_FRONT_POLYGON_MODE_V_POINT, NV_PGRAPH_SETUPRASTER_FRONTFACEMODE_POINT),
      (NV097_SET_FRONT_POLYGON_MODE_V_LINE, NV_PGRAPH_SETUPRASTER_FRONTFACEMODE_LINE),
      (NV097_SET_FRONT_POLYGON_MODE_V_FILL, NV_PGRAPH_SETUPRASTER_FRONTFACEMODE_FILL)]"

definition cull_faces :: "(u32 \<times> u32) list" where
  "cull_faces =
     [(NV097_SET_CULL_FACE_V_FRONT, NV_PGRAPH_SETUPRASTER_CULLCTRL_FRONT),
      (NV097_SET_CULL_FACE_V_BACK, NV_PGRAPH_SETUPRASTER_CULLCTRL_BACK),
      (NV097_SET_CULL_FACE_V_FRONT_AND_BACK, NV_PGRAPH_SETUPRASTER_CULLCTRL_FRONT_AND_BACK)]"

definition SET_PROVOKING_VERTEX :: word_handler where
  "SET_PROVOKING_VERTEX d subchannel meth parameter = do {
     assert_that (parameter AND NOT 1 = 0);
     pg_set_mask d NV_PGRAPH_CONTROL_3 NV_PGRAPH_CONTROL_3_PROVOKING_VERTEX parameter
   }"

definition raster_rows :: "kelvin_row list" where
  "raster_rows =
     [DEF_METHOD NV097_SET_STENCIL_OP_FAIL (set_mapped NV_PGRAPH_CONTROL_2 NV_PGRAPH_CONTROL_2_STENCIL_OP_FAIL kelvin_map_stencil_op),
      DEF_METHOD NV097_SET_STENCIL_OP_ZFAIL (set_mapped NV_PGRAPH_CONTROL_2 NV_PGRAPH_CONTROL_2_STENCIL_OP_ZFAIL kelvin_map_stencil_op),
      DEF_METHOD NV097_SET_STENCIL_OP_ZPASS (set_mapped NV_PGRAPH_CONTROL_2 NV_PGRAPH_CONTROL_2_STENCIL_OP_ZPASS kelvin_map_stencil_op),
      DEF_METHOD NV097_SET_SHADE_MODE (set_known NV_PGRAPH_CONTROL_3 NV_PGRAPH_CONTROL_3_SHADEMODE
        [(NV097_SET_SHADE_MODE_V_FLAT, NV_PGRAPH_CONTROL_3_SHADEMODE_FLAT),
         (NV097_SET_SHADE_MODE_V_SMOOTH, NV_PGRAPH_CONTROL_3_SHADEMODE_SMOOTH)]),
      DEF_METHOD NV097_SET_PROVOKING_VERTEX SET_PROVOKING_VERTEX,
      DEF_METHOD NV097_SET_POLYGON_OFFSET_SCALE_FACTOR (write_reg NV_PGRAPH_ZOFFSETFACTOR),
      DEF_METHOD NV097_SET_POLYGON_OFFSET_BIAS (write_reg NV_PGRAPH_ZOFFSETBIAS),
      DEF_METHOD NV097_SET_FRONT_POLYGON_MODE (set_mapped NV_PGRAPH_SETUPRASTER NV_PGRAPH_SETUPRASTER_FRONTFACEMODE kelvin_map_polygon_mode),
      DEF_METHOD NV097_SET_BACK_POLYGON_MODE (set_mapped NV_PGRAPH_SETUPRASTER NV_PGRAPH_SETUPRASTER_BACKFACEMODE kelvin_map_polygon_mode),
      DEF_METHOD NV097_SET_CLIP_MIN (write_reg NV_PGRAPH_ZCLIPMIN),
      DEF_METHOD NV097_SET_CLIP_MAX (write_reg NV_PGRAPH_ZCLIPMAX),
      DEF_METHOD NV097_SET_CULL_FACE (set_mapped NV_PGRAPH_SETUPRASTER NV_PGRAPH_SETUPRASTER_CULLCTRL cull_faces),
      DEF_METHOD NV097_SET_FRONT_FACE (set_known NV_PGRAPH_SETUPRASTER NV_PGRAPH_SETUPRASTER_FRONTFACE
        [(NV097_SET_FRONT_FACE_V_CW, 0), (NV097_SET_FRONT_FACE_V_CCW, 1)]),
      DEF_METHOD NV097_SET_NORMALIZATION_ENABLE (set_field NV_PGRAPH_CSV0_C NV_PGRAPH_CSV0_C_NORMALIZATION_ENABLE)]"

section \<open>Materials, texture coordinates and matrices\<close>

definition ltctxa_row :: "nat \<Rightarrow> u32 \<Rightarrow> word_handler" where
  "ltctxa_row row base d subchannel meth parameter = set_ltctxa row (method_slot meth base 4) parameter d"

definition kelvin_map_texgen :: "u32 \<Rightarrow> nat \<Rightarrow> u32 option" where
  "kelvin_map_texgen parameter channel = do {
     assert_that (channel < 4);
     if parameter = NV097_SET_TEXGEN_S_DISABLE then Some NV_PGRAPH_CSV1_A_T0_S_DISABLE
     else if parameter = NV097_SET_TEXGEN_S_EYE_LINEAR then Some NV_PGRAPH_CSV1_A_T0_S_EYE_LINEAR
     else if parameter = NV097_SET_TEXGEN_S_OBJECT_LINEAR then Some NV_PGRAPH_CSV1_A_T0_S_OBJECT_LINEAR
     else if parameter = NV097_SET_TEXGEN_S_SPHERE_MAP
     then do { assert_that (channel < 2); Some NV_PGRAPH_CSV1_A_T0_S_SPHERE_MAP }
     else if parameter = NV097_SET_TEXGEN_S_REFLECTION_MAP
     then do { assert_that (channel < 3); Some NV_PGRAPH_CSV1_A_T0_S_REFLECTION_MAP }
     else if parameter = NV097_SET_TEXGEN_S_NORMAL_MAP
     then do { assert_that (channel < 3); Some NV_PGRAPH_CSV1_A_T0_S_NORMAL_MAP }
     else None
   }"

text \<open>The handlers for the four coordinates differ in the base method, the masks and the channel.\<close>

definition SET_TEXGEN :: "u32 \<Rightarrow> u32 \<Rightarrow> u32 \<Rightarrow> nat \<Rightarrow> word_handler" where
  "SET_TEXGEN base t0 t1 channel d subchannel meth parameter = do {
     let slot = method_slot meth base 16;
     let reg = (if slot < 2 then NV_PGRAPH_CSV1_A else NV_PGRAPH_CSV1_B);
     let m = (if slot mod 2 \<noteq> 0 then t1 else t0);
     v \<leftarrow> kelvin_map_texgen parameter channel;
     pg_set_mask d reg m v
   }"

definition SET_TEXTURE_MATRIX_ENABLE :: word_handler where
  "SET_TEXTURE_MATRIX_ENABLE d subchannel meth parameter = do {
     let slot = method_slot meth NV097_SET_TEXTURE_MATRIX_ENABLE 4;
     assert_that (slot < NV2A_MAX_TEXTURES);
     Some (on_kelvin (\<lambda>pg. pg\<lparr>texture_matrix_enable := (texture_matrix_enable pg)(slot := (parameter \<noteq> 0))\<rparr>) d)
   }"

definition SET_POINT_SIZE :: word_handler where
  "SET_POINT_SIZE d subchannel meth parameter =
     (if parameter > NV097_SET_POINT_SIZE_V_MAX then Some d else pgraph_reg_w d NV_PGRAPH_POINTSIZE parameter)"

definition material_rows :: "kelvin_row list" where
  "material_rows =
     [DEF_METHOD_INC NV097_SET_MATERIAL_EMISSION 3 (ltctxa_row NV_IGRAPH_XF_LTCTXA_CM_COL NV097_SET_MATERIAL_EMISSION),
      DEF_METHOD NV097_SET_MATERIAL_ALPHA (\<lambda>d s m p. Some (on_kelvin (\<lambda>pg. pg\<lparr>material_alpha := p\<rparr>) d)),
      DEF_METHOD NV097_SET_SPECULAR_ENABLE (set_field NV_PGRAPH_CSV0_C NV_PGRAPH_CSV0_C_SPECULAR_ENABLE),
      DEF_METHOD NV097_SET_LIGHT_ENABLE_MASK (set_field NV_PGRAPH_CSV0_D NV_PGRAPH_CSV0_D_LIGHTS),
      DEF_METHOD_CASE_4 NV097_SET_TEXGEN_S 0 16 (SET_TEXGEN NV097_SET_TEXGEN_S NV_PGRAPH_CSV1_A_T0_S NV_PGRAPH_CSV1_A_T1_S 0),
      DEF_METHOD_CASE_4 NV097_SET_TEXGEN_T 0 16 (SET_TEXGEN NV097_SET_TEXGEN_T NV_PGRAPH_CSV1_A_T0_T NV_PGRAPH_CSV1_A_T1_T 1),
      DEF_METHOD_CASE_4 NV097_SET_TEXGEN_R 0 16 (SET_TEXGEN NV097_SET_TEXGEN_R NV_PGRAPH_CSV1_A_T0_R NV_PGRAPH_CSV1_A_T1_R 2),
      DEF_METHOD_CASE_4 NV097_SET_TEXGEN_Q 0 16 (SET_TEXGEN NV097_SET_TEXGEN_Q NV_PGRAPH_CSV1_A_T0_Q NV_PGRAPH_CSV1_A_T1_Q 3),
      DEF_METHOD_INC NV097_SET_TEXTURE_MATRIX_ENABLE 4 SET_TEXTURE_MATRIX_ENABLE,
      DEF_METHOD NV097_SET_POINT_SIZE SET_POINT_SIZE]"

text \<open>A matrix of four rows, and an array of matrices whose places are eight rows apart.\<close>

definition set_matrix :: "nat \<Rightarrow> u32 \<Rightarrow> word_handler" where
  "set_matrix row base d subchannel meth parameter =
     (let slot = method_slot meth base 4 in set_vsh_constant (row + slot div 4) (slot mod 4) parameter d)"

definition set_matrices :: "nat \<Rightarrow> u32 \<Rightarrow> word_handler" where
  "set_matrices row base d subchannel meth parameter =
     (let slot = method_slot meth base 4; matnum = slot div 16; entry = slot mod 16
      in set_vsh_constant (row + matnum * 8 + entry div 4) (entry mod 4) parameter d)"

definition set_vector :: "nat \<Rightarrow> u32 \<Rightarrow> word_handler" where
  "set_vector row base d subchannel meth parameter = set_vsh_constant row (method_slot meth base 4) parameter d"

definition SET_FOG_PARAMS :: word_handler where
  "SET_FOG_PARAMS d subchannel meth parameter = do {
     let slot = method_slot meth NV097_SET_FOG_PARAMS 4;
     d \<leftarrow> (if slot < 2 then pgraph_reg_w d (NV_PGRAPH_FOGPARAM0 + slot * 4) parameter else Some d);
     set_ltctxa NV_IGRAPH_XF_LTCTXA_FOG_K slot parameter d
   }"

definition SET_SPECULAR_PARAMS :: "kelvin_ops \<Rightarrow> word_handler" where
  "SET_SPECULAR_PARAMS k d subchannel meth parameter = do {
     let slot = method_slot meth NV097_SET_SPECULAR_PARAMS 4;
     assert_that (slot < 6);
     let d = on_kelvin (\<lambda>pg. pg\<lparr>specular_params := (specular_params pg)(slot := parameter)\<rparr>) d;
     Some (if slot = 5 then on_kelvin (\<lambda>pg. pg\<lparr>specular_power := ko_specular_power k (specular_params pg)\<rparr>) d else d)
   }"

definition SET_POINT_PARAMS :: word_handler where
  "SET_POINT_PARAMS d subchannel meth parameter = do {
     let slot = method_slot meth NV097_SET_POINT_PARAMS 4;
     assert_that (slot < 8);
     Some (on_kelvin (\<lambda>pg. pg\<lparr>point_params := (point_params pg)(slot := parameter)\<rparr>) d)
   }"

definition matrix_rows :: "kelvin_ops \<Rightarrow> kelvin_row list" where
  "matrix_rows k =
     [DEF_METHOD_INC NV097_SET_PROJECTION_MATRIX 16 (set_matrix NV_IGRAPH_XF_XFCTX_PMAT0 NV097_SET_PROJECTION_MATRIX),
      DEF_METHOD_INC NV097_SET_MODEL_VIEW_MATRIX 64 (set_matrices NV_IGRAPH_XF_XFCTX_MMAT0 NV097_SET_MODEL_VIEW_MATRIX),
      DEF_METHOD_INC NV097_SET_INVERSE_MODEL_VIEW_MATRIX 64
        (set_matrices NV_IGRAPH_XF_XFCTX_IMMAT0 NV097_SET_INVERSE_MODEL_VIEW_MATRIX),
      DEF_METHOD_INC NV097_SET_COMPOSITE_MATRIX 16 (set_matrix NV_IGRAPH_XF_XFCTX_CMAT0 NV097_SET_COMPOSITE_MATRIX),
      DEF_METHOD_INC NV097_SET_TEXTURE_MATRIX 64 (set_matrices NV_IGRAPH_XF_XFCTX_T0MAT NV097_SET_TEXTURE_MATRIX),
      DEF_METHOD_INC NV097_SET_FOG_PARAMS 3 SET_FOG_PARAMS,
      DEF_METHOD_INC NV097_SET_TEXGEN_PLANE_S 64 (set_matrices NV_IGRAPH_XF_XFCTX_TG0MAT NV097_SET_TEXGEN_PLANE_S),
      DEF_METHOD NV097_SET_TEXGEN_VIEW_MODEL (set_field NV_PGRAPH_CSV0_D NV_PGRAPH_CSV0_D_TEXGEN_REF),
      DEF_METHOD_INC NV097_SET_FOG_PLANE 4 (set_vector NV_IGRAPH_XF_XFCTX_FOG NV097_SET_FOG_PLANE),
      DEF_METHOD_INC NV097_SET_SPECULAR_PARAMS 6 (SET_SPECULAR_PARAMS k)]"

definition combiner_rows :: "kelvin_row list" where
  "combiner_rows =
     [DEF_METHOD_INC NV097_SET_SCENE_AMBIENT_COLOR 3 (ltctxa_row NV_IGRAPH_XF_LTCTXA_FR_AMB NV097_SET_SCENE_AMBIENT_COLOR),
      DEF_METHOD_INC NV097_SET_VIEWPORT_OFFSET 4 (set_vector NV_IGRAPH_XF_XFCTX_VPOFF NV097_SET_VIEWPORT_OFFSET),
      DEF_METHOD_INC NV097_SET_POINT_PARAMS 8 SET_POINT_PARAMS,
      DEF_METHOD_INC NV097_SET_EYE_POSITION 4 (set_vector NV_IGRAPH_XF_XFCTX_EYEP NV097_SET_EYE_POSITION),
      DEF_METHOD_INC NV097_SET_COMBINER_FACTOR0 8 (set_reg_slot NV_PGRAPH_COMBINEFACTOR0 NV097_SET_COMBINER_FACTOR0 4),
      DEF_METHOD_INC NV097_SET_COMBINER_FACTOR1 8 (set_reg_slot NV_PGRAPH_COMBINEFACTOR1 NV097_SET_COMBINER_FACTOR1 4),
      DEF_METHOD_INC NV097_SET_COMBINER_ALPHA_OCW 8 (set_reg_slot NV_PGRAPH_COMBINEALPHAO0 NV097_SET_COMBINER_ALPHA_OCW 4),
      DEF_METHOD_INC NV097_SET_COMBINER_COLOR_ICW 8 (set_reg_slot NV_PGRAPH_COMBINECOLORI0 NV097_SET_COMBINER_COLOR_ICW 4),
      DEF_METHOD_INC NV097_SET_COLOR_KEY_COLOR 4 (set_reg_slot NV_PGRAPH_COLORKEYCOLOR0 NV097_SET_COLOR_KEY_COLOR 4),
      DEF_METHOD_INC NV097_SET_VIEWPORT_SCALE 4 (set_vector NV_IGRAPH_XF_XFCTX_VPSCL NV097_SET_VIEWPORT_SCALE)]"

section \<open>Vertex programs and their constants\<close>

definition SET_TRANSFORM_PROGRAM :: word_handler where
  "SET_TRANSFORM_PROGRAM d subchannel meth parameter = do {
     let slot = method_slot meth NV097_SET_TRANSFORM_PROGRAM 4;
     program_load \<leftarrow> pg_get_mask d NV_PGRAPH_CHEOPS_OFFSET NV_PGRAPH_CHEOPS_OFFSET_PROG_LD_PTR;
     assert_that (unat program_load < NV2A_MAX_TRANSFORM_PROGRAM_LENGTH);
     let d = on_kelvin (\<lambda>pg. pg\<lparr>program_data := set_component (unat program_load) (slot mod 4) parameter (program_data pg),
                                program_data_dirty := True\<rparr>) d;
     if slot mod 4 = 3
     then pg_set_mask d NV_PGRAPH_CHEOPS_OFFSET NV_PGRAPH_CHEOPS_OFFSET_PROG_LD_PTR (program_load + 1)
     else Some d
   }"

definition SET_TRANSFORM_CONSTANT :: word_handler where
  "SET_TRANSFORM_CONSTANT d subchannel meth parameter = do {
     let slot = method_slot meth NV097_SET_TRANSFORM_CONSTANT 4;
     const_load \<leftarrow> pg_get_mask d NV_PGRAPH_CHEOPS_OFFSET NV_PGRAPH_CHEOPS_OFFSET_CONST_LD_PTR;
     let row = unat const_load;
     assert_that (row < NV2A_VERTEXSHADER_CONSTANTS);
     let d = d\<lparr>vsh_constants_dirty := (vsh_constants_dirty d)
                 (row := vsh_constants_dirty d row \<or> parameter \<noteq> vsh_constants d row (slot mod 4)),
               vsh_constants := set_component row (slot mod 4) parameter (vsh_constants d)\<rparr>;
     if slot mod 4 = 3
     then pg_set_mask d NV_PGRAPH_CHEOPS_OFFSET NV_PGRAPH_CHEOPS_OFFSET_CONST_LD_PTR (const_load + 1)
     else Some d
   }"

section \<open>Lights\<close>

definition SET_BACK_LIGHT :: word_handler where
  "SET_BACK_LIGHT d subchannel meth parameter = do {
     let slot = method_slot meth NV097_SET_BACK_LIGHT_AMBIENT_COLOR 4;
     let part = slot mod 16;  \<comment> \<open>in words from the first property\<close>
     let slot = slot div 16;
     assert_that (slot < 8);
     if part < 3 then set_ltctxb (NV_IGRAPH_XF_LTCTXB_L0_BAMB + slot * 6) part parameter d
     else if part < 6 then set_ltctxb (NV_IGRAPH_XF_LTCTXB_L0_BDIF + slot * 6) (part - 3) parameter d
     else if part < 9 then set_ltctxb (NV_IGRAPH_XF_LTCTXB_L0_BSPC + slot * 6) (part - 6) parameter d
     else None
   }"

definition SET_LIGHT :: word_handler where
  "SET_LIGHT d subchannel meth parameter = do {
     let slot = method_slot meth NV097_SET_LIGHT_AMBIENT_COLOR 4;
     let part = slot mod 32;  \<comment> \<open>in words from the first property\<close>
     let slot = slot div 32;
     assert_that (slot < 8);
     if part < 3 then set_ltctxb (NV_IGRAPH_XF_LTCTXB_L0_AMB + slot * 6) part parameter d
     else if part < 6 then set_ltctxb (NV_IGRAPH_XF_LTCTXB_L0_DIF + slot * 6) (part - 3) parameter d
     else if part < 9 then set_ltctxb (NV_IGRAPH_XF_LTCTXB_L0_SPC + slot * 6) (part - 6) parameter d
     else if part = 9 then set_ltc1 (NV_IGRAPH_XF_LTC1_r0 + slot) 0 parameter d
     else if part < 13 then Some (on_kelvin (\<lambda>pg. pg\<lparr>light_infinite_half_vector :=
       set_component slot (part - 10) parameter (light_infinite_half_vector pg)\<rparr>) d)
     else if part < 16 then Some (on_kelvin (\<lambda>pg. pg\<lparr>light_infinite_direction :=
       set_component slot (part - 13) parameter (light_infinite_direction pg)\<rparr>) d)
     else if part < 19 then set_ltctxa (NV_IGRAPH_XF_LTCTXA_L0_K + slot * 2) (part - 16) parameter d
     else if part < 23 then set_ltctxa (NV_IGRAPH_XF_LTCTXA_L0_SPT + slot * 2) (part - 19) parameter d
     else if part < 26 then Some (on_kelvin (\<lambda>pg. pg\<lparr>light_local_position :=
       set_component slot (part - 23) parameter (light_local_position pg)\<rparr>) d)
     else if part < 29 then Some (on_kelvin (\<lambda>pg. pg\<lparr>light_local_attenuation :=
       set_component slot (part - 26) parameter (light_local_attenuation pg)\<rparr>) d)
     else None
   }"

definition light_rows :: "kelvin_row list" where
  "light_rows =
     [DEF_METHOD_INC NV097_SET_TRANSFORM_PROGRAM 32 SET_TRANSFORM_PROGRAM,
      DEF_METHOD_INC NV097_SET_TRANSFORM_CONSTANT 32 SET_TRANSFORM_CONSTANT,
      DEF_METHOD_INC NV097_SET_BACK_LIGHT_AMBIENT_COLOR 128 SET_BACK_LIGHT,
      DEF_METHOD_INC NV097_SET_LIGHT_AMBIENT_COLOR 256 SET_LIGHT]"

section \<open>Vertices and drawing\<close>

text \<open>The fog coordinate and the single weight have no loop over parameters.\<close>

definition vertex_rows :: "kelvin_row list" where
  "vertex_rows = map (\<lambda>(base, n, h).
     let handler = (\<lambda>d s m p. on_draw (\<lambda>pg. h pg (method_slot m (of_nat base) 4) p) d)
     in if base = 0x1698 \<or> base = 0x169C then DEF_METHOD (of_nat base) handler
        else DEF_METHOD_INC (of_nat base) n handler) vertex_methods"

definition vertex_array_rows :: "kelvin_row list" where
  "vertex_array_rows =
     [DEF_METHOD_INC NV097_SET_VERTEX_DATA_ARRAY_FORMAT 16 (\<lambda>d s m p.
        on_draw (\<lambda>pg. SET_VERTEX_DATA_ARRAY_FORMAT pg (method_slot m NV097_SET_VERTEX_DATA_ARRAY_FORMAT 4) p) d),
      DEF_METHOD_INC NV097_SET_VERTEX_DATA_ARRAY_OFFSET 16 (\<lambda>d s m p.
        on_draw (\<lambda>pg. SET_VERTEX_DATA_ARRAY_OFFSET pg (method_slot m NV097_SET_VERTEX_DATA_ARRAY_OFFSET 4) p) d)]"

text \<open>A report is a time stamp that does not change, the count and a word of zeros.\<close>

definition stq_le_p :: "memory \<Rightarrow> nat \<Rightarrow> u64 \<Rightarrow> memory" where
  "stq_le_p m a v = dma_write m a (le32_bytes (ucast v) @ le32_bytes (ucast (drop_bit 32 v)))"

definition pgraph_write_zpass_pixel_cnt_report :: "nv2a \<Rightarrow> u32 \<Rightarrow> u32 \<Rightarrow> nv2a option" where
  "pgraph_write_zpass_pixel_cnt_report d parameter result = do {
     let timestamp = 0x0011223344556677;
     let done_word = 0;
     (report_data, report_dma_len) \<leftarrow> nv_dma_map d (unat (dma_report (pg_kelvin d)));
     let offset = get_mask parameter NV097_GET_REPORT_OFFSET;
     assert_that (ucast offset < report_dma_len);
     let report_data = report_data + unat offset;
     assert_that (report_data + 16 \<le> vram_size d);  \<comment> \<open>inside the memory\<close>
     Some (d\<lparr>vram := stl_le_p (stl_le_p (stq_le_p (vram d) report_data timestamp) (report_data + 8) result)
                     (report_data + 12) done_word\<rparr>)
   }"

definition GET_REPORT :: "kelvin_ops \<Rightarrow> word_handler" where
  "GET_REPORT k d subchannel meth parameter = do {
     assert_that (get_mask parameter NV097_GET_REPORT_TYPE = NV097_GET_REPORT_TYPE_ZPASS_PIXEL_CNT);
     ko_get_report k d parameter
   }"

definition report_rows :: "kelvin_ops \<Rightarrow> kelvin_row list" where
  "report_rows k =
     [DEF_METHOD NV097_SET_LOGIC_OP_ENABLE (set_field NV_PGRAPH_BLEND NV_PGRAPH_BLEND_LOGICOP_ENABLE),
      DEF_METHOD NV097_SET_LOGIC_OP (\<lambda>d s m p. pg_set_mask d NV_PGRAPH_BLEND NV_PGRAPH_BLEND_LOGICOP (p AND 0xF)),
      DEF_METHOD NV097_CLEAR_REPORT_VALUE (\<lambda>d s m p. Some (ko_clear_report_value k d)),
      DEF_METHOD NV097_SET_ZPASS_PIXEL_COUNT_ENABLE (\<lambda>d s m p. Some (on_kelvin (\<lambda>pg. pg\<lparr>zpass_pixel_count_enable := (p \<noteq> 0)\<rparr>) d)),
      DEF_METHOD NV097_GET_REPORT (GET_REPORT k),
      DEF_METHOD_INC NV097_SET_EYE_DIRECTION 3 (ltctxa_row NV_IGRAPH_XF_LTCTXA_EYED NV097_SET_EYE_DIRECTION)]"

definition draw_rows :: "kelvin_ops \<Rightarrow> kelvin_row list" where
  "draw_rows k =
     [DEF_METHOD NV097_SET_BEGIN_END (\<lambda>d s m p. on_draw (\<lambda>pg. SET_BEGIN_END (ko_draw k) pg p) d),
      DEF_METHOD_NON_INC NV097_ARRAY_ELEMENT16 (\<lambda>d s m p. on_draw (\<lambda>pg. ARRAY_ELEMENT16 (ko_draw k) pg p) d),
      DEF_METHOD_NON_INC NV097_ARRAY_ELEMENT32 (\<lambda>d s m p. on_draw (\<lambda>pg. ARRAY_ELEMENT32 (ko_draw k) pg p) d),
      DEF_METHOD NV097_DRAW_ARRAYS (\<lambda>d s m p. on_draw (\<lambda>pg. DRAW_ARRAYS pg p) d),
      DEF_METHOD_NON_INC NV097_INLINE_ARRAY (\<lambda>d s m p. on_draw (\<lambda>pg. INLINE_ARRAY pg p) d),
      DEF_METHOD_INC NV097_SET_EYE_VECTOR 3 (set_reg_slot NV_PGRAPH_EYEVEC0 NV097_SET_EYE_VECTOR 4)]"

section \<open>Textures\<close>

definition set_texture_reg :: "nat \<Rightarrow> u32 \<Rightarrow> word_handler" where
  "set_texture_reg reg base d subchannel meth parameter = do {
     let slot = method_slot meth base 64;
     d \<leftarrow> pgraph_reg_w d (reg + slot * 4) parameter;
     touch_texture slot d
   }"

fun set_fields :: "nat \<Rightarrow> (u32 \<times> u32) list \<Rightarrow> nv2a \<Rightarrow> nv2a option" where
  "set_fields reg [] d = Some d"
| "set_fields reg ((m, v) # fs) d = do { d \<leftarrow> pg_set_mask d reg m v; set_fields reg fs d }"

definition SET_TEXTURE_FORMAT :: word_handler where
  "SET_TEXTURE_FORMAT d subchannel meth parameter = do {
     let slot = method_slot meth NV097_SET_TEXTURE_FORMAT 64;
     d \<leftarrow> set_fields (NV_PGRAPH_TEXFMT0 + slot * 4)
       [(NV_PGRAPH_TEXFMT0_CONTEXT_DMA, flag (get_mask parameter NV097_SET_TEXTURE_FORMAT_CONTEXT_DMA = 2)),
        (NV_PGRAPH_TEXFMT0_CUBEMAPENABLE, flag (get_mask parameter NV097_SET_TEXTURE_FORMAT_CUBEMAP_ENABLE \<noteq> 0)),
        (NV_PGRAPH_TEXFMT0_BORDER_SOURCE, get_mask parameter NV097_SET_TEXTURE_FORMAT_BORDER_SOURCE),
        (NV_PGRAPH_TEXFMT0_DIMENSIONALITY, get_mask parameter NV097_SET_TEXTURE_FORMAT_DIMENSIONALITY),
        (NV_PGRAPH_TEXFMT0_COLOR, get_mask parameter NV097_SET_TEXTURE_FORMAT_COLOR),
        (NV_PGRAPH_TEXFMT0_MIPMAP_LEVELS, get_mask parameter NV097_SET_TEXTURE_FORMAT_MIPMAP_LEVELS),
        (NV_PGRAPH_TEXFMT0_BASE_SIZE_U, get_mask parameter NV097_SET_TEXTURE_FORMAT_BASE_SIZE_U),
        (NV_PGRAPH_TEXFMT0_BASE_SIZE_V, get_mask parameter NV097_SET_TEXTURE_FORMAT_BASE_SIZE_V),
        (NV_PGRAPH_TEXFMT0_BASE_SIZE_P, get_mask parameter NV097_SET_TEXTURE_FORMAT_BASE_SIZE_P)] d;
     touch_texture slot d
   }"

definition SET_TEXTURE_PALETTE :: word_handler where
  "SET_TEXTURE_PALETTE d subchannel meth parameter = do {
     let slot = method_slot meth NV097_SET_TEXTURE_PALETTE 64;
     d \<leftarrow> set_fields (NV_PGRAPH_TEXPALETTE0 + slot * 4)
       [(NV_PGRAPH_TEXPALETTE0_CONTEXT_DMA, flag (get_mask parameter NV097_SET_TEXTURE_PALETTE_CONTEXT_DMA = 1)),
        (NV_PGRAPH_TEXPALETTE0_LENGTH, get_mask parameter NV097_SET_TEXTURE_PALETTE_LENGTH),
        (NV_PGRAPH_TEXPALETTE0_OFFSET, get_mask parameter NV097_SET_TEXTURE_PALETTE_OFFSET)] d;
     touch_texture slot d
   }"

definition SET_TEXTURE_SET_BUMP_ENV_MAT :: word_handler where
  "SET_TEXTURE_SET_BUMP_ENV_MAT d subchannel meth parameter =
     (let slot = method_slot meth NV097_SET_TEXTURE_SET_BUMP_ENV_MAT 4 in
      if slot < 16 then Some d
      else let slot = slot - 16;
               swizzle = [NV_PGRAPH_BUMPMAT00, NV_PGRAPH_BUMPMAT01, NV_PGRAPH_BUMPMAT11, NV_PGRAPH_BUMPMAT10]
           in pgraph_reg_w d (swizzle ! (slot mod 4) + slot div 4) parameter)"

definition set_bump_reg :: "nat \<Rightarrow> u32 \<Rightarrow> word_handler" where
  "set_bump_reg reg base d subchannel meth parameter =
     (let slot = method_slot meth base 64 in
      if slot = 0 then Some d else pgraph_reg_w d (reg + (slot - 1) * 4) parameter)"

definition texture_rows :: "kelvin_row list" where
  "texture_rows =
     [DEF_METHOD_CASE_4 NV097_SET_TEXTURE_OFFSET 0 64 (set_texture_reg NV_PGRAPH_TEXOFFSET0 NV097_SET_TEXTURE_OFFSET),
      DEF_METHOD_CASE_4 NV097_SET_TEXTURE_FORMAT 0 64 SET_TEXTURE_FORMAT,
      DEF_METHOD_CASE_4 NV097_SET_TEXTURE_CONTROL0 0 64 (set_texture_reg NV_PGRAPH_TEXCTL0_0 NV097_SET_TEXTURE_CONTROL0),
      DEF_METHOD_CASE_4 NV097_SET_TEXTURE_CONTROL1 0 64 (set_texture_reg NV_PGRAPH_TEXCTL1_0 NV097_SET_TEXTURE_CONTROL1),
      DEF_METHOD_CASE_4 NV097_SET_TEXTURE_FILTER 0 64 (set_texture_reg NV_PGRAPH_TEXFILTER0 NV097_SET_TEXTURE_FILTER),
      DEF_METHOD_CASE_4 NV097_SET_TEXTURE_IMAGE_RECT 0 64 (set_texture_reg NV_PGRAPH_TEXIMAGERECT0 NV097_SET_TEXTURE_IMAGE_RECT),
      DEF_METHOD_CASE_4 NV097_SET_TEXTURE_PALETTE 0 64 SET_TEXTURE_PALETTE,
      DEF_METHOD_CASE_4 NV097_SET_TEXTURE_BORDER_COLOR 0 64 (set_reg_slot NV_PGRAPH_BORDERCOLOR0 NV097_SET_TEXTURE_BORDER_COLOR 64),
      DEF_METHOD_CASE_4 NV097_SET_TEXTURE_SET_BUMP_ENV_MAT 0 64 SET_TEXTURE_SET_BUMP_ENV_MAT,
      DEF_METHOD_CASE_4 NV097_SET_TEXTURE_SET_BUMP_ENV_MAT 4 64 SET_TEXTURE_SET_BUMP_ENV_MAT,
      DEF_METHOD_CASE_4 NV097_SET_TEXTURE_SET_BUMP_ENV_MAT 8 64 SET_TEXTURE_SET_BUMP_ENV_MAT,
      DEF_METHOD_CASE_4 NV097_SET_TEXTURE_SET_BUMP_ENV_MAT 12 64 SET_TEXTURE_SET_BUMP_ENV_MAT,
      DEF_METHOD_CASE_4 NV097_SET_TEXTURE_SET_BUMP_ENV_SCALE 0 64 (set_bump_reg NV_PGRAPH_BUMPSCALE1 NV097_SET_TEXTURE_SET_BUMP_ENV_SCALE),
      DEF_METHOD_CASE_4 NV097_SET_TEXTURE_SET_BUMP_ENV_OFFSET 0 64 (set_bump_reg NV_PGRAPH_BUMPOFFSET1 NV097_SET_TEXTURE_SET_BUMP_ENV_OFFSET)]"

section \<open>Semaphores, clearing and shaders\<close>

definition BACK_END_WRITE_SEMAPHORE_RELEASE :: "kelvin_ops \<Rightarrow> word_handler" where
  "BACK_END_WRITE_SEMAPHORE_RELEASE k d subchannel meth parameter = do {
     let d = ko_surface_update k d;
     semaphore_offset \<leftarrow> pgraph_reg_r d NV_PGRAPH_SEMAPHOREOFFSET;
     (semaphore_data, semaphore_dma_len) \<leftarrow> nv_dma_map d (unat (dma_semaphore (pg_kelvin d)));
     assert_that (ucast semaphore_offset < semaphore_dma_len);
     let semaphore_data = semaphore_data + unat semaphore_offset;
     assert_that (semaphore_data + 4 \<le> vram_size d);  \<comment> \<open>inside the memory\<close>
     Some (d\<lparr>vram := stl_le_p (vram d) semaphore_data parameter\<rparr>)
   }"

definition SET_ZMIN_MAX_CONTROL :: word_handler where
  "SET_ZMIN_MAX_CONTROL d subchannel meth parameter =
     (let v = get_mask parameter NV097_SET_ZMIN_MAX_CONTROL_ZCLAMP_EN in
      if v = NV097_SET_ZMIN_MAX_CONTROL_ZCLAMP_EN_CULL
      then pg_set_mask d NV_PGRAPH_ZCOMPRESSOCCLUDE NV_PGRAPH_ZCOMPRESSOCCLUDE_ZCLAMP_EN NV_PGRAPH_ZCOMPRESSOCCLUDE_ZCLAMP_EN_CULL
      else if v = NV097_SET_ZMIN_MAX_CONTROL_ZCLAMP_EN_CLAMP
      then pg_set_mask d NV_PGRAPH_ZCOMPRESSOCCLUDE NV_PGRAPH_ZCOMPRESSOCCLUDE_ZCLAMP_EN NV_PGRAPH_ZCOMPRESSOCCLUDE_ZCLAMP_EN_CLAMP
      else None)"

definition SET_SPECULAR_PARAMS_BACK :: "kelvin_ops \<Rightarrow> word_handler" where
  "SET_SPECULAR_PARAMS_BACK k d subchannel meth parameter = do {
     let slot = method_slot meth NV097_SET_SPECULAR_PARAMS_BACK 4;
     assert_that (slot < 6);
     let d = on_kelvin (\<lambda>pg. pg\<lparr>specular_params_back := (specular_params_back pg)(slot := parameter)\<rparr>) d;
     Some (if slot = 5
           then on_kelvin (\<lambda>pg. pg\<lparr>specular_power_back := ko_specular_power k (specular_params_back pg)\<rparr>) d else d)
   }"

definition SET_SHADOW_ZSLOPE_THRESHOLD :: word_handler where
  "SET_SHADOW_ZSLOPE_THRESHOLD d subchannel meth parameter = do {
     d \<leftarrow> pgraph_reg_w d NV_PGRAPH_SHADOWZSLOPETHRESHOLD parameter;
     assert_that (parameter = 0x7F800000);
     Some d
   }"

definition semaphore_rows :: "kelvin_ops \<Rightarrow> kelvin_row list" where
  "semaphore_rows k =
     [DEF_METHOD NV097_SET_SEMAPHORE_OFFSET (write_reg NV_PGRAPH_SEMAPHOREOFFSET),
      DEF_METHOD NV097_BACK_END_WRITE_SEMAPHORE_RELEASE (BACK_END_WRITE_SEMAPHORE_RELEASE k),
      DEF_METHOD NV097_SET_ZMIN_MAX_CONTROL SET_ZMIN_MAX_CONTROL,
      DEF_METHOD NV097_SET_ANTI_ALIASING_CONTROL (\<lambda>d s m p. pg_set_mask d NV_PGRAPH_ANTIALIASING NV_PGRAPH_ANTIALIASING_ENABLE
        (get_mask p NV097_SET_ANTI_ALIASING_CONTROL_ENABLE)),
      DEF_METHOD NV097_SET_ZSTENCIL_CLEAR_VALUE (write_reg NV_PGRAPH_ZSTENCILCLEARVALUE),
      DEF_METHOD NV097_SET_COLOR_CLEAR_VALUE (write_reg NV_PGRAPH_COLORCLEARVALUE),
      DEF_METHOD NV097_CLEAR_SURFACE (\<lambda>d s m p. Some (ko_clear_surface k d p)),
      DEF_METHOD NV097_SET_CLEAR_RECT_HORIZONTAL (write_reg NV_PGRAPH_CLEARRECTX),
      DEF_METHOD NV097_SET_CLEAR_RECT_VERTICAL (write_reg NV_PGRAPH_CLEARRECTY),
      DEF_METHOD_INC NV097_SET_SPECULAR_FOG_FACTOR 2 (set_reg_slot NV_PGRAPH_SPECFOGFACTOR0 NV097_SET_SPECULAR_FOG_FACTOR 4),
      DEF_METHOD_INC NV097_SET_SPECULAR_PARAMS_BACK 6 (SET_SPECULAR_PARAMS_BACK k),
      DEF_METHOD NV097_SET_SHADER_CLIP_PLANE_MODE (write_reg NV_PGRAPH_SHADERCLIPMODE),
      DEF_METHOD_INC NV097_SET_COMBINER_COLOR_OCW 8 (set_reg_slot NV_PGRAPH_COMBINECOLORO0 NV097_SET_COMBINER_COLOR_OCW 4),
      DEF_METHOD NV097_SET_COMBINER_CONTROL (write_reg NV_PGRAPH_COMBINECTL)]"

definition SET_TRANSFORM_DATA :: word_handler where
  "SET_TRANSFORM_DATA d subchannel meth parameter = do {
     let slot = method_slot meth NV097_SET_TRANSFORM_DATA 4;
     assert_that (slot < 4);
     Some (on_kelvin (\<lambda>pg. pg\<lparr>vertex_state_shader_v0 := (vertex_state_shader_v0 pg)(slot := parameter)\<rparr>) d)
   }"

definition LAUNCH_TRANSFORM_PROGRAM :: "kelvin_ops \<Rightarrow> word_handler" where
  "LAUNCH_TRANSFORM_PROGRAM k d subchannel meth parameter = do {
     assert_that (unat parameter < NV2A_MAX_TRANSFORM_PROGRAM_LENGTH);
     (constants, dirty) \<leftarrow> ko_launch k (program_data (pg_kelvin d)) (unat parameter) (vertex_state_shader_v0 (pg_kelvin d))
                             (vsh_constants d, vsh_constants_dirty d);
     Some (d\<lparr>vsh_constants := constants, vsh_constants_dirty := dirty\<rparr>)
   }"

definition SET_TRANSFORM_EXECUTION_MODE :: word_handler where
  "SET_TRANSFORM_EXECUTION_MODE d subchannel meth parameter = do {
     d \<leftarrow> pg_set_mask d NV_PGRAPH_CSV0_D NV_PGRAPH_CSV0_D_MODE (get_mask parameter NV097_SET_TRANSFORM_EXECUTION_MODE_MODE);
     pg_set_mask d NV_PGRAPH_CSV0_D NV_PGRAPH_CSV0_D_RANGE_MODE (get_mask parameter NV097_SET_TRANSFORM_EXECUTION_MODE_RANGE_MODE)
   }"

text \<open>A field that must be below a bound.\<close>

definition set_bounded :: "nat \<Rightarrow> u32 \<Rightarrow> nat \<Rightarrow> word_handler" where
  "set_bounded reg m bound d subchannel meth parameter = do {
     assert_that (unat parameter < bound);
     pg_set_mask d reg m parameter
   }"

definition shader_rows :: "kelvin_ops \<Rightarrow> kelvin_row list" where
  "shader_rows k =
     [DEF_METHOD NV097_SET_SHADOW_ZSLOPE_THRESHOLD SET_SHADOW_ZSLOPE_THRESHOLD,
      DEF_METHOD NV097_SET_SHADOW_DEPTH_FUNC (set_field NV_PGRAPH_SHADOWCTL NV_PGRAPH_SHADOWCTL_SHADOW_ZFUNC),
      DEF_METHOD NV097_SET_SHADER_STAGE_PROGRAM (write_reg NV_PGRAPH_SHADERPROG),
      DEF_METHOD NV097_SET_DOT_RGBMAPPING (\<lambda>d s m p. pg_set_mask d NV_PGRAPH_SHADERCTL 0xFFF (get_mask p 0xFFF)),
      DEF_METHOD NV097_SET_SHADER_OTHER_STAGE_INPUT (\<lambda>d s m p. pg_set_mask d NV_PGRAPH_SHADERCTL 0xFFFF000 (get_mask p 0xFFFF000)),
      DEF_METHOD_INC NV097_SET_TRANSFORM_DATA 4 SET_TRANSFORM_DATA,
      DEF_METHOD NV097_LAUNCH_TRANSFORM_PROGRAM (LAUNCH_TRANSFORM_PROGRAM k),
      DEF_METHOD NV097_SET_TRANSFORM_EXECUTION_MODE SET_TRANSFORM_EXECUTION_MODE,
      DEF_METHOD NV097_SET_TRANSFORM_PROGRAM_CXT_WRITE_EN
        (\<lambda>d s m p. Some (on_kelvin (\<lambda>pg. pg\<lparr>enable_vertex_program_write := (p \<noteq> 0)\<rparr>) d)),
      DEF_METHOD NV097_SET_TRANSFORM_PROGRAM_LOAD
        (set_bounded NV_PGRAPH_CHEOPS_OFFSET NV_PGRAPH_CHEOPS_OFFSET_PROG_LD_PTR NV2A_MAX_TRANSFORM_PROGRAM_LENGTH),
      DEF_METHOD NV097_SET_TRANSFORM_PROGRAM_START
        (set_bounded NV_PGRAPH_CSV0_C NV_PGRAPH_CSV0_C_CHEOPS_PROGRAM_START NV2A_MAX_TRANSFORM_PROGRAM_LENGTH),
      DEF_METHOD NV097_SET_TRANSFORM_CONSTANT_LOAD
        (set_bounded NV_PGRAPH_CHEOPS_OFFSET NV_PGRAPH_CHEOPS_OFFSET_CONST_LD_PTR NV2A_VERTEXSHADER_CONSTANTS)]"

section \<open>The table\<close>

definition kelvin_rows :: "kelvin_ops \<Rightarrow> kelvin_row list" where
  "kelvin_rows k = context_rows k @ surface_rows k @ fog_rows k @ enable_rows @ blending_rows @ raster_rows @ material_rows
     @ matrix_rows k @ combiner_rows @ light_rows @ vertex_rows @ vertex_array_rows @ report_rows k @ draw_rows k
     @ texture_rows @ semaphore_rows k @ shader_rows k"

fun row_has :: "nat \<Rightarrow> kelvin_row \<Rightarrow> bool" where
  "row_has i (base, n, stride, entry) \<longleftrightarrow>
     unat base \<le> 4 * i \<and> (4 * i - unat base) mod stride = 0 \<and> (4 * i - unat base) div stride < n"

definition kelvin_lookup :: "kelvin_row list \<Rightarrow> nat \<Rightarrow> kelvin_entry option" where
  "kelvin_lookup rows i = map_option (\<lambda>(base, n, stride, entry). entry) (find (row_has i) rows)"

definition pgraph_kelvin_methods :: "kelvin_ops \<Rightarrow> nat \<Rightarrow> kelvin_entry option" where
  "pgraph_kelvin_methods k = kelvin_lookup (kelvin_rows k)"

text \<open>The renderer that draws nothing.\<close>

definition pgraph_null_ops :: "((nat \<Rightarrow> u32) \<Rightarrow> u32) \<Rightarrow> ((nat \<Rightarrow> nat \<Rightarrow> u32) \<Rightarrow> nat \<Rightarrow> (nat \<Rightarrow> u32)
    \<Rightarrow> (nat \<Rightarrow> nat \<Rightarrow> u32) \<times> (nat \<Rightarrow> bool) \<Rightarrow> ((nat \<Rightarrow> nat \<Rightarrow> u32) \<times> (nat \<Rightarrow> bool)) option) \<Rightarrow> kelvin_ops" where
  "pgraph_null_ops specular launch =
     \<lparr>ko_surface_update = (\<lambda>d. d), ko_flip_stall = (\<lambda>d. d), ko_process_pending_reports = (\<lambda>d. d),
      ko_clear_report_value = (\<lambda>d. d), ko_get_report = (\<lambda>d p. pgraph_write_zpass_pixel_cnt_report d p 0),
      ko_clear_surface = (\<lambda>d p. d), ko_draw = null_renderer, ko_specular_power = specular, ko_launch = launch\<rparr>"

end
