(* ===== verification/Pusher.thy ===== *)
theory Pusher
  imports Pgraph_Method
begin

text \<open>
  What the DMA pusher of \<^verbatim>\<open>pfifo.c\<close> does with a command stream: a specification that applies the methods of a list of
  packets one word at a time, the encoding of packets as words, and the proof that the pusher, reading these
  words from guest memory, brings about what the specification says, however many words the engine
  takes at a time.

  The locale \<open>method_steps\<close> is the contract between the pusher and the engine that takes the methods.
\<close>

section \<open>Packets\<close>

text \<open>Whether the method goes up by one word for each parameter, the subchannel, the first method, the parameters.\<close>

datatype packet = Packet bool u32 u32 "u32 list"

fun packet_header :: "packet \<Rightarrow> u32" where
  "packet_header (Packet inc s m ps) =
     (if inc then 0 else 0x40000000) OR push_bit 18 (of_nat (length ps)) OR push_bit 13 s OR m"

fun packet_words :: "packet \<Rightarrow> u32 list" where
  "packet_words (Packet inc s m ps) = packet_header (Packet inc s m ps) # ps"

fun packet_subchannel :: "packet \<Rightarrow> u32" where
  "packet_subchannel (Packet inc s m ps) = s"

definition stream_words :: "packet list \<Rightarrow> u32 list" where
  "stream_words qs = concat (map packet_words qs)"

text \<open>The methods that name an object by its handle are left out, as is the method that binds one.\<close>

definition plain_method :: "u32 \<Rightarrow> bool" where
  "plain_method m = (0x100 \<le> m \<and> (m < 0x180 \<or> 0x200 \<le> m))"

definition next_method :: "bool \<Rightarrow> u32 \<Rightarrow> u32" where
  "next_method inc m = (if inc then m + 4 else m)"

fun packet_ok :: "packet \<Rightarrow> bool" where
  "packet_ok (Packet inc s m ps) \<longleftrightarrow> s < 8 \<and> m AND 3 = 0 \<and> unat m < 0x2000 \<and> length ps < 0x800 \<and>
     (inc \<longrightarrow> unat m + 4 * length ps \<le> 0x2000) \<and>
     (\<forall>i < length ps. plain_method (m + (if inc then 4 * of_nat i else 0)))"

type_synonym method_step = "u32 \<Rightarrow> u32 \<Rightarrow> u32 \<Rightarrow> nv2a \<Rightarrow> nv2a option"

fun exec_words :: "method_step \<Rightarrow> (nv2a \<Rightarrow> bool) \<Rightarrow> bool \<Rightarrow> u32 \<Rightarrow> u32 \<Rightarrow> u32 list \<Rightarrow> nv2a \<Rightarrow> nv2a option" where
  "exec_words step ready inc s m [] d = Some d"
| "exec_words step ready inc s m (p # ps) d = do {
     d \<leftarrow> step s m p d;
     assert_that (ready d);
     exec_words step ready inc s (next_method inc m) ps d
   }"

fun exec_packets :: "method_step \<Rightarrow> (nv2a \<Rightarrow> bool) \<Rightarrow> packet list \<Rightarrow> nv2a \<Rightarrow> nv2a option" where
  "exec_packets step ready [] d = Some d"
| "exec_packets step ready (Packet inc s m ps # qs) d = do {
     d \<leftarrow> exec_words step ready inc s m ps d;
     exec_packets step ready qs d
   }"

definition stream_at :: "memory \<Rightarrow> nat \<Rightarrow> u32 list \<Rightarrow> bool" where
  "stream_at mem a ws = (\<forall>i < length ws. ldl_le_p mem (a + 4 * i) = ws ! i)"

lemma stream_at_Cons: "stream_at mem a (w # ws) \<longleftrightarrow> ldl_le_p mem a = w \<and> stream_at mem (a + 4) ws"
  by (auto simp: stream_at_def All_less_Suc2 add.assoc)

lemma stream_at_append: "stream_at mem a (us @ ws) \<longleftrightarrow> stream_at mem a us \<and> stream_at mem (a + 4 * length us) ws"
  by (induction us arbitrary: a) (simp_all add: stream_at_Cons stream_at_def [of _ _ "[]"] add.assoc)

section \<open>Steps\<close>

lemma exec_words_append:
  "exec_words step ready inc s m (us @ ws) d =
   do { d \<leftarrow> exec_words step ready inc s m us d;
        exec_words step ready inc s (if inc then m + 4 * of_nat (length us) else m) ws d }"
proof (induction us arbitrary: m d)
  case (Cons u us)
  then show ?case by (cases "step s m u d") (auto simp: next_method_def algebra_simps assert_that_def)
qed simp

lemma exec_words_ready: "exec_words step ready inc s m ws d = Some e \<Longrightarrow> ready d \<Longrightarrow> ready e"
  by (induction ws arbitrary: m d) (auto simp: bind_eq_Some_conv)

lemma exec_words_regs:
  assumes step: "\<And>s m p d. step s m p (d\<lparr>pfifo_regs := r\<rparr>) = map_option (\<lambda>e. e\<lparr>pfifo_regs := r\<rparr>) (step s m p d)"
    and ready: "\<And>d. ready (d\<lparr>pfifo_regs := r\<rparr>) = ready d"
  shows "exec_words step ready inc s m ws (d\<lparr>pfifo_regs := r\<rparr>)
    = map_option (\<lambda>e. e\<lparr>pfifo_regs := r\<rparr>) (exec_words step ready inc s m ws d)"
proof (induction ws arbitrary: m d)
  case (Cons w ws)
  then show ?case by (cases "step s m w d") (simp_all add: step ready assert_that_def)
qed simp

section \<open>The command in progress\<close>

lemma dma_state_fields:
  "NV_PFIFO_CACHE1_DMA_STATE_METHOD_TYPE = reg_field 0 1" "NV_PFIFO_CACHE1_DMA_STATE_METHOD = reg_field 2 11"
  "NV_PFIFO_CACHE1_DMA_STATE_SUBCHANNEL = reg_field 13 3" "NV_PFIFO_CACHE1_DMA_STATE_METHOD_COUNT = reg_field 18 11"
  "NV_PFIFO_CACHE1_DMA_STATE_ERROR = reg_field 29 3"
  by (simp_all add: reg_field_def mask_eq_exp_minus_1 push_bit_eq_mult)

lemma method_fields:
  "reg_field k w AND reg_field k' w' = 0" if "k + w \<le> k' \<or> k' + w' \<le> k"
  using that by (intro bit_word_eqI) (auto simp: bit_simps bit_reg_field)

lemma and_field: "0 < w \<Longrightarrow> k < 32 \<Longrightarrow> v AND reg_field k w = push_bit k (get_mask v (reg_field k w))"
  by (rule bit_word_eqI) (auto simp: get_mask_field bit_reg_field bit_simps)

text \<open>The registers say that a command is in progress: its kind, subchannel, next method and the words that are missing.\<close>

definition command :: "(nat \<Rightarrow> u32) \<Rightarrow> bool \<Rightarrow> u32 \<Rightarrow> u32 \<Rightarrow> nat \<Rightarrow> bool" where
  "command r inc s m n = (let v = r NV_PFIFO_CACHE1_DMA_STATE in
     get_mask v NV_PFIFO_CACHE1_DMA_STATE_METHOD_TYPE = (if inc then 0 else 1) \<and>
     get_mask v NV_PFIFO_CACHE1_DMA_STATE_SUBCHANNEL = s \<and>
     (0 < n \<longrightarrow> push_bit 2 (get_mask v NV_PFIFO_CACHE1_DMA_STATE_METHOD) = m) \<and>
     unat (get_mask v NV_PFIFO_CACHE1_DMA_STATE_METHOD_COUNT) = n \<and>
     get_mask v NV_PFIFO_CACHE1_DMA_STATE_ERROR = 0)"

definition method_entry :: "u32 \<Rightarrow> u32 \<Rightarrow> u32 \<Rightarrow> u32" where
  "method_entry m ty s = set_mask (set_mask (set_mask 0 NV_PFIFO_CACHE1_METHOD_ADDRESS (drop_bit 2 m))
     NV_PFIFO_CACHE1_METHOD_TYPE ty) NV_PFIFO_CACHE1_METHOD_SUBCHANNEL s"

lemma take_bit_less: "unat (x :: u32) < 2 ^ n \<Longrightarrow> take_bit n x = x"
  by (simp add: word_unat_eq_iff unsigned_take_bit_eq take_bit_nat_eq_self)

lemma method_word:
  fixes m :: u32
  assumes "m AND 3 = 0" and "unat m < 0x2000"
  shows "take_bit 11 (drop_bit 2 m) = drop_bit 2 m" and "push_bit 2 (drop_bit 2 m) = m"
proof -
  have "unat (drop_bit 2 m) = unat m div 2 ^ 2" unfolding unat_drop_bit_eq by (rule drop_bit_eq_div)
  then show "take_bit 11 (drop_bit 2 m) = drop_bit 2 m" using assms(2) by (intro take_bit_less) simp
  have "take_bit 2 m = 0" using assms(1) by (simp add: take_bit_eq_mask mask_eq_exp_minus_1)
  then show "push_bit 2 (drop_bit 2 m) = m" using bits_ident [of 2 m] by simp
qed

lemma method_entry_fields:
  assumes "m AND 3 = 0" and "unat m < 0x2000" and "s < 8"
  shows "method_entry m ty s AND 0x1FFC = m" "get_mask (method_entry m ty s) NV_PFIFO_CACHE1_METHOD_SUBCHANNEL = s"
    "get_mask (method_entry m ty s) NV_PFIFO_CACHE1_METHOD_TYPE = take_bit 1 ty"
proof -
  have s: "take_bit 3 s = s" using assms(3) by (intro take_bit_less) (simp add: word_less_nat_alt)
  have a: "get_mask (method_entry m ty s) (reg_field 2 11) = drop_bit 2 m"
    unfolding method_entry_def dma_state_fields using method_word [OF assms(1,2)]
    by (simp add: get_set_mask_field get_set_mask_other method_fields)
  have f: "(0x1FFC :: u32) = reg_field 2 11" by (rule dma_state_fields(2))
  show "method_entry m ty s AND 0x1FFC = m" unfolding f by (simp add: and_field a method_word [OF assms(1,2)])
  show "get_mask (method_entry m ty s) NV_PFIFO_CACHE1_METHOD_SUBCHANNEL = s"
    "get_mask (method_entry m ty s) NV_PFIFO_CACHE1_METHOD_TYPE = take_bit 1 ty"
    unfolding method_entry_def dma_state_fields by (simp_all add: get_set_mask_field get_set_mask_other method_fields s)
qed

lemma and_3: "m AND 3 = 0 \<longleftrightarrow> unat (m :: u32) mod 4 = 0"
proof -
  have "m AND 3 = take_bit 2 m" by (simp add: take_bit_eq_mask mask_eq_exp_minus_1)
  moreover have "unat (take_bit 2 m) = unat m mod 4" unfolding unsigned_take_bit_eq by (simp add: take_bit_eq_mod)
  ultimately show ?thesis by (simp add: unat_eq_0 [symmetric])
qed

lemma later_method:
  fixes m :: u32
  assumes "m AND 3 = 0" and "unat m + 4 * k < 0x2000"
  shows "unat (m + of_nat (4 * k)) = unat m + 4 * k" and "(m + of_nat (4 * k)) AND 3 = 0"
    and "push_bit 2 (take_bit 11 (word_of_int ((uint m + 4 * int k) div 4))) = m + of_nat (4 * k)"
proof -
  let ?m = "m + of_nat (4 * k)"
  have "unat (of_nat (4 * k) :: u32) = 4 * k" unfolding unat_of_nat using assms(2) by (intro mod_less) simp
  then show u: "unat ?m = unat m + 4 * k" using unat_add_lem [of m "of_nat (4 * k)"] assms(2) by simp
  show a: "?m AND 3 = 0" using assms(1) unfolding and_3 u by presburger
  have i: "uint m + 4 * int k = int (unat m + 4 * k)" by simp
  have "(uint m + 4 * int k) div 4 = int (unat ?m div 4)" unfolding u i by (simp only: zdiv_int of_nat_numeral)
  then have "word_of_int ((uint m + 4 * int k) div 4) = (of_nat (unat ?m div 4) :: u32)"
    by (simp only: of_int_of_nat_eq)
  also have "\<dots> = drop_bit 2 ?m"
  proof -
    have "unat (drop_bit 2 ?m) = unat ?m div 2 ^ 2" unfolding unat_drop_bit_eq by (rule drop_bit_eq_div)
    then show ?thesis unfolding word_unat_eq_iff uno_simps by simp
  qed
  finally have "word_of_int ((uint m + 4 * int k) div 4) = drop_bit 2 ?m" .
  then show "push_bit 2 (take_bit 11 (word_of_int ((uint m + 4 * int k) div 4))) = ?m"
    using method_word [OF a] u assms(2) by simp
qed

section \<open>Headers\<close>

lemma bits_below: "unat (x :: u32) < 2 ^ n \<Longrightarrow> bit x i \<Longrightarrow> i < n"
proof -
  assume x: "unat x < 2 ^ n" "bit x i"
  then have "take_bit n x = x" by (intro take_bit_less)
  then have "bit (take_bit n x) i" using x(2) by simp
  then show "i < n" by (simp add: bit_take_bit_iff)
qed

lemma header_bits:
  assumes "packet_ok (Packet inc s m ps)"
  shows "bit m i \<Longrightarrow> 2 \<le> i \<and> i < 13" "bit s i \<Longrightarrow> i < 3" "bit (of_nat (length ps) :: u32) i \<Longrightarrow> i < 11"
proof -
  have "unat s < 2 ^ 3" "m AND 3 = 0" "unat m < 2 ^ 13" "length ps < 2 ^ 11"
    using assms by (simp_all add: word_less_nat_alt)
  moreover from this have "unat (of_nat (length ps) :: u32) < 2 ^ 11" by (simp add: unat_of_nat)
  moreover have "bit m i \<Longrightarrow> 2 \<le> i"
  proof -
    assume "bit m i"
    have "(3 :: u32) = mask 2" by (simp add: mask_eq_exp_minus_1)
    then have "\<not> bit (m AND mask 2) i" using \<open>m AND 3 = 0\<close> by simp
    then show "2 \<le> i" using \<open>bit m i\<close> bit_imp_le_length [OF \<open>bit m i\<close>] by (simp add: bit_simps)
  qed
  ultimately show "bit m i \<Longrightarrow> 2 \<le> i \<and> i < 13" "bit s i \<Longrightarrow> i < 3" "bit (of_nat (length ps) :: u32) i \<Longrightarrow> i < 11"
    using bits_below by blast+
qed

lemma header_masks:
  "(0xe0030003 :: u32) = reg_field 0 2 OR reg_field 16 2 OR reg_field 29 3" "(0x1fff :: u32) = mask 13"
  "(7 :: u32) = mask 3" "(0x7ff :: u32) = mask 11" "(0x40000000 :: u32) = 2 ^ 30"
  by (simp_all add: reg_field_def mask_eq_exp_minus_1 push_bit_eq_mult)

lemma header_flag: "bit (if inc then 0 else 2 ^ 30 :: u32) i \<longleftrightarrow> \<not> inc \<and> i = 30"
proof (cases inc)
  case False
  have "bit (2 ^ 30 :: u32) i \<longleftrightarrow> i = 30" by (rule bit_exp_word) simp
  then show ?thesis unfolding if_not_P [OF False] using False by blast
qed simp

lemma header_bit:
  fixes c s m :: u32
  assumes "\<And>i. bit m i \<Longrightarrow> 2 \<le> i \<and> i < 13" and "\<And>i. bit s i \<Longrightarrow> i < 3" and "\<And>i. bit c i \<Longrightarrow> i < 11"
  shows "bit ((if inc then 0 else 2 ^ 30) OR push_bit 18 c OR push_bit 13 s OR m) i \<longleftrightarrow> (\<not> inc \<and> i = 30)
    \<or> (18 \<le> i \<and> i < 29 \<and> bit c (i - 18)) \<or> (13 \<le> i \<and> i < 16 \<and> bit s (i - 13)) \<or> (2 \<le> i \<and> i < 13 \<and> bit m i)"
proof -
  note header_flag [of inc i]
  moreover have "bit (push_bit 18 c) i \<longleftrightarrow> 18 \<le> i \<and> i < 29 \<and> bit c (i - 18)"
    using assms(3) [of "i - 18"] by (auto simp: bit_push_bit_iff)
  moreover have "bit (push_bit 13 s) i \<longleftrightarrow> 13 \<le> i \<and> i < 16 \<and> bit s (i - 13)"
    using assms(2) [of "i - 13"] by (auto simp: bit_push_bit_iff)
  moreover have "bit m i \<longleftrightarrow> 2 \<le> i \<and> i < 13 \<and> bit m i" using assms(1) [of i] by blast
  ultimately show ?thesis unfolding bit_or_iff by blast
qed

lemma header_parts:
  fixes c s m :: u32 and inc :: bool
  assumes a: "\<And>i. bit m i \<Longrightarrow> 2 \<le> i \<and> i < 13" "\<And>i. bit s i \<Longrightarrow> i < 3" "\<And>i. bit c i \<Longrightarrow> i < 11"
  defines "w \<equiv> (if inc then 0 else 2 ^ 30) OR push_bit 18 c OR push_bit 13 s OR m"
  shows "w AND (reg_field 0 2 OR reg_field 16 2 OR reg_field 29 3) = (if inc then 0 else 2 ^ 30)" "w AND mask 13 = m"
    "drop_bit 13 w AND mask 3 = s" "drop_bit 18 w AND mask 11 = c"
proof -
  have b: "bit w i \<longleftrightarrow> (\<not> inc \<and> i = 30) \<or> (18 \<le> i \<and> i < 29 \<and> bit c (i - 18))
    \<or> (13 \<le> i \<and> i < 16 \<and> bit s (i - 13)) \<or> (2 \<le> i \<and> i < 13 \<and> bit m i)" for i
    unfolding w_def by (rule header_bit) (use a in blast)+
  show "w AND (reg_field 0 2 OR reg_field 16 2 OR reg_field 29 3) = (if inc then 0 else 2 ^ 30)"
  proof (rule bit_word_eqI)
    fix i
    show "bit (w AND (reg_field 0 2 OR reg_field 16 2 OR reg_field 29 3)) i = bit (if inc then 0 else 2 ^ 30 :: u32) i"
      unfolding bit_and_iff bit_or_iff bit_reg_field b header_flag by auto
  qed
  show "w AND mask 13 = m" "drop_bit 13 w AND mask 3 = s" "drop_bit 18 w AND mask 11 = c"
    using a by (intro bit_word_eqI; simp add: bit_and_iff bit_mask_iff bit_drop_bit_eq b; fastforce)+
qed

lemma header_fields:
  fixes s m :: u32
  assumes ok: "packet_ok (Packet inc s m ps)"
  defines "w \<equiv> packet_header (Packet inc s m ps)"
  shows "w AND 0xe0030003 = (if inc then 0 else 0x40000000)" "w AND 0x1fff = m" "drop_bit 13 w AND 7 = s"
    "drop_bit 18 w AND 0x7ff = of_nat (length ps)"
  unfolding w_def packet_header.simps header_masks using header_parts [OF header_bits [OF ok]] by simp_all

section \<open>One round of the pusher\<close>

text \<open>The registers that the pusher and the puller change while they run.\<close>

definition keeps :: "(nat \<Rightarrow> u32) \<Rightarrow> (nat \<Rightarrow> u32) \<Rightarrow> bool" where
  "keeps r r' = (\<forall>x. x \<notin> {NV_PFIFO_CACHE1_DMA_GET, NV_PFIFO_CACHE1_STATUS, NV_PFIFO_CACHE1_DMA_STATE,
     NV_PFIFO_CACHE1_PULL1, NV_PFIFO_CACHE1_DMA_DCOUNT, NV_PFIFO_CACHE1_DMA_DATA_SHADOW,
     NV_PFIFO_CACHE1_DMA_RSVD_SHADOW} \<longrightarrow> r' x = r x)"

lemma keeps_refl [simp]: "keeps r r"
  by (simp add: keeps_def)

lemma keeps_trans: "keeps r r' \<Longrightarrow> keeps r' r'' \<Longrightarrow> keeps r r''"
  by (simp add: keeps_def)

text \<open>The puller is enabled and the subchannel is bound to the graphics engine.\<close>

definition lane :: "(nat \<Rightarrow> u32) \<Rightarrow> u32 \<Rightarrow> bool" where
  "lane r s = (get_mask (r NV_PFIFO_CACHE1_PULL0) NV_PFIFO_CACHE1_PULL0_ACCESS \<noteq> 0 \<and>
     get_mask (r NV_PFIFO_CACHE1_ENGINE) (push_bit (4 * unat s) 3) = ENGINE_GRAPHICS)"

lemma keeps_lane: "keeps r r' \<Longrightarrow> lane r' s = lane r s"
  by (simp add: keeps_def lane_def)

definition runs :: "nv2a \<Rightarrow> bool" where
  "runs d = (can_fifo_access d \<and> \<not> waiting_for_nop d \<and> \<not> waiting_for_flip d \<and> \<not> waiting_for_context_switch d)"

lemma runs_regs [simp]: "runs (d\<lparr>pfifo_regs := r\<rparr>) = runs d"
  by (simp add: runs_def can_fifo_access_def)

lemma runs_stall: "runs d \<Longrightarrow> pfifo_puller_should_stall d = (False, d)" "runs d \<Longrightarrow> \<not> pfifo_pusher_should_stall d"
  by (simp_all add: runs_def pfifo_puller_should_stall_def pfifo_stall_for_flip_def pfifo_pusher_should_stall_def)

lemma puller_runs:
  assumes "runs d" and "lane (pfifo_regs d) s"
    and "pfifo_regs d NV_PFIFO_CACHE1_STATUS AND NV_PFIFO_CACHE1_STATUS_LOW_MARK = 0"
    and m: "m AND 3 = 0" "unat m < 0x2000" "s < 8" "plain_method m"
    and pm: "pm (pf_set_mask d NV_PFIFO_CACHE1_PULL1 NV_PFIFO_CACHE1_PULL1_ENGINE ENGINE_GRAPHICS) s m p ptr n look inc
      = Some (int k, d')" and "0 < k"
  shows "pfifo_run_puller pm d (method_entry m (if inc then 0 else 1) s) p ptr n look
    = Some (int k, pf_set d' NV_PFIFO_CACHE1_STATUS
        (pfifo_regs d' NV_PFIFO_CACHE1_STATUS OR NV_PFIFO_CACHE1_STATUS_LOW_MARK))"
proof -
  note entry = method_entry_fields [OF m(1-3)]
  have "m \<noteq> 0" "0x100 \<le> m" "\<not> (0x180 \<le> m \<and> m < 0x200)" using m(4) by (auto simp: plain_method_def)
  moreover have "(take_bit 1 (if inc then 0 else 1 :: u32) = 0) = inc" by simp
  moreover have "puller_method pm d s m p ptr n look inc = Some (int k, d')"
    using calculation(3) assms(1,2) pm by (auto simp: puller_method_def lane_def runs_def can_fifo_access_def)
  ultimately show ?thesis
    using assms(2,3) \<open>0 < k\<close> by (simp add: pfifo_run_puller_def runs_stall [OF assms(1)] entry lane_def)
qed

lemma step_size: "0 < k \<Longrightarrow> word_of_int ((int k - 1) * 4) = (of_nat (4 * (k - 1)) :: u32)"
proof -
  assume "0 < k"
  then have "(int k - 1) * 4 = int (4 * (k - 1))" by (simp add: of_nat_diff)
  then show ?thesis by (simp only: of_int_of_nat_eq)
qed

text \<open>The pusher reads at \<open>a\<close> and the guest has written up to \<open>b\<close>, offsets in a DMA object at \<open>dma\<close>.\<close>

definition window :: "(nat \<Rightarrow> u32) \<Rightarrow> nat \<Rightarrow> nat \<Rightarrow> bool" where
  "window r a b = (r NV_PFIFO_CACHE1_DMA_GET = of_nat a \<and> r NV_PFIFO_CACHE1_DMA_PUT = of_nat b \<and>
     a \<le> b \<and> (b - a) mod 4 = 0 \<and> b < 2 ^ 32)"

definition idle :: "(nat \<Rightarrow> u32) \<Rightarrow> bool" where
  "idle r = (get_mask (r NV_PFIFO_CACHE1_DMA_STATE) NV_PFIFO_CACHE1_DMA_STATE_METHOD_COUNT = 0 \<and>
     get_mask (r NV_PFIFO_CACHE1_DMA_STATE) NV_PFIFO_CACHE1_DMA_STATE_ERROR = 0)"

text \<open>The pusher is enabled on a channel in DMA mode, and its DMA object is mapped.\<close>

definition pusher_on :: "nv2a \<Rightarrow> nat \<Rightarrow> u64 \<Rightarrow> bool" where
  "pusher_on d dma dma_len = (let r = pfifo_regs d; push1 = r NV_PFIFO_CACHE1_PUSH1 in
     get_mask (r NV_PFIFO_CACHE1_PUSH0) NV_PFIFO_CACHE1_PUSH0_ACCESS \<noteq> 0 \<and>
     get_mask (r NV_PFIFO_CACHE1_DMA_PUSH) NV_PFIFO_CACHE1_DMA_PUSH_ACCESS \<noteq> 0 \<and>
     get_mask (r NV_PFIFO_CACHE1_DMA_PUSH) NV_PFIFO_CACHE1_DMA_PUSH_STATUS = 0 \<and>
     bit (r NV_PFIFO_MODE) (unat (get_mask push1 NV_PFIFO_CACHE1_PUSH1_CHID)) \<and>
     get_mask push1 NV_PFIFO_CACHE1_PUSH1_MODE = NV_PFIFO_CACHE1_PUSH1_MODE_DMA \<and>
     nv_dma_map d (unat (push_bit 4 (get_mask (r NV_PFIFO_CACHE1_DMA_INSTANCE) NV_PFIFO_CACHE1_DMA_INSTANCE_ADDRESS)))
       = Some (dma, dma_len))"

lemma command_idle: "command r inc s m 0 \<Longrightarrow> idle r"
  by (simp add: command_def idle_def Let_def unat_eq_0)

lemma of_nat_u32: "b < 2 ^ 32 \<Longrightarrow> unat (of_nat b :: u32) = b"
  by (simp add: unat_of_nat)

lemma unat_ucast_64: "unat (ucast (x :: u32) :: u64) = unat x"
  unfolding unsigned_ucast_eq using unat_u32_bound [of x] by (intro take_bit_nat_eq_self_iff [THEN iffD2]) simp

lemma window_words:
  assumes "window r a b" and "a < b"
  shows "of_nat a \<noteq> (of_nat b :: u32)" "unat (of_nat a :: u32) = a" "unat (of_nat b - of_nat a :: u32) = b - a"
proof -
  have u: "unat (of_nat a :: u32) = a" "unat (of_nat b :: u32) = b" using assms by (simp_all add: window_def of_nat_u32)
  show "unat (of_nat a :: u32) = a" by (rule u(1))
  show "of_nat a \<noteq> (of_nat b :: u32)" using u assms(2) by (metis less_irrefl)
  have "(of_nat b - of_nat a :: u32) = of_nat (b - a)" using assms(2) by (simp add: of_nat_diff)
  moreover have "b - a < 2 ^ 32" using assms(1) unfolding window_def by linarith
  ultimately show "unat (of_nat b - of_nat a :: u32) = b - a" by (simp only: of_nat_u32)
qed

lemma window_round:
  assumes w: "window (pfifo_regs d) a b" and "a < b" and "b \<le> unat dma_len" and "dma + b \<le> vram_size d"
  shows "pusher_round pm dma dma_len d = do {
    (g, d) \<leftarrow> (if get_mask (pfifo_regs d NV_PFIFO_CACHE1_DMA_STATE) NV_PFIFO_CACHE1_DMA_STATE_METHOD_COUNT \<noteq> 0
       then pusher_data pm d (of_nat (a + 4)) (ldl_le_p (vram d) (dma + a)) (dma + a) ((b - a) div 4)
       else pusher_command d (of_nat (a + 4)) (ldl_le_p (vram d) (dma + a)));
    case g of None \<Rightarrow> Some (False, d)
    | Some g \<Rightarrow> Some (get_mask (pfifo_regs d NV_PFIFO_CACHE1_DMA_STATE) NV_PFIFO_CACHE1_DMA_STATE_ERROR = 0,
                    pf_set d NV_PFIFO_CACHE1_DMA_GET g) }"
proof -
  have m: "(b - a) mod 4 = 0" and r: "pfifo_regs d NV_PFIFO_CACHE1_DMA_GET = of_nat a"
    "pfifo_regs d NV_PFIFO_CACHE1_DMA_PUT = of_nat b" using w by (simp_all add: window_def)
  have "dma + a + 4 \<le> vram_size d" using assms(2,4) m by presburger
  moreover have "ucast (of_nat a :: u32) < dma_len"
    using window_words(2) [OF w assms(2)] assms(2,3) by (simp add: word_less_nat_alt unat_ucast_64)
  moreover have "(of_nat (a + 4) :: u32) = of_nat a + 4" by simp
  ultimately show ?thesis
    unfolding pusher_round_def Let_def r using window_words [OF w assms(2)] m by simp
qed

lemma window_step:
  assumes "window r a b" and "a + 4 * k \<le> b" and "keeps r r'" and "r' NV_PFIFO_CACHE1_DMA_GET = of_nat (a + 4 * k)"
  shows "window r' (a + 4 * k) b"
proof -
  have "(b - a) mod 4 = 0" using assms(1) by (simp add: window_def)
  then have "(b - (a + 4 * k)) mod 4 = 0" using assms(2) by presburger
  moreover have "r' NV_PFIFO_CACHE1_DMA_PUT = r NV_PFIFO_CACHE1_DMA_PUT" using assms(3) by (simp add: keeps_def)
  ultimately show ?thesis using assms(1,2,4) unfolding window_def by metis
qed

lemma header_command:
  assumes ok: "packet_ok (Packet inc s m ps)" and "idle r"
  shows "\<exists>r'. pusher_command (e\<lparr>pfifo_regs := r\<rparr>) g (packet_header (Packet inc s m ps)) = Some (Some g, e\<lparr>pfifo_regs := r'\<rparr>) \<and>
    keeps r r' \<and> command r' inc s m (length ps)"
proof -
  define w where "w = packet_header (Packet inc s m ps)"
  note f = header_fields [OF ok, folded w_def]
  let ?c = "if inc then 0 else 0x40000000 :: u32"
  have "w AND 0xe0000003 = (w AND 0xe0030003) AND 0xe0000003" "w AND 3 = (w AND 0xe0030003) AND 3"
    by (simp_all add: and.assoc)
  then have t: "w AND 0xe0000003 \<noteq> 0x20000000" "w AND 3 = 0" "w \<noteq> 0x00020000" using f(1) by (auto split: if_splits)
  define v where "v = r NV_PFIFO_CACHE1_DMA_STATE"
  let ?v = "set_mask (set_mask (set_mask (set_mask v NV_PFIFO_CACHE1_DMA_STATE_METHOD (drop_bit 2 m))
    NV_PFIFO_CACHE1_DMA_STATE_SUBCHANNEL s) NV_PFIFO_CACHE1_DMA_STATE_METHOD_COUNT (of_nat (length ps)))
    NV_PFIFO_CACHE1_DMA_STATE_METHOD_TYPE (if inc then 0 else 1)"
  let ?r = "r(NV_PFIFO_CACHE1_DMA_RSVD_SHADOW := w, NV_PFIFO_CACHE1_DMA_STATE := ?v, NV_PFIFO_CACHE1_DMA_DCOUNT := 0)"
  have "pusher_command (e\<lparr>pfifo_regs := r\<rparr>) g w = Some (Some g, e\<lparr>pfifo_regs := ?r\<rparr>)"
    using t f by (cases inc) (simp_all add: pusher_command_def start_method_def Let_def v_def)
  moreover have "keeps r ?r" by (simp add: keeps_def)
  moreover have "command ?r inc s m (length ps)"
  proof -
    have "s < 8" "m AND 3 = 0" "unat m < 0x2000" "length ps < 0x800" using ok by simp_all
    moreover from this have "take_bit 3 s = s" by (intro take_bit_less) (simp add: word_less_nat_alt)
    moreover have "take_bit 1 (reg_field 0 1) = reg_field 0 1" by (rule take_bit_less) (simp add: reg_field_def)
    moreover have "unat (take_bit 11 (of_nat (length ps) :: u32)) = length ps"
      unfolding unsigned_take_bit_eq using \<open>length ps < 0x800\<close> by (simp add: unat_of_nat take_bit_nat_eq_self)
    ultimately show ?thesis
      using method_word [of m] \<open>idle r\<close> unfolding command_def idle_def Let_def dma_state_fields
      by (simp add: get_set_mask_field get_set_mask_other method_fields v_def)
  qed
  ultimately show ?thesis unfolding w_def by blast
qed

section \<open>The engine's contract\<close>

text \<open>
  An engine takes one or more of the words it is offered, and what it does is what the single steps do. A step neither
  reads nor changes the registers of PFIFO. As long as the engine is ready the pusher does not have to wait.
\<close>

locale method_steps =
  fixes pm :: method_engine
    and step :: method_step
    and ready :: "nv2a \<Rightarrow> bool"
  assumes ready_regs: "ready (d\<lparr>pfifo_regs := r\<rparr>) = ready d"
    and ready_runs: "ready d \<Longrightarrow> runs d"
    and step_regs: "step s m p (d\<lparr>pfifo_regs := r\<rparr>) = map_option (\<lambda>e. e\<lparr>pfifo_regs := r\<rparr>) (step s m p d)"
    and takes: "\<lbrakk>\<And>d. Q d \<Longrightarrow> ready d; Q d; ws \<noteq> []; stream_at (vram d) ptr ws; ptr + 4 * length ws \<le> vram_size d;
      s < 8; m AND 3 = 0; unat m < 0x2000; inc \<longrightarrow> unat m + 4 * length ws \<le> 0x2000;
      \<forall>i < length ws. plain_method (m + (if inc then 4 * of_nat i else 0));
      exec_words step Q inc s m ws d = Some e\<rbrakk> \<Longrightarrow>
      \<exists>k d'. 0 < k \<and> k \<le> length ws \<and> pm d s m (hd ws) ptr (length ws) look inc = Some (int k, d') \<and>
        exec_words step Q inc s m (take k ws) d = Some d'"
begin

lemma data_word:
  assumes Q: "\<And>d. Q d \<Longrightarrow> ready d" "\<And>d r. Q (d\<lparr>pfifo_regs := r\<rparr>) = Q d" and "Q e"
    and cmd: "command r inc s m (length ws)" and "lane r s" and ws: "ws \<noteq> []" "length ws \<le> navail"
    and m: "m AND 3 = 0" "unat m < 0x2000" "s < 8" "\<forall>i < length ws. plain_method (m + (if inc then 4 * of_nat i else 0))"
      "inc \<longrightarrow> unat m + 4 * length ws \<le> 0x2000"
    and mem: "stream_at (vram e) ptr ws" "ptr + 4 * length ws \<le> vram_size e"
    and ex: "exec_words step Q inc s m ws e = Some e'"
  shows "\<exists>k ek r'. 0 < k \<and> k \<le> length ws \<and> exec_words step Q inc s m (take k ws) e = Some ek \<and>
    pusher_data pm (e\<lparr>pfifo_regs := r\<rparr>) g (hd ws) ptr navail
      = Some (Some (g + of_nat (4 * (k - 1))), ek\<lparr>pfifo_regs := r'\<rparr>) \<and>
    keeps r r' \<and> command r' inc s (m + (if inc then of_nat (4 * k) else 0)) (length ws - k)"
proof -
  let ?v = "r NV_PFIFO_CACHE1_DMA_STATE" and ?n = "length ws"
  let ?r2 = "r(NV_PFIFO_CACHE1_DMA_DATA_SHADOW := hd ws,
    NV_PFIFO_CACHE1_STATUS := r NV_PFIFO_CACHE1_STATUS AND NOT NV_PFIFO_CACHE1_STATUS_LOW_MARK)"
  let ?r3 = "?r2(NV_PFIFO_CACHE1_PULL1 := set_mask (r NV_PFIFO_CACHE1_PULL1) NV_PFIFO_CACHE1_PULL1_ENGINE ENGINE_GRAPHICS)"
  let ?r4 = "?r3(NV_PFIFO_CACHE1_STATUS := ?r3 NV_PFIFO_CACHE1_STATUS OR NV_PFIFO_CACHE1_STATUS_LOW_MARK)"
  note regs = exec_words_regs [of step _ Q, OF step_regs Q(2)]
  have m0: "plain_method m" using m(4) [rule_format, of 0] ws(1) by (cases inc) simp_all
  have "exec_words step Q inc s m ws (e\<lparr>pfifo_regs := ?r3\<rparr>) = Some (e'\<lparr>pfifo_regs := ?r3\<rparr>)" by (simp add: regs ex)
  then obtain k d' where k: "0 < k" "k \<le> ?n"
    and pm: "pm (e\<lparr>pfifo_regs := ?r3\<rparr>) s m (hd ws) ptr ?n navail inc = Some (int k, d')"
    and d': "exec_words step Q inc s m (take k ws) (e\<lparr>pfifo_regs := ?r3\<rparr>) = Some d'"
    using takes [of Q "e\<lparr>pfifo_regs := ?r3\<rparr>" ws ptr s m inc _ navail] Q \<open>Q e\<close> ws m mem by auto
  obtain ek where ek: "exec_words step Q inc s m (take k ws) e = Some ek" "d' = ek\<lparr>pfifo_regs := ?r3\<rparr>"
    using d' by (auto simp: regs)
  have run: "pfifo_run_puller pm (e\<lparr>pfifo_regs := ?r2\<rparr>) (method_entry m (if inc then 0 else 1) s) (hd ws) ptr ?n navail
    = Some (int k, ek\<lparr>pfifo_regs := ?r4\<rparr>)"
    using puller_runs [of "e\<lparr>pfifo_regs := ?r2\<rparr>" s m pm "hd ws" ptr ?n navail inc k d'] k(1) pm ek(2) m(1-3) m0
      ready_runs [OF Q(1) [OF \<open>Q e\<close>]] keeps_lane [of r ?r2 s] \<open>lane r s\<close> by (simp add: keeps_def and.assoc)
  let ?v' = "if inc then set_mask ?v NV_PFIFO_CACHE1_DMA_STATE_METHOD (word_of_int ((uint m + 4 * int k) div 4)) else ?v"
  let ?r7 = "?r4(NV_PFIFO_CACHE1_DMA_STATE := set_mask ?v' NV_PFIFO_CACHE1_DMA_STATE_METHOD_COUNT (of_nat (?n - k)),
    NV_PFIFO_CACHE1_DMA_DCOUNT := r NV_PFIFO_CACHE1_DMA_DCOUNT + of_nat k)"
  have v: "get_mask ?v NV_PFIFO_CACHE1_DMA_STATE_METHOD_TYPE = (if inc then 0 else 1)"
    "get_mask ?v NV_PFIFO_CACHE1_DMA_STATE_SUBCHANNEL = s" "push_bit 2 (get_mask ?v NV_PFIFO_CACHE1_DMA_STATE_METHOD) = m"
    "unat (get_mask ?v NV_PFIFO_CACHE1_DMA_STATE_METHOD_COUNT) = ?n" "get_mask ?v NV_PFIFO_CACHE1_DMA_STATE_ERROR = 0"
    using cmd ws(1) by (simp_all add: command_def Let_def)
  have "pusher_data pm (e\<lparr>pfifo_regs := r\<rparr>) g (hd ws) ptr navail
      = Some (Some (g + of_nat (4 * (k - 1))), ek\<lparr>pfifo_regs := ?r7\<rparr>)"
    using v run m(1) k(2) ws(2) less_imp_neq [OF k(1)]
    by (cases inc) (simp_all add: pusher_data_def Let_def method_entry_def [symmetric] min_def step_size)
  moreover have "keeps r ?r7" by (simp add: keeps_def)
  moreover have "command ?r7 inc s (m + (if inc then of_nat (4 * k) else 0)) (?n - k)"
  proof -
    have c: "?n < 2 ^ 11" unfolding v(4) [symmetric] dma_state_fields
      using take_bit_nat_less_exp [of 11 "unat (drop_bit 18 ?v)"] by (simp add: get_mask_field unsigned_take_bit_eq)
    then have "unat (take_bit 11 (of_nat (?n - k) :: u32)) = ?n - k"
      unfolding unsigned_take_bit_eq by (simp add: unat_of_nat take_bit_nat_eq_self)
    moreover have "?n - k = 0 \<or> unat m + 4 * k < 0x2000" if inc using that m(5) k(2) by linarith
    ultimately show ?thesis
      using v(1-3,5) later_method(3) [OF m(1), of k] unfolding command_def Let_def dma_state_fields
      by (cases inc) (auto simp: get_set_mask_field get_set_mask_other method_fields)
  qed
  ultimately show ?thesis using k ek(1) by blast
qed

lemma data_phase:
  assumes Q: "\<And>d. Q d \<Longrightarrow> ready d" "\<And>d r. Q (d\<lparr>pfifo_regs := r\<rparr>) = Q d"
    "\<And>d. Q d \<Longrightarrow> dma + b \<le> vram_size d" and len: "b \<le> unat dma_len"
  shows "\<lbrakk>Q e; \<And>d. Q d \<Longrightarrow> stream_at (vram d) (dma + a) ws; command r inc s m (length ws); lane r s; window r a b;
    a + 4 * length ws \<le> b; s < 8; m AND 3 = 0; unat m < 0x2000; inc \<longrightarrow> unat m + 4 * length ws \<le> 0x2000;
    \<forall>i < length ws. plain_method (m + (if inc then 4 * of_nat i else 0)); exec_words step Q inc s m ws e = Some e'\<rbrakk> \<Longrightarrow>
    \<exists>j r'. j \<le> length ws \<and> (\<forall>fuel. pusher_loop pm (j + fuel) dma dma_len (e\<lparr>pfifo_regs := r\<rparr>)
        = pusher_loop pm fuel dma dma_len (e'\<lparr>pfifo_regs := r'\<rparr>)) \<and>
      keeps r r' \<and> window r' (a + 4 * length ws) b \<and> idle r'"
proof (induction "length ws" arbitrary: ws a m r e rule: less_induct)
  case less
  show ?case
  proof (cases "ws = []")
    case True
    then show ?thesis using less.prems by (intro exI [of _ 0] exI [of _ r]) (auto intro: command_idle)
  next
    case False
    then have ab: "a < b" using less.prems(6) by (metis add_less_cancel_left length_greater_0_conv less_le_trans
      mult_pos_pos zero_less_numeral less_add_same_cancel1)
    have n: "length ws \<le> (b - a) div 4" using less.prems(6) by linarith
    have st: "stream_at (vram e) (dma + a) ws" "dma + a + 4 * length ws \<le> vram_size e"
      using less.prems(1,2,6) Q(3) [OF less.prems(1)] by simp_all
    obtain k ek r1 where k: "0 < k" "k \<le> length ws" and ek: "exec_words step Q inc s m (take k ws) e = Some ek"
      and pd: "pusher_data pm (e\<lparr>pfifo_regs := r\<rparr>) (of_nat (a + 4)) (hd ws) (dma + a) ((b - a) div 4)
        = Some (Some (of_nat (a + 4) + of_nat (4 * (k - 1))), ek\<lparr>pfifo_regs := r1\<rparr>)"
      and r1: "keeps r r1" "command r1 inc s (m + (if inc then of_nat (4 * k) else 0)) (length ws - k)"
      using data_word [OF Q(1,2) less.prems(1,3,4) False n less.prems(8,9,7,11,10) st less.prems(12)] by blast
    define r2 where "r2 = r1(NV_PFIFO_CACHE1_DMA_GET := of_nat (a + 4 * k))"
    have g: "of_nat (a + 4) + of_nat (4 * (k - 1)) = (of_nat (a + 4 * k) :: u32)"
      unfolding of_nat_add [symmetric] using k(1) by (intro arg_cong [of _ _ of_nat]) simp
    have hd: "ldl_le_p (vram e) (dma + a) = hd ws" using st(1) False by (cases ws) (simp_all add: stream_at_Cons)
    have cnt: "get_mask (r NV_PFIFO_CACHE1_DMA_STATE) NV_PFIFO_CACHE1_DMA_STATE_METHOD_COUNT \<noteq> 0"
      "get_mask (r1 NV_PFIFO_CACHE1_DMA_STATE) NV_PFIFO_CACHE1_DMA_STATE_ERROR = 0"
      using less.prems(3) r1(2) False by (auto simp: command_def Let_def)
    have "pusher_round pm dma dma_len (e\<lparr>pfifo_regs := r\<rparr>) = Some (True, ek\<lparr>pfifo_regs := r2\<rparr>)"
      using window_round [of "e\<lparr>pfifo_regs := r\<rparr>" a b dma_len dma pm] less.prems(5) ab len Q(3) [OF less.prems(1)] hd cnt
        pd [unfolded g] by (simp add: r2_def del: of_nat_add of_nat_mult of_nat_numeral)
    then have loop: "pusher_loop pm (Suc fuel) dma dma_len (e\<lparr>pfifo_regs := r\<rparr>)
        = pusher_loop pm fuel dma dma_len (ek\<lparr>pfifo_regs := r2\<rparr>)" for fuel
      using runs_stall(2) [of "e\<lparr>pfifo_regs := r\<rparr>"] ready_runs [OF Q(1) [OF less.prems(1)]] by simp
    have r2: "keeps r r2" "command r2 inc s (m + (if inc then of_nat (4 * k) else 0)) (length ws - k)"
      using r1 by (simp_all add: r2_def keeps_def command_def)
    have w2: "window r2 (a + 4 * k) b"
      using less.prems(5,6) k(2) r2(1) by (intro window_step [of r a]) (simp_all add: r2_def)
    have rest: "exec_words step Q inc s (m + (if inc then of_nat (4 * k) else 0)) (drop k ws) ek = Some e'"
      using less.prems(12) exec_words_append [of step Q inc s m "take k ws" "drop k ws" e] ek k(2)
      by (cases inc) (simp_all add: min_absorb2)
    show ?thesis
    proof (cases "k = length ws")
      case True
      then show ?thesis using loop rest r2 w2 False
        by (intro exI [of _ 1] exI [of _ r2]) (auto intro: command_idle simp: Suc_le_eq)
    next
      case False
      let ?m = "m + (if inc then of_nat (4 * k) else 0)"
      have lt: "k < length ws" using k(2) False by simp
      have m': "?m AND 3 = 0" "unat ?m < 0x2000" "inc \<longrightarrow> unat ?m + 4 * length (drop k ws) \<le> 0x2000"
        using later_method(1,2) [OF less.prems(8), of k] less.prems(8-10) lt by (cases inc; simp)+
      have pl: "\<forall>i < length (drop k ws). plain_method (?m + (if inc then 4 * of_nat i else 0))"
      proof (intro allI impI)
        fix i assume "i < length (drop k ws)"
        then show "plain_method (?m + (if inc then 4 * of_nat i else 0))"
          using less.prems(11) [rule_format, of "k + i"] lt by (cases inc) (simp_all add: algebra_simps)
      qed
      have str: "stream_at (vram d) (dma + (a + 4 * k)) (drop k ws)" if "Q d" for d
        using less.prems(2) [OF that] stream_at_append [of "vram d" "dma + a" "take k ws" "drop k ws"] k(2)
        by (simp add: min_absorb2 add.assoc)
      have Qk: "Q ek" using exec_words_ready [OF ek less.prems(1)] .
      have l: "length (drop k ws) < length ws" "a + 4 * k + 4 * length (drop k ws) \<le> b" using lt k(1) less.prems(6) by simp_all
      have c: "command r2 inc s ?m (length (drop k ws))" "lane r2 s" using r2 keeps_lane less.prems(4) by simp_all
      obtain j r' where j: "j \<le> length (drop k ws)"
        "\<forall>fuel. pusher_loop pm (j + fuel) dma dma_len (ek\<lparr>pfifo_regs := r2\<rparr>) = pusher_loop pm fuel dma dma_len (e'\<lparr>pfifo_regs := r'\<rparr>)"
        "keeps r2 r'" "window r' (a + 4 * k + 4 * length (drop k ws)) b" "idle r'"
        using less.hyps [OF l(1) Qk str c w2 l(2) less.prems(7) m' pl rest] by blast
      have "pusher_loop pm (Suc j + fuel) dma dma_len (e\<lparr>pfifo_regs := r\<rparr>) = pusher_loop pm fuel dma dma_len (e'\<lparr>pfifo_regs := r'\<rparr>)" for fuel
        using loop [of "j + fuel"] j(2) by simp
      moreover have "a + 4 * k + 4 * length (drop k ws) = a + 4 * length ws" using lt by simp
      then have "window r' (a + 4 * length ws) b" using j(4) by (simp only:)
      moreover have "Suc j \<le> length ws" using j(1) k(1) lt by simp
      ultimately show ?thesis using j(5) keeps_trans [OF r2(1) j(3)] by blast
    qed
  qed
qed

text \<open>A packet: its header, then its words.\<close>

lemma packet_phase:
  assumes Q: "\<And>d. Q d \<Longrightarrow> ready d" "\<And>d r. Q (d\<lparr>pfifo_regs := r\<rparr>) = Q d"
    "\<And>d. Q d \<Longrightarrow> dma + b \<le> vram_size d" and len: "b \<le> unat dma_len"
    and Qe: "Q e" and st: "\<And>d. Q d \<Longrightarrow> stream_at (vram d) (dma + a) (packet_words (Packet inc s m ps))"
    and ok: "packet_ok (Packet inc s m ps)" and "idle r" and "lane r s" and w: "window r a b"
    and fits: "a + 4 * length (packet_words (Packet inc s m ps)) \<le> b"
    and ex: "exec_words step Q inc s m ps e = Some e'"
  shows "\<exists>j r'. j \<le> length (packet_words (Packet inc s m ps)) \<and>
      (\<forall>fuel. pusher_loop pm (j + fuel) dma dma_len (e\<lparr>pfifo_regs := r\<rparr>)
        = pusher_loop pm fuel dma dma_len (e'\<lparr>pfifo_regs := r'\<rparr>)) \<and>
      keeps r r' \<and> window r' (a + 4 * length (packet_words (Packet inc s m ps))) b \<and> idle r'"
proof -
  let ?h = "packet_header (Packet inc s m ps)"
  obtain r1 where r1: "pusher_command (e\<lparr>pfifo_regs := r\<rparr>) (of_nat (a + 4)) ?h = Some (Some (of_nat (a + 4)), e\<lparr>pfifo_regs := r1\<rparr>)"
    "keeps r r1" "command r1 inc s m (length ps)"
    using header_command [OF ok \<open>idle r\<close>] by blast
  define r2 where "r2 = r1(NV_PFIFO_CACHE1_DMA_GET := of_nat (a + 4))"
  have ab: "a < b" using fits by simp
  have hd: "ldl_le_p (vram e) (dma + a) = ?h" and
    rest: "\<And>d. Q d \<Longrightarrow> stream_at (vram d) (dma + (a + 4)) ps" using st Qe by (simp_all add: stream_at_Cons add.assoc)
  have "get_mask (r1 NV_PFIFO_CACHE1_DMA_STATE) NV_PFIFO_CACHE1_DMA_STATE_ERROR = 0" using r1(3) by (simp add: command_def Let_def)
  then have "pusher_round pm dma dma_len (e\<lparr>pfifo_regs := r\<rparr>) = Some (True, e\<lparr>pfifo_regs := r2\<rparr>)"
    using window_round [of "e\<lparr>pfifo_regs := r\<rparr>" a b dma_len dma pm] w ab len Q(3) [OF Qe] hd r1(1) \<open>idle r\<close>
    by (simp add: r2_def idle_def del: of_nat_add of_nat_numeral packet_header.simps)
  then have loop: "pusher_loop pm (Suc fuel) dma dma_len (e\<lparr>pfifo_regs := r\<rparr>)
      = pusher_loop pm fuel dma dma_len (e\<lparr>pfifo_regs := r2\<rparr>)" for fuel
    using runs_stall(2) [of "e\<lparr>pfifo_regs := r\<rparr>"] ready_runs [OF Q(1) [OF Qe]] by simp
  have r2: "keeps r r2" "command r2 inc s m (length ps)" using r1 by (simp_all add: r2_def keeps_def command_def)
  have w2: "window r2 (a + 4) b" using window_step [OF w, of 1 r2] r2(1) fits by (simp add: r2_def)
  have p: "s < 8" "m AND 3 = 0" "unat m < 0x2000" "inc \<longrightarrow> unat m + 4 * length ps \<le> 0x2000"
    "\<forall>i < length ps. plain_method (m + (if inc then 4 * of_nat i else 0))" using ok by simp_all
  have f: "a + 4 + 4 * length ps \<le> b" "lane r2 s" using fits keeps_lane [OF r2(1)] \<open>lane r s\<close> by simp_all
  obtain j r' where j: "j \<le> length ps"
    "\<forall>fuel. pusher_loop pm (j + fuel) dma dma_len (e\<lparr>pfifo_regs := r2\<rparr>) = pusher_loop pm fuel dma dma_len (e'\<lparr>pfifo_regs := r'\<rparr>)"
    "keeps r2 r'" "window r' (a + 4 + 4 * length ps) b" "idle r'"
    using data_phase [OF Q len Qe rest r2(2) f(2) w2 f(1) p ex] by blast
  have "pusher_loop pm (Suc j + fuel) dma dma_len (e\<lparr>pfifo_regs := r\<rparr>) = pusher_loop pm fuel dma dma_len (e'\<lparr>pfifo_regs := r'\<rparr>)" for fuel
    using loop [of "j + fuel"] j(2) by simp
  moreover have "window r' (a + 4 * length (packet_words (Packet inc s m ps))) b" using j(4) by (simp add: add.assoc)
  moreover have "Suc j \<le> length (packet_words (Packet inc s m ps))" using j(1) by simp
  ultimately show ?thesis using j(5) keeps_trans [OF r2(1) j(3)] by blast
qed

lemma stream_phase:
  assumes Q: "\<And>d. Q d \<Longrightarrow> ready d" "\<And>d r. Q (d\<lparr>pfifo_regs := r\<rparr>) = Q d"
    "\<And>d. Q d \<Longrightarrow> dma + b \<le> vram_size d" and len: "b \<le> unat dma_len"
  shows "\<lbrakk>Q e; \<And>d. Q d \<Longrightarrow> stream_at (vram d) (dma + a) (stream_words qs); list_all packet_ok qs;
    list_all (\<lambda>q. lane r (packet_subchannel q)) qs; idle r; window r a b; a + 4 * length (stream_words qs) \<le> b;
    exec_packets step Q qs e = Some e'\<rbrakk> \<Longrightarrow>
    \<exists>j r'. j \<le> length (stream_words qs) \<and> (\<forall>fuel. pusher_loop pm (j + fuel) dma dma_len (e\<lparr>pfifo_regs := r\<rparr>)
        = pusher_loop pm fuel dma dma_len (e'\<lparr>pfifo_regs := r'\<rparr>)) \<and>
      keeps r r' \<and> window r' (a + 4 * length (stream_words qs)) b \<and> idle r'"
proof (induction qs arbitrary: a r e)
  case Nil
  then show ?case by (intro exI [of _ 0] exI [of _ r]) (simp add: stream_words_def)
next
  case (Cons q qs)
  obtain inc s m ps where q: "q = Packet inc s m ps" by (cases q)
  let ?n = "length (packet_words q)"
  have n: "length (stream_words (q # qs)) = ?n + length (stream_words qs)" by (simp add: stream_words_def)
  obtain e1 where e1: "exec_words step Q inc s m ps e = Some e1" "exec_packets step Q qs e1 = Some e'"
    using Cons.prems(8) by (auto simp: q bind_eq_Some_conv)
  have st: "stream_at (vram d) (dma + a) (packet_words q)" "stream_at (vram d) (dma + (a + 4 * ?n)) (stream_words qs)"
    if "Q d" for d
    using Cons.prems(2) [OF that] by (simp_all add: stream_words_def stream_at_append add.assoc del: packet_words.simps)
  have qo: "packet_ok q" "lane r s" "a + 4 * ?n \<le> b" using Cons.prems(3,4,7) n by (simp_all add: q)
  obtain j r1 where j: "j \<le> ?n"
    "\<forall>fuel. pusher_loop pm (j + fuel) dma dma_len (e\<lparr>pfifo_regs := r\<rparr>) = pusher_loop pm fuel dma dma_len (e1\<lparr>pfifo_regs := r1\<rparr>)"
    "keeps r r1" "window r1 (a + 4 * ?n) b" "idle r1"
    using packet_phase [OF Q len Cons.prems(1) st(1) [unfolded q] qo(1) [unfolded q] Cons.prems(5) qo(2) Cons.prems(6)
      qo(3) [unfolded q] e1(1)] unfolding q by blast
  have l1: "list_all (\<lambda>q. lane r1 (packet_subchannel q)) qs" using Cons.prems(4) keeps_lane [OF j(3)] by (simp add: list_all_iff)
  have f: "a + 4 * ?n + 4 * length (stream_words qs) \<le> b" "list_all packet_ok qs" using Cons.prems(3,7) n by simp_all
  have Q1: "Q e1" using exec_words_ready [OF e1(1) Cons.prems(1)] .
  obtain i r2 where i: "i \<le> length (stream_words qs)"
    "\<forall>fuel. pusher_loop pm (i + fuel) dma dma_len (e1\<lparr>pfifo_regs := r1\<rparr>) = pusher_loop pm fuel dma dma_len (e'\<lparr>pfifo_regs := r2\<rparr>)"
    "keeps r1 r2" "window r2 (a + 4 * ?n + 4 * length (stream_words qs)) b" "idle r2"
    using Cons.IH [OF Q1 st(2) f(2) l1 j(5,4) f(1) e1(2)] by blast
  have "pusher_loop pm (j + i + fuel) dma dma_len (e\<lparr>pfifo_regs := r\<rparr>) = pusher_loop pm fuel dma dma_len (e'\<lparr>pfifo_regs := r2\<rparr>)" for fuel
    using j(2) i(2) by (simp add: add.assoc)
  moreover have "window r2 (a + 4 * length (stream_words (q # qs))) b" using i(4) by (simp add: n add.assoc distrib_left)
  moreover have "j + i \<le> length (stream_words (q # qs))" using j(1) i(1) n by simp
  ultimately show ?case using i(5) keeps_trans [OF j(3) i(3)] by blast
qed

text \<open>The whole run: the pusher takes every word up to the guest's mark and then stops.\<close>

lemma run_stream:
  fixes d :: nv2a
  defines "r \<equiv> pfifo_regs d"
  assumes on: "pusher_on d dma dma_len" and len: "b \<le> unat dma_len" and w: "window r a b" and "idle r"
    and qs: "list_all packet_ok qs" "list_all (\<lambda>q. lane r (packet_subchannel q)) qs" "a + 4 * length (stream_words qs) = b"
    and Q: "Q = (\<lambda>d. ready d \<and> stream_at (vram d) (dma + a) (stream_words qs) \<and> dma + b \<le> vram_size d)"
    and "Q d" and ex: "exec_packets step Q qs d = Some d'" and fuel: "length (stream_words qs) < fuel"
  shows "\<exists>r'. pfifo_run_pusher pm fuel d = Some (True, d'\<lparr>pfifo_regs := r'\<rparr>) \<and>
    r' NV_PFIFO_CACHE1_DMA_GET = r NV_PFIFO_CACHE1_DMA_PUT \<and> keeps r r' \<and> idle r'"
proof -
  have d: "d = d\<lparr>pfifo_regs := r\<rparr>" by (simp add: r_def)
  have q: "\<And>d. Q d \<Longrightarrow> ready d" "\<And>d r. Q (d\<lparr>pfifo_regs := r\<rparr>) = Q d" "\<And>d. Q d \<Longrightarrow> dma + b \<le> vram_size d"
    "\<And>d. Q d \<Longrightarrow> stream_at (vram d) (dma + a) (stream_words qs)" unfolding Q by (simp_all add: ready_regs)
  obtain j r' where j: "j \<le> length (stream_words qs)"
    "\<forall>fuel. pusher_loop pm (j + fuel) dma dma_len (d\<lparr>pfifo_regs := r\<rparr>) = pusher_loop pm fuel dma dma_len (d'\<lparr>pfifo_regs := r'\<rparr>)"
    "keeps r r'" "window r' (a + 4 * length (stream_words qs)) b" "idle r'"
    using stream_phase [OF q(1,2,3) len \<open>Q d\<close> q(4) qs(1,2) \<open>idle r\<close> w eq_imp_le [OF qs(3)] ex] by blast
  obtain f where f: "fuel = j + Suc f" using fuel j(1) by (metis add_Suc_right le_add_diff_inverse less_imp_Suc_add order.strict_trans1)
  have "pusher_loop pm (Suc f) dma dma_len (d'\<lparr>pfifo_regs := r'\<rparr>) = Some (True, d'\<lparr>pfifo_regs := r'\<rparr>)"
    using j(4) by (simp add: qs(3) window_def pusher_round_def)
  then have "pusher_loop pm fuel dma dma_len d = Some (True, d'\<lparr>pfifo_regs := r'\<rparr>)"
    using j(2) f d by metis
  then have "pfifo_run_pusher pm fuel d = Some (True, d'\<lparr>pfifo_regs := r'\<rparr>)"
    using on j(5) \<open>idle r\<close> by (simp add: pfifo_run_pusher_def pusher_on_def Let_def idle_def r_def)
  moreover have "r' NV_PFIFO_CACHE1_DMA_GET = r NV_PFIFO_CACHE1_DMA_PUT"
    using j(4) w by (simp add: qs(3) window_def)
  ultimately show ?thesis using j(3,5) by blast
qed

end

end
