(* ===== verification/Push_Blit.thy ===== *)
theory Push_Blit
  imports Pusher
begin

text \<open>
  The two-dimensional classes as an engine of the pusher: \<open>pgraph_method\<close> meets the contract of \<^verbatim>\<open>Pusher\<close> for the null
  renderer of \<^verbatim>\<open>hw/xbox/nv2a/pgraph/null/renderer.c\<close> and for the blit of \<^verbatim>\<open>gl/blit.c\<close>. Pusher, puller, dispatch and
  blit together then copy a rectangle that a command stream asks for.
\<close>

section \<open>One method of a two-dimensional class\<close>

definition class_2d :: "(nv2a \<Rightarrow> nv2a option) \<Rightarrow> u32 \<Rightarrow> nv2a \<Rightarrow> u32 \<Rightarrow> u32 \<Rightarrow> nv2a option" where
  "class_2d blit_op c d m p =
     (if c = NV_BETA then Some (beta_method d m p)
      else if c = NV_CONTEXT_PATTERN then pattern_method d m p
      else if c = NV_CONTEXT_SURFACES_2D then Some (surfaces_2d_method d m p)
      else if c = NV_IMAGE_BLIT then image_blit_method blit_op d m p
      else if c = NV_KELVIN_PRIMITIVE then None
      else Some d)"

definition step_2d :: "(nv2a \<Rightarrow> nv2a option) \<Rightarrow> method_step" where
  "step_2d blit_op s m p d = do {
     valid \<leftarrow> pg_get_mask d NV_PGRAPH_CTX_CONTROL NV_PGRAPH_CTX_CONTROL_CHID;
     assert_that (valid \<noteq> 0);
     d \<leftarrow> switch_object d (unat s);
     c \<leftarrow> pg_get_mask d NV_PGRAPH_CTX_SWITCH1 NV_PGRAPH_CTX_SWITCH1_GRCLASS;
     class_2d blit_op c d m p
   }"

definition pgraph_null_image_blit :: "nv2a \<Rightarrow> nv2a option" where
  "pgraph_null_image_blit d = Some d"

section \<open>PFIFO's registers\<close>

definition fifo_blind :: "(nv2a \<Rightarrow> nv2a option) \<Rightarrow> bool" where
  "fifo_blind f = (\<forall>d r. f (d\<lparr>pfifo_regs := r\<rparr>) = map_option (\<lambda>e. e\<lparr>pfifo_regs := r\<rparr>) (f d))"

lemma pg_get_mask_blind [simp]: "pg_get_mask (d\<lparr>pfifo_regs := r\<rparr>) x m = pg_get_mask d x m"
  by (simp add: pg_get_mask_def pgraph_reg_r_def)

lemma pgraph_reg_blind [simp]:
  "pgraph_reg_r (d\<lparr>pfifo_regs := r\<rparr>) x = pgraph_reg_r d x"
  "pgraph_reg_w (d\<lparr>pfifo_regs := r\<rparr>) x v = map_option (\<lambda>e. e\<lparr>pfifo_regs := r\<rparr>) (pgraph_reg_w d x v)"
  by (simp_all add: pgraph_reg_r_def pgraph_reg_w_def assert_that_def Let_def)

lemma copy_reg_blind [simp]: "copy_reg (d\<lparr>pfifo_regs := r\<rparr>) x y = map_option (\<lambda>e. e\<lparr>pfifo_regs := r\<rparr>) (copy_reg d x y)"
  by (simp add: copy_reg_def map_option_bind comp_def)

lemma switch_object_blind [simp]:
  "switch_object (d\<lparr>pfifo_regs := r\<rparr>) s = map_option (\<lambda>e. e\<lparr>pfifo_regs := r\<rparr>) (switch_object d s)"
  by (simp add: switch_object_def map_option_bind bind_map_option comp_def)

lemma class_2d_blind:
  assumes "fifo_blind blit_op"
  shows "class_2d blit_op c (d\<lparr>pfifo_regs := r\<rparr>) m p = map_option (\<lambda>e. e\<lparr>pfifo_regs := r\<rparr>) (class_2d blit_op c d m p)"
proof -
  have b: "blit_op (d\<lparr>image_blit := x, pfifo_regs := r\<rparr>) = map_option (\<lambda>e. e\<lparr>pfifo_regs := r\<rparr>) (blit_op (d\<lparr>image_blit := x\<rparr>))" for x
    using assms unfolding fifo_blind_def by blast
  have c: "d\<lparr>pfifo_regs := r, image_blit := x\<rparr> = d\<lparr>image_blit := x, pfifo_regs := r\<rparr>" for x by simp
  show ?thesis
    by (simp add: class_2d_def beta_method_def pattern_method_def surfaces_2d_method_def image_blit_method_def Let_def b c)
qed

lemma step_2d_blind:
  assumes "fifo_blind blit_op"
  shows "step_2d blit_op s m p (d\<lparr>pfifo_regs := r\<rparr>) = map_option (\<lambda>e. e\<lparr>pfifo_regs := r\<rparr>) (step_2d blit_op s m p d)"
  by (simp add: step_2d_def map_option_bind bind_map_option comp_def class_2d_blind [OF assms])

section \<open>The engine\<close>

lemma class_method_2d:
  "class_2d blit_op c d m p = Some d' \<Longrightarrow> class_method blit_op kelvin c d s m p ptr n look inc = Some (1, d')"
  by (auto simp: class_2d_def class_method_def split: if_splits)

lemma pgraph_method_2d:
  assumes "step_2d blit_op s m p d = Some d'" and "s < 8" and "plain_method m"
  shows "pgraph_method blit_op kelvin d s m p ptr n look inc = Some (1, d')"
proof -
  have "m \<noteq> 0" using assms(3) by (auto simp: plain_method_def)
  obtain v d1 c where v: "pg_get_mask d NV_PGRAPH_CTX_CONTROL NV_PGRAPH_CTX_CONTROL_CHID = Some v" "v \<noteq> 0"
    "switch_object d (unat s) = Some d1" "pg_get_mask d1 NV_PGRAPH_CTX_SWITCH1 NV_PGRAPH_CTX_SWITCH1_GRCLASS = Some c"
    "class_2d blit_op c d1 m p = Some d'"
    using assms(1) by (auto simp: step_2d_def bind_eq_Some_conv)
  moreover have "c \<noteq> 0x97" using v(5) by (auto simp: class_2d_def)
  ultimately show ?thesis
    using assms(2) \<open>m \<noteq> 0\<close> by (simp add: pgraph_method_def class_method_2d)
qed

lemma engine_2d:
  assumes blind: "fifo_blind blit_op"
  shows "method_steps (pgraph_method blit_op kelvin) (step_2d blit_op) runs"
proof
  fix d r show "runs (d\<lparr>pfifo_regs := r\<rparr>) = runs d" by simp
next
  fix d assume "runs d" then show "runs d" .
next
  fix s m p d r
  show "step_2d blit_op s m p (d\<lparr>pfifo_regs := r\<rparr>) = map_option (\<lambda>e. e\<lparr>pfifo_regs := r\<rparr>) (step_2d blit_op s m p d)"
    by (rule step_2d_blind [OF blind])
next
  fix Q d ws ptr s m inc e look
  assume ws: "(ws :: u32 list) \<noteq> []" and s: "s < 8" and pl: "\<forall>i < length ws. plain_method (m + (if inc then 4 * of_nat i else 0))"
    and ex: "exec_words (step_2d blit_op) Q inc s m ws d = Some e"
  obtain w us where w: "ws = w # us" using ws by (cases ws) auto
  obtain d' where d': "step_2d blit_op s m w d = Some d'" "Q d'"
    using ex by (auto simp: w bind_eq_Some_conv)
  have "plain_method m" using pl [rule_format, of 0] ws by (cases inc) simp_all
  then have "pgraph_method blit_op kelvin d s m (hd ws) ptr (length ws) look inc = Some (int 1, d')"
    using pgraph_method_2d [OF d'(1) s] by (simp add: w)
  moreover have "exec_words (step_2d blit_op) Q inc s m (take 1 ws) d = Some d'" using d' by (simp add: w)
  ultimately show "\<exists>k d'. 0 < k \<and> k \<le> length ws \<and>
      pgraph_method blit_op kelvin d s m (hd ws) ptr (length ws) look inc = Some (int k, d') \<and>
      exec_words (step_2d blit_op) Q inc s m (take k ws) d = Some d'"
    using ws by (intro exI [of _ 1] exI [of _ d']) (simp add: Suc_le_eq)
qed

interpretation null: method_steps "pgraph_method pgraph_null_image_blit kelvin" "step_2d pgraph_null_image_blit" runs for kelvin
  by (rule engine_2d) (simp add: fifo_blind_def pgraph_null_image_blit_def)

text \<open>The pusher executes the packets of a command stream in order. For a stream of well-formed packets for objects of
  the graphics engine that lies between the get and put pointers, when taking the parameters one by one succeeds, leaves
  the FIFO running and does not overwrite the stream, the pusher comes to the end of the stream without an error, and the
  state, apart from the registers of PFIFO, is the one that the methods of the packets bring about; a round for each
  word is enough.\<close>

theorem pusher_runs_packets:
  fixes d d' :: nv2a
  assumes "fifo_blind blit_op"
    and "pusher_on d dma dma_len" and "b \<le> unat dma_len" and "window (pfifo_regs d) a b" and "idle (pfifo_regs d)"
    and "list_all packet_ok qs" and "list_all (\<lambda>q. lane (pfifo_regs d) (packet_subchannel q)) qs"
    and "a + 4 * length (stream_words qs) = b"
    and "Q = (\<lambda>d. runs d \<and> stream_at (vram d) (dma + a) (stream_words qs) \<and> dma + b \<le> vram_size d)" and "Q d"
    and "exec_packets (step_2d blit_op) Q qs d = Some d'" and "length (stream_words qs) < fuel"
  shows "\<exists>r. pfifo_run_pusher (pgraph_method blit_op kelvin) fuel d = Some (True, d'\<lparr>pfifo_regs := r\<rparr>) \<and>
    r NV_PFIFO_CACHE1_DMA_GET = pfifo_regs d NV_PFIFO_CACHE1_DMA_PUT \<and> idle r"
  using method_steps.run_stream [OF engine_2d [OF assms(1)] assms(2-12)] by blast

section \<open>The blit and PFIFO's registers\<close>

text \<open>The host's graphics library neither reads nor changes the registers of PFIFO.\<close>

definition gpu_blind :: "gpu_ops \<Rightarrow> bool" where
  "gpu_blind g = (\<forall>d r. gpu_surface_update g (d\<lparr>pfifo_regs := r\<rparr>) = (gpu_surface_update g d)\<lparr>pfifo_regs := r\<rparr> \<and>
     (\<forall>b. gpu_surface_download g (d\<lparr>pfifo_regs := r\<rparr>) b = (gpu_surface_download g d b)\<lparr>pfifo_regs := r\<rparr>))"

lemma inside_vram_blind [simp]: "inside_vram (d\<lparr>pfifo_regs := r\<rparr>) a n = inside_vram d a n"
  by (simp add: inside_vram_def)

lemma rows_blind:
  "copy_rows h (d\<lparr>pfifo_regs := r\<rparr>) s t n sp tp = map_option (\<lambda>e. e\<lparr>pfifo_regs := r\<rparr>) (copy_rows h d s t n sp tp)"
  "blend_rows h (d\<lparr>pfifo_regs := r\<rparr>) b s t w sp tp = map_option (\<lambda>e. e\<lparr>pfifo_regs := r\<rparr>) (blend_rows h d b s t w sp tp)"
  "patch_alpha h (d\<lparr>pfifo_regs := r\<rparr>) t w tp a = map_option (\<lambda>e. e\<lparr>pfifo_regs := r\<rparr>) (patch_alpha h d t w tp a)"
proof -
  have c: "d\<lparr>pfifo_regs := r, vram := m\<rparr> = d\<lparr>vram := m, pfifo_regs := r\<rparr>" for d m by simp
  show "copy_rows h (d\<lparr>pfifo_regs := r\<rparr>) s t n sp tp = map_option (\<lambda>e. e\<lparr>pfifo_regs := r\<rparr>) (copy_rows h d s t n sp tp)"
    by (induction h arbitrary: d s t) (simp_all add: assert_that_def c)
  show "blend_rows h (d\<lparr>pfifo_regs := r\<rparr>) b s t w sp tp = map_option (\<lambda>e. e\<lparr>pfifo_regs := r\<rparr>) (blend_rows h d b s t w sp tp)"
    by (induction h arbitrary: d s t) (simp_all add: assert_that_def c)
  show "patch_alpha h (d\<lparr>pfifo_regs := r\<rparr>) t w tp a = map_option (\<lambda>e. e\<lparr>pfifo_regs := r\<rparr>) (patch_alpha h d t w tp a)"
    by (induction h arbitrary: d t) (simp_all add: assert_that_def c)
qed

lemma perform_blit_blind:
  "perform_blit (d\<lparr>pfifo_regs := r\<rparr>) op s t w h n sp tp = map_option (\<lambda>e. e\<lparr>pfifo_regs := r\<rparr>) (perform_blit d op s t w h n sp tp)"
  by (simp add: perform_blit_def rows_blind)

lemma blit_rows_blind:
  "blit_rows (d\<lparr>pfifo_regs := r\<rparr>) op s t w h l n sp tp = map_option (\<lambda>e. e\<lparr>pfifo_regs := r\<rparr>) (blit_rows d op s t w h l n sp tp)"
  by (cases "0 < h"; cases "perform_blit d op s t w h (w * n) sp tp") (simp_all add: blit_rows_def perform_blit_blind)

lemma blit_alpha_blind:
  "blit_alpha (d\<lparr>pfifo_regs := r\<rparr>) ov t w h l tp = map_option (\<lambda>e. e\<lparr>pfifo_regs := r\<rparr>) (blit_alpha d ov t w h l tp)"
proof (cases ov)
  case (Some a)
  then show ?thesis
    by (cases "0 < h"; cases "patch_alpha h d t w tp a") (simp_all add: blit_alpha_def rows_blind del: patch_alpha.simps)
qed (simp add: blit_alpha_def)

lemma blit_surface_dest_blind:
  assumes "gpu_blind g"
  shows "blit_surface_dest g (d\<lparr>pfifo_regs := r\<rparr>) a h w = (blit_surface_dest g d a h w)\<lparr>pfifo_regs := r\<rparr>"
  using assms by (simp add: gpu_blind_def blit_surface_dest_def pgraph_gl_surface_get_def
    pgraph_gl_surface_download_if_dirty_def Let_def split: option.split)

lemma dirty_regs: "d\<lparr>pfifo_regs := r, vram_dirty := l\<rparr> = d\<lparr>vram_dirty := l, pfifo_regs := r\<rparr>" for d :: nv2a by simp

lemma blit_write_blind:
  assumes g: "gpu_blind g"
  shows "blit_write g (d\<lparr>pfifo_regs := r\<rparr>) cs ib n source dest = map_option (\<lambda>e. e\<lparr>pfifo_regs := r\<rparr>) (blit_write g d cs ib n source dest)"
proof -
  have clip: "nv_clip_gpu_tile_blit (d\<lparr>pfifo_regs := r\<rparr>) z l = nv_clip_gpu_tile_blit d z l" for z l
    by (simp add: nv_clip_gpu_tile_blit_def)
  show ?thesis
    by (simp add: blit_write_def Let_def clip dirty_regs blit_surface_dest_blind [OF g] blit_rows_blind blit_alpha_blind
      map_option_bind bind_map_option comp_def case_prod_beta)
qed

lemma gl_image_blit_blind:
  assumes g: "gpu_blind g"
  shows "fifo_blind (pgraph_gl_image_blit g)"
proof -
  have [simp]: "gpu_surface_update g (d\<lparr>pfifo_regs := r\<rparr>) = (gpu_surface_update g d)\<lparr>pfifo_regs := r\<rparr>"
    "pgraph_gl_surface_download_if_dirty g (d\<lparr>pfifo_regs := r\<rparr>) b = (pgraph_gl_surface_download_if_dirty g d b)\<lparr>pfifo_regs := r\<rparr>"
    "pgraph_gl_surface_get (d\<lparr>pfifo_regs := r\<rparr>) x = pgraph_gl_surface_get d x" "nv_dma_map (d\<lparr>pfifo_regs := r\<rparr>) y = nv_dma_map d y"
    for d r b x y
    using g by (simp_all add: gpu_blind_def pgraph_gl_surface_download_if_dirty_def pgraph_gl_surface_get_def nv_dma_map_def
      nv_dma_load_def)
  have case_regs: "(case ob of None \<Rightarrow> d\<lparr>pfifo_regs := r\<rparr> | Some b \<Rightarrow> pgraph_gl_surface_download_if_dirty g (d\<lparr>pfifo_regs := r\<rparr>) b)
    = (case ob of None \<Rightarrow> d | Some b \<Rightarrow> pgraph_gl_surface_download_if_dirty g d b)\<lparr>pfifo_regs := r\<rparr>" for ob d r
    by (simp split: option.split)
  show ?thesis unfolding fifo_blind_def
    by (simp add: pgraph_gl_image_blit_def Let_def case_regs blit_write_blind [OF g] map_option_bind bind_map_option comp_def case_prod_unfold)
qed

interpretation gl_pusher: method_steps "pgraph_method (pgraph_gl_image_blit null_gpu) kelvin" "step_2d (pgraph_gl_image_blit null_gpu)" runs
  for kelvin
  by (rule engine_2d [OF gl_image_blit_blind]) (simp add: gpu_blind_def null_gpu_def)

section \<open>A rectangle asked for by a command stream\<close>

text \<open>What the blit needs, and what it leaves in memory.\<close>

definition blit_possible :: "nv2a \<Rightarrow> u32 \<Rightarrow> nat \<Rightarrow> nat \<Rightarrow> bool" where
  "blit_possible d bpp s t = (let cs = context_surfaces_2d d; ib = image_blit d;
     n = unat (ib_width ib) * unat bpp; h = unat (ib_height ib);
     sp = unat (cs_source_pitch cs); tp = unat (cs_dest_pitch cs) in
     (\<forall>b \<in> set (gl_surfaces d). \<not> sb_draw_dirty b) \<and> cs_object_instance cs = ib_context_surfaces ib \<and>
     ib_operation ib = NV09F_SET_OPERATION_SRCCOPY \<and> ib_width ib \<noteq> 0 \<and> ib_height ib \<noteq> 0 \<and>
     blit_bytes_per_pixel (cs_color_format cs) = Some bpp \<and> blit_source d bpp = Some s \<and> blit_dest d bpp = Some t \<and>
     n \<le> sp \<and> n \<le> tp \<and> blit_dest_size d bpp \<le> nv_clip_gpu_tile_blit d (of_nat t) (blit_dest_size d bpp) \<and>
     rows_inside d s n sp h \<and> rows_inside d t n tp h \<and> rows_apart s sp t tp n h)"

definition in_rectangle :: "nv2a \<Rightarrow> u32 \<Rightarrow> nat \<Rightarrow> nat \<Rightarrow> bool" where
  "in_rectangle d bpp t k = (\<exists>y < unat (ib_height (image_blit d)).
     t + y * unat (cs_dest_pitch (context_surfaces_2d d)) \<le> k \<and>
     k < t + y * unat (cs_dest_pitch (context_surfaces_2d d)) + unat (ib_width (image_blit d)) * unat bpp)"

definition blit_copied :: "nv2a \<Rightarrow> memory \<Rightarrow> u32 \<Rightarrow> nat \<Rightarrow> nat \<Rightarrow> bool" where
  "blit_copied d m bpp s t = (let cs = context_surfaces_2d d; ib = image_blit d; n = unat bpp;
     sp = unat (cs_source_pitch cs); tp = unat (cs_dest_pitch cs) in
     (\<forall>y < unat (ib_height ib). \<forall>x < unat (ib_width ib). \<forall>j < n. m (t + y * tp + x * n + j) =
        (case blit_alpha_override (cs_color_format cs) of
           Some a \<Rightarrow> if j = 3 then a else vram d (s + y * sp + x * n + j)
         | None \<Rightarrow> vram d (s + y * sp + x * n + j))) \<and>
     (\<forall>k. \<not> in_rectangle d bpp t k \<longrightarrow> m k = vram d k))"

text \<open>The object on the subchannel is a blit of a valid channel.\<close>

definition blit_selected :: "u32 \<Rightarrow> nv2a \<Rightarrow> bool" where
  "blit_selected s d = (s < 8 \<and> get_mask (pgraph_regs d NV_PGRAPH_CTX_CONTROL) NV_PGRAPH_CTX_CONTROL_CHID \<noteq> 0 \<and>
     get_mask (pgraph_regs d (NV_PGRAPH_CTX_CACHE1 + unat s * 4)) NV_PGRAPH_CTX_SWITCH1_GRCLASS = NV_IMAGE_BLIT)"

text \<open>A state that differs in the registers of the current object only.\<close>

definition switched :: "nv2a \<Rightarrow> nv2a \<Rightarrow> bool" where
  "switched d d' = (\<exists>D R. d' = d\<lparr>pgraph_dirty := D, pgraph_regs := R\<rparr> \<and>
     (\<forall>x. x < NV_PGRAPH_CTX_SWITCH1 \<or> NV_PGRAPH_CTX_CACHE1 \<le> x \<longrightarrow> R x = pgraph_regs d x))"

lemma blit_selected_blit [simp]: "blit_selected s (d\<lparr>image_blit := x\<rparr>) = blit_selected s d"
  by (simp add: blit_selected_def)

lemma switch_object_runs:
  assumes "s < 8"
  shows "\<exists>d'. switch_object d s = Some d' \<and> switched d d' \<and>
    pgraph_regs d' NV_PGRAPH_CTX_SWITCH1 = pgraph_regs d (NV_PGRAPH_CTX_CACHE1 + s * 4)"
  using assms unfolding switched_def
  by (simp add: switch_object_def copy_reg_def pgraph_regs_eq) (rule exI, rule exI, rule conjI, rule refl, simp)

lemma switched_same:
  assumes "switched d d'"
  shows "blit_selected s d' = blit_selected s d" "runs d' = runs d" "vram d' = vram d" "vram_size d' = vram_size d"
    "image_blit d' = image_blit d"
  using assms by (auto simp: switched_def blit_selected_def runs_def can_fifo_access_def)

lemma switched_blit:
  assumes "switched d d'"
  shows "switched (d\<lparr>image_blit := x\<rparr>) (d'\<lparr>image_blit := x\<rparr>)"
proof -
  obtain D R where "d' = d\<lparr>pgraph_dirty := D, pgraph_regs := R\<rparr>"
    "\<forall>x. x < NV_PGRAPH_CTX_SWITCH1 \<or> NV_PGRAPH_CTX_CACHE1 \<le> x \<longrightarrow> R x = pgraph_regs d x" using assms unfolding switched_def by blast
  then show ?thesis unfolding switched_def by (intro exI [of _ D] exI [of _ R]) simp
qed

lemma switched_trans:
  assumes "switched d d'" and "switched d' d''"
  shows "switched d d''"
proof -
  obtain D R where "d'' = d'\<lparr>pgraph_dirty := D, pgraph_regs := R\<rparr>"
    "\<forall>x. x < NV_PGRAPH_CTX_SWITCH1 \<or> NV_PGRAPH_CTX_CACHE1 \<le> x \<longrightarrow> R x = pgraph_regs d' x"
    using assms(2) unfolding switched_def by blast
  then show ?thesis using assms(1) unfolding switched_def by (intro exI [of _ D] exI [of _ R]) auto
qed

lemma switched_possible:
  assumes "switched d d'"
  shows "blit_possible d' bpp s t = blit_possible d bpp s t" "blit_copied d' m bpp s t = blit_copied d m bpp s t"
    "in_rectangle d' bpp t k = in_rectangle d bpp t k"
proof -
  obtain D R where d': "d' = d\<lparr>pgraph_dirty := D, pgraph_regs := R\<rparr>" using assms unfolding switched_def by blast
  have same: "nv_dma_map d' x = nv_dma_map d x" "nv_clip_gpu_tile_blit d' y l = nv_clip_gpu_tile_blit d y l"
    "rows_inside d' a n pitch h = rows_inside d a n pitch h" for x y l a n pitch h
    by (simp_all add: d' nv_dma_map_def nv_dma_load_def nv_clip_gpu_tile_blit_def rows_inside_def inside_vram_def)
  have f: "vram d' = vram d" "image_blit d' = image_blit d" "context_surfaces_2d d' = context_surfaces_2d d"
    "gl_surfaces d' = gl_surfaces d" by (simp_all add: d')
  show "in_rectangle d' bpp t k = in_rectangle d bpp t k" for k unfolding in_rectangle_def f by (rule refl)
  show "blit_copied d' m bpp s t = blit_copied d m bpp s t" unfolding blit_copied_def in_rectangle_def f by (rule refl)
  show "blit_possible d' bpp s t = blit_possible d bpp s t"
    unfolding blit_possible_def blit_source_def blit_dest_def blit_dest_size_def same f by (rule refl)
qed

text \<open>Each word reaches the object.\<close>

lemma step_blit_object:
  assumes "blit_selected s d"
  shows "\<exists>d'. switched d d' \<and> step_2d blit_op s m p d = image_blit_method blit_op d' m p"
proof -
  have s: "unat s < 8" using assms by (simp add: blit_selected_def word_less_nat_alt)
  obtain d' where d': "switch_object d (unat s) = Some d'" "switched d d'"
    "pgraph_regs d' NV_PGRAPH_CTX_SWITCH1 = pgraph_regs d (NV_PGRAPH_CTX_CACHE1 + unat s * 4)"
    using switch_object_runs [OF s] by blast
  then have "step_2d blit_op s m p d = image_blit_method blit_op d' m p"
    using assms by (simp add: step_2d_def pgraph_regs_eq blit_selected_def class_2d_def)
  then show ?thesis using d'(2) by blast
qed

lemma blit_possible_copies:
  assumes "gpu_surface_update g d = d" and "blit_possible d bpp s t"
  shows "\<exists>ss i m l. pgraph_gl_image_blit g d = Some (d\<lparr>gl_surfaces := ss, draw_time := i, vram := m, vram_dirty := l\<rparr>) \<and>
    blit_copied d m bpp s t"
proof -
  note p = assms(2) [unfolded blit_possible_def Let_def]
  have r: "(\<not> in_rectangle d bpp t k) = (\<forall>y < unat (ib_height (image_blit d)).
      k < t + y * unat (cs_dest_pitch (context_surfaces_2d d)) \<or>
      t + y * unat (cs_dest_pitch (context_surfaces_2d d)) + unat (ib_width (image_blit d)) * unat bpp \<le> k)" for k
    unfolding in_rectangle_def by (meson not_le)
  show ?thesis
    unfolding blit_copied_def Let_def r by (rule image_blit_result [OF assms(1)]) (use p in blast)+
qed

text \<open>The three words of the packet, one after the other.\<close>

definition blit_request :: "u32 \<Rightarrow> u32 \<Rightarrow> u32 \<Rightarrow> image_blit_state \<Rightarrow> image_blit_state" where
  "blit_request pin pout sz ib = ib\<lparr>ib_in_x := pin AND 0xFFFF, ib_in_y := drop_bit 16 pin,
     ib_out_x := pout AND 0xFFFF, ib_out_y := drop_bit 16 pout, ib_width := sz AND 0xFFFF, ib_height := drop_bit 16 sz\<rparr>"

lemma request_steps:
  fixes d :: nv2a and pin pout sz :: u32
  defines "e \<equiv> d\<lparr>image_blit := blit_request pin pout sz (image_blit d)\<rparr>"
  assumes sel: "blit_selected s d" and nz: "sz AND 0xFFFF \<noteq> 0" "drop_bit 16 sz \<noteq> 0"
    and Q: "\<And>f. switched (d\<lparr>image_blit := image_blit f\<rparr>) f \<Longrightarrow> Q f"
  shows "\<exists>e'. switched e e' \<and> exec_words (step_2d blit_op) Q True s 0x300 [pin, pout, sz] d
    = do { f \<leftarrow> blit_op e'; assert_that (Q f); Some f }"
proof -
  let ?i1 = "(image_blit d)\<lparr>ib_in_x := pin AND 0xFFFF, ib_in_y := drop_bit 16 pin\<rparr>"
  let ?i2 = "?i1\<lparr>ib_out_x := pout AND 0xFFFF, ib_out_y := drop_bit 16 pout\<rparr>"
  obtain d1 where d1: "switched d d1" "step_2d blit_op s 0x300 pin d = image_blit_method blit_op d1 0x300 pin"
    using step_blit_object [OF sel] by blast
  let ?e1 = "d1\<lparr>image_blit := ?i1\<rparr>"
  have s1: "step_2d blit_op s 0x300 pin d = Some ?e1" "switched (d\<lparr>image_blit := ?i1\<rparr>) ?e1"
    using d1(2) switched_same(5) [OF d1(1)] switched_blit [OF d1(1)] by (simp_all add: image_blit_method_def)
  have sel1: "blit_selected s ?e1"
    using switched_same(1) [OF s1(2)] sel by simp
  obtain d2 where d2: "switched ?e1 d2" "step_2d blit_op s 0x304 pout ?e1 = image_blit_method blit_op d2 0x304 pout"
    using step_blit_object [OF sel1] by blast
  let ?e2 = "d2\<lparr>image_blit := ?i2\<rparr>"
  have s2: "step_2d blit_op s 0x304 pout ?e1 = Some ?e2" "switched (d\<lparr>image_blit := ?i2\<rparr>) ?e2"
    using d2(2) switched_same(5) [OF d2(1)] switched_blit [OF switched_trans [OF s1(2) d2(1)], of ?i2]
    by (simp_all add: image_blit_method_def)
  have sel2: "blit_selected s ?e2"
    using switched_same(1) [OF s2(2)] sel by simp
  obtain d3 where d3: "switched ?e2 d3" "step_2d blit_op s 0x308 sz ?e2 = image_blit_method blit_op d3 0x308 sz"
    using step_blit_object [OF sel2] by blast
  let ?e3 = "d3\<lparr>image_blit := blit_request pin pout sz (image_blit d)\<rparr>"
  have s3: "step_2d blit_op s 0x308 sz ?e2 = blit_op ?e3" "switched e ?e3"
    using d3(2) switched_same(5) [OF d3(1)] nz
      switched_blit [OF switched_trans [OF s2(2) d3(1)], of "blit_request pin pout sz (image_blit d)"]
    by (simp_all add: image_blit_method_def blit_request_def e_def)
  have "Q ?e1" "Q ?e2" using Q s1(2) s2(2) by simp_all
  then show ?thesis using s1(1) s2(1) s3 by (intro exI [of _ ?e3]) (simp add: next_method_def)
qed

lemma stream_elsewhere:
  assumes "stream_at m a ws" and "\<forall>k. a \<le> k \<and> k < a + 4 * length ws \<longrightarrow> m' k = m k"
  shows "stream_at m' a ws"
proof -
  have "ldl_le_p m' (a + 4 * i) = ldl_le_p m (a + 4 * i)" if "i < length ws" for i
    using that assms(2) by (simp add: ldl_le_p_def le32_def)
  then show ?thesis using assms(1) by (simp add: stream_at_def)
qed


text \<open>A channel with a blit object on its second subchannel and the packet at offset 0x2000.\<close>

definition pushed_example :: nv2a where
  "pushed_example = blit_example\<lparr>image_blit := (image_blit nv2a_blank)\<lparr>ib_context_surfaces := 7, ib_operation := 3\<rparr>,
     vram := stl_le_p (stl_le_p (stl_le_p (stl_le_p (\<lambda>k. of_nat k) 0x2000 0xC2300) 0x2004 0) 0x2008 1) 0x200C 0x20002,
     pfifo_regs := (\<lambda>_. 0)(NV_PFIFO_MODE := 1, NV_PFIFO_CACHE1_PUSH0 := 1, NV_PFIFO_CACHE1_PUSH1 := 0x100,
       NV_PFIFO_CACHE1_DMA_PUSH := 1, NV_PFIFO_CACHE1_DMA_PUT := 0x2010, NV_PFIFO_CACHE1_DMA_GET := 0x2000,
       NV_PFIFO_CACHE1_PULL0 := 1, NV_PFIFO_CACHE1_ENGINE := 0x10),
     pgraph_regs := (\<lambda>_. 0)(NV_PGRAPH_FIFO := 1, NV_PGRAPH_CTX_CONTROL := 0x10000,
       NV_PGRAPH_CTX_CACHE1 + 4 := NV_IMAGE_BLIT)\<rparr>"

lemma example_masks:
  "get_mask 1 1 = 1" "get_mask 1 0x1000 = 0" "get_mask 0x100 0x1F = 0" "get_mask 0x100 0x100 = 1" "get_mask 0x10 0x30 = 1"
  "get_mask 0x10000 0x10000 = 1" "get_mask 0x9F 0xFF = 0x9F" "get_mask 0 m = 0"
  by (code_simp, code_simp, code_simp, code_simp, code_simp, code_simp, code_simp) (simp add: get_mask_def)

lemma pushed_example_fields:
  "pfifo_regs pushed_example = (\<lambda>_. 0)(NV_PFIFO_MODE := 1, NV_PFIFO_CACHE1_PUSH0 := 1, NV_PFIFO_CACHE1_PUSH1 := 0x100,
     NV_PFIFO_CACHE1_DMA_PUSH := 1, NV_PFIFO_CACHE1_DMA_PUT := 0x2010, NV_PFIFO_CACHE1_DMA_GET := 0x2000,
     NV_PFIFO_CACHE1_PULL0 := 1, NV_PFIFO_CACHE1_ENGINE := 0x10)"
  "pgraph_regs pushed_example = (\<lambda>_. 0)(NV_PGRAPH_FIFO := 1, NV_PGRAPH_CTX_CONTROL := 0x10000, 0x164 := 0x9F)"
  "vram pushed_example = stl_le_p (stl_le_p (stl_le_p (stl_le_p (\<lambda>k. of_nat k) 0x2000 0xC2300) 0x2004 0) 0x2008 1) 0x200C 0x20002"
  "nv_dma_map pushed_example 0 = Some (0, 0xFFFFFF)"
  using blit_example_dma(1) by (simp_all add: pushed_example_def nv_dma_map_def nv_dma_load_def)

lemma pushed_example_pusher:
  "pusher_on pushed_example 0 0xFFFFFF" "window (pfifo_regs pushed_example) 0x2000 0x2010" "idle (pfifo_regs pushed_example)"
  "lane (pfifo_regs pushed_example) 1" "runs pushed_example" "blit_selected 1 pushed_example"
  "0x2010 \<le> vram_size pushed_example" "stream_at (vram pushed_example) 0x2000 (stream_words [Packet True 1 0x300 [0, 1, 0x20002]])"
proof -
  show "pusher_on pushed_example 0 0xFFFFFF" by (simp add: pusher_on_def pushed_example_fields example_masks)
  show "window (pfifo_regs pushed_example) 0x2000 0x2010" "idle (pfifo_regs pushed_example)" "lane (pfifo_regs pushed_example) 1"
    by (simp_all add: pushed_example_fields window_def idle_def lane_def example_masks)
  show "blit_selected 1 pushed_example" by (simp add: blit_selected_def pushed_example_fields example_masks)
  show "runs pushed_example" "0x2010 \<le> vram_size pushed_example"
    by (simp_all add: pushed_example_def runs_def can_fifo_access_def blit_example_def nv2a_blank_def)
  show "stream_at (vram pushed_example) 0x2000 (stream_words [Packet True 1 0x300 [0, 1, 0x20002]])"
    by (simp add: pushed_example_fields stream_words_def stream_at_Cons stream_at_def [of _ _ "[]"] ldl_stl ldl_stl_other)
qed

lemma pushed_example_blit:
  fixes e :: nv2a
  defines "e \<equiv> pushed_example\<lparr>image_blit := blit_request 0 1 0x20002 (image_blit pushed_example)\<rparr>"
  shows "blit_possible e 4 0 0x1004" and "in_rectangle e 4 0x1004 k \<Longrightarrow> k < 0x2000"
proof -
  have m: "nv_dma_map e 0 = Some (0, 0xFFFFFF)"
    using pushed_example_fields(4) by (simp add: e_def nv_dma_map_def nv_dma_load_def)
  have i: "image_blit e = image_blit blit_example"
    by (simp add: e_def blit_request_def pushed_example_def blit_example_def nv2a_blank_def)
  have f: "context_surfaces_2d e = context_surfaces_2d blit_example" "gl_surfaces e = []" "vram_size e = 0x4000000"
    by (simp_all add: e_def pushed_example_def blit_example_fields)
  have c: "nv_clip_gpu_tile_blit e a len = len" for a len
    by (simp add: nv_clip_gpu_tile_blit_def clip_tiles_none e_def pushed_example_def blit_example_def nv2a_blank_def)
  show "blit_possible e 4 0 0x1004"
    by (auto simp: blit_possible_def blit_source_def blit_dest_def Let_def i f c m blit_example_fields blit_bytes_per_pixel_def
      rows_apart_def rows_inside_def inside_vram_def)
  show "in_rectangle e 4 0x1004 k \<Longrightarrow> k < 0x2000" by (auto simp: in_rectangle_def i f blit_example_fields)
qed


theorem pusher_runs_packets_witness:
  "\<exists>d' r. exec_packets (step_2d pgraph_null_image_blit)
      (\<lambda>d. runs d \<and> stream_at (vram d) 0x2000 (stream_words [Packet True 1 0x300 [0, 1, 0x20002]]) \<and> 0x2010 \<le> vram_size d)
      [Packet True 1 0x300 [0, 1, 0x20002]] pushed_example = Some d' \<and>
    pfifo_run_pusher (pgraph_method pgraph_null_image_blit (\<lambda>_. None)) 5 pushed_example = Some (True, d'\<lparr>pfifo_regs := r\<rparr>) \<and>
    r NV_PFIFO_CACHE1_DMA_GET = 0x2010 \<and> idle r"
proof -
  let ?qs = "[Packet True 1 0x300 [0, 1, 0x20002]]"
  let ?Q = "\<lambda>d. runs d \<and> stream_at (vram d) (0 + 0x2000) (stream_words ?qs) \<and> 0 + 0x2010 \<le> vram_size d"
  have blind: "fifo_blind pgraph_null_image_blit" by (simp add: fifo_blind_def pgraph_null_image_blit_def)
  have Q: "?Q f" if "switched (pushed_example\<lparr>image_blit := x\<rparr>) f" for x f
    using switched_same(2-4) [OF that] pushed_example_pusher(5,7,8) by (simp add: runs_def can_fifo_access_def)
  have "(0x20002 :: u32) AND 0xFFFF \<noteq> 0" "drop_bit 16 (0x20002 :: u32) \<noteq> 0" by simp_all
  then obtain e' where e': "switched (pushed_example\<lparr>image_blit := blit_request 0 1 0x20002 (image_blit pushed_example)\<rparr>) e'"
    "exec_words (step_2d pgraph_null_image_blit) ?Q True 1 0x300 [0, 1, 0x20002] pushed_example
      = do { f \<leftarrow> pgraph_null_image_blit e'; assert_that (?Q f); Some f }"
    using request_steps [OF pushed_example_pusher(6), where Q = ?Q and blit_op = pgraph_null_image_blit, OF _ _ Q] by blast
  then have ex: "exec_packets (step_2d pgraph_null_image_blit) ?Q ?qs pushed_example = Some e'"
    using Q [OF e'(1)] by (simp add: pgraph_null_image_blit_def)
  have len: "0x2000 + 4 * length (stream_words ?qs) = 0x2010" "length (stream_words ?qs) < 5" by (simp_all add: stream_words_def)
  have ok: "list_all packet_ok ?qs" by (auto simp: plain_method_def less_Suc_eq numeral_3_eq_3)
  have ln: "list_all (\<lambda>q. lane (pfifo_regs pushed_example) (packet_subchannel q)) ?qs" using pushed_example_pusher(4) by simp
  have dl: "0x2010 \<le> unat (0xFFFFFF :: u64)" by simp
  have Qd: "?Q pushed_example" using pushed_example_pusher(5,7,8) by simp
  show ?thesis
    using pusher_runs_packets [OF blind pushed_example_pusher(1) dl pushed_example_pusher(2,3) ok ln len(1) refl Qd ex len(2),
      of "\<lambda>_. None"] ex by (auto simp: pushed_example_fields(1))
qed

end
