(* ===== verification/Kelvin_Engine.thy ===== *)
theory Kelvin_Engine
  imports "HOL-Library.Multiset" Kelvin Push_Blit Nv2a_Mmio
begin

text \<open>
  The three-dimensional class as an engine of the pusher. Every handler of the table leaves the registers of the current
  object alone and does not look at the registers of PFIFO, those that are called in a loop do not change guest
  memory, and no two entries of the table share a method. Taking several words at once is therefore the same as
  taking them one by one, and the dispatch of all classes meets the contract of \<^verbatim>\<open>Pusher\<close>.
\<close>

section \<open>What a handler may change\<close>

definition keeps_objects :: "nv2a \<Rightarrow> nv2a \<Rightarrow> bool" where
  "keeps_objects d d' = (\<forall>x. 0x144 \<le> x \<and> x < 0x200 \<longrightarrow> pgraph_regs d' x = pgraph_regs d x)"

definition keeps_memory :: "nv2a \<Rightarrow> nv2a \<Rightarrow> bool" where
  "keeps_memory d d' = (vram d' = vram d \<and> vram_size d' = vram_size d)"

text \<open>The flag asks for unchanged memory as well.\<close>

definition op_good :: "bool \<Rightarrow> (nv2a \<Rightarrow> nv2a option) \<Rightarrow> bool" where
  "op_good b f = ((\<forall>d r. f (d\<lparr>pfifo_regs := r\<rparr>) = map_option (\<lambda>e. e\<lparr>pfifo_regs := r\<rparr>) (f d)) \<and>
     (\<forall>d d'. f d = Some d' \<longrightarrow> keeps_objects d d' \<and> (b \<longrightarrow> keeps_memory d d')))"

definition fun_good :: "bool \<Rightarrow> (nv2a \<Rightarrow> nv2a) \<Rightarrow> bool" where
  "fun_good b f = ((\<forall>d r. f (d\<lparr>pfifo_regs := r\<rparr>) = (f d)\<lparr>pfifo_regs := r\<rparr>) \<and>
     (\<forall>d. keeps_objects d (f d) \<and> (b \<longrightarrow> keeps_memory d (f d))))"

definition sound_handler :: "bool \<Rightarrow> word_handler \<Rightarrow> bool" where
  "sound_handler b h = (\<forall>s m p. op_good b (\<lambda>d. h d s m p))"

lemma keeps_trans2:
  "keeps_objects d e \<Longrightarrow> keeps_objects e f \<Longrightarrow> keeps_objects d f"
  "keeps_memory d e \<Longrightarrow> keeps_memory e f \<Longrightarrow> keeps_memory d f"
  by (simp_all add: keeps_objects_def keeps_memory_def)

named_theorems good "rules for what a handler may change"

lemma op_Some [good]: "fun_good b f \<Longrightarrow> op_good b (\<lambda>d. Some (f d))"
  by (simp add: fun_good_def op_good_def)

lemma op_None [good]: "op_good b (\<lambda>d. None)"
  by (simp add: op_good_def)

lemma op_bind [good]:
  assumes "op_good b f" and "op_good b g"
  shows "op_good b (\<lambda>d. Option.bind (f d) g)"
  unfolding op_good_def
proof (intro conjI allI impI)
  fix d r
  have "f (d\<lparr>pfifo_regs := r\<rparr>) = map_option (\<lambda>e. e\<lparr>pfifo_regs := r\<rparr>) (f d)"
    "\<And>e. g (e\<lparr>pfifo_regs := r\<rparr>) = map_option (\<lambda>e. e\<lparr>pfifo_regs := r\<rparr>) (g e)" using assms by (simp_all add: op_good_def)
  then show "Option.bind (f (d\<lparr>pfifo_regs := r\<rparr>)) g = map_option (\<lambda>e. e\<lparr>pfifo_regs := r\<rparr>) (Option.bind (f d) g)"
    by (cases "f d") simp_all
next
  fix d d' assume "Option.bind (f d) g = Some d'"
  then obtain e where e: "f d = Some e" "g e = Some d'" by (auto simp: bind_eq_Some_conv)
  have "keeps_objects d e" "keeps_objects e d'" "b \<Longrightarrow> keeps_memory d e" "b \<Longrightarrow> keeps_memory e d'"
    using assms e unfolding op_good_def by blast+
  then show "keeps_objects d d'" "b \<Longrightarrow> keeps_memory d d'" by (blast intro: keeps_trans2)+
qed

lemma op_value [good]:
  assumes "\<And>d r. q (d\<lparr>pfifo_regs := r\<rparr>) = q d" and "\<And>v. op_good b (g v)"
  shows "op_good b (\<lambda>d. Option.bind (q d) (\<lambda>v. g v d))"
  using assms unfolding op_good_def by (auto simp: bind_eq_Some_conv map_option_bind comp_def)

lemma op_pre:
  assumes "fun_good b f" and "op_good b g"
  shows "op_good b (\<lambda>d. g (f d))"
  using assms unfolding op_good_def fun_good_def by (metis keeps_trans2)

lemma op_if [good]:
  assumes "\<And>d r. c (d\<lparr>pfifo_regs := r\<rparr>) = c d" and "op_good b f" and "op_good b g"
  shows "op_good b (\<lambda>d. if c d then f d else g d)"
  using assms unfolding op_good_def by auto

lemma op_case_option [good]:
  assumes "op_good b f" and "\<And>v. op_good b (g v)"
  shows "op_good b (\<lambda>d. case x of None \<Rightarrow> f d | Some v \<Rightarrow> g v d)"
  using assms by (cases x) simp_all

lemma fun_id [good]: "fun_good b (\<lambda>d. d)"
  by (simp add: fun_good_def keeps_objects_def keeps_memory_def)

lemma fun_comp: "fun_good b f \<Longrightarrow> fun_good b g \<Longrightarrow> fun_good b (\<lambda>d. f (g d))"
  unfolding fun_good_def by (metis keeps_trans2)

lemma fun_if [good]: "fun_good b f \<Longrightarrow> fun_good b g \<Longrightarrow> fun_good b (\<lambda>d. if c then f d else g d)"
  by (cases c) simp_all

lemma fun_kelvin [good]: "fun_good b (on_kelvin f)"
  by (simp add: fun_good_def on_kelvin_def keeps_objects_def keeps_memory_def)

lemma fun_kelvin_after [good]: "fun_good b g \<Longrightarrow> fun_good b (\<lambda>d. on_kelvin f (g d))"
  by (rule fun_comp [OF fun_kelvin])

lemma op_draw [good]: "op_good b (on_draw f)"
  unfolding op_good_def
proof (intro conjI allI impI)
  fix d r show "on_draw f (d\<lparr>pfifo_regs := r\<rparr>) = map_option (\<lambda>e. e\<lparr>pfifo_regs := r\<rparr>) (on_draw f d)"
    by (cases "f (pg_draw d)") (simp_all add: on_draw_def)
qed (auto simp: on_draw_def keeps_objects_def keeps_memory_def bind_eq_Some_conv)

lemma op_reg_w [good]: "0x200 \<le> x \<Longrightarrow> op_good b (\<lambda>d. pgraph_reg_w d x v)"
  by (auto simp: op_good_def pgraph_reg_w_def assert_that_def Let_def keeps_objects_def keeps_memory_def split: if_splits)

lemma op_reg_low [good]: "x < 0x144 \<Longrightarrow> op_good b (\<lambda>d. pgraph_reg_w d x v)"
  by (auto simp: op_good_def pgraph_reg_w_def assert_that_def Let_def keeps_objects_def keeps_memory_def split: if_splits)

lemma op_set_mask [good]: "0x200 \<le> x \<Longrightarrow> op_good b (\<lambda>d. pg_set_mask d x m v)"
  unfolding pg_set_mask_def by (rule op_value) (simp_all add: op_reg_w)

lemma op_set_mask_after [good]: "0x200 \<le> x \<Longrightarrow> fun_good b f \<Longrightarrow> op_good b (\<lambda>d. pg_set_mask (f d) x m v)"
  by (rule op_pre [OF _ op_set_mask])

section \<open>The handlers\<close>

text \<open>The renderer does not touch the registers of PFIFO and those of the current object.\<close>

definition ops_good :: "kelvin_ops \<Rightarrow> bool" where
  "ops_good k = (fun_good False (ko_surface_update k) \<and> fun_good False (ko_flip_stall k) \<and>
     fun_good False (ko_process_pending_reports k) \<and> fun_good False (ko_clear_report_value k) \<and>
     (\<forall>p. op_good False (\<lambda>d. ko_get_report k d p)) \<and> (\<forall>p. fun_good False (\<lambda>d. ko_clear_surface k d p)))"

lemma sound_intro: "(\<And>s m p. op_good b (\<lambda>d. h d s m p)) \<Longrightarrow> sound_handler b h"
  by (simp add: sound_handler_def)

lemma sound_set_reg [good]: "0x200 \<le> x \<Longrightarrow> sound_handler b (write_reg x)"
  unfolding sound_handler_def write_reg_def by (blast intro: good)

lemma sound_set_reg_slot [good]: "0x200 \<le> x \<Longrightarrow> sound_handler b (set_reg_slot x base n)"
  unfolding sound_handler_def set_reg_slot_def by (simp add: op_reg_w)

lemma sound_set_field [good]: "0x200 \<le> x \<Longrightarrow> sound_handler b (set_field x m)"
  unfolding sound_handler_def set_field_def by (blast intro: good)

lemma sound_set_mapped [good]: "0x200 \<le> x \<Longrightarrow> sound_handler b (set_mapped x m t)"
  unfolding sound_handler_def set_mapped_def by (intro allI op_value op_set_mask) simp_all

lemma sound_set_known [good]: "0x200 \<le> x \<Longrightarrow> sound_handler b (set_known x m t)"
  unfolding sound_handler_def set_known_def by (intro allI op_case_option op_set_mask op_Some fun_id)

lemma sound_set_bounded [good]: "0x200 \<le> x \<Longrightarrow> sound_handler b (set_bounded x m n)"
  unfolding sound_handler_def set_bounded_def by (intro allI op_value op_set_mask) simp_all

lemma op_vsh_constant [good]: "op_good b (set_vsh_constant row col v)"
  by (auto simp: op_good_def set_vsh_constant_def assert_that_def keeps_objects_def keeps_memory_def split: if_splits)

lemma op_lighting [good]: "op_good b (set_ltctxa row col v)" "op_good b (set_ltctxb row col v)" "op_good b (set_ltc1 row col v)"
  "op_good b (touch_texture slot)"
  unfolding set_ltctxa_def set_ltctxb_def set_ltc1_def touch_texture_def by (intro op_value op_Some fun_kelvin; simp)+

lemma sound_rows [good]:
  "sound_handler b (ltctxa_row row base)" "sound_handler b (set_matrix row base)" "sound_handler b (set_matrices row base)"
  "sound_handler b (set_vector row base)"
  unfolding sound_handler_def ltctxa_row_def set_matrix_def set_matrices_def set_vector_def Let_def by (intro allI good)+

lemma run_functions:
  "set_fields x [] = Some" "set_fields x ((m, w) # fs) = (\<lambda>d. Option.bind (pg_set_mask d x m w) (set_fields x fs))"
  "set_reg_run x [] v = Some" "set_reg_run x (n # ns) v = (\<lambda>d. Option.bind (pgraph_reg_w d (x + n * 4) v) (set_reg_run x ns v))"
  by (simp_all add: fun_eq_iff)

lemma op_fields [good]: "0x200 \<le> x \<Longrightarrow> op_good b (set_fields x fs)"
proof (induction fs)
  case (Cons f fs)
  then show ?case by (cases f) (simp add: run_functions op_bind op_set_mask)
qed (simp add: run_functions op_Some fun_id)

lemma op_reg_run [good]: "0x200 \<le> x \<Longrightarrow> op_good b (set_reg_run x slots v)"
  by (induction slots) (simp_all add: run_functions op_bind op_reg_w op_Some fun_id)

lemma sound_surface_methods:
  assumes "ops_good k"
  shows "sound_handler False (SET_SURFACE_CLIP_HORIZONTAL k)" "sound_handler False (SET_SURFACE_CLIP_VERTICAL k)"
    "sound_handler False (SET_SURFACE_FORMAT k)" "sound_handler False (SET_SURFACE_PITCH k)"
    "sound_handler False (SET_SURFACE_COLOR_OFFSET k)" "sound_handler False (SET_SURFACE_ZETA_OFFSET k)"
    "sound_handler False (SET_CONTROL0 k)"
proof -
  have u: "fun_good False (\<lambda>d. ko_surface_update k d)" using assms by (simp add: ops_good_def)
  show "sound_handler False (SET_SURFACE_CLIP_HORIZONTAL k)" "sound_handler False (SET_SURFACE_CLIP_VERTICAL k)"
    "sound_handler False (SET_SURFACE_FORMAT k)" "sound_handler False (SET_SURFACE_PITCH k)"
    "sound_handler False (SET_SURFACE_COLOR_OFFSET k)" "sound_handler False (SET_SURFACE_ZETA_OFFSET k)"
    unfolding sound_handler_def SET_SURFACE_CLIP_HORIZONTAL_def SET_SURFACE_CLIP_VERTICAL_def SET_SURFACE_FORMAT_def
      SET_SURFACE_PITCH_def SET_SURFACE_COLOR_OFFSET_def SET_SURFACE_ZETA_OFFSET_def
    by (intro allI op_Some fun_kelvin_after u)+
  show "sound_handler False (SET_CONTROL0 k)"
    unfolding sound_handler_def SET_CONTROL0_def Let_def by (intro allI op_bind op_set_mask_after op_set_mask u) simp_all
qed

lemma sound_register_methods [good]:
  "sound_handler b SET_LIGHT_CONTROL" "sound_handler b SET_COLOR_MATERIAL" "sound_handler b SET_FOG_COLOR"
  "sound_handler b SET_POINT_PARAMS_ENABLE" "sound_handler b SET_TRANSFORM_EXECUTION_MODE"
  unfolding sound_handler_def SET_LIGHT_CONTROL_def SET_COLOR_MATERIAL_def SET_FOG_COLOR_def SET_POINT_PARAMS_ENABLE_def
    SET_TRANSFORM_EXECUTION_MODE_def by (intro allI op_bind op_set_mask; simp)+

lemma sound_clip_methods [good]:
  "sound_handler b SET_WINDOW_CLIP_HORIZONTAL" "sound_handler b SET_WINDOW_CLIP_VERTICAL"
  unfolding sound_handler_def SET_WINDOW_CLIP_HORIZONTAL_def SET_WINDOW_CLIP_VERTICAL_def by (simp_all add: op_reg_run)

lemma write_enabled_blind [simp]:
  "pgraph_color_write_enabled (d\<lparr>pfifo_regs := r\<rparr>) = pgraph_color_write_enabled d"
  "pgraph_zeta_write_enabled (d\<lparr>pfifo_regs := r\<rparr>) = pgraph_zeta_write_enabled d"
  by (simp_all add: pgraph_color_write_enabled_def pgraph_zeta_write_enabled_def)

lemma sound_mask_methods [good]: "sound_handler b SET_COLOR_MASK" "sound_handler b SET_DEPTH_MASK"
  unfolding sound_handler_def SET_COLOR_MASK_def SET_DEPTH_MASK_def Let_def
  by (intro allI op_value op_bind op_set_mask_after op_set_mask fun_kelvin; simp)+

lemma sound_guarded_methods [good]:
  "sound_handler b SET_DEPTH_FUNC" "sound_handler b SET_POINT_SIZE" "sound_handler b SET_PROVOKING_VERTEX"
  "sound_handler b SET_ZMIN_MAX_CONTROL"
  unfolding sound_handler_def SET_DEPTH_FUNC_def SET_POINT_SIZE_def SET_PROVOKING_VERTEX_def SET_ZMIN_MAX_CONTROL_def Let_def
  by (intro allI op_if op_value op_set_mask op_reg_w op_Some op_None fun_id; simp)+

lemma sound_texgen [good]: "sound_handler b (SET_TEXGEN base t0 t1 ch)"
  unfolding sound_handler_def SET_TEXGEN_def Let_def by (intro allI op_value op_set_mask) simp_all

lemma sound_array_methods [good]:
  "sound_handler b SET_TEXTURE_MATRIX_ENABLE" "sound_handler b SET_POINT_PARAMS" "sound_handler b SET_TRANSFORM_DATA"
  "sound_handler b (SET_SPECULAR_PARAMS k)" "sound_handler b (SET_SPECULAR_PARAMS_BACK k)"
  unfolding sound_handler_def SET_TEXTURE_MATRIX_ENABLE_def SET_POINT_PARAMS_def SET_TRANSFORM_DATA_def SET_SPECULAR_PARAMS_def
    SET_SPECULAR_PARAMS_BACK_def Let_def
  by (intro allI op_value op_Some fun_if fun_kelvin_after fun_kelvin fun_id; simp)+

lemma sound_fog_params [good]: "sound_handler b SET_FOG_PARAMS"
  unfolding sound_handler_def SET_FOG_PARAMS_def Let_def
  by (intro allI op_bind op_if op_reg_w op_Some fun_id op_lighting) simp_all

lemma sound_program [good]: "sound_handler b SET_TRANSFORM_PROGRAM"
  unfolding sound_handler_def SET_TRANSFORM_PROGRAM_def Let_def
  by (intro allI op_value op_if op_set_mask_after op_Some fun_kelvin; simp)

lemma sound_constant [good]: "sound_handler b SET_TRANSFORM_CONSTANT"
proof -
  have "fun_good b (\<lambda>d. d\<lparr>vsh_constants_dirty := f d, vsh_constants := g d\<rparr>)"
    if "\<And>d r. f (d\<lparr>pfifo_regs := r\<rparr>) = f d" "\<And>d r. g (d\<lparr>pfifo_regs := r\<rparr>) = g d" for f g
    using that by (simp add: fun_good_def keeps_objects_def keeps_memory_def)
  then show ?thesis
    unfolding sound_handler_def SET_TRANSFORM_CONSTANT_def Let_def
    by (intro allI op_value op_if op_set_mask_after op_Some) simp_all
qed

lemma sound_lights [good]: "sound_handler b SET_BACK_LIGHT" "sound_handler b SET_LIGHT"
  unfolding sound_handler_def SET_BACK_LIGHT_def SET_LIGHT_def Let_def
  by (intro allI op_value op_if op_lighting op_Some fun_kelvin op_None; simp)+

lemma sound_texture_methods [good]:
  "0x200 \<le> x \<Longrightarrow> sound_handler b (set_texture_reg x base)" "0x200 \<le> x \<Longrightarrow> sound_handler b (set_bump_reg x base)"
  "sound_handler b SET_TEXTURE_FORMAT" "sound_handler b SET_TEXTURE_PALETTE"
  unfolding sound_handler_def set_texture_reg_def set_bump_reg_def SET_TEXTURE_FORMAT_def SET_TEXTURE_PALETTE_def Let_def
  by (intro allI op_bind op_if op_reg_w op_fields op_lighting op_Some fun_id; simp)+

lemma sound_bump_mat [good]: "sound_handler b SET_TEXTURE_SET_BUMP_ENV_MAT"
proof -
  have "0x200 \<le> [NV_PGRAPH_BUMPMAT00, NV_PGRAPH_BUMPMAT01, NV_PGRAPH_BUMPMAT11, NV_PGRAPH_BUMPMAT10] ! (n mod 4) + n div 4" for n :: nat
  proof -
    have "n mod 4 = 0 \<or> n mod 4 = 1 \<or> n mod 4 = 2 \<or> n mod 4 = 3" by presburger
    then show ?thesis by auto
  qed
  then show ?thesis
    unfolding sound_handler_def SET_TEXTURE_SET_BUMP_ENV_MAT_def Let_def
    by (intro allI op_if op_reg_w op_Some fun_id) simp_all
qed

lemma sound_threshold [good]: "sound_handler b SET_SHADOW_ZSLOPE_THRESHOLD"
  unfolding sound_handler_def SET_SHADOW_ZSLOPE_THRESHOLD_def
  by (intro allI op_bind op_reg_w op_value op_Some fun_id) simp_all

lemma op_case_prod [good]: "(\<And>a c. op_good b (g a c)) \<Longrightarrow> op_good b (\<lambda>d. case v of (a, c) \<Rightarrow> g a c d)"
  by (cases v) simp

lemma dma_map_blind [simp]: "nv_dma_map (d\<lparr>pfifo_regs := r\<rparr>) y = nv_dma_map d y"
  by (simp add: nv_dma_map_def nv_dma_load_def)

lemma sound_kelvin_ops:
  assumes "ops_good k"
  shows "sound_handler False (GET_REPORT k)" "sound_handler False (BACK_END_WRITE_SEMAPHORE_RELEASE k)"
    "sound_handler False (LAUNCH_TRANSFORM_PROGRAM k)"
proof -
  have u: "fun_good False (ko_surface_update k)" "op_good False (\<lambda>d. ko_get_report k d p)" for p
    using assms by (simp_all add: ops_good_def)
  show "sound_handler False (GET_REPORT k)"
    unfolding sound_handler_def GET_REPORT_def by (intro allI op_value u) simp_all
  have w: "fun_good False (\<lambda>d. d\<lparr>vram := stl_le_p (vram d) a p\<rparr>)" "fun_good False (\<lambda>d. d\<lparr>vsh_constants := c, vsh_constants_dirty := e\<rparr>)"
    for a p c e by (simp_all add: fun_good_def keeps_objects_def)
  have "op_good False (\<lambda>d. do {
      semaphore_offset \<leftarrow> pgraph_reg_r d NV_PGRAPH_SEMAPHOREOFFSET;
      (semaphore_data, semaphore_dma_len) \<leftarrow> nv_dma_map d (unat (dma_semaphore (pg_kelvin d)));
      assert_that (ucast semaphore_offset < semaphore_dma_len);
      assert_that (semaphore_data + unat semaphore_offset + 4 \<le> vram_size d);
      Some (d\<lparr>vram := stl_le_p (vram d) (semaphore_data + unat semaphore_offset) p\<rparr>) })" for p
    by (intro op_value op_case_prod op_Some w) simp_all
  then show "sound_handler False (BACK_END_WRITE_SEMAPHORE_RELEASE k)"
    unfolding sound_handler_def BACK_END_WRITE_SEMAPHORE_RELEASE_def Let_def by (intro allI op_pre [OF u(1)])
  show "sound_handler False (LAUNCH_TRANSFORM_PROGRAM k)"
    unfolding sound_handler_def LAUNCH_TRANSFORM_PROGRAM_def by (intro allI op_value op_case_prod op_Some w) simp_all
qed

lemma update_irq_good: "fun_good b nv2a_update_irq"
  unfolding fun_good_def nv2a_update_irq_eq keeps_objects_def keeps_memory_def by (simp add: aggregated_def unit_bits_def)

lemma sound_waiting_methods:
  "sound_handler False NV097_NO_OPERATION_handler"
  "sound_handler False (\<lambda>d s m p. NV097_SET_FLIP_READ_handler d p)" "sound_handler False (\<lambda>d s m p. NV097_SET_FLIP_WRITE_handler d p)"
  "sound_handler False (\<lambda>d s m p. NV097_SET_FLIP_MODULO_handler d p)"
  "sound_handler False (\<lambda>d s m p. NV097_FLIP_INCREMENT_WRITE_handler d)"
proof -
  have "fun_good False (\<lambda>d. d\<lparr>pgraph_pending := pgraph_pending d OR NV_PGRAPH_INTR_ERROR, waiting_for_nop := True\<rparr>)"
    by (simp add: fun_good_def keeps_objects_def)
  note f = fun_comp [OF update_irq_good this]
  show "sound_handler False NV097_NO_OPERATION_handler"
    unfolding sound_handler_def NV097_NO_OPERATION_handler_def
    by (intro allI, rule op_if, simp, rule op_Some, rule fun_id, rule op_value, simp, rule op_value, simp)
      ((rule op_bind | (rule op_set_mask, (simp; fail)) | (rule op_reg_w, (simp; fail)) | (rule op_reg_low, (simp; fail))
        | (rule op_Some, rule f))+)
  show "sound_handler False (\<lambda>d s m p. NV097_SET_FLIP_READ_handler d p)" "sound_handler False (\<lambda>d s m p. NV097_SET_FLIP_WRITE_handler d p)"
    "sound_handler False (\<lambda>d s m p. NV097_SET_FLIP_MODULO_handler d p)" "sound_handler False (\<lambda>d s m p. NV097_FLIP_INCREMENT_WRITE_handler d)"
    unfolding sound_handler_def NV097_SET_FLIP_READ_handler_def NV097_SET_FLIP_WRITE_handler_def NV097_SET_FLIP_MODULO_handler_def
      NV097_FLIP_INCREMENT_WRITE_handler_def flip_increment_def
    by (intro allI op_value op_set_mask; simp)+
qed

section \<open>The rows\<close>

fun row_good :: "kelvin_row \<Rightarrow> bool" where
  "row_good (base, n, stride, Plain h) = sound_handler False h"
| "row_good (base, n, stride, Inc h e) = (sound_handler True h \<and> stride = 4 \<and> unat base + 4 * n \<le> 0x2000 \<and> e = base + 4 * of_nat n)"
| "row_good (base, n, stride, NonInc h) = sound_handler True h"

lemma row_goods [good]:
  "sound_handler False h \<Longrightarrow> row_good (DEF_METHOD a h)"
  "sound_handler True h \<Longrightarrow> unat a + 4 * n \<le> 0x2000 \<Longrightarrow> row_good (DEF_METHOD_INC a n h)"
  "sound_handler True h \<Longrightarrow> row_good (DEF_METHOD_NON_INC a h)"
  "sound_handler False h \<Longrightarrow> row_good (DEF_METHOD_CASE_4 a x y h)"
  by (simp_all add: DEF_METHOD_def DEF_METHOD_INC_def DEF_METHOD_NON_INC_def DEF_METHOD_CASE_4_def)

lemma sound_pure [good]:
  "(\<And>s m p. fun_good b (\<lambda>d. f d s m p)) \<Longrightarrow> sound_handler b (\<lambda>d s m p. Some (f d s m p))"
  "0x200 \<le> x \<Longrightarrow> sound_handler b (\<lambda>d s m p. pg_set_mask d x k (g p))"
  "sound_handler b (\<lambda>d s m p. on_draw (h s m p) d)"
  by (simp_all add: sound_handler_def op_Some op_set_mask op_draw)

lemma register_rows_good:
  "list_all row_good enable_rows" "list_all row_good blending_rows" "list_all row_good raster_rows" "list_all row_good material_rows"
  "list_all row_good combiner_rows" "list_all row_good light_rows" "list_all row_good texture_rows"
  unfolding enable_rows_def blending_rows_def raster_rows_def material_rows_def combiner_rows_def light_rows_def texture_rows_def
    list.pred_inject
  by (intro conjI TrueI good; simp)+

lemma drawing_rows_good:
  "list_all row_good (draw_rows k)" "list_all row_good vertex_array_rows" "list_all row_good (matrix_rows k)"
  unfolding draw_rows_def vertex_array_rows_def matrix_rows_def list.pred_inject by (intro conjI TrueI good; simp)+

lemma vertex_row_good:
  assumes "base + 4 * n \<le> 0x2000"
  shows "row_good (let handler = (\<lambda>d s m p. on_draw (\<lambda>pg. h pg (method_slot m (of_nat base) 4) p) d)
     in if base = 0x1698 \<or> base = 0x169C then DEF_METHOD (of_nat base) handler else DEF_METHOD_INC (of_nat base) n handler)"
proof -
  have "unat (of_nat base :: u32) = base" using assms by (simp add: unat_of_nat)
  then show ?thesis using assms unfolding Let_def by (auto intro!: good)
qed

lemma vertex_rows_good: "list_all row_good vertex_rows"
proof -
  have "list_all (\<lambda>(base, n, h). base + 4 * n \<le> 0x2000) vertex_methods" by (simp add: vertex_methods_def)
  then show ?thesis unfolding vertex_rows_def list.pred_map
    by (rule list.pred_mono_strong) (auto simp only: prod.case comp_def vertex_row_good)
qed

lemma ops_rows_good:
  assumes "ops_good k"
  shows "list_all row_good (context_rows k)" "list_all row_good (surface_rows k)" "list_all row_good (fog_rows k)"
    "list_all row_good (report_rows k)" "list_all row_good (semaphore_rows k)" "list_all row_good (shader_rows k)"
proof -
  have u: "fun_good False (\<lambda>d. ko_surface_update k d)" "fun_good False (\<lambda>d. ko_process_pending_reports k d)"
    "fun_good False (\<lambda>d. ko_clear_report_value k d)" "fun_good False (\<lambda>d. ko_clear_surface k d p)" for p
    using assms by (simp_all add: ops_good_def)
  have o: "fun_good False (\<lambda>d. d\<lparr>kelvin_object_instance := x\<rparr>)" for x by (simp add: fun_good_def keeps_objects_def)
  have "fun_good False (ko_flip_stall k)" "fun_good False NV097_FLIP_STALL_handler"
    using assms by (simp_all add: ops_good_def fun_good_def NV097_FLIP_STALL_handler_def keeps_objects_def)
  then have st: "fun_good False (\<lambda>d. NV097_FLIP_STALL_handler (ko_flip_stall k (ko_surface_update k d)))"
    using fun_comp [OF _ fun_comp [OF _ u(1)]] by blast
  note g = good sound_surface_methods [OF assms] sound_kelvin_ops [OF assms] sound_waiting_methods u o st
  show "list_all row_good (context_rows k)" "list_all row_good (surface_rows k)" "list_all row_good (fog_rows k)"
    "list_all row_good (report_rows k)" "list_all row_good (semaphore_rows k)" "list_all row_good (shader_rows k)"
    unfolding context_rows_def surface_rows_def fog_rows_def report_rows_def semaphore_rows_def shader_rows_def list.pred_inject
    by (intro conjI TrueI g; simp)+
qed

lemma kelvin_rows_good: "ops_good k \<Longrightarrow> list_all row_good (kelvin_rows k)"
  unfolding kelvin_rows_def
  by (simp add: register_rows_good drawing_rows_good vertex_rows_good ops_rows_good)

section \<open>No method has two handlers\<close>

text \<open>The stretches of bytes in the method space that a row takes.\<close>

fun row_spans :: "kelvin_row \<Rightarrow> (nat \<times> nat) list" where
  "row_spans (base, n, stride, entry) =
     (if stride = 4 then [(unat base, unat base + 4 * n)]
      else map (\<lambda>k. (unat base + k * stride, unat base + k * stride + 4)) [0..<n])"

definition before :: "nat \<times> nat \<Rightarrow> nat \<times> nat \<Rightarrow> bool" where
  "before x y = (fst x \<le> snd x \<and> snd x \<le> fst y \<and> fst y \<le> snd y)"

definition apart :: "nat \<times> nat \<Rightarrow> nat \<times> nat \<Rightarrow> bool" where
  "apart x y = (before x y \<or> before y x)"

lemma sorted_wrt_mset:
  assumes "symp P" and "sorted_wrt P xs" and "mset xs = mset ys"
  shows "sorted_wrt P ys"
  using assms(2,3)
proof (induction ys arbitrary: xs)
  case (Cons y ys)
  then have "y \<in> set xs" by (metis list.set_intros(1) set_mset_mset)
  then obtain us vs where xs: "xs = us @ y # vs" by (meson split_list)
  then have m: "mset (us @ vs) = mset ys" using Cons.prems(2) by simp
  have "sorted_wrt P (us @ vs)" "\<forall>z \<in> set (us @ vs). P z y \<or> P y z" using Cons.prems(1) by (auto simp: xs sorted_wrt_append)
  moreover have "set (us @ vs) = set ys" by (rule mset_eq_setD [OF m])
  ultimately have "sorted_wrt P ys" "\<forall>z \<in> set ys. P y z" using Cons.IH [OF _ m] sympD [OF assms(1)] by blast+
  then show ?case by simp
qed simp

lemmas kelvin_rows_defs = kelvin_rows_def context_rows_def surface_rows_def fog_rows_def enable_rows_def blending_rows_def
  raster_rows_def material_rows_def matrix_rows_def combiner_rows_def light_rows_def vertex_rows_def vertex_array_rows_def
  report_rows_def draw_rows_def texture_rows_def semaphore_rows_def shader_rows_def DEF_METHOD_def DEF_METHOD_INC_def
  DEF_METHOD_NON_INC_def DEF_METHOD_CASE_4_def vertex_methods_def

lemma kelvin_spans_in_order: "successively before (sort_key fst (concat (map row_spans (kelvin_rows k))))"
  by (simp add: kelvin_rows_defs upt_rec before_def)

lemma kelvin_spans_apart: "sorted_wrt apart (concat (map row_spans (kelvin_rows k)))"
proof -
  have "transp before" by (auto simp: transp_def before_def)
  then have "sorted_wrt before (sort_key fst (concat (map row_spans (kelvin_rows k))))"
    using kelvin_spans_in_order successively_conv_sorted_wrt by blast
  then have "sorted_wrt apart (sort_key fst (concat (map row_spans (kelvin_rows k))))"
    by (rule sorted_wrt_mono_rel [rotated]) (simp add: apart_def)
  moreover have "symp apart" by (auto simp: symp_def apart_def)
  ultimately show ?thesis using sorted_wrt_mset mset_sort by blast
qed

lemma sorted_wrt_concat:
  "sorted_wrt P (concat (map f xs)) \<Longrightarrow> sorted_wrt (\<lambda>x y. \<forall>a \<in> set (f x). \<forall>c \<in> set (f y). P a c) xs"
  by (induction xs) (auto simp: sorted_wrt_append)

lemma row_has_span:
  assumes "row_has i row"
  shows "\<exists>(a, c) \<in> set (row_spans row). a \<le> 4 * i \<and> 4 * i < c"
proof (cases row)
  case (fields base n stride entry)
  let ?k = "(4 * i - unat base) div stride"
  have i: "unat base \<le> 4 * i" "(4 * i - unat base) mod stride = 0" "?k < n" using assms by (simp_all add: fields)
  then have "4 * i = unat base + ?k * stride" by (metis add_0_right add_diff_inverse_nat div_mult_mod_eq not_less)
  then obtain k where k: "k < n" "4 * i = unat base + k * stride" using i(3) by blast
  show ?thesis
  proof (cases "stride = 4")
    case False
    then have "(unat base + k * stride, unat base + k * stride + 4) \<in> set (row_spans row)" using k(1) by (auto simp: fields)
    then show ?thesis using k(2) by (intro bexI [of _ "(unat base + k * stride, unat base + k * stride + 4)"]) simp_all
  qed (use k in \<open>auto simp: fields\<close>)
qed

lemma kelvin_row_unique:
  assumes "row \<in> set (kelvin_rows k)" and "row_has i row"
  shows "find (row_has i) (kelvin_rows k) = Some row"
proof -
  let ?rows = "kelvin_rows k"
  have ap: "sorted_wrt (\<lambda>x y. \<forall>a \<in> set (row_spans x). \<forall>c \<in> set (row_spans y). apart a c) ?rows"
    by (rule sorted_wrt_concat [OF kelvin_spans_apart])
  have no: "\<not> (\<forall>a \<in> set (row_spans x). \<forall>c \<in> set (row_spans y). apart a c)" if "row_has i x" "row_has i y" for x y
    using row_has_span [OF that(1)] row_has_span [OF that(2)] by (fastforce simp: apart_def before_def)
  obtain q where q: "find (row_has i) ?rows = Some q"
    using assms find_None_iff by (metis not_None_eq)
  then obtain x where x: "x < length ?rows" "row_has i q" "q = ?rows ! x" "\<forall>y < x. \<not> row_has i (?rows ! y)"
    by (auto simp: find_Some_iff)
  obtain y where y: "y < length ?rows" "row = ?rows ! y" using assms(1) by (metis in_set_conv_nth)
  have "\<not> y < x" using x(4) assms(2) y(2) by blast
  moreover have "\<not> x < y" using sorted_wrt_nth_less [OF ap] y x(2,3) no assms(2) by blast
  ultimately have "x = y" by simp
  then show ?thesis using q x(3) y(2) by simp
qed

text \<open>Entries that are called in a loop only cover methods that the loop may run through.\<close>

fun entry_ok :: "(nat \<Rightarrow> kelvin_entry option) \<Rightarrow> nat \<Rightarrow> kelvin_entry \<Rightarrow> bool" where
  "entry_ok t i (Plain h) = sound_handler False h"
| "entry_ok t i (Inc h e) = (sound_handler True h \<and> unat e \<le> 0x2000 \<and> unat e mod 4 = 0 \<and> 4 * i < unat e \<and>
     (\<forall>j. i \<le> j \<and> 4 * j < unat e \<longrightarrow> t j = Some (Inc h e)))"
| "entry_ok t i (NonInc h) = sound_handler True h"

definition table_ok :: "(nat \<Rightarrow> kelvin_entry option) \<Rightarrow> bool" where
  "table_ok t = (\<forall>i e. t i = Some e \<longrightarrow> entry_ok t i e)"

lemma kelvin_table_ok:
  assumes "ops_good k"
  shows "table_ok (pgraph_kelvin_methods k)"
  unfolding table_ok_def
proof (intro allI impI)
  fix i e assume t: "pgraph_kelvin_methods k i = Some e"
  then obtain base n stride where f: "find (row_has i) (kelvin_rows k) = Some (base, n, stride, e)"
    by (auto simp: pgraph_kelvin_methods_def kelvin_lookup_def)
  then obtain x where x: "x < length (kelvin_rows k)" "row_has i (kelvin_rows k ! x)" "(base, n, stride, e) = kelvin_rows k ! x"
    unfolding find_Some_iff by blast
  have row: "(base, n, stride, e) \<in> set (kelvin_rows k)" using nth_mem [OF x(1)] by (simp only: x(3))
  have has: "row_has i (base, n, stride, e)" using x(2) by (simp only: x(3))
  have good: "row_good (base, n, stride, e)" using kelvin_rows_good [OF assms] row by (simp add: list_all_iff)
  show "entry_ok (pgraph_kelvin_methods k) i e"
  proof (cases e)
    case (Inc h a)
    have g: "sound_handler True h" "stride = 4" "unat base + 4 * n \<le> 0x2000" "a = base + 4 * of_nat n"
      using good by (simp_all add: Inc)
    have "unat (of_nat (4 * n) :: u32) = 4 * n" using g(3) by (intro of_nat_u32) simp
    then have a: "unat a = unat base + 4 * n"
      using g(3,4) unat_add_lem [of base "of_nat (4 * n)"] by simp
    have "unat base \<le> 4 * i" "(4 * i - unat base) mod 4 = 0" "(4 * i - unat base) div 4 < n" using has g(2) by simp_all
    then obtain q where q: "4 * i = unat base + 4 * q" "q < n" by (metis div_mult_mod_eq add.right_neutral le_add_diff_inverse mult.commute)
    have "pgraph_kelvin_methods k j = Some e" if "i \<le> j" "4 * j < unat a" for j
    proof -
      have "4 * j = unat base + 4 * (q + (j - i))" "q + (j - i) < n" using that q by (simp_all add: a)
      then have "row_has j (base, n, stride, e)" by (simp add: g(2))
      then show ?thesis using kelvin_row_unique [OF row] by (simp add: pgraph_kelvin_methods_def kelvin_lookup_def)
    qed
    moreover have "unat a mod 4 = 0" using arg_cong [OF q(1), of "\<lambda>x. x mod 4"] by (simp add: a)
    moreover have "4 * i < unat a" using q by (simp add: a)
    ultimately show ?thesis using g(1,3) a by (simp add: Inc)
  qed (use good in simp_all)
qed

lemma null_ops_good: "ops_good (pgraph_null_ops specular launch)"
proof -
  have w: "fun_good False (\<lambda>d. d\<lparr>vram := f (vram d)\<rparr>)" for f by (simp add: fun_good_def keeps_objects_def)
  have "op_good False (\<lambda>d. pgraph_write_zpass_pixel_cnt_report d p v)" for p v
    unfolding pgraph_write_zpass_pixel_cnt_report_def Let_def by (intro op_value op_case_prod op_Some w) simp_all
  then show ?thesis by (simp add: ops_good_def pgraph_null_ops_def fun_id)
qed

end
