(* ===== verification/Push_Kelvin.thy ===== *)
theory Push_Kelvin
  imports Kelvin_Engine
begin

text \<open>
  The pusher with the engine of all classes: \<open>pgraph_method\<close>, with the table of \<^verbatim>\<open>Kelvin\<close>, meets the contract of
  \<^verbatim>\<open>Pusher\<close>, although it takes several words at a time where the table asks for a loop.
\<close>

section \<open>One method of any class\<close>

fun entry_step :: "kelvin_entry \<Rightarrow> word_handler" where
  "entry_step (Plain h) = h"
| "entry_step (Inc h e) = h"
| "entry_step (NonInc h) = h"

text \<open>Ranges are left out, because a range looks at the words behind it.\<close>

definition class_step ::
  "(nv2a \<Rightarrow> nv2a option) \<Rightarrow> (nat \<Rightarrow> kelvin_entry option) \<Rightarrow> u32 \<Rightarrow> u32 \<Rightarrow> u32 \<Rightarrow> u32 \<Rightarrow> nv2a \<Rightarrow> nv2a option" where
  "class_step blit_op kelvin c s m p d =
     (if c = NV_KELVIN_PRIMITIVE then do {
        assert_that (s = 0);
        assert_that (m \<noteq> NV097_DRAW_ARRAYS);
        (case kelvin (unat m div 4) of None \<Rightarrow> Some d | Some e \<Rightarrow> entry_step e d s m p)
      } else class_2d blit_op c d m p)"

definition step_pgraph :: "(nv2a \<Rightarrow> nv2a option) \<Rightarrow> (nat \<Rightarrow> kelvin_entry option) \<Rightarrow> method_step" where
  "step_pgraph blit_op kelvin s m p d = do {
     valid \<leftarrow> pg_get_mask d NV_PGRAPH_CTX_CONTROL NV_PGRAPH_CTX_CONTROL_CHID;
     assert_that (valid \<noteq> 0);
     d \<leftarrow> switch_object d (unat s);
     c \<leftarrow> pg_get_mask d NV_PGRAPH_CTX_SWITCH1 NV_PGRAPH_CTX_SWITCH1_GRCLASS;
     class_step blit_op kelvin c s m p d
   }"

section \<open>PFIFO's registers\<close>

lemma entry_blind:
  assumes "entry_ok t i e"
  shows "entry_step e (d\<lparr>pfifo_regs := r\<rparr>) s m p = map_option (\<lambda>e. e\<lparr>pfifo_regs := r\<rparr>) (entry_step e d s m p)"
  using assms by (cases e) (simp_all add: sound_handler_def op_good_def)

lemma class_step_blind:
  assumes "fifo_blind blit_op" and "table_ok t"
  shows "class_step blit_op t c s m p (d\<lparr>pfifo_regs := r\<rparr>) = map_option (\<lambda>e. e\<lparr>pfifo_regs := r\<rparr>) (class_step blit_op t c s m p d)"
proof -
  have "entry_step e (d\<lparr>pfifo_regs := r\<rparr>) s m p = map_option (\<lambda>e. e\<lparr>pfifo_regs := r\<rparr>) (entry_step e d s m p)"
    if "t (unat m div 4) = Some e" for e
    using that assms(2) by (auto simp: table_ok_def intro!: entry_blind)
  then show ?thesis
    by (cases "t (unat m div 4)") (simp_all add: class_step_def assert_that_def class_2d_blind [OF assms(1)])
qed

lemma step_pgraph_blind:
  assumes "fifo_blind blit_op" and "table_ok t"
  shows "step_pgraph blit_op t s m p (d\<lparr>pfifo_regs := r\<rparr>)
    = map_option (\<lambda>e. e\<lparr>pfifo_regs := r\<rparr>) (step_pgraph blit_op t s m p d)"
  by (simp add: step_pgraph_def map_option_bind bind_map_option comp_def class_step_blind [OF assms])

section \<open>The current object\<close>

text \<open>The registers of the current object are those of the object on a subchannel.\<close>

definition same_object :: "nv2a \<Rightarrow> nat \<Rightarrow> bool" where
  "same_object d s = (pgraph_regs d NV_PGRAPH_CTX_SWITCH1 = pgraph_regs d (NV_PGRAPH_CTX_CACHE1 + s * 4) \<and>
     pgraph_regs d NV_PGRAPH_CTX_SWITCH2 = pgraph_regs d (NV_PGRAPH_CTX_CACHE2 + s * 4) \<and>
     pgraph_regs d NV_PGRAPH_CTX_SWITCH3 = pgraph_regs d (NV_PGRAPH_CTX_CACHE3 + s * 4) \<and>
     pgraph_regs d NV_PGRAPH_CTX_SWITCH4 = pgraph_regs d (NV_PGRAPH_CTX_CACHE4 + s * 4) \<and>
     pgraph_regs d NV_PGRAPH_CTX_SWITCH5 = pgraph_regs d (NV_PGRAPH_CTX_CACHE5 + s * 4))"

lemma copy_reg_same:
  "x mod 4 = 0 \<Longrightarrow> x < 0x2000 \<Longrightarrow> y mod 4 = 0 \<Longrightarrow> y < 0x2000 \<Longrightarrow> pgraph_regs d x = pgraph_regs d y \<Longrightarrow> copy_reg d x y = Some d"
  by (simp add: copy_reg_def pgraph_reg_r_def pgraph_reg_w_def Let_def fun_upd_idem)

lemma same_object_switch: "s < 8 \<Longrightarrow> same_object d s \<Longrightarrow> switch_object d s = Some d"
  by (simp add: same_object_def switch_object_def copy_reg_same)

lemma switch_object_same: "s < 8 \<Longrightarrow> switch_object d s = Some d' \<Longrightarrow> same_object d' s"
  by (auto simp: switch_object_def copy_reg_def pgraph_regs_eq same_object_def)

text \<open>Switching to the object on the first subchannel changes nothing, and its class is the three-dimensional one.\<close>

definition settled :: "nv2a \<Rightarrow> bool" where
  "settled d = (get_mask (pgraph_regs d NV_PGRAPH_CTX_CONTROL) NV_PGRAPH_CTX_CONTROL_CHID \<noteq> 0 \<and>
     get_mask (pgraph_regs d NV_PGRAPH_CTX_SWITCH1) NV_PGRAPH_CTX_SWITCH1_GRCLASS = NV_KELVIN_PRIMITIVE \<and> same_object d 0)"

lemma settled_keeps: "keeps_objects d d' \<Longrightarrow> settled d \<Longrightarrow> settled d'"
proof -
  assume "keeps_objects d d'"
  then have "pgraph_regs d' x = pgraph_regs d x" if "0x144 \<le> x" "x < 0x200" for x using that by (simp add: keeps_objects_def)
  then have "settled d' = settled d" by (simp add: settled_def same_object_def)
  then show "settled d \<Longrightarrow> settled d'" by simp
qed

lemma settled_step:
  "settled d \<Longrightarrow> step_pgraph blit_op t 0 m p d = class_step blit_op t NV_KELVIN_PRIMITIVE 0 m p d"
  by (simp add: step_pgraph_def settled_def same_object_switch pg_get_mask_def pgraph_reg_r_def)

lemma step_switched:
  assumes "switch_object d (unat s) = Some d1" and "s < 8"
  shows "step_pgraph blit_op t s m p d = step_pgraph blit_op t s m p d1"
proof -
  have s: "unat s < 8" using assms(2) by (simp add: word_less_nat_alt)
  have "switched d d1" using switch_object_runs [OF s, of d] assms(1) by simp
  then have "pgraph_regs d1 NV_PGRAPH_CTX_CONTROL = pgraph_regs d NV_PGRAPH_CTX_CONTROL" by (auto simp: switched_def)
  moreover have "switch_object d1 (unat s) = Some d1" by (rule same_object_switch [OF s switch_object_same [OF s assms(1)]])
  ultimately show ?thesis using assms(1) by (simp add: step_pgraph_def pg_get_mask_def pgraph_reg_r_def)
qed

section \<open>Several words at once\<close>

lemma later_index:
  assumes "m AND 3 = 0" and "unat m + 4 * j < 0x2000"
  shows "unat (m + 4 * of_nat j) div 4 = unat (m :: u32) div 4 + j"
  using later_method(1) [OF assms] by simp

lemma words_loop:
  assumes "sound_handler True h"
  shows "\<lbrakk>settled d; stream_at (vram d) (ptr + 4 * a) ws; ptr + 4 * (a + length ws) \<le> vram_size d;
      \<forall>j < length ws. \<forall>d p d'. settled d \<longrightarrow> step 0 (m + (if inc then 4 * of_nat j else 0)) p d = Some d' \<longrightarrow>
        h d 0 (m + (if inc then 4 * of_nat j else 0)) p = Some d';
      exec_words step Q inc 0 m ws d = Some e\<rbrakk> \<Longrightarrow>
    method_words h d 0 m (if inc then 4 else 0) ptr [a..<a + length ws] = Some e"
proof (induction ws arbitrary: a m d)
  case (Cons w ws)
  obtain d' where d': "step 0 m w d = Some d'" "exec_words step Q inc 0 (next_method inc m) ws d' = Some e"
    using Cons.prems(5) by (auto simp: bind_eq_Some_conv)
  have h: "h d 0 m w = Some d'" using Cons.prems(4) [rule_format, of 0 d w d'] Cons.prems(1) d'(1) by (cases inc) simp_all
  have k: "keeps_objects d d'" "vram d' = vram d" "vram_size d' = vram_size d"
    using assms h unfolding sound_handler_def op_good_def keeps_memory_def by blast+
  have n: "next_method inc m + (if inc then 4 * of_nat j else 0) = m + (if inc then 4 * of_nat (Suc j) else 0)" for j
    by (simp add: next_method_def algebra_simps)
  have "method_words h d' 0 (next_method inc m) (if inc then 4 else 0) ptr [Suc a..<Suc a + length ws] = Some e"
  proof (rule Cons.IH [OF settled_keeps [OF k(1) Cons.prems(1)] _ _ _ d'(2)])
    show "stream_at (vram d') (ptr + 4 * Suc a) ws" using Cons.prems(2) by (simp add: stream_at_Cons k(2) algebra_simps)
    show "ptr + 4 * (Suc a + length ws) \<le> vram_size d'" using Cons.prems(3) by (simp add: k(3))
    show "\<forall>j < length ws. \<forall>d p d'. settled d \<longrightarrow> step 0 (next_method inc m + (if inc then 4 * of_nat j else 0)) p d = Some d' \<longrightarrow>
        h d 0 (next_method inc m + (if inc then 4 * of_nat j else 0)) p = Some d'"
      unfolding n using Cons.prems(4) by (metis Suc_less_eq length_Cons)
  qed
  moreover have "[a..<a + length (w # ws)] = a # [Suc a..<Suc a + length ws]" by (subst upt_conv_Cons) simp_all
  moreover have "parameter_word d ptr a = Some w" using Cons.prems(2,3) by (simp add: parameter_word_def stream_at_Cons)
  ultimately show ?case by (cases inc) (simp_all add: h next_method_def)
qed simp

lemma exec_words_take:
  assumes "exec_words step Q inc s m ws d = Some e"
  shows "\<exists>e'. exec_words step Q inc s m (take k ws) d = Some e'"
  using assms exec_words_append [of step Q inc s m "take k ws" "drop k ws" d] by (cases "exec_words step Q inc s m (take k ws) d") simp_all

lemma entry_loop:
  assumes "sound_handler True h" and "settled d" and "stream_at (vram d) ptr ws" and "ptr + 4 * length ws \<le> vram_size d"
    and ex: "exec_words (step_pgraph blit_op t) Q inc 0 m ws d = Some e" and "k \<le> length ws"
    and t: "\<And>j. j < k \<Longrightarrow> \<exists>en. t (unat (m + (if inc then 4 * of_nat j else 0)) div 4) = Some en \<and> entry_step en = h"
  shows "\<exists>d'. exec_words (step_pgraph blit_op t) Q inc 0 m (take k ws) d = Some d' \<and>
    method_words h d 0 m (if inc then 4 else 0) ptr [0..<k] = Some d'"
proof -
  obtain d' where d': "exec_words (step_pgraph blit_op t) Q inc 0 m (take k ws) d = Some d'" using exec_words_take [OF ex] by blast
  have l: "length (take k ws) = k" using assms(6) by simp
  have h: "h f 0 (m + (if inc then 4 * of_nat j else 0)) p = Some f'"
    if "j < k" "settled f" "step_pgraph blit_op t 0 (m + (if inc then 4 * of_nat j else 0)) p f = Some f'" for j f p f'
    using t [OF that(1)] that(3) by (auto simp: settled_step [OF that(2)] class_step_def)
  have m: "stream_at (vram d) (ptr + 4 * 0) (take k ws)"
    using assms(3) stream_at_append [of "vram d" ptr "take k ws" "drop k ws"] by simp
  have "method_words h d 0 m (if inc then 4 else 0) ptr [0..<0 + length (take k ws)] = Some d'"
    by (rule words_loop [OF assms(1,2) m _ _ d']) (use assms(4,6) h in \<open>auto simp: l\<close>)
  then show ?thesis using d' unfolding l add_0 by blast
qed

lemma kelvin_takes:
  assumes t: "table_ok t" and d: "settled d" and "ws \<noteq> []"
    and mem: "stream_at (vram d) ptr ws" "ptr + 4 * length ws \<le> vram_size d"
    and m: "m AND 3 = 0" "unat m < 0x2000" "inc \<longrightarrow> unat m + 4 * length ws \<le> 0x2000"
    and ex: "exec_words (step_pgraph blit_op t) Q inc 0 m ws d = Some e"
  shows "\<exists>k d'. 0 < k \<and> k \<le> length ws \<and> kelvin_method t d 0 m (hd ws) ptr (length ws) look inc = Some (k, d') \<and>
    exec_words (step_pgraph blit_op t) Q inc 0 m (take k ws) d = Some d'"
proof -
  let ?step = "step_pgraph blit_op t"
  obtain w us where w: "ws = w # us" using \<open>ws \<noteq> []\<close> by (cases ws) auto
  obtain d' where d': "?step 0 m w d = Some d'" "Q d'" using ex by (auto simp: w bind_eq_Some_conv)
  have c: "class_step blit_op t NV_KELVIN_PRIMITIVE 0 m w d = Some d'" using d'(1) by (simp add: settled_step [OF d])
  then have "m \<noteq> NV097_DRAW_ARRAYS" by (auto simp: class_step_def)
  then have sq: "squash_begin_end f m ptr look = Some False" for f by (simp add: squash_begin_end_def)
  have one: ?thesis if "kelvin_method t d 0 m w ptr (length ws) look inc = Some (1, d')"
    using that d' by (intro exI [of _ 1] exI [of _ d']) (simp add: w)
  have loop: ?thesis if "t (unat m div 4) = Some en" "sound_handler True h" "0 < k" "k \<le> length ws"
    "\<And>j. j < k \<Longrightarrow> \<exists>en. t (unat (m + (if inc then 4 * of_nat j else 0)) div 4) = Some en \<and> entry_step en = h"
    "\<And>f. method_words h d 0 m (if inc then 4 else 0) ptr [0..<k] = Some f \<Longrightarrow>
       kelvin_handler en d 0 m w ptr (length ws) inc = Some (k, f)" for en h k
    using entry_loop [OF that(2) d mem ex that(4,5)] that(1,3,4,6) sq by (fastforce simp: kelvin_method_def w)
  show ?thesis
  proof (cases "t (unat m div 4)")
    case None
    then show ?thesis using c by (intro one) (simp add: kelvin_method_def class_step_def)
  next
    case (Some en)
    have en: "entry_ok t (unat m div 4) en" using t Some by (simp add: table_ok_def)
    have hd: "entry_step en d 0 m w = Some d'" using c by (simp add: class_step_def Some)
    show ?thesis
    proof (cases en)
      case (Plain h)
      then show ?thesis using hd by (intro one) (simp add: kelvin_method_def Some sq)
    next
      case (NonInc h)
      show ?thesis
      proof (cases inc)
        case True then show ?thesis using hd by (intro one) (simp add: kelvin_method_def Some sq NonInc pgraph_method_non_inc_def)
      next
        case False then show ?thesis
          by (intro loop [OF Some, of h "length ws"]) (use en \<open>ws \<noteq> []\<close> Some in \<open>auto simp: NonInc pgraph_method_non_inc_def\<close>)
      qed
    next
      case (Inc h a)
      note a = en [unfolded Inc entry_ok.simps]
      show ?thesis
      proof (cases inc)
        case True
        let ?k = "min (length ws) (unat ((a - m) div 4))"
        obtain q r where q: "unat m = 4 * q" and r: "unat a = 4 * r" using m(1) a and_3 by (metis mod_0_imp_dvd dvdE)
        have qr: "q < r" using a by (simp add: q r)
        have "unat (a - m) = 4 * (r - q)" using qr by (simp add: unat_sub word_le_nat_alt q r)
        then have k: "unat ((a - m) div 4) = r - q" by (simp add: unat_div)
        show ?thesis
        proof (intro loop [OF Some, of h ?k])
          fix j assume j: "j < ?k"
          then have "4 * (unat m div 4 + j) < unat a" using k by (simp add: q r) linarith
          then have "t (unat m div 4 + j) = Some (Inc h a)" using a by simp
          moreover have "unat m + 4 * j < 0x2000" using j m(3) True by auto
          ultimately show "\<exists>en. t (unat (m + (if inc then 4 * of_nat j else 0)) div 4) = Some en \<and> entry_step en = h"
            using True later_index [OF m(1)] by simp
        qed (use a True qr k \<open>ws \<noteq> []\<close> in \<open>auto simp: Inc pgraph_method_inc_def Let_def\<close>)
      next
        case False then show ?thesis using hd by (intro one) (simp add: kelvin_method_def Some sq Inc pgraph_method_inc_def)
      qed
    qed
  qed
qed

section \<open>The engine\<close>

lemma class_2d_one:
  assumes "class_step blit_op t c s m p d = Some d'" and "c \<noteq> NV_KELVIN_PRIMITIVE"
  shows "class_method blit_op t c d s m p ptr n look inc = Some (1, d')"
  using assms by (intro class_method_2d) (simp add: class_step_def)

lemma class_takes:
  assumes t: "table_ok t" and "ws \<noteq> []" and s: "s < 8"
    and mem: "stream_at (vram d) ptr ws" "ptr + 4 * length ws \<le> vram_size d"
    and m: "m AND 3 = 0" "unat m < 0x2000" "inc \<longrightarrow> unat m + 4 * length ws \<le> 0x2000"
    and ex: "exec_words (step_pgraph blit_op t) Q inc s m ws d = Some e"
    and sw: "switch_object d (unat s) = Some d" and c: "pg_get_mask d NV_PGRAPH_CTX_SWITCH1 NV_PGRAPH_CTX_SWITCH1_GRCLASS = Some c"
    and v: "pg_get_mask d NV_PGRAPH_CTX_CONTROL NV_PGRAPH_CTX_CONTROL_CHID = Some v" "v \<noteq> 0"
  shows "(s \<noteq> 0 \<longrightarrow> c \<noteq> NV_KELVIN_PRIMITIVE) \<and> (\<exists>k d'. 0 < k \<and> k \<le> length ws \<and>
    class_method blit_op t c d s m (hd ws) ptr (length ws) look inc = Some (k, d') \<and>
    exec_words (step_pgraph blit_op t) Q inc s m (take k ws) d = Some d')"
proof -
  obtain w us where w: "ws = w # us" using \<open>ws \<noteq> []\<close> by (cases ws) auto
  obtain d' where d': "step_pgraph blit_op t s m w d = Some d'" "Q d'" using ex by (auto simp: w bind_eq_Some_conv)
  have cs: "class_step blit_op t c s m w d = Some d'" using d'(1) by (simp add: step_pgraph_def v sw c)
  show ?thesis
  proof (cases "c = NV_KELVIN_PRIMITIVE")
    case True
    then have s0: "s = 0" using cs by (auto simp: class_step_def)
    have "same_object d 0" using switch_object_same [of 0 d d] sw s0 by simp
    then have "settled d" using v c True by (auto simp: settled_def pg_get_mask_def pgraph_reg_r_def)
    then show ?thesis using kelvin_takes [OF t _ \<open>ws \<noteq> []\<close> mem m ex [unfolded s0]] True s0 by (simp add: class_method_def)
  next
    case False
    then show ?thesis using class_2d_one [OF cs False] d' by (intro conjI exI [of _ 1] exI [of _ d']) (simp_all add: w)
  qed
qed

lemma engine_pgraph:
  assumes blind: "fifo_blind blit_op" and t: "table_ok t"
  shows "method_steps (pgraph_method blit_op t) (step_pgraph blit_op t) runs"
proof
  fix s m p d r
  show "step_pgraph blit_op t s m p (d\<lparr>pfifo_regs := r\<rparr>) = map_option (\<lambda>e. e\<lparr>pfifo_regs := r\<rparr>) (step_pgraph blit_op t s m p d)"
    by (rule step_pgraph_blind [OF blind t])
next
  fix Q d ws ptr s m inc e look
  assume ws: "(ws :: u32 list) \<noteq> []" and mem: "stream_at (vram d) ptr ws" "ptr + 4 * length ws \<le> vram_size d"
    and s: "s < 8" and m: "m AND 3 = 0" "unat m < 0x2000" "inc \<longrightarrow> unat m + 4 * length ws \<le> 0x2000"
    and pl: "\<forall>i < length ws. plain_method (m + (if inc then 4 * of_nat i else 0))"
    and ex: "exec_words (step_pgraph blit_op t) Q inc s m ws d = Some e"
  let ?step = "step_pgraph blit_op t"
  obtain w us where w: "ws = w # us" using ws by (cases ws) auto
  have us: "unat s < 8" using s by (simp add: word_less_nat_alt)
  obtain v d1 c where v: "pg_get_mask d NV_PGRAPH_CTX_CONTROL NV_PGRAPH_CTX_CONTROL_CHID = Some v" "v \<noteq> 0"
    and d1: "switch_object d (unat s) = Some d1" and c: "pg_get_mask d1 NV_PGRAPH_CTX_SWITCH1 NV_PGRAPH_CTX_SWITCH1_GRCLASS = Some c"
    using ex by (auto simp: w bind_eq_Some_conv step_pgraph_def)
  have sw: "switched d d1" using switch_object_runs [OF us, of d] d1 by simp
  have v1: "pg_get_mask d1 NV_PGRAPH_CTX_CONTROL NV_PGRAPH_CTX_CONTROL_CHID = Some v"
    using v(1) sw by (auto simp: switched_def pg_get_mask_def pgraph_reg_r_def)
  have d11: "switch_object d1 (unat s) = Some d1" by (rule same_object_switch [OF us switch_object_same [OF us d1]])
  have same: "exec_words ?step Q inc s m vs d = exec_words ?step Q inc s m vs d1" if "vs \<noteq> []" for vs
    using that by (cases vs) (simp_all add: step_switched [OF d1 s])
  have ex1: "exec_words ?step Q inc s m ws d1 = Some e" using ex same [OF ws] by simp
  have mem1: "stream_at (vram d1) ptr ws" "ptr + 4 * length ws \<le> vram_size d1" using mem switched_same(3,4) [OF sw] by simp_all
  obtain k d' where k: "s \<noteq> 0 \<longrightarrow> c \<noteq> NV_KELVIN_PRIMITIVE" "0 < k" "k \<le> length ws"
    "class_method blit_op t c d1 s m (hd ws) ptr (length ws) look inc = Some (k, d')"
    "exec_words ?step Q inc s m (take k ws) d1 = Some d'"
    using class_takes [OF t ws s mem1 m ex1 d11 c v1 v(2), of look] by blast
  have "plain_method m" using pl [rule_format, of 0] ws by (cases inc) simp_all
  then have "m \<noteq> 0" by (auto simp: plain_method_def)
  then have "pgraph_method blit_op t d s m (hd ws) ptr (length ws) look inc = Some (int k, d')"
    using k(1,4) v d1 c s by (simp add: pgraph_method_def)
  moreover have "exec_words ?step Q inc s m (take k ws) d = Some d'" using k(2,5) ws same by simp
  ultimately show "\<exists>k d'. 0 < k \<and> k \<le> length ws \<and>
      pgraph_method blit_op t d s m (hd ws) ptr (length ws) look inc = Some (int k, d') \<and>
      exec_words ?step Q inc s m (take k ws) d = Some d'"
    using k(2,3) by blast
qed simp_all

interpretation all_classes: method_steps "pgraph_method pgraph_null_image_blit (pgraph_kelvin_methods (pgraph_null_ops specular launch))"
  "step_pgraph pgraph_null_image_blit (pgraph_kelvin_methods (pgraph_null_ops specular launch))" runs for specular launch
  by (rule engine_pgraph) (simp_all add: fifo_blind_def pgraph_null_image_blit_def kelvin_table_ok null_ops_good)

end
