(* ===== verification/Kelvin_Props.thy ===== *)
theory Kelvin_Props
  imports Push_Kelvin
begin

text \<open>
  What command streams for the three-dimensional class do, from the words in guest memory through pusher, puller, dispatch
  and handlers: the release of a semaphore and the loading of a vertex program.
\<close>

section \<open>Streams for all classes\<close>

text \<open>C4: The pusher executes a command stream for all classes of the graphics engine, the three-dimensional one
  included. For a stream of well-formed packets that lies between the get and put pointers, when applying their parameters one
  at a time succeeds, leaves the FIFO running and does not overwrite the stream, the pusher comes to the end of the
  stream without an error, and the state, apart from the registers of PFIFO, is the one that the single parameters bring
  about, although the dispatch takes runs of parameters at once; a round for each word is enough.\<close>

theorem pusher_runs_methods:
  fixes d d' :: nv2a
  assumes "fifo_blind blit_op" and "ops_good k" and "kelvin = pgraph_kelvin_methods k"
    and "pusher_on d dma dma_len" and "b \<le> unat dma_len" and "window (pfifo_regs d) a b" and "idle (pfifo_regs d)"
    and "list_all packet_ok qs" and "list_all (\<lambda>q. lane (pfifo_regs d) (packet_subchannel q)) qs"
    and "a + 4 * length (stream_words qs) = b"
    and "Q = (\<lambda>d. runs d \<and> stream_at (vram d) (dma + a) (stream_words qs) \<and> dma + b \<le> vram_size d)" and "Q d"
    and "exec_packets (step_pgraph blit_op kelvin) Q qs d = Some d'" and "length (stream_words qs) < fuel"
  shows "\<exists>r. pfifo_run_pusher (pgraph_method blit_op kelvin) fuel d = Some (True, d'\<lparr>pfifo_regs := r\<rparr>) \<and>
    r NV_PFIFO_CACHE1_DMA_GET = pfifo_regs d NV_PFIFO_CACHE1_DMA_PUT \<and> idle r"
proof -
  have "table_ok kelvin" using kelvin_table_ok [OF assms(2)] assms(3) by simp
  then show ?thesis using method_steps.run_stream [OF engine_pgraph [OF assms(1)] assms(4-14)] by blast
qed

section \<open>Streams for the first subchannel\<close>

definition stream_ready :: "nv2a \<Rightarrow> nat \<Rightarrow> u64 \<Rightarrow> nat \<Rightarrow> packet list \<Rightarrow> bool" where
  "stream_ready d dma dma_len a qs = (let n = 4 * length (stream_words qs) in
     pusher_on d dma dma_len \<and> window (pfifo_regs d) a (a + n) \<and> idle (pfifo_regs d) \<and> lane (pfifo_regs d) 0 \<and>
     a + n \<le> unat dma_len \<and> dma + a + n \<le> vram_size d \<and> stream_at (vram d) (dma + a) (stream_words qs) \<and> runs d)"

definition kelvin_selected :: "nv2a \<Rightarrow> bool" where
  "kelvin_selected d = (get_mask (pgraph_regs d NV_PGRAPH_CTX_CONTROL) NV_PGRAPH_CTX_CONTROL_CHID \<noteq> 0 \<and>
     get_mask (pgraph_regs d NV_PGRAPH_CTX_CACHE1) NV_PGRAPH_CTX_SWITCH1_GRCLASS = NV_KELVIN_PRIMITIVE)"

definition stream_kept :: "nat \<Rightarrow> nat \<Rightarrow> packet list \<Rightarrow> nv2a \<Rightarrow> bool" where
  "stream_kept dma a qs d = (runs d \<and> stream_at (vram d) (dma + a) (stream_words qs) \<and>
     dma + (a + 4 * length (stream_words qs)) \<le> vram_size d)"

lemma run_ready:
  assumes "fifo_blind blit_op" and "ops_good k" and r: "stream_ready d dma dma_len a qs"
    and qs: "list_all packet_ok qs" "list_all (\<lambda>q. packet_subchannel q = 0) qs"
    and ex: "exec_packets (step_pgraph blit_op (pgraph_kelvin_methods k)) (stream_kept dma a qs) qs d = Some d'"
    and "length (stream_words qs) < fuel"
  shows "\<exists>r'. pfifo_run_pusher (pgraph_method blit_op (pgraph_kelvin_methods k)) fuel d = Some (True, d'\<lparr>pfifo_regs := r'\<rparr>) \<and>
    r' NV_PFIFO_CACHE1_DMA_GET = pfifo_regs d NV_PFIFO_CACHE1_DMA_PUT \<and> idle r'"
proof -
  let ?b = "a + 4 * length (stream_words qs)"
  have l: "list_all (\<lambda>q. lane (pfifo_regs d) (packet_subchannel q)) qs" using qs(2) r by (simp add: list_all_iff stream_ready_def Let_def)
  have Q: "stream_kept dma a qs = (\<lambda>d. runs d \<and> stream_at (vram d) (dma + a) (stream_words qs) \<and> dma + ?b \<le> vram_size d)"
    by (simp add: stream_kept_def fun_eq_iff)
  have "stream_kept dma a qs d" "pusher_on d dma dma_len" "?b \<le> unat dma_len" "window (pfifo_regs d) a ?b" "idle (pfifo_regs d)"
    using r by (simp_all add: stream_kept_def stream_ready_def Let_def add.assoc)
  then show ?thesis
    using method_steps.run_stream [OF engine_pgraph [OF assms(1) kelvin_table_ok [OF assms(2)]] _ _ _ _ qs(1) l refl Q _ ex assms(7)]
    by blast
qed

lemma selected_settled:
  assumes "kelvin_selected d"
  shows "\<exists>d1. switch_object d 0 = Some d1 \<and> switched d d1 \<and> settled d1"
proof -
  obtain d1 where d1: "switch_object d 0 = Some d1" "switched d d1" "pgraph_regs d1 NV_PGRAPH_CTX_SWITCH1 = pgraph_regs d NV_PGRAPH_CTX_CACHE1"
    using switch_object_runs [of 0 d] by auto
  moreover have "same_object d1 0" by (rule switch_object_same [OF _ d1(1)]) simp
  ultimately show ?thesis using assms by (auto simp: settled_def kelvin_selected_def switched_def)
qed

lemma exec_settled:
  assumes "switch_object d 0 = Some d1" and "ws \<noteq> []"
  shows "exec_words (step_pgraph blit_op t) Q inc 0 m ws d = exec_words (step_pgraph blit_op t) Q inc 0 m ws d1"
  using assms(2) step_switched [of d 0 d1] assms(1) by (cases ws) simp_all

lemma step_entry:
  assumes "settled d" and "(base, n, stride, e) \<in> set (kelvin_rows k)" and "row_has (unat m div 4) (base, n, stride, e)"
    and "m \<noteq> NV097_DRAW_ARRAYS"
  shows "step_pgraph blit_op (pgraph_kelvin_methods k) 0 m p d = entry_step e d 0 m p"
  using kelvin_row_unique [OF assms(2,3)] assms(4)
  by (simp add: settled_step [OF assms(1)] class_step_def pgraph_kelvin_methods_def kelvin_lookup_def)

lemma settled_other_reg:
  "0x200 \<le> x \<Longrightarrow> settled (d\<lparr>pgraph_dirty := D, pgraph_regs := (pgraph_regs d)(x := v)\<rparr>) = settled d"
  by (simp add: settled_def same_object_def)

lemma settled_others [simp]:
  "settled (d\<lparr>vram := v\<rparr>) = settled d" "settled (d\<lparr>pg_kelvin := x\<rparr>) = settled d"
  by (simp_all add: settled_def same_object_def)

lemma runs_other_reg: "x \<noteq> NV_PGRAPH_FIFO \<Longrightarrow> runs (d\<lparr>pgraph_dirty := D, pgraph_regs := (pgraph_regs d)(x := v)\<rparr>) = runs d"
  by (simp add: runs_def can_fifo_access_def)

lemma runs_others [simp]: "runs (d\<lparr>vram := v\<rparr>) = runs d" "runs (d\<lparr>pg_kelvin := x\<rparr>) = runs d"
  by (simp_all add: runs_def can_fifo_access_def)

lemma upper_packet_ok:
  assumes m: "m AND 3 = 0" and "0x200 \<le> unat m" and "unat m + 4 * length ws \<le> 0x2000" and "ws \<noteq> []"
  shows "packet_ok (Packet True 0 m ws)"
proof -
  have "plain_method (m + 4 * of_nat i)" if "i < length ws" for i
  proof -
    have "unat (m + of_nat (4 * i)) = unat m + 4 * i" using that assms(3) by (intro later_method(1) [OF m]) simp
    then have "0x200 \<le> unat (m + 4 * of_nat i)" using assms(2) by simp
    then show ?thesis by (simp add: plain_method_def word_le_nat_alt)
  qed
  moreover have "unat m < 0x2000" using assms(3,4) by (cases ws) simp_all
  ultimately show ?thesis using assms(1-3) by simp
qed

section \<open>The release of a semaphore\<close>

lemma stl_elsewhere: "x < a \<or> a + 4 \<le> x \<Longrightarrow> stl_le_p m a v x = m x"
  by (auto simp: stl_le_p_def dma_write_def)

lemma stream_at_stl: "p + 4 \<le> a \<or> a + 4 * length ws \<le> p \<Longrightarrow> stream_at (stl_le_p m p v) a ws = stream_at m a ws"
  by (auto simp: stream_at_def ldl_stl_other)

lemma semaphore_steps:
  "settled d \<Longrightarrow> step_pgraph blit_op (pgraph_kelvin_methods k) 0 NV097_SET_SEMAPHORE_OFFSET p d = pgraph_reg_w d NV_PGRAPH_SEMAPHOREOFFSET p"
  "settled d \<Longrightarrow> step_pgraph blit_op (pgraph_kelvin_methods k) 0 NV097_BACK_END_WRITE_SEMAPHORE_RELEASE p d
    = BACK_END_WRITE_SEMAPHORE_RELEASE k d 0 NV097_BACK_END_WRITE_SEMAPHORE_RELEASE p"
proof -
  assume d: "settled d"
  have "(0x1D6C, 1, 4, Plain (write_reg NV_PGRAPH_SEMAPHOREOFFSET)) \<in> set (kelvin_rows k)"
    "(0x1D70, 1, 4, Plain (BACK_END_WRITE_SEMAPHORE_RELEASE k)) \<in> set (kelvin_rows k)"
    by (simp_all add: kelvin_rows_def semaphore_rows_def DEF_METHOD_def)
  note s = step_entry [OF d this(1)] step_entry [OF d this(2)]
  show "step_pgraph blit_op (pgraph_kelvin_methods k) 0 NV097_SET_SEMAPHORE_OFFSET p d = pgraph_reg_w d NV_PGRAPH_SEMAPHOREOFFSET p"
    "step_pgraph blit_op (pgraph_kelvin_methods k) 0 NV097_BACK_END_WRITE_SEMAPHORE_RELEASE p d
    = BACK_END_WRITE_SEMAPHORE_RELEASE k d 0 NV097_BACK_END_WRITE_SEMAPHORE_RELEASE p"
    by (simp_all add: s write_reg_def)
qed


text \<open>The release of a semaphore checks its offset against the limit of the DMA object only. When the offset is below that
  limit, which the guest chooses freely, the assertion of the code passes, and whether the four bytes are inside
  guest memory is then decided by nothing else: the release leaves the memory, and the model stops, exactly when
  the word ends behind it, and otherwise it stores the word.\<close>

theorem semaphore_bound_unchecked:
  assumes "\<forall>f. ko_surface_update k f = f" and "nv_dma_map d (unat (dma_semaphore (pg_kelvin d))) = Some (base, len)"
    and "offset = pgraph_regs d NV_PGRAPH_SEMAPHOREOFFSET" and "ucast offset < len"
  shows "BACK_END_WRITE_SEMAPHORE_RELEASE k d s m v =
    (if vram_size d < base + unat offset + 4 then None else Some (d\<lparr>vram := stl_le_p (vram d) (base + unat offset) v\<rparr>))"
  using assms by (auto simp: BACK_END_WRITE_SEMAPHORE_RELEASE_def pgraph_reg_r_eq assert_that_def)

section \<open>Loading a vertex program\<close>

text \<open>The words of a program go to the slots from \<open>L\<close> on, four to a slot.\<close>

definition upload :: "nat \<Rightarrow> u32 list \<Rightarrow> (nat \<Rightarrow> nat \<Rightarrow> u32) \<Rightarrow> nat \<Rightarrow> nat \<Rightarrow> u32" where
  "upload L ws data = (\<lambda>i j. if L \<le> i \<and> j < 4 \<and> 4 * (i - L) + j < length ws then ws ! (4 * (i - L) + j) else data i j)"

lemma upload_snoc: "set_component (L + length us div 4) (length us mod 4) w (upload L us data) = upload L (us @ [w]) data"
proof (intro ext)
  fix i j
  have "(i = L + length us div 4 \<and> j = length us mod 4) \<longleftrightarrow> L \<le> i \<and> j < 4 \<and> 4 * (i - L) + j = length us"
    by (auto simp: le_iff_add) (metis mod_less mod_mult_self4)
  then show "set_component (L + length us div 4) (length us mod 4) w (upload L us data) i j = upload L (us @ [w]) data i j"
    by (auto simp: set_component_def upload_def nth_append)
qed

lemma cheops_fields: "NV_PGRAPH_CHEOPS_OFFSET_PROG_LD_PTR = reg_field 0 8" "NV_PGRAPH_CHEOPS_OFFSET_CONST_LD_PTR = reg_field 8 8"
  by (simp_all add: reg_field_def mask_eq_exp_minus_1)

lemma cheops_set:
  "get_mask (set_mask r NV_PGRAPH_CHEOPS_OFFSET_PROG_LD_PTR v) NV_PGRAPH_CHEOPS_OFFSET_PROG_LD_PTR = take_bit 8 v"
  "get_mask (set_mask r NV_PGRAPH_CHEOPS_OFFSET_PROG_LD_PTR v) NV_PGRAPH_CHEOPS_OFFSET_CONST_LD_PTR
    = get_mask r NV_PGRAPH_CHEOPS_OFFSET_CONST_LD_PTR"
  by (simp_all add: get_set_mask_other) (simp add: cheops_fields get_set_mask_field)

definition loaded :: "nv2a \<Rightarrow> nat \<Rightarrow> u32 list \<Rightarrow> nv2a \<Rightarrow> bool" where
  "loaded d L us e = (\<exists>D R. e = d\<lparr>pgraph_dirty := D, pgraph_regs := R,
       pg_kelvin := (pg_kelvin d)\<lparr>program_data := upload L us (program_data (pg_kelvin d)),
         program_data_dirty := program_data_dirty (pg_kelvin d) \<or> us \<noteq> []\<rparr>\<rparr> \<and>
     (\<forall>x. x \<noteq> NV_PGRAPH_CHEOPS_OFFSET \<longrightarrow> R x = pgraph_regs d x) \<and>
     get_mask (R NV_PGRAPH_CHEOPS_OFFSET) NV_PGRAPH_CHEOPS_OFFSET_CONST_LD_PTR
       = get_mask (pgraph_regs d NV_PGRAPH_CHEOPS_OFFSET) NV_PGRAPH_CHEOPS_OFFSET_CONST_LD_PTR \<and>
     get_mask (R NV_PGRAPH_CHEOPS_OFFSET) NV_PGRAPH_CHEOPS_OFFSET_PROG_LD_PTR = of_nat (L + length us div 4))"

lemma loaded_word:
  assumes "loaded d L us e" and "length us < 32" and "L + length us div 4 < NV2A_MAX_TRANSFORM_PROGRAM_LENGTH"
  shows "\<exists>e'. SET_TRANSFORM_PROGRAM e s (NV097_SET_TRANSFORM_PROGRAM + 4 * of_nat (length us)) w = Some e' \<and> loaded d L (us @ [w]) e'"
proof -
  let ?x = "L + length us div 4" and ?pg = "pg_kelvin d"
  let ?pg' = "?pg\<lparr>program_data := upload L (us @ [w]) (program_data ?pg), program_data_dirty := True\<rparr>"
  obtain D R where e: "e = d\<lparr>pgraph_dirty := D, pgraph_regs := R, pg_kelvin := ?pg\<lparr>program_data := upload L us (program_data ?pg),
      program_data_dirty := program_data_dirty ?pg \<or> us \<noteq> []\<rparr>\<rparr>"
    and R: "\<forall>x. x \<noteq> NV_PGRAPH_CHEOPS_OFFSET \<longrightarrow> R x = pgraph_regs d x"
      "get_mask (R NV_PGRAPH_CHEOPS_OFFSET) NV_PGRAPH_CHEOPS_OFFSET_CONST_LD_PTR
        = get_mask (pgraph_regs d NV_PGRAPH_CHEOPS_OFFSET) NV_PGRAPH_CHEOPS_OFFSET_CONST_LD_PTR"
      "get_mask (R NV_PGRAPH_CHEOPS_OFFSET) NV_PGRAPH_CHEOPS_OFFSET_PROG_LD_PTR = of_nat ?x"
    using assms(1) unfolding loaded_def by blast
  have u: "unat (of_nat n :: u32) = n" if "n < 0x1000" for n using that by (intro of_nat_u32) simp
  have sl: "method_slot (NV097_SET_TRANSFORM_PROGRAM + 4 * of_nat (length us)) NV097_SET_TRANSFORM_PROGRAM 4 = length us"
    using u [of "4 * length us"] assms(2) by (simp add: method_slot_def)
  have n: "take_bit 8 (of_nat ?x + 1 :: u32) = of_nat (?x + 1)"
    using assms(3) take_bit_less [of "of_nat (?x + 1)" 8] u [of "?x + 1"] by (simp add: algebra_simps)
  let ?r = "set_mask (R NV_PGRAPH_CHEOPS_OFFSET) NV_PGRAPH_CHEOPS_OFFSET_PROG_LD_PTR (of_nat ?x + 1)"
  let ?D = "D(1009 := D 1009 \<or> R NV_PGRAPH_CHEOPS_OFFSET \<noteq> ?r)" and ?R = "R(NV_PGRAPH_CHEOPS_OFFSET := ?r)"
  have st: "SET_TRANSFORM_PROGRAM e s (NV097_SET_TRANSFORM_PROGRAM + 4 * of_nat (length us)) w =
      Some (if length us mod 4 = 3 then d\<lparr>pgraph_dirty := ?D, pgraph_regs := ?R, pg_kelvin := ?pg'\<rparr>
        else d\<lparr>pgraph_dirty := D, pgraph_regs := R, pg_kelvin := ?pg'\<rparr>)"
    using R(3) u [of ?x] assms(3) upload_snoc [of L us w "program_data ?pg"]
    by (auto simp: SET_TRANSFORM_PROGRAM_def sl Let_def e pg_get_mask_eq pg_set_mask_eq on_kelvin_def)
  have div: "Suc (length us) div 4 = (if length us mod 4 = 3 then length us div 4 + 1 else length us div 4)"
    by (simp add: div_Suc mod_Suc)
  have "loaded d L (us @ [w]) (d\<lparr>pgraph_dirty := ?D, pgraph_regs := ?R, pg_kelvin := ?pg'\<rparr>)" if "length us mod 4 = 3"
    unfolding loaded_def using R(1,2) that div n by (intro exI [of _ ?D] exI [of _ ?R]) (simp add: cheops_set add.assoc)
  moreover have "loaded d L (us @ [w]) (d\<lparr>pgraph_dirty := D, pgraph_regs := R, pg_kelvin := ?pg'\<rparr>)" if "length us mod 4 \<noteq> 3"
    unfolding loaded_def using R that div by (intro exI [of _ D] exI [of _ R]) simp
  ultimately show ?thesis unfolding st by (cases "length us mod 4 = 3") simp_all
qed

lemma loaded_same:
  assumes "loaded d L us e"
  shows "settled e = settled d" "runs e = runs d" "vram e = vram d" "vram_size e = vram_size d"
  using assms by (auto simp: loaded_def settled_def same_object_def runs_def can_fifo_access_def)

lemma program_steps:
  assumes "settled d"
  shows "step_pgraph blit_op (pgraph_kelvin_methods k) 0 NV097_SET_TRANSFORM_PROGRAM_LOAD p d
      = set_bounded NV_PGRAPH_CHEOPS_OFFSET NV_PGRAPH_CHEOPS_OFFSET_PROG_LD_PTR NV2A_MAX_TRANSFORM_PROGRAM_LENGTH d 0
          NV097_SET_TRANSFORM_PROGRAM_LOAD p"
    and "j < 32 \<Longrightarrow> step_pgraph blit_op (pgraph_kelvin_methods k) 0 (NV097_SET_TRANSFORM_PROGRAM + 4 * of_nat j) p d
      = SET_TRANSFORM_PROGRAM d 0 (NV097_SET_TRANSFORM_PROGRAM + 4 * of_nat j) p"
proof -
  have "(0x1E9C, 1, 4, Plain (set_bounded 0xFC4 0xFF 0x88)) \<in> set (kelvin_rows k)"
    by (simp add: kelvin_rows_def shader_rows_def DEF_METHOD_def)
  then show "step_pgraph blit_op (pgraph_kelvin_methods k) 0 NV097_SET_TRANSFORM_PROGRAM_LOAD p d
      = set_bounded NV_PGRAPH_CHEOPS_OFFSET NV_PGRAPH_CHEOPS_OFFSET_PROG_LD_PTR NV2A_MAX_TRANSFORM_PROGRAM_LENGTH d 0
          NV097_SET_TRANSFORM_PROGRAM_LOAD p"
    using step_entry [OF assms, of "0x1E9C" 1 4] by simp
  assume j: "j < 32"
  have u: "unat (0xB00 + 4 * of_nat j :: u32) = 0xB00 + 4 * j" using later_method(1) [of "0xB00" j] j by simp
  have "(0xB00, 32, 4, Inc SET_TRANSFORM_PROGRAM (0xB00 + 4 * of_nat 32)) \<in> set (kelvin_rows k)"
    by (simp add: kelvin_rows_def light_rows_def DEF_METHOD_INC_def)
  moreover have "row_has (unat (0xB00 + 4 * of_nat j :: u32) div 4) (0xB00, 32, 4, Inc SET_TRANSFORM_PROGRAM (0xB00 + 4 * of_nat 32))"
    using j by (simp add: u)
  moreover have "0xB00 + 4 * of_nat j \<noteq> NV097_DRAW_ARRAYS" using u j by auto
  ultimately show "step_pgraph blit_op (pgraph_kelvin_methods k) 0 (NV097_SET_TRANSFORM_PROGRAM + 4 * of_nat j) p d
      = SET_TRANSFORM_PROGRAM d 0 (NV097_SET_TRANSFORM_PROGRAM + 4 * of_nat j) p"
    using step_entry [OF assms] by fastforce
qed

lemma load_words:
  assumes d: "settled d" "get_mask (pgraph_regs d NV_PGRAPH_CHEOPS_OFFSET) NV_PGRAPH_CHEOPS_OFFSET_PROG_LD_PTR = of_nat L"
    and Q: "\<And>us e. loaded d L us e \<Longrightarrow> Q e"
  shows "length ws \<le> 32 \<Longrightarrow> L + (length ws + 3) div 4 \<le> NV2A_MAX_TRANSFORM_PROGRAM_LENGTH \<Longrightarrow>
    \<exists>e. exec_words (step_pgraph blit_op (pgraph_kelvin_methods k)) Q True 0 NV097_SET_TRANSFORM_PROGRAM ws d = Some e \<and> loaded d L ws e"
proof (induction ws rule: rev_induct)
  case Nil
  have "loaded d L [] d" unfolding loaded_def using d(2) by (intro exI [of _ "pgraph_dirty d"] exI [of _ "pgraph_regs d"]) (simp add: upload_def)
  then show ?case by simp
next
  case (snoc w us)
  have b: "length us < 32" "L + length us div 4 < NV2A_MAX_TRANSFORM_PROGRAM_LENGTH" using snoc.prems by simp_all
  have "L + (length us + 3) div 4 \<le> NV2A_MAX_TRANSFORM_PROGRAM_LENGTH"
    using snoc.prems(2) div_le_mono [of "length us + 3" "length us + 4" 4] by simp
  then obtain e where e: "exec_words (step_pgraph blit_op (pgraph_kelvin_methods k)) Q True 0 NV097_SET_TRANSFORM_PROGRAM us d = Some e"
    "loaded d L us e" using snoc.IH b(1) by auto
  obtain e' where e': "SET_TRANSFORM_PROGRAM e 0 (NV097_SET_TRANSFORM_PROGRAM + 4 * of_nat (length us)) w = Some e'"
    "loaded d L (us @ [w]) e'" using loaded_word [OF e(2) b] by blast
  have "settled e" using loaded_same(1) [OF e(2)] d(1) by simp
  then show ?case using e(1) e' program_steps(2) [OF _ b(1)] Q [OF e'(2)] by (simp add: exec_words_append)
qed

text \<open>C5: A command stream loads a vertex program. When the pusher is enabled and idle, the first subchannel holds an object
  of the three-dimensional class on a valid channel, and the words between the get and put pointers are a packet with the
  number \<open>L\<close> of a program slot and a packet with at most 32 words of program that fit behind that slot, then the
  pusher finishes with the get pointer at the put pointer, the words are in the program memory from slot \<open>L\<close> on in their order,
  four to a slot, and all other program slots and all other state of the class are what they were. The load pointer of
  programs points behind the last full slot, that of constants is not changed, nor is guest memory.\<close>

theorem pushed_program_loaded:
  fixes d :: nv2a and L :: nat and ws :: "u32 list"
  assumes "fifo_blind blit_op" and "ops_good k" and "kelvin = pgraph_kelvin_methods k"
    and "qs = [Packet True 0 NV097_SET_TRANSFORM_PROGRAM_LOAD [of_nat L], Packet True 0 NV097_SET_TRANSFORM_PROGRAM ws]"
    and "stream_ready d dma dma_len a qs" and "kelvin_selected d" and "length (stream_words qs) < fuel"
    and "ws \<noteq> []" and "length ws \<le> 32" and "L + (length ws + 3) div 4 \<le> NV2A_MAX_TRANSFORM_PROGRAM_LENGTH"
  shows "\<exists>d'. pfifo_run_pusher (pgraph_method blit_op kelvin) fuel d = Some (True, d') \<and>
    pfifo_regs d' NV_PFIFO_CACHE1_DMA_GET = pfifo_regs d NV_PFIFO_CACHE1_DMA_PUT \<and> idle (pfifo_regs d') \<and>
    pg_kelvin d' = (pg_kelvin d)\<lparr>program_data := upload L ws (program_data (pg_kelvin d)), program_data_dirty := True\<rparr> \<and>
    get_mask (pgraph_regs d' NV_PGRAPH_CHEOPS_OFFSET) NV_PGRAPH_CHEOPS_OFFSET_PROG_LD_PTR = of_nat (L + length ws div 4) \<and>
    get_mask (pgraph_regs d' NV_PGRAPH_CHEOPS_OFFSET) NV_PGRAPH_CHEOPS_OFFSET_CONST_LD_PTR
      = get_mask (pgraph_regs d NV_PGRAPH_CHEOPS_OFFSET) NV_PGRAPH_CHEOPS_OFFSET_CONST_LD_PTR \<and> vram d' = vram d"
proof -
  let ?Q = "stream_kept dma a qs" and ?step = "step_pgraph blit_op (pgraph_kelvin_methods k)"
  obtain d1 where d1: "switch_object d 0 = Some d1" "switched d d1" "settled d1" using selected_settled [OF assms(6)] by blast
  have same: "runs d1 = runs d" "vram d1 = vram d" "vram_size d1 = vram_size d" "pg_kelvin d1 = pg_kelvin d"
    "pgraph_regs d1 NV_PGRAPH_CHEOPS_OFFSET = pgraph_regs d NV_PGRAPH_CHEOPS_OFFSET"
    using d1(2) by (auto simp: switched_def runs_def can_fifo_access_def)
  let ?r = "set_mask (pgraph_regs d1 NV_PGRAPH_CHEOPS_OFFSET) NV_PGRAPH_CHEOPS_OFFSET_PROG_LD_PTR (of_nat L)"
  let ?D = "(pgraph_dirty d1)(1009 := pgraph_dirty d1 1009 \<or> pgraph_regs d1 NV_PGRAPH_CHEOPS_OFFSET \<noteq> ?r)"
  let ?d2 = "d1\<lparr>pgraph_dirty := ?D, pgraph_regs := (pgraph_regs d1)(NV_PGRAPH_CHEOPS_OFFSET := ?r)\<rparr>"
  have L: "L < 136" using assms(8,10) by (cases ws) simp_all
  then have u: "unat (of_nat L :: u32) = L" by (intro of_nat_u32) simp
  have L8: "take_bit 8 (of_nat L :: u32) = of_nat L" using L u by (intro take_bit_less) simp
  have s2: "settled ?d2" "runs ?d2 = runs d" using d1(3) same by (simp_all add: settled_other_reg runs_other_reg)
  have Qd: "?Q f" if "runs f = runs d" "vram f = vram d" "vram_size f = vram_size d" for f
    using assms(5) that by (simp add: stream_kept_def stream_ready_def Let_def add.assoc)
  have "?step 0 NV097_SET_TRANSFORM_PROGRAM_LOAD (of_nat L) d1 = Some ?d2"
    using program_steps(1) [OF d1(3)] L u by (simp add: set_bounded_def pg_set_mask_eq)
  then have e1: "exec_words ?step ?Q True 0 NV097_SET_TRANSFORM_PROGRAM_LOAD [of_nat L] d = Some ?d2"
    using exec_settled [OF d1(1), of "[of_nat L]"] Qd s2(2) same by simp
  have "\<exists>e. exec_words ?step ?Q True 0 NV097_SET_TRANSFORM_PROGRAM ws ?d2 = Some e \<and> loaded ?d2 L ws e"
    by (rule load_words [OF s2(1) _ _ assms(9,10)]) (use loaded_same s2(2) same Qd in \<open>simp_all add: cheops_set(1) L8\<close>)
  then obtain e where e: "exec_words ?step ?Q True 0 NV097_SET_TRANSFORM_PROGRAM ws ?d2 = Some e" "loaded ?d2 L ws e" by blast
  then have ex: "exec_packets ?step ?Q qs d = Some e" using e1 unfolding assms(4) exec_packets.simps by simp
  have "packet_ok (Packet True 0 NV097_SET_TRANSFORM_PROGRAM_LOAD [of_nat L])" by (rule upper_packet_ok) simp_all
  moreover have "packet_ok (Packet True 0 NV097_SET_TRANSFORM_PROGRAM ws)" by (rule upper_packet_ok) (use assms(8,9) in simp_all)
  ultimately have ok: "list_all packet_ok qs" "list_all (\<lambda>q. packet_subchannel q = 0) qs" by (simp_all add: assms(4))
  obtain r' where "pfifo_run_pusher (pgraph_method blit_op kelvin) fuel d = Some (True, e\<lparr>pfifo_regs := r'\<rparr>)"
    "r' NV_PFIFO_CACHE1_DMA_GET = pfifo_regs d NV_PFIFO_CACHE1_DMA_PUT" "idle r'"
    using run_ready [OF assms(1,2,5) ok ex assms(7)] assms(3) by auto
  then show ?thesis using e(2) assms(8) same cheops_set(2)
    by (intro exI [of _ "e\<lparr>pfifo_regs := r'\<rparr>"]) (auto simp: loaded_def)
qed

section \<open>A channel with an object of the class\<close>

fun store_words :: "memory \<Rightarrow> nat \<Rightarrow> u32 list \<Rightarrow> memory" where
  "store_words m a [] = m"
| "store_words m a (w # ws) = store_words (stl_le_p m a w) (a + 4) ws"

definition stream_example :: "packet list \<Rightarrow> nv2a" where
  "stream_example qs = pushed_example\<lparr>vram := store_words (\<lambda>_. 0) 0x2000 (stream_words qs),
     pfifo_regs := (pfifo_regs pushed_example)(NV_PFIFO_CACHE1_DMA_PUT := of_nat (0x2000 + 4 * length (stream_words qs)),
       NV_PFIFO_CACHE1_ENGINE := 1),
     pgraph_regs := (\<lambda>_. 0)(NV_PGRAPH_FIFO := 1, NV_PGRAPH_CTX_CONTROL := 0x10000, NV_PGRAPH_CTX_CACHE1 := NV_KELVIN_PRIMITIVE)\<rparr>"

lemma stream_at_store_words: "stream_at (store_words m a ws) a ws"
proof -
  have before: "ldl_le_p (store_words m b ws) a = ldl_le_p m a" if "a + 4 \<le> b" for m a b ws
    using that by (induction ws arbitrary: m b) (simp_all add: ldl_stl_other)
  show ?thesis by (induction ws arbitrary: m a) (simp_all add: stream_at_Cons before ldl_stl stream_at_def [of _ _ "[]"])
qed

lemma channel_masks: "get_mask 1 3 = 1" "get_mask 0x97 0xFF = 0x97"
  by (code_simp, code_simp)

lemma stream_example_ready:
  assumes "length (stream_words qs) \<le> 0x100"
  shows "stream_ready (stream_example qs) 0 0xFFFFFF 0x2000 qs" "kelvin_selected (stream_example qs)"
    "nv_dma_map (stream_example qs) 0 = Some (0, 0xFFFFFF)"
proof -
  let ?d = "stream_example qs"
  show m: "nv_dma_map ?d 0 = Some (0, 0xFFFFFF)"
    using pushed_example_fields(4) by (simp add: stream_example_def nv_dma_map_def nv_dma_load_def)
  have r: "pfifo_regs ?d = (pfifo_regs pushed_example)(NV_PFIFO_CACHE1_DMA_PUT := of_nat (0x2000 + 4 * length (stream_words qs)),
      NV_PFIFO_CACHE1_ENGINE := 1)" by (simp add: stream_example_def)
  have "pusher_on ?d 0 0xFFFFFF" using m by (simp add: pusher_on_def r pushed_example_fields example_masks)
  moreover have "window (pfifo_regs ?d) 0x2000 (0x2000 + 4 * length (stream_words qs))" "idle (pfifo_regs ?d)" "lane (pfifo_regs ?d) 0"
    using assms by (simp_all add: r pushed_example_fields window_def idle_def lane_def example_masks channel_masks)
  moreover have "runs ?d" "vram_size ?d = 0x4000000"
    by (simp_all add: stream_example_def pushed_example_def runs_def can_fifo_access_def blit_example_def nv2a_blank_def)
  moreover have "stream_at (vram ?d) (0 + 0x2000) (stream_words qs)" using stream_at_store_words by (simp add: stream_example_def)
  ultimately show "stream_ready ?d 0 0xFFFFFF 0x2000 qs" using assms by (simp add: stream_ready_def Let_def)
  show "kelvin_selected ?d" by (simp add: kelvin_selected_def stream_example_def example_masks channel_masks)
qed

lemma null_blit_blind: "fifo_blind pgraph_null_image_blit"
  by (simp add: fifo_blind_def pgraph_null_image_blit_def)

definition null_ops_example :: kelvin_ops where
  "null_ops_example = pgraph_null_ops (\<lambda>_. 0) (\<lambda>program start v0 constants. Some constants)"

lemma null_ops_example: "ops_good null_ops_example" "\<forall>f. ko_surface_update null_ops_example f = f"
  using null_ops_good by (simp_all add: null_ops_example_def pgraph_null_ops_def)


theorem pushed_program_loaded_witness:
  "\<exists>d'. pfifo_run_pusher (pgraph_method pgraph_null_image_blit (pgraph_kelvin_methods null_ops_example)) 8
      (stream_example [Packet True 0 NV097_SET_TRANSFORM_PROGRAM_LOAD [of_nat 135], Packet True 0 NV097_SET_TRANSFORM_PROGRAM [1, 2, 3, 4]])
      = Some (True, d') \<and>
    map (program_data (pg_kelvin d') 135) [0..<4] = [1, 2, 3, 4] \<and>
    get_mask (pgraph_regs d' NV_PGRAPH_CHEOPS_OFFSET) NV_PGRAPH_CHEOPS_OFFSET_PROG_LD_PTR = 136"
proof -
  let ?qs = "[Packet True 0 NV097_SET_TRANSFORM_PROGRAM_LOAD [of_nat 135], Packet True 0 NV097_SET_TRANSFORM_PROGRAM [1, 2, 3, 4 :: u32]]"
  have len: "length (stream_words ?qs) = 7" by (simp add: stream_words_def)
  then have r: "stream_ready (stream_example ?qs) 0 0xFFFFFF 0x2000 ?qs" "kelvin_selected (stream_example ?qs)"
    by (intro stream_example_ready; simp)+
  obtain d' where d': "pfifo_run_pusher (pgraph_method pgraph_null_image_blit (pgraph_kelvin_methods null_ops_example)) 8
      (stream_example ?qs) = Some (True, d')"
    "program_data (pg_kelvin d') = upload 135 [1, 2, 3, 4] (program_data (pg_kelvin (stream_example ?qs)))"
    "get_mask (pgraph_regs d' NV_PGRAPH_CHEOPS_OFFSET) NV_PGRAPH_CHEOPS_OFFSET_PROG_LD_PTR = of_nat (135 + 4 div 4)"
    using pushed_program_loaded [OF null_blit_blind null_ops_example(1) refl refl r, of 8] len by auto
  then show ?thesis by (simp add: upload_def upt_rec)
qed

theorem pusher_runs_methods_witness:
  "\<exists>d' r. exec_packets (step_pgraph pgraph_null_image_blit (pgraph_kelvin_methods null_ops_example))
      (\<lambda>d. runs d \<and> stream_at (vram d) (0 + 0x2000) (stream_words [Packet True 0 NV097_SET_TRANSFORM_PROGRAM [1, 2, 3, 4]])
        \<and> 0 + 0x2014 \<le> vram_size d) [Packet True 0 NV097_SET_TRANSFORM_PROGRAM [1, 2, 3, 4]]
      (stream_example [Packet True 0 NV097_SET_TRANSFORM_PROGRAM [1, 2, 3, 4]]) = Some d' \<and>
    pfifo_run_pusher (pgraph_method pgraph_null_image_blit (pgraph_kelvin_methods null_ops_example)) 6
      (stream_example [Packet True 0 NV097_SET_TRANSFORM_PROGRAM [1, 2, 3, 4]]) = Some (True, d'\<lparr>pfifo_regs := r\<rparr>) \<and>
    r NV_PFIFO_CACHE1_DMA_GET = 0x2014 \<and> idle r"
proof -
  let ?qs = "[Packet True 0 NV097_SET_TRANSFORM_PROGRAM [1, 2, 3, 4 :: u32]]" and ?k = "pgraph_kelvin_methods null_ops_example"
  let ?d = "stream_example ?qs" and ?step = "step_pgraph pgraph_null_image_blit (pgraph_kelvin_methods null_ops_example)"
  let ?Q = "\<lambda>d. runs d \<and> stream_at (vram d) (0 + 0x2000) (stream_words ?qs) \<and> 0 + 0x2014 \<le> vram_size d"
  have len: "length (stream_words ?qs) = 5" by (simp add: stream_words_def)
  then have r: "stream_ready ?d 0 0xFFFFFF 0x2000 ?qs" "kelvin_selected ?d" by (intro stream_example_ready; simp)+
  obtain d1 where d1: "switch_object ?d 0 = Some d1" "switched ?d d1" "settled d1" using selected_settled [OF r(2)] by blast
  have Q: "?Q ?d" using r(1) by (simp add: stream_ready_def Let_def len)
  have z: "pgraph_regs d1 NV_PGRAPH_CHEOPS_OFFSET = 0" using d1(2) by (auto simp: switched_def stream_example_def)
  have "\<exists>e. exec_words ?step ?Q True 0 NV097_SET_TRANSFORM_PROGRAM [1, 2, 3, 4] d1 = Some e \<and> loaded d1 0 [1, 2, 3, 4] e"
    by (rule load_words [OF d1(3)]) (use loaded_same switched_same(2-4) [OF d1(2)] Q in \<open>simp_all add: z example_masks\<close>)
  then obtain e where "exec_words ?step ?Q True 0 NV097_SET_TRANSFORM_PROGRAM [1, 2, 3, 4] d1 = Some e" by blast
  then have "exec_words ?step ?Q True 0 NV097_SET_TRANSFORM_PROGRAM [1, 2, 3, 4] ?d = Some e"
    by (subst exec_settled [OF d1(1)]) simp_all
  then have ex: "exec_packets ?step ?Q ?qs ?d = Some e" unfolding exec_packets.simps by simp
  have "packet_ok (Packet True 0 NV097_SET_TRANSFORM_PROGRAM [1, 2, 3, 4])" by (rule upper_packet_ok) simp_all
  then have ok: "list_all packet_ok ?qs" by simp
  have w: "pusher_on ?d 0 0xFFFFFF" "window (pfifo_regs ?d) 0x2000 0x2014" "idle (pfifo_regs ?d)"
    "list_all (\<lambda>q. lane (pfifo_regs ?d) (packet_subchannel q)) ?qs" "?Q ?d" "pfifo_regs ?d NV_PFIFO_CACHE1_DMA_PUT = 0x2014"
    using r(1) Q by (simp_all add: stream_ready_def Let_def len) (simp add: stream_example_def len)
  have "0x2000 + 4 * length (stream_words ?qs) = 0x2014" "length (stream_words ?qs) < 6" "0x2014 \<le> unat (0xFFFFFF :: u64)" by (simp_all add: len)
  then show ?thesis
    using pusher_runs_methods [OF null_blit_blind null_ops_example(1) refl w(1) _ w(2,3) ok w(4) _ refl w(5) ex, of 6] ex w(6) by auto
qed

section \<open>Arrays of the class\<close>

lemma method_slot_at: "j < 0x1000 \<Longrightarrow> method_slot (base + 4 * of_nat j) base 4 = j"
  using of_nat_u32 [of "4 * j"] by (simp add: method_slot_def)



text \<open>The handler of the light properties takes the first 29 of the 32 words of each of the eight lights and stops the program
  at the three that belong to no property; the handler of the back light properties takes the first nine of 16. No
  parameter and no state makes a difference.\<close>

theorem light_methods_defined:
  "(\<forall>j < 256. (\<exists>d'. SET_LIGHT d s (NV097_SET_LIGHT_AMBIENT_COLOR + 4 * of_nat j) p = Some d') \<longleftrightarrow> j mod 32 < 29) \<and>
   (\<forall>j < 128. (\<exists>d'. SET_BACK_LIGHT d s (NV097_SET_BACK_LIGHT_AMBIENT_COLOR + 4 * of_nat j) p = Some d') \<longleftrightarrow> j mod 16 < 9)"
proof (intro conjI allI impI)
  fix j :: nat assume "j < 256"
  then have "j div 32 < 8" "method_slot (NV097_SET_LIGHT_AMBIENT_COLOR + 4 * of_nat j) NV097_SET_LIGHT_AMBIENT_COLOR 4 = j"
    by (simp_all add: method_slot_at)
  then show "(\<exists>d'. SET_LIGHT d s (NV097_SET_LIGHT_AMBIENT_COLOR + 4 * of_nat j) p = Some d') \<longleftrightarrow> j mod 32 < 29"
    by (simp add: SET_LIGHT_def Let_def set_ltctxb_def set_ltctxa_def set_ltc1_def) (intro impI conjI; linarith)
next
  fix j :: nat assume "j < 128"
  then have "j div 16 < 8" "method_slot (NV097_SET_BACK_LIGHT_AMBIENT_COLOR + 4 * of_nat j) NV097_SET_BACK_LIGHT_AMBIENT_COLOR 4 = j"
    by (simp_all add: method_slot_at)
  then show "(\<exists>d'. SET_BACK_LIGHT d s (NV097_SET_BACK_LIGHT_AMBIENT_COLOR + 4 * of_nat j) p = Some d') \<longleftrightarrow> j mod 16 < 9"
    by (simp add: SET_BACK_LIGHT_def Let_def set_ltctxb_def) (intro impI conjI; linarith)
qed

theorem light_methods_defined_witness:
  "(\<exists>d'. SET_LIGHT nv2a_blank 0 (NV097_SET_LIGHT_AMBIENT_COLOR + 4 * of_nat 252) 1 = Some d') \<and>
   SET_LIGHT nv2a_blank 0 (NV097_SET_LIGHT_AMBIENT_COLOR + 4 * of_nat 253) 1 = None"
proof -
  have l: "(\<exists>d'. SET_LIGHT nv2a_blank 0 (NV097_SET_LIGHT_AMBIENT_COLOR + 4 * of_nat j) 1 = Some d') \<longleftrightarrow> j mod 32 < 29"
    if "j < 256" for j using light_methods_defined [of nv2a_blank 0 1] that by blast
  have "(253 :: nat) < 256" "(252 :: nat) < 256" "\<not> (253 :: nat) mod 32 < 29" "(252 :: nat) mod 32 < 29" by simp_all
  then show ?thesis using l by (metis not_None_eq)
qed

text \<open>A semaphore object without a limit, and an offset at the end of memory.\<close>

definition escaping_example :: nv2a where
  "escaping_example = nv2a_blank\<lparr>ramin := stl_le_p (\<lambda>_. 0) 4 0xFFFFFFFF, ramin_size := 0x100, vram_size := 0x4000000,
     pgraph_regs := (\<lambda>_. 0)(NV_PGRAPH_SEMAPHOREOFFSET := 0x3FFFFFE)\<rparr>"

theorem semaphore_bound_unchecked_witness:
  "nv_dma_map escaping_example (unat (dma_semaphore (pg_kelvin escaping_example))) = Some (0, 0xFFFFFFFF) \<and>
    BACK_END_WRITE_SEMAPHORE_RELEASE null_ops_example escaping_example 0 NV097_BACK_END_WRITE_SEMAPHORE_RELEASE 1 = None"
proof -
  have l: "ldl_le_p (stl_le_p (\<lambda>_. 0) 4 0xFFFFFFFF) 4 = 0xFFFFFFFF" "ldl_le_p (stl_le_p (\<lambda>_. 0) 4 0xFFFFFFFF) 0 = 0"
    "ldl_le_p (stl_le_p (\<lambda>_. 0) 4 0xFFFFFFFF) 8 = 0" by (simp_all add: ldl_stl ldl_stl_other) (simp_all add: ldl_le_p_def le32_def)
  have m: "nv_dma_map escaping_example (unat (dma_semaphore (pg_kelvin escaping_example))) = Some (0, 0xFFFFFFFF)"
    by (simp add: nv_dma_map_def nv_dma_load_def escaping_example_def nv2a_blank_def kelvin_blank_def l get_mask_def)
  have "pgraph_regs escaping_example NV_PGRAPH_SEMAPHOREOFFSET = 0x3FFFFFE" "vram_size escaping_example = 0x4000000"
    by (simp_all add: escaping_example_def)
  then show ?thesis using m semaphore_bound_unchecked [OF null_ops_example(2) m refl] by simp
qed

end
