(* ===== verification/Spec2Isabelle.thy ===== *)
theory Spec2Isabelle
  imports SMBus_Master Xbox_SMC SMBus_Storage SMBus_Encoders AMD756 Xbox_SMBus Super_IO Eeprom NvNet_Props Nv2a_Props Pgraph_Draw Swizzle Kelvin_Props
begin

text \<open>
  \<^bold>\<open>A verification library for the console hardware of X-OG Mobile.\<close>

  The program is a port of the xemu emulator. What is verified here is the emulated hardware of the
  console under \<^verbatim>\<open>src/xemu/hw/xbox\<close> together with the parts of the emulator core that this
  hardware rests on. The parts and how they interact:

  \<^item> The management bus. The guest programs a host controller through I/O ports; the controller
    runs SMBus commands, these run the I2C bus protocol, the bus calls the slave state machine of
    each device, and this calls the device: the system management controller, the EEPROM, the video
    encoders and the temperature sensor.
  \<^item> The Super I/O chip, which places the serial ports in the I/O space.
  \<^item> The EEPROM image. It is generated with a checksum, a keyed SHA-1 and an RC4 encryption.
  \<^item> The Ethernet controller with its two descriptor rings in guest memory.
  \<^item> The graphics chip: register blocks behind one window, the command FIFO that reads methods from
    guest memory, and the graphics engine that the methods program: its objects and classes, its
    registers, constants and vertex buffers, and the blitter.

  \<^bold>\<open>Conventions.\<close> A struct is a record, a machine integer a word of its width, a fixed array a list
  or a function from the index. An operation takes the state and returns the new one. \<open>None\<close> means that
  the program stops: a failed assertion, an abort, an access outside an array, a division by zero.
  Effects outside a device are fields of its state: the interrupt line as a boolean, guest memory as
  a function from addresses to bytes, sent packets as a list. A loop of the code with a bound is
  structural recursion over that bound; the pusher's loop over the command stream is given fuel and
  its result says whether it came to its end.

  \<^bold>\<open>Theories.\<close>

  \<^item> \<^verbatim>\<open>Prelude\<close>: arrays with bounds, words, little-endian loads, register fields named by masks,
    rings, guest memory.
  \<^item> \<^verbatim>\<open>I2C_Core\<close> (\<^verbatim>\<open>hw/i2c/core.c\<close>), \<^verbatim>\<open>SMBus_Slave\<close> (\<^verbatim>\<open>smbus_slave.c\<close>), \<^verbatim>\<open>SMBus_Master\<close>
    (\<^verbatim>\<open>smbus_master.c\<close>), \<^verbatim>\<open>AMD756\<close> (\<^verbatim>\<open>amd_smbus.c\<close>): the bus. The contract of a device is the
    locale \<open>smbus_provider\<close>; the lemmas on commands and transactions are proved once in it.
  \<^item> \<^verbatim>\<open>Xbox_SMC\<close> (\<^verbatim>\<open>smbus_xbox_smc.c\<close>), \<^verbatim>\<open>SMBus_Storage\<close> (\<^verbatim>\<open>smbus_storage.c\<close>), \<^verbatim>\<open>SMBus_Encoders\<close>
    (the four small devices): they interpret the contract. \<^verbatim>\<open>Xbox_SMBus\<close> puts all devices on
    the bus as \<^verbatim>\<open>xbox.c\<close> does, interprets the contract for the whole, and shows that a transaction of the
    controller refines a specification that works on the list of devices directly.
  \<^item> \<^verbatim>\<open>Super_IO\<close> (\<^verbatim>\<open>lpc47m157.c\<close>): leaving the configuration mode makes the serial ports follow their registers, and
    which accesses stop the emulator.
  \<^item> \<^verbatim>\<open>Sha1\<close> (\<^verbatim>\<open>util/sha1.c\<close>), \<^verbatim>\<open>Rc4\<close> (\<^verbatim>\<open>util/rc4.c\<close>), \<^verbatim>\<open>Eeprom\<close> (\<^verbatim>\<open>eeprom_generation.c\<close>): the
    streaming hash equals a reference hash, the cipher undoes itself, and a generated image is accepted by the
    checks that a console makes.
  \<^item> \<^verbatim>\<open>NvNet\<close> (\<^verbatim>\<open>mcpx/nvnet/nvnet.c\<close>) and \<^verbatim>\<open>NvNet_Props\<close>: transmission gathers the fragments of a packet and
    returns the descriptors, reception fills the next descriptor, the ring pointers stay in the
    ring and go round it, the interrupt line follows status and mask.
  \<^item> \<^verbatim>\<open>Host_Utils\<close> (\<^verbatim>\<open>include/qemu/host-utils.h\<close>), \<^verbatim>\<open>Nv2a\<close> (the small blocks of \<^verbatim>\<open>hw/xbox/nv2a\<close>),
    \<^verbatim>\<open>Pgraph\<close> (\<^verbatim>\<open>pgraph/pgraph.c\<close>, \<^verbatim>\<open>rdi.c\<close>), \<^verbatim>\<open>Pfifo\<close> (\<^verbatim>\<open>pfifo.c\<close>, \<^verbatim>\<open>user.c\<close>), \<^verbatim>\<open>Nv2a_Mmio\<close> (the block table
    and the dispatch) and \<^verbatim>\<open>Nv2a_Props\<close>: the interrupt line along every sequence of events, totality of
    register accesses, the timer, the clock and the palette, the clipping of a blit to its tile, the
    object hash table, and that a command stream waiting for a flip or for the guest's handler is
    released by the guest's register write.
  \<^item> \<^verbatim>\<open>Pgraph_Draw\<close> (\<^verbatim>\<open>pgraph/vertex.c\<close> and the drawing methods of \<^verbatim>\<open>pgraph.c\<close>): the vertices given
    attribute by attribute are stored exactly as sent, and index lists and ranges are appended in order.
  \<^item> \<^verbatim>\<open>Pgraph_Blit\<close> (\<^verbatim>\<open>pgraph/gl/blit.c\<close>): a copying blit moves the rectangle and nothing else, and the case in
    which a tile limit makes it write outside. \<^verbatim>\<open>Pgraph_Method\<close> (\<^verbatim>\<open>pgraph_method\<close> of \<^verbatim>\<open>pgraph.c\<close>): objects, classes and dispatch.
    \<^verbatim>\<open>Pusher\<close>: the encoding of packets and the contract between pusher and engine as the locale \<open>method_steps\<close>; in it, the
    pusher's run of a stream of packets is the sequence of their methods. \<^verbatim>\<open>Push_Blit\<close> interprets the contract for
    the two-dimensional classes and composes pusher, puller, dispatch and blit. The fuel of the pusher is a round
    for each word of the stream and one more.
  \<^item> \<^verbatim>\<open>Kelvin_Regs\<close> (constants of \<^verbatim>\<open>nv2a_regs.h\<close>) and \<^verbatim>\<open>Kelvin\<close> (the handlers of the three-dimensional class in \<^verbatim>\<open>pgraph.c\<close> and
    the table of \<^verbatim>\<open>methods.h.inc\<close>). Handlers of one shape are instances of one definition; the rows of the table are in groups
    that follow the source. \<^verbatim>\<open>Kelvin_Engine\<close>: no two rows share a method, no handler touches the registers of the current object,
    and the handlers called in a loop leave guest memory alone. \<^verbatim>\<open>Push_Kelvin\<close> concludes from this that taking many
    parameters at once is taking them one by one and interprets \<open>method_steps\<close> for all classes. \<^verbatim>\<open>Kelvin_Props\<close>: a
    command stream releases a semaphore and loads a vertex program, and the handlers for matrices and vectors stay
    in their arrays.
  \<^item> \<^verbatim>\<open>Swizzle\<close> (\<^verbatim>\<open>pgraph/swizzle.c\<close>, \<^verbatim>\<open>swizzle.h\<close>): the loop for the swizzle masks ends, and unswizzling undoes
    swizzling. The loop is a partial function, as it does not end for a dimension above \<open>2 ^ 31\<close>; the property
    shows that it returns for every power of two whose image has at most \<open>2 ^ 31\<close> pixels.

  \<^bold>\<open>Not modelled.\<close> Creation of objects, migration descriptions and tracing; mutexes and threads, an
  operation being atomic while it holds its lock; the VGA core and the renderers, which are arguments where
  the code calls them, as are the interpreter of vertex programs, a package outside the repository, and the float arithmetic
  of the specular power; the lookahead over ranges of vertices (\<open>squash_begin_end\<close>) is modelled, but streams with ranges are left
  out of the refinement, because what a range does depends on the words behind it; the audio processor, whose voices are
  floating-point samples and whose DSP interprets guest code, and the DMA of that DSP; the serial core; the USB devices; the CPU emulation, the
  block layer and the user interface. Most of the repository is the general emulator core, which is not specific
  to the console.
\<close>

end
